(* ===== verification/Prelude.thy ===== *)
theory Prelude
  imports Main "HOL-Library.AList" "HOL-Library.Word" "HOL-Library.Multiset"
begin

text \<open>
  What the component theories share: the types that stand for the Rust types of the
  source, the hash map and its laws, and two interfaces (a keyed store, and a step system
  with an invariant) whose client lemmas are proved once here.

  A \<open>HashMap\<close> is an association list: its order is the (unspecified) iteration order of
  the map, and \<open>distinct (map fst m)\<close> is its well-formedness. A \<open>usize\<close>/\<open>u64\<close>
  counter that only grows by one per event is a \<open>nat\<close>; a \<open>u64\<close> whose wrap-around can
  be reached from the input is reduced \<open>mod 2 ^ 64\<close> where the code computes it, or is a
  \<open>64 word\<close>. An error value is the left side of a sum.
\<close>

type_synonym ('k, 'v) hmap = "('k \<times> 'v) list"
type_synonym u64 = "64 word"

text \<open>A \<open>Duration\<close> is its number of nanoseconds.\<close>

type_synonym duration = nat

abbreviation u64_size :: nat where "u64_size \<equiv> 18446744073709551616"

named_theorems hmap "lookups and keys of hash map operations"
named_theorems text_simps "string operations of the standard library"

section \<open>Hash maps\<close>

abbreviation hm_get :: "('k, 'v) hmap \<Rightarrow> 'k \<Rightarrow> 'v option" where
  "hm_get m k \<equiv> map_of m k"

abbreviation hm_wf :: "('k, 'v) hmap \<Rightarrow> bool" where
  "hm_wf m \<equiv> distinct (map fst m)"

abbreviation hm_keys :: "('k, 'v) hmap \<Rightarrow> 'k set" where
  "hm_keys m \<equiv> fst ` set m"

text \<open>\<open>insert\<close>: replaces the value of a present key, adds an absent one.\<close>

definition hm_insert :: "'k \<Rightarrow> 'v \<Rightarrow> ('k, 'v) hmap \<Rightarrow> ('k, 'v) hmap" where
  "hm_insert k v m = AList.update k v m"

definition hm_remove :: "'k \<Rightarrow> ('k, 'v) hmap \<Rightarrow> ('k, 'v) hmap" where
  "hm_remove k m = filter (\<lambda>p. fst p \<noteq> k) m"

text \<open>\<open>*m.entry(k).or_insert(d)\<close>, updated in place by \<open>f\<close>.\<close>

definition hm_entry :: "'k \<Rightarrow> 'v \<Rightarrow> ('v \<Rightarrow> 'v) \<Rightarrow> ('k, 'v) hmap \<Rightarrow> ('k, 'v) hmap" where
  "hm_entry k d f m = hm_insert k (f (case hm_get m k of None \<Rightarrow> d | Some v \<Rightarrow> v)) m"

text \<open>The value of a key, or a default.\<close>

definition hm_or :: "'v \<Rightarrow> ('k, 'v) hmap \<Rightarrow> 'k \<Rightarrow> 'v" where
  "hm_or d m k = (case hm_get m k of None \<Rightarrow> d | Some v \<Rightarrow> v)"

lemma get_insert [hmap]: "hm_get (hm_insert k v m) k' = (if k' = k then Some v else hm_get m k')"
  by (simp add: hm_insert_def update_conv')

lemma get_remove [hmap]: "hm_get (hm_remove k m) k' = (if k' = k then None else hm_get m k')"
  by (induction m) (auto simp: hm_remove_def)

lemma get_entry [hmap]:
  "hm_get (hm_entry k d f m) k' = (if k' = k then Some (f (hm_or d m k)) else hm_get m k')"
  by (simp add: hm_entry_def hm_or_def get_insert)

lemma or_insert [hmap]: "hm_or d (hm_insert k v m) k' = (if k' = k then v else hm_or d m k')"
  by (simp add: hm_or_def get_insert)

lemma or_entry [hmap]:
  "hm_or d (hm_entry k d f m) k' = (if k' = k then f (hm_or d m k) else hm_or d m k')"
  by (simp add: hm_or_def get_entry)

lemma or_Nil [hmap]: "hm_or d [] k = d"
  by (simp add: hm_or_def)

lemma wf_insert [intro, hmap]: "hm_wf m \<Longrightarrow> hm_wf (hm_insert k v m)"
  by (simp add: hm_insert_def distinct_update)

lemma wf_remove [intro, hmap]: "hm_wf m \<Longrightarrow> hm_wf (hm_remove k m)"
  by (induction m) (auto simp: hm_remove_def)

lemma wf_entry [intro, hmap]: "hm_wf m \<Longrightarrow> hm_wf (hm_entry k d f m)"
  by (simp add: hm_entry_def wf_insert)

lemma keys_insert [hmap]: "hm_keys (hm_insert k v m) = insert k (hm_keys m)"
  by (simp add: hm_insert_def dom_update)

lemma keys_entry [hmap]: "hm_keys (hm_entry k d f m) = insert k (hm_keys m)"
  by (simp add: hm_entry_def keys_insert)

lemma keys_remove [hmap]: "hm_keys (hm_remove k m) = hm_keys m - {k}"
  by (auto simp: hm_remove_def)

lemma insert_nonempty [simp]: "hm_insert k v m \<noteq> []"
  by (induction m) (auto simp: hm_insert_def)

lemma entry_nonempty [simp]: "hm_entry k d f m \<noteq> []"
  by (simp add: hm_entry_def)

lemma get_of_member: "hm_wf m \<Longrightarrow> (k, v) \<in> set m \<Longrightarrow> hm_get m k = Some v"
  by simp

text \<open>The values of an \<open>entry\<close> update: one value changes.\<close>

lemma set_insert_subset: "set (hm_insert k v m) \<subseteq> insert (k, v) (set m)"
  by (induction m) (auto simp: hm_insert_def)

text \<open>The sum of the values of a map of counts, and what one \<open>entry\<close> adds to it.\<close>

definition hm_sum :: "('k, nat) hmap \<Rightarrow> nat" where
  "hm_sum m = sum_list (map snd m)"

lemma hm_sum_Nil [simp]: "hm_sum [] = 0"
  by (simp add: hm_sum_def)

lemma hm_sum_entry: "hm_sum (hm_entry k 0 (\<lambda>n. n + w) m) = hm_sum m + w"
  by (induction m) (auto simp: hm_sum_def hm_entry_def hm_insert_def)

lemma hm_sum_eq_or: "hm_wf m \<Longrightarrow> finite K \<Longrightarrow> hm_keys m \<subseteq> K \<Longrightarrow> hm_sum m = (\<Sum>k\<in>K. hm_or 0 m k)"
proof (induction m arbitrary: K)
  case Nil
  then show ?case by (simp add: hm_or_def)
next
  case (Cons p m)
  obtain k v where p: "p = (k, v)" by force
  with Cons.prems have k: "k \<in> K" and nk: "k \<notin> hm_keys m" and sub: "hm_keys m \<subseteq> K - {k}"
    by force+
  have "(\<Sum>k'\<in>K. hm_or 0 (p # m) k') = hm_or 0 (p # m) k + (\<Sum>k'\<in>K - {k}. hm_or 0 (p # m) k')"
    using Cons.prems(2) k by (rule sum.remove)
  also have "(\<Sum>k'\<in>K - {k}. hm_or 0 (p # m) k') = (\<Sum>k'\<in>K - {k}. hm_or 0 m k')"
    by (rule sum.cong) (auto simp: hm_or_def p)
  also have "\<dots> = hm_sum m"
    using Cons.IH [of "K - {k}"] Cons.prems sub by simp
  finally show ?case
    by (simp add: hm_or_def hm_sum_def p)
qed

lemma hm_sum_cong:
  assumes "hm_wf m" "hm_wf m'" "\<And>k. hm_or 0 m k = hm_or 0 m' k"
  shows "hm_sum m = hm_sum m'"
proof -
  let ?K = "hm_keys m \<union> hm_keys m'"
  have "hm_sum m = (\<Sum>k\<in>?K. hm_or 0 m k)" by (rule hm_sum_eq_or) (use assms in auto)
  also have "\<dots> = (\<Sum>k\<in>?K. hm_or 0 m' k)" by (simp add: assms(3))
  also have "\<dots> = hm_sum m'" by (rule sym, rule hm_sum_eq_or) (use assms in auto)
  finally show ?thesis .
qed

section \<open>The keyed store, as an interface\<close>

text \<open>
  What the aggregation code needs of a map: a lookup after an insert. Client lemma:
  adding weights to the entries of a run of keys leaves, at each key, the sum of the
  weights of that key.
\<close>

locale keyed_store =
  fixes get :: "'m \<Rightarrow> 'k \<Rightarrow> 'v option"
    and put :: "'k \<Rightarrow> 'v \<Rightarrow> 'm \<Rightarrow> 'm"
  assumes get_put: "get (put k v m) k' = (if k' = k then Some v else get m k')"
begin

lemma last_put_wins:
  "get (fold (\<lambda>(k, v). put k v) kvs m) k =
     (case map_of (rev kvs) k of None \<Rightarrow> get m k | Some v \<Rightarrow> Some v)"
  by (induction kvs arbitrary: m) (auto simp: get_put map_add_def split: option.splits)

end

locale accumulator = keyed_store get put
  for get :: "'m \<Rightarrow> 'k \<Rightarrow> 'v::comm_monoid_add option" and put +
  fixes bump :: "'k \<Rightarrow> 'v \<Rightarrow> 'm \<Rightarrow> 'm"
  assumes bump_def: "bump k w m = put k ((case get m k of None \<Rightarrow> 0 | Some v \<Rightarrow> v) + w) m"
begin

lemma total_after_bumps:
  "(case get (fold (\<lambda>(k, w). bump k w) kws m) k of None \<Rightarrow> 0 | Some v \<Rightarrow> v) =
     (case get m k of None \<Rightarrow> 0 | Some v \<Rightarrow> v) + sum_list (map snd (filter (\<lambda>p. fst p = k) kws))"
proof (induction kws arbitrary: m)
  case Nil
  then show ?case by simp
next
  case (Cons p kws)
  obtain k' w where p: "p = (k', w)" by force
  have "(case get (bump k' w m) k of None \<Rightarrow> 0 | Some v \<Rightarrow> v) =
      (case get m k of None \<Rightarrow> 0 | Some v \<Rightarrow> v) + (if k' = k then w else 0)"
    by (simp add: bump_def get_put)
  with Cons.IH [of "bump k' w m"] show ?case
    by (simp add: p add.assoc)
qed

end

interpretation hms: keyed_store "map_of :: ('k, 'v) hmap \<Rightarrow> _" hm_insert
  by unfold_locales (rule get_insert)

interpretation hma: accumulator "map_of :: ('k, 'v::comm_monoid_add) hmap \<Rightarrow> _" hm_insert
    "\<lambda>k w. hm_entry k 0 (\<lambda>v. v + w)"
  by unfold_locales (simp add: hm_entry_def)

section \<open>Step systems\<close>

text \<open>A state machine whose step keeps an invariant: every reachable state has it.\<close>

locale step_system =
  fixes start :: "'s \<Rightarrow> bool"
    and step :: "'s \<Rightarrow> 's \<Rightarrow> bool"
    and inv :: "'s \<Rightarrow> bool"
  assumes start_inv: "start s \<Longrightarrow> inv s"
    and step_inv: "inv s \<Longrightarrow> step s t \<Longrightarrow> inv t"
begin

lemma reachable_inv: "start s \<Longrightarrow> step\<^sup>*\<^sup>* s t \<Longrightarrow> inv t"
  by (rotate_tac, induction rule: rtranclp_induct) (auto intro: start_inv step_inv)

end

text \<open>A deterministic machine run over a list of events.\<close>

locale event_machine =
  fixes handle :: "'s \<Rightarrow> 'e \<Rightarrow> 's"
    and inv :: "'s \<Rightarrow> bool"
  assumes handle_inv: "inv s \<Longrightarrow> inv (handle s e)"
begin

lemma run_inv: "inv s \<Longrightarrow> inv (foldl handle s es)"
  by (induction es arbitrary: s) (auto intro: handle_inv)

end

text \<open>A machine with outputs: what holds of the outputs of each step from a good state holds of
  all the outputs of a run.\<close>

fun run_out :: "('s \<Rightarrow> 'e \<Rightarrow> 's \<times> 'o list) \<Rightarrow> 's \<Rightarrow> 'e list \<Rightarrow> 's \<times> 'o list" where
  "run_out step s [] = (s, [])"
| "run_out step s (e # es) = (let (s1, os) = step s e; (s2, os') = run_out step s1 es in (s2, os @ os'))"

locale output_machine =
  fixes step :: "'s \<Rightarrow> 'e \<Rightarrow> 's \<times> 'o list"
    and inv :: "'s \<Rightarrow> bool"
    and good :: "'o \<Rightarrow> bool"
  assumes step_inv: "inv s \<Longrightarrow> inv (fst (step s e))"
    and step_good: "inv s \<Longrightarrow> list_all good (snd (step s e))"
begin

lemma run_good: "inv s \<Longrightarrow> inv (fst (run_out step s es)) \<and> list_all good (snd (run_out step s es))"
proof (induction es arbitrary: s)
  case (Cons e es)
  then show ?case
    using step_inv [OF Cons.prems, of e] step_good [OF Cons.prems, of e] Cons.IH [of "fst (step s e)"]
    by (auto simp: case_prod_beta)
qed simp

end

section \<open>Generic lemmas\<close>

lemma foldl_invariant: "(\<And>s e. P s \<Longrightarrow> P (f s e)) \<Longrightarrow> P s \<Longrightarrow> P (foldl f s es)"
  by (induction es arbitrary: s) auto

lemma sum_list_filter_snoc:
  "sum_list (map snd (filter P (xs @ [x]))) =
     sum_list (map snd (filter P xs)) + (if P x then snd x else (0::nat))"
  by simp

end
