(* ===== verification/Float64.thy ===== *)
theory Float64
  imports Complex_Main Prelude "HOL-Library.Log_Nat"
begin

text \<open>
  The \<open>f64\<close> arithmetic that the source computes rates, averages and ramps with: IEEE 754
  binary64, rounding to nearest with ties to even, executable over the rationals. A finite
  value is its exact rational value; both zeros are \<open>Fin 0\<close> (nothing in the modelled code
  divides by a zero of known sign, so the sign of a zero is never observed by a comparison).

  \<open>fl\<close> rounds one exact result. The interface \<open>rounding\<close> states what the ramps and
  averages need of it (monotone, exact on small integers, small error below \<open>2 ^ 20\<close>);
  the interpretation discharges it for \<open>fl\<close>.
\<close>

section \<open>Rounding\<close>

definition round_half_even :: "rat \<Rightarrow> int" where
  "round_half_even q = (let f = \<lfloor>q\<rfloor>; r = q - of_int f
     in if r < 1/2 then f else if r > 1/2 then f + 1 else if even f then f else f + 1)"

text \<open>The binary exponent of a positive rational: \<open>2 ^ e \<le> q < 2 ^ (e + 1)\<close>.\<close>

definition binexp :: "rat \<Rightarrow> int" where
  "binexp q = (let (n, d) = quotient_of q; e = bitlen n - bitlen d
     in if 2 powi e \<le> q then e else e - 1)"

definition ulp_exp :: "rat \<Rightarrow> int" where
  "ulp_exp q = max (binexp q - 52) (- 1074)"

definition round_pos :: "rat \<Rightarrow> rat" where
  "round_pos q = of_int (round_half_even (q / 2 powi ulp_exp q)) * 2 powi ulp_exp q"

definition fl :: "rat \<Rightarrow> rat" where
  "fl q = (if q = 0 then 0 else if q > 0 then round_pos q else - round_pos (- q))"

section \<open>Values and operations\<close>

datatype f64 = NaN | Inf bool | Fin rat

definition to_f64 :: "rat \<Rightarrow> f64" where
  "to_f64 q = (let r = fl q in
     if 2 ^ 1024 \<le> r then Inf False else if r \<le> - (2 ^ 1024) then Inf True else Fin r)"

fun f_neg :: "f64 \<Rightarrow> f64" where
  "f_neg NaN = NaN"
| "f_neg (Inf s) = Inf (\<not> s)"
| "f_neg (Fin q) = Fin (- q)"

fun f_add :: "f64 \<Rightarrow> f64 \<Rightarrow> f64" where
  "f_add (Fin a) (Fin b) = to_f64 (a + b)"
| "f_add (Inf s) (Fin _) = Inf s"
| "f_add (Fin _) (Inf s) = Inf s"
| "f_add (Inf s) (Inf t) = (if s = t then Inf s else NaN)"
| "f_add _ _ = NaN"

definition f_sub :: "f64 \<Rightarrow> f64 \<Rightarrow> f64" where
  "f_sub a b = f_add a (f_neg b)"

fun f_mul :: "f64 \<Rightarrow> f64 \<Rightarrow> f64" where
  "f_mul (Fin a) (Fin b) = to_f64 (a * b)"
| "f_mul (Inf s) (Fin b) = (if b = 0 then NaN else Inf (s \<noteq> (b < 0)))"
| "f_mul (Fin a) (Inf s) = (if a = 0 then NaN else Inf (s \<noteq> (a < 0)))"
| "f_mul (Inf s) (Inf t) = Inf (s \<noteq> t)"
| "f_mul _ _ = NaN"

fun f_div :: "f64 \<Rightarrow> f64 \<Rightarrow> f64" where
  "f_div (Fin a) (Fin b) =
     (if b = 0 then (if a = 0 then NaN else Inf (a < 0)) else to_f64 (a / b))"
| "f_div (Inf s) (Fin b) = Inf (s \<noteq> (b < 0))"
| "f_div (Fin _) (Inf _) = Fin 0"
| "f_div _ _ = NaN"

fun f_lt :: "f64 \<Rightarrow> f64 \<Rightarrow> bool" where
  "f_lt (Fin a) (Fin b) = (a < b)"
| "f_lt (Inf s) (Fin _) = s"
| "f_lt (Fin _) (Inf s) = (\<not> s)"
| "f_lt (Inf s) (Inf t) = (s \<and> \<not> t)"
| "f_lt _ _ = False"

fun f_eq :: "f64 \<Rightarrow> f64 \<Rightarrow> bool" where
  "f_eq (Fin a) (Fin b) = (a = b)"
| "f_eq (Inf s) (Inf t) = (s = t)"
| "f_eq _ _ = False"

definition f_le :: "f64 \<Rightarrow> f64 \<Rightarrow> bool" where
  "f_le a b = (f_lt a b \<or> f_eq a b)"

fun f_abs :: "f64 \<Rightarrow> f64" where
  "f_abs NaN = NaN"
| "f_abs (Inf _) = Inf False"
| "f_abs (Fin q) = Fin \<bar>q\<bar>"

text \<open>\<open>f64::EPSILON\<close> is \<open>2 ^ -52\<close>.\<close>

definition f64_epsilon :: f64 where
  "f64_epsilon = Fin (1 / 4503599627370496)"

definition f_max :: "f64 \<Rightarrow> f64 \<Rightarrow> f64" where
  "f_max a b = (if a = NaN then b else if b = NaN then a else if f_lt a b then b else a)"

text \<open>\<open>n as f64\<close> for an unsigned integer, and the saturating cast back.\<close>

definition f_of_nat :: "nat \<Rightarrow> f64" where
  "f_of_nat n = to_f64 (of_nat n)"

fun as_u64 :: "f64 \<Rightarrow> nat" where
  "as_u64 NaN = 0"
| "as_u64 (Inf s) = (if s then 0 else u64_size - 1)"
| "as_u64 (Fin q) = min (u64_size - 1) (nat \<lfloor>q\<rfloor>)"

text \<open>\<open>Duration::as_secs_f64\<close>: whole seconds plus the nanoseconds over \<open>10 ^ 9\<close>.\<close>

definition as_secs_f64 :: "duration \<Rightarrow> f64" where
  "as_secs_f64 d = f_add (f_of_nat (d div 1000000000))
     (f_div (f_of_nat (d mod 1000000000)) (f_of_nat 1000000000))"

section \<open>Laws of the rounding\<close>

lemma rhe_ge_floor: "\<lfloor>q\<rfloor> \<le> round_half_even q"
  by (auto simp: round_half_even_def Let_def)

lemma rhe_le_floor: "round_half_even q \<le> \<lfloor>q\<rfloor> + 1"
  by (auto simp: round_half_even_def Let_def)

lemma rhe_int [simp]: "round_half_even (of_int n) = n"
  by (simp add: round_half_even_def)

lemma rhe_mono: "x \<le> y \<Longrightarrow> round_half_even x \<le> round_half_even y"
proof -
  assume le: "x \<le> y"
  then have fle: "\<lfloor>x\<rfloor> \<le> \<lfloor>y\<rfloor>" by (rule floor_mono)
  show ?thesis
  proof (cases "\<lfloor>x\<rfloor> = \<lfloor>y\<rfloor>")
    case True
    with le show ?thesis by (auto simp: round_half_even_def Let_def)
  next
    case False
    with fle rhe_le_floor [of x] rhe_ge_floor [of y] show ?thesis by linarith
  qed
qed

lemma rhe_error: "\<bar>of_int (round_half_even q) - q\<bar> \<le> 1/2"
proof -
  have "of_int \<lfloor>q\<rfloor> \<le> q" "q < of_int \<lfloor>q\<rfloor> + 1" by linarith+
  then show ?thesis
    by (simp add: round_half_even_def Let_def abs_le_iff)
qed

lemma bitlen_pow: "0 < n \<Longrightarrow> (2::int) ^ nat (bitlen n - 1) \<le> n \<and> n < 2 ^ nat (bitlen n)"
  using bitlen_bounds [of n] by simp

lemma bitlen_positive: "0 < n \<Longrightarrow> 0 < bitlen n"
  using bitlen_pow [of n] by (cases "0 < bitlen n") auto

lemma powi_pred: "0 < e \<Longrightarrow> (2::rat) powi (e - 1) = of_int (2 ^ nat (e - 1))"
  by (simp add: power_int_def)

lemma powi_pos: "0 < e \<Longrightarrow> (2::rat) powi e = of_int (2 ^ nat e)"
  by (simp add: power_int_def)

lemma binexp_bounds:
  assumes "0 < q"
  shows "2 powi binexp q \<le> q \<and> q < 2 powi (binexp q + 1)"
proof -
  obtain n d where nd: "quotient_of q = (n, d)" by force
  have d: "0 < d" using nd by (rule quotient_of_denom_pos)
  have q: "q = of_int n / of_int d" using nd by (rule quotient_of_div)
  with assms d have n: "0 < n" by (simp add: zero_less_divide_iff)
  define a b where "a = bitlen n" and "b = bitlen d"
  have ab: "0 < a" "0 < b" using n d by (simp_all add: a_def b_def bitlen_positive)
  have n1: "(2::rat) powi (a - 1) \<le> of_int n" and n2: "of_int n < (2::rat) powi a"
    using bitlen_pow [OF n] ab(1)
    by (simp_all only: powi_pred powi_pos of_int_le_iff of_int_less_iff a_def)
  have d1: "(2::rat) powi (b - 1) \<le> of_int d" and d2: "of_int d < (2::rat) powi b"
    using bitlen_pow [OF d] ab(2)
    by (simp_all only: powi_pred powi_pos of_int_le_iff of_int_less_iff b_def)
  have dpos: "(0::rat) < of_int d" using d by simp
  have lo: "2 powi (a - b - 1) < q"
  proof -
    have "2 powi (a - b - 1) * of_int d < (2::rat) powi (a - b - 1) * 2 powi b"
      using d2 by (intro mult_strict_left_mono) auto
    also have "\<dots> = 2 powi (a - 1)" by (simp flip: power_int_add)
    also have "\<dots> \<le> of_int n" by (rule n1)
    finally show ?thesis using dpos by (simp add: q pos_less_divide_eq)
  qed
  have hi: "q < 2 powi (a - b + 1)"
  proof -
    have "(of_int n :: rat) < 2 powi a" by (rule n2)
    also have "\<dots> = 2 powi (a - b + 1) * 2 powi (b - 1)" by (simp flip: power_int_add)
    also have "\<dots> \<le> 2 powi (a - b + 1) * of_int d"
      using d1 by (intro mult_left_mono) auto
    finally show ?thesis using dpos by (simp add: q pos_divide_less_eq)
  qed
  show ?thesis
    using lo hi by (auto simp: binexp_def Let_def nd a_def [symmetric] b_def [symmetric] not_le)
qed


lemma powi_le_iff: "2 powi a \<le> (2::rat) powi b \<longleftrightarrow> a \<le> b"
  by (metis less_le_not_le linorder_not_le one_less_numeral_iff power_int_strict_increasing semiring_norm(76) order.order_iff_strict)

lemma powi_less_iff: "2 powi a < (2::rat) powi b \<longleftrightarrow> a < b"
  using powi_le_iff [of b a] by (simp add: not_le [symmetric])

lemma binexp_mono:
  assumes "0 < x" "x \<le> y"
  shows "binexp x \<le> binexp y"
proof -
  have "2 powi binexp x \<le> x" "y < 2 powi (binexp y + 1)"
    using assms binexp_bounds [of x] binexp_bounds [of y] by auto
  with assms(2) have "(2::rat) powi binexp x < 2 powi (binexp y + 1)" by linarith
  then show ?thesis by (simp add: powi_less_iff)
qed

lemma binexp_le: "0 < q \<Longrightarrow> q < 2 powi (e + 1) \<Longrightarrow> binexp q \<le> e"
proof -
  assume "0 < q" "q < 2 powi (e + 1)"
  with binexp_bounds [of q] have "(2::rat) powi binexp q < 2 powi (e + 1)" by linarith
  then show ?thesis by (simp add: powi_less_iff)
qed

lemma ulp_exp_mono: "0 < x \<Longrightarrow> x \<le> y \<Longrightarrow> ulp_exp x \<le> ulp_exp y"
  using binexp_mono [of x y] by (auto simp: ulp_exp_def)

text \<open>The rounded scaled significand is at most \<open>2 ^ 53\<close>, and at least \<open>2 ^ 52\<close>
  when the value is normal.\<close>

lemma round_pos_le:
  assumes "0 < q"
  shows "round_pos q \<le> 2 powi (ulp_exp q + 53)"
proof -
  let ?k = "ulp_exp q"
  have "q < 2 powi (binexp q + 1)" using assms binexp_bounds by blast
  also have "\<dots> \<le> 2 powi (?k + 53)" by (simp add: powi_le_iff ulp_exp_def)
  also have "\<dots> = 2 ^ 53 * 2 powi ?k" by (simp add: power_int_add)
  finally have "q / 2 powi ?k \<le> of_int (2 ^ 53)" by (simp add: divide_le_eq)
  then have "round_half_even (q / 2 powi ?k) \<le> 2 ^ 53"
    by (metis rhe_mono rhe_int)
  then have "(of_int (round_half_even (q / 2 powi ?k)) :: rat) \<le> of_int (2 ^ 53)"
    by (simp only: of_int_le_iff)
  then have "of_int (round_half_even (q / 2 powi ?k)) * 2 powi ?k \<le> of_int (2 ^ 53) * (2::rat) powi ?k"
    by (intro mult_right_mono) auto
  then show ?thesis by (simp add: round_pos_def power_int_add mult.commute)
qed

lemma round_pos_ge:
  assumes "0 < q" "- 1074 < ulp_exp q"
  shows "2 powi (ulp_exp q + 52) \<le> round_pos q"
proof -
  let ?k = "ulp_exp q"
  have k: "?k + 52 = binexp q" using assms(2) by (auto simp: ulp_exp_def)
  have "2 powi (?k + 52) \<le> q" using assms(1) binexp_bounds by (simp add: k)
  then have "2 ^ 52 * 2 powi ?k \<le> q" by (simp add: power_int_add mult.commute)
  then have "of_int (2 ^ 52) \<le> q / 2 powi ?k" by (simp add: le_divide_eq)
  then have "2 ^ 52 \<le> round_half_even (q / 2 powi ?k)"
    by (metis rhe_mono rhe_int)
  then have "(of_int (2 ^ 52) :: rat) \<le> of_int (round_half_even (q / 2 powi ?k))"
    by (simp only: of_int_le_iff)
  then have "of_int (2 ^ 52) * (2::rat) powi ?k \<le> of_int (round_half_even (q / 2 powi ?k)) * 2 powi ?k"
    by (intro mult_right_mono) auto
  then show ?thesis by (simp add: round_pos_def power_int_add mult.commute)
qed

lemma round_pos_nonneg: "0 < q \<Longrightarrow> 0 \<le> round_pos q"
proof -
  assume q: "0 < q"
  then have "\<lfloor>0::rat\<rfloor> \<le> \<lfloor>q / 2 powi ulp_exp q\<rfloor>" by (intro floor_mono) simp
  also have "\<dots> \<le> round_half_even (q / 2 powi ulp_exp q)" by (rule rhe_ge_floor)
  finally have "0 \<le> round_half_even (q / 2 powi ulp_exp q)" by simp
  then show ?thesis by (simp add: round_pos_def)
qed

lemma round_pos_mono:
  assumes "0 < x" "x \<le> y"
  shows "round_pos x \<le> round_pos y"
proof (cases "ulp_exp x = ulp_exp y")
  case True
  have "round_half_even (x / 2 powi ulp_exp y) \<le> round_half_even (y / 2 powi ulp_exp y)"
    using assms(2) by (intro rhe_mono divide_right_mono) auto
  then show ?thesis by (simp add: round_pos_def True)
next
  case False
  with ulp_exp_mono [OF assms] have lt: "ulp_exp x < ulp_exp y" by simp
  then have "- 1074 < ulp_exp y" by (auto simp: ulp_exp_def)
  then have "2 powi (ulp_exp y + 52) \<le> round_pos y"
    using assms by (intro round_pos_ge) auto
  moreover have "round_pos x \<le> 2 powi (ulp_exp x + 53)" by (rule round_pos_le [OF assms(1)])
  moreover have "(2::rat) powi (ulp_exp x + 53) \<le> 2 powi (ulp_exp y + 52)"
    using lt by (simp add: powi_le_iff)
  ultimately show ?thesis by linarith
qed

lemma fl_zero [simp]: "fl 0 = 0"
  by (simp add: fl_def)

lemma fl_uminus: "fl (- q) = - fl q"
  by (auto simp: fl_def)

lemma fl_nonneg: "0 \<le> q \<Longrightarrow> 0 \<le> fl q"
  by (auto simp: fl_def round_pos_nonneg)

lemma fl_mono: "x \<le> y \<Longrightarrow> fl x \<le> fl y"
proof -
  assume le: "x \<le> y"
  consider "0 < x" | "x \<le> 0" "0 \<le> y" | "y < 0" by linarith
  then show ?thesis
  proof cases
    case 1
    with le show ?thesis by (simp add: fl_def round_pos_mono)
  next
    case 2
    with fl_nonneg [of "- x"] fl_nonneg [of y] show ?thesis by (simp add: fl_uminus)
  next
    case 3
    with le show ?thesis using round_pos_mono [of "- y" "- x"] by (simp add: fl_def)
  qed
qed

lemma fl_error:
  assumes "\<bar>q\<bar> < 2 powi (e + 1)" "- 1022 \<le> e"
  shows "\<bar>fl q - q\<bar> \<le> 2 powi (e - 53)"
proof -
  have pos: "\<bar>round_pos x - x\<bar> \<le> 2 powi (e - 53)" if x: "0 < x" "x < 2 powi (e + 1)" for x
  proof -
    let ?k = "ulp_exp x"
    have k: "?k \<le> e - 52" using binexp_le [OF x] assms(2) by (simp add: ulp_exp_def)
    have "\<bar>of_int (round_half_even (x / 2 powi ?k)) - x / 2 powi ?k\<bar> * 2 powi ?k \<le> 1/2 * 2 powi ?k"
      by (intro mult_right_mono rhe_error) auto
    also have "\<bar>of_int (round_half_even (x / 2 powi ?k)) - x / 2 powi ?k\<bar> * 2 powi ?k
        = \<bar>(of_int (round_half_even (x / 2 powi ?k)) - x / 2 powi ?k) * 2 powi ?k\<bar>"
      by (simp add: abs_mult)
    also have "\<dots> = \<bar>round_pos x - x\<bar>" by (simp add: round_pos_def left_diff_distrib)
    also have "1/2 * (2::rat) powi ?k = 2 powi (?k - 1)" by (simp add: power_int_diff)
    also have "(2::rat) powi (?k - 1) \<le> 2 powi (e - 53)" using k by (simp add: powi_le_iff)
    finally show ?thesis .
  qed
  consider "q = 0" | "0 < q" | "q < 0" by linarith
  then show ?thesis
  proof cases
    case 3
    with pos [of "- q"] assms(1) show ?thesis by (simp add: fl_def abs_minus_commute)
  qed (use pos [of q] assms(1) in \<open>auto simp: fl_def\<close>)
qed

lemma round_pos_exact: "q / 2 powi ulp_exp q = of_int z \<Longrightarrow> round_pos q = q"
  by (simp add: round_pos_def) (metis nonzero_eq_divide_eq power_int_eq_0_iff zero_neq_numeral)

lemma fl_nat: "n \<le> 2 ^ 53 \<Longrightarrow> fl (of_nat n) = of_nat n"
proof (cases "n = 0 \<or> n = 2 ^ 53")
  case False
  assume "n \<le> 2 ^ 53"
  with False have n: "0 < n" "n < 2 ^ 53" by auto
  have "(of_nat n :: rat) < of_nat (2 ^ 53)" using n(2) by (simp only: of_nat_less_iff)
  then have "(of_nat n :: rat) < 2 powi (52 + 1)" by simp
  with n have "binexp (of_nat n) \<le> 52" by (intro binexp_le) auto
  then have k: "ulp_exp (of_nat n) \<le> 0" by (simp add: ulp_exp_def)
  define j where "j = nat (- ulp_exp (of_nat n :: rat))"
  have "(of_nat n :: rat) / 2 powi ulp_exp (of_nat n) = of_int (int n * 2 ^ j)"
    using k by (simp add: j_def power_int_def field_simps)
  then have "round_pos (of_nat n) = of_nat n" by (rule round_pos_exact)
  then show ?thesis using n by (simp add: fl_def)
next
  case True
  have "fl (9007199254740992 :: rat) = 9007199254740992" by code_simp
  with True show ?thesis by auto
qed

lemma power_int_add_nat: "(2::rat) powi (int j + int i) = 2 ^ j * 2 ^ i"
  by (simp add: power_int_add)

text \<open>Dyadic fractions of at most 53 significant bits are exact.\<close>

lemma fl_dyadic:
  assumes "\<bar>z\<bar> < 2 ^ 53" "j \<le> 1000"
  shows "fl (of_int z / 2 ^ j) = of_int z / 2 ^ j"
proof -
  have pos: "round_pos (of_int z / 2 ^ j) = of_int z / 2 ^ j" if z: "0 < z" "z < 2 ^ 53" for z
  proof -
    let ?q = "of_int z / 2 ^ j :: rat"
    have "(of_int z :: rat) < of_int (2 ^ 53)" using z(2) by (simp only: of_int_less_iff)
    then have "?q < 2 ^ 53 / 2 ^ j" by (simp add: divide_strict_right_mono)
    also have "\<dots> = 2 powi (52 - int j + 1)" by (simp add: power_int_diff power_int_add)
    finally have "binexp ?q \<le> 52 - int j" using z(1) by (intro binexp_le) auto
    then have k: "ulp_exp ?q \<le> - int j" using assms(2) by (simp add: ulp_exp_def)
    define i where "i = nat (- int j - ulp_exp ?q)"
    have i: "ulp_exp ?q = - (int j + int i)" using k by (simp add: i_def)
    have "?q / 2 powi ulp_exp ?q = of_int (z * 2 ^ i)"
      unfolding i by (simp only: power_int_minus power_int_add_nat)
        (simp add: field_simps)
    then show ?thesis by (rule round_pos_exact)
  qed
  consider "z = 0" | "0 < z" | "z < 0" by linarith
  then show ?thesis
  proof cases
    case 3
    then have "(of_int z / 2 ^ j :: rat) < 0" by (simp add: divide_neg_pos)
    with 3 pos [of "- z"] assms(1) show ?thesis by (simp add: fl_def)
  qed (use pos [of z] assms(1) in \<open>auto simp: fl_def\<close>)
qed

text \<open>A significand of at most 53 bits at any representable exponent is exact; so rounding twice
  is rounding once.\<close>

lemma round_pos_scaled:
  assumes "0 < m" "m \<le> 2 ^ 53" "- 1074 \<le> k"
  shows "round_pos (of_int m * 2 powi k) = of_int m * 2 powi k"
proof -
  have lt: "round_pos (of_int m * 2 powi k) = of_int m * 2 powi k"
    if m: "0 < m" "m < 2 ^ 53" and k: "- 1074 \<le> k" for m :: int and k :: int
  proof -
    let ?q = "of_int m * 2 powi k :: rat"
    have "(of_int m :: rat) < of_int (2 ^ 53)" using m(2) by (simp only: of_int_less_iff)
    then have "?q < of_int (2 ^ 53) * 2 powi k" by (intro mult_strict_right_mono) auto
    also have "\<dots> = 2 powi (52 + k + 1)" by (simp add: power_int_add)
    finally have "binexp ?q \<le> 52 + k" using m(1) by (intro binexp_le) auto
    then have le: "ulp_exp ?q \<le> k" using k by (simp add: ulp_exp_def)
    define u where "u = ulp_exp ?q"
    define i where "i = nat (k - u)"
    have i: "k = u + int i" using le by (simp add: i_def u_def)
    have "of_int m * 2 powi k / 2 powi u = (of_int (m * 2 ^ i) :: rat)"
      unfolding i by (simp add: power_int_add)
    then show ?thesis unfolding u_def by (rule round_pos_exact)
  qed
  show ?thesis
  proof (cases "m < 2 ^ 53")
    case True
    with assms lt show ?thesis by blast
  next
    case False
    with assms(2) have m: "m = 2 ^ 53" by simp
    have "of_int m * (2::rat) powi k = of_int (2 ^ 52) * 2 powi (k + 1)"
      by (simp add: m power_int_add)
    moreover have "round_pos (of_int (2 ^ 52) * 2 powi (k + 1)) = of_int (2 ^ 52) * 2 powi (k + 1)"
      using assms(3) by (intro lt) auto
    ultimately show ?thesis by simp
  qed
qed

lemma round_pos_idem: "0 < q \<Longrightarrow> 0 < round_pos q \<Longrightarrow> round_pos (round_pos q) = round_pos q"
proof -
  assume q: "0 < q" and r: "0 < round_pos q"
  let ?m = "round_half_even (q / 2 powi ulp_exp q)"
  have "round_pos q \<le> 2 powi (ulp_exp q + 53)" by (rule round_pos_le [OF q])
  then have "of_int ?m * 2 powi ulp_exp q \<le> of_int (2 ^ 53) * (2::rat) powi ulp_exp q"
    by (simp add: round_pos_def power_int_add mult.commute)
  then have "(of_int ?m :: rat) \<le> of_int (2 ^ 53)" by (simp add: mult_le_cancel_right)
  then have "?m \<le> 2 ^ 53" by (simp only: of_int_le_iff)
  moreover have "0 < ?m"
  proof (rule ccontr)
    assume "\<not> 0 < ?m"
    then have "round_pos q \<le> 0" by (simp add: round_pos_def mult_nonpos_nonneg)
    with r show False by simp
  qed
  moreover have "- 1074 \<le> ulp_exp q" by (simp add: ulp_exp_def)
  ultimately have "round_pos (of_int ?m * 2 powi ulp_exp q) = of_int ?m * 2 powi ulp_exp q"
    by (intro round_pos_scaled)
  then show ?thesis by (simp add: round_pos_def [of q])
qed

lemma fl_idem: "fl (fl q) = fl q"
proof -
  have pos: "fl (round_pos x) = round_pos x" if "0 < x" for x
    using that round_pos_nonneg [OF that] round_pos_idem [OF that] by (auto simp: fl_def)
  consider "q = 0" | "0 < q" | "q < 0" by linarith
  then show ?thesis
  proof cases
    case 3
    with pos [of "- q"] have "fl (- round_pos (- q)) = - round_pos (- q)" by (simp add: fl_uminus)
    with 3 show ?thesis by (simp add: fl_def [of q])
  qed (use pos [of q] in \<open>auto simp: fl_def [of q]\<close>)
qed

text \<open>Evaluation at a concrete normal value, given its exponent.\<close>

lemma fl_eval:
  assumes "2 powi e \<le> q" "q < 2 powi (e + 1)" "- 1022 \<le> e"
    and "round_half_even (q / 2 powi (e - 52)) = m"
  shows "fl q = of_int m * 2 powi (e - 52)"
proof -
  have q: "0 < q" using assms(1) by (rule less_le_trans [rotated]) simp
  have "(2::rat) powi binexp q < 2 powi (e + 1)" "(2::rat) powi e < 2 powi (binexp q + 1)"
    using assms(1,2) binexp_bounds [OF q] by linarith+
  then have "binexp q = e" by (simp add: powi_less_iff)
  then have "ulp_exp q = e - 52" using assms(3) by (simp add: ulp_exp_def)
  with assms(4) q show ?thesis by (simp add: fl_def round_pos_def)
qed

section \<open>The rounding interface\<close>

text \<open>
  What the schedule ramps and the report averages rely on. The client lemmas: the product
  of an integer by a factor in \<open>[0, 1]\<close> stays between \<open>0\<close> and the integer, and the
  quotient of an integer by a larger one stays in \<open>[0, 1]\<close>.
\<close>

locale rounding =
  fixes rnd :: "rat \<Rightarrow> rat"
  assumes rnd_mono: "x \<le> y \<Longrightarrow> rnd x \<le> rnd y"
    and rnd_minus: "rnd (- x) = - rnd x"
    and rnd_nat: "n \<le> 2 ^ 53 \<Longrightarrow> rnd (of_nat n) = of_nat n"
    and rnd_idem: "rnd (rnd x) = rnd x"
begin

lemma rnd_0: "rnd 0 = 0"
  using rnd_nat [of 0] by simp

lemma rnd_1: "rnd 1 = 1"
  using rnd_nat [of 1] by simp

lemma rnd_int: "\<bar>z\<bar> \<le> 2 ^ 53 \<Longrightarrow> rnd (of_int z) = of_int z"
proof (cases "0 \<le> z")
  case True
  assume "\<bar>z\<bar> \<le> 2 ^ 53"
  with True have "nat z \<le> 2 ^ 53" by simp
  from rnd_nat [OF this] True show ?thesis by simp
next
  case False
  assume "\<bar>z\<bar> \<le> 2 ^ 53"
  with False have "nat (- z) \<le> 2 ^ 53" by simp
  from rnd_nat [OF this] False rnd_minus [of "of_int (- z)"] show ?thesis by simp
qed

lemma rnd_nonneg: "0 \<le> x \<Longrightarrow> 0 \<le> rnd x"
  using rnd_mono [of 0 x] by (simp add: rnd_0)

lemma rnd_le_int: "\<bar>z\<bar> \<le> 2 ^ 53 \<Longrightarrow> x \<le> of_int z \<Longrightarrow> rnd x \<le> of_int z"
  using rnd_mono [of x "of_int z"] by (simp add: rnd_int)

lemma rnd_ge_int: "\<bar>z\<bar> \<le> 2 ^ 53 \<Longrightarrow> of_int z \<le> x \<Longrightarrow> of_int z \<le> rnd x"
  using rnd_mono [of "of_int z" x] by (simp add: rnd_int)

lemma rnd_quotient: "0 \<le> x \<Longrightarrow> x \<le> y \<Longrightarrow> 0 < y \<Longrightarrow> 0 \<le> rnd (x / y) \<and> rnd (x / y) \<le> 1"
  using rnd_le_int [of 1 "x / y"] by (simp add: rnd_nonneg)

text \<open>The quotient of a rounded difference by a rounded value that bounds it.\<close>

lemma rnd_progress:
  assumes "0 \<le> x" "x \<le> rnd z" "0 < rnd z"
  shows "0 \<le> rnd (rnd x / rnd z) \<and> rnd (rnd x / rnd z) \<le> 1"
proof -
  have "rnd x \<le> rnd (rnd z)" using assms(2) by (rule rnd_mono)
  then show ?thesis
    using assms by (intro rnd_quotient) (simp_all add: rnd_idem rnd_nonneg)
qed

text \<open>An integer scaled by a factor in \<open>[0, 1]\<close>, and linear interpolation between two
  integers, rounded at every operation.\<close>

lemma rnd_scale:
  assumes "\<bar>z\<bar> \<le> 2 ^ 53" "0 \<le> p" "p \<le> 1"
  shows "of_int (min 0 z) \<le> rnd (of_int z * p) \<and> rnd (of_int z * p) \<le> of_int (max 0 z)"
proof -
  have "of_int (min 0 z) \<le> of_int z * p \<and> of_int z * p \<le> of_int (max 0 z)"
  proof (cases "0 \<le> z")
    case True
    then have zr: "(0::rat) \<le> of_int z" by (simp only: of_int_0_le_iff)
    with assms(2,3) have "0 \<le> of_int z * p" "of_int z * p \<le> of_int z"
      using mult_left_mono [OF assms(3) zr] by simp_all
    with True show ?thesis by simp
  next
    case False
    then have zr: "of_int z \<le> (0::rat)" by (simp only: of_int_le_0_iff)
    with assms(2,3) have "of_int z * p \<le> 0" "of_int z \<le> of_int z * p"
      using mult_left_mono_neg [OF assms(3) zr] by (simp_all add: mult_nonpos_nonneg)
    with False show ?thesis by simp
  qed
  then show ?thesis using assms(1) by (auto intro!: rnd_ge_int rnd_le_int)
qed

lemma rnd_interpolate:
  assumes "a \<le> 2 ^ 53" "b \<le> 2 ^ 53" "0 \<le> p" "p \<le> 1"
  defines "x \<equiv> of_nat a + rnd (of_int (int b - int a) * p)"
  shows "of_nat (min a b) \<le> x \<and> x \<le> of_nat (max a b) \<and>
    of_nat (min a b) \<le> rnd x \<and> rnd x \<le> of_nat (max a b)"
proof -
  have b: "of_int (min 0 (int b - int a)) \<le> rnd (of_int (int b - int a) * p) \<and>
      rnd (of_int (int b - int a) * p) \<le> of_int (max 0 (int b - int a))"
    by (rule rnd_scale) (use assms(1-4) in auto)
  have x: "of_int (int (min a b)) \<le> x" "x \<le> of_int (int (max a b))"
    using b by (simp_all add: x_def min_def max_def split: if_splits)
  then show ?thesis
    using rnd_ge_int [of "int (min a b)" x] rnd_le_int [of "int (max a b)" x] assms(1,2) by simp
qed

end

interpretation f64r: rounding fl
  by unfold_locales (auto intro: fl_mono fl_uminus fl_nat fl_idem)

lemma fl_below_overflow:
  assumes "\<bar>q\<bar> \<le> of_nat n" "n \<le> 2 ^ 53"
  shows "to_f64 q = Fin (fl q)"
proof -
  have "\<bar>fl q\<bar> \<le> of_nat n"
    using f64r.rnd_le_int [of "int n" q] f64r.rnd_ge_int [of "- int n" q] assms
    by (auto simp: abs_le_iff)
  also have "(of_nat n :: rat) \<le> of_nat (2 ^ 53)" using assms(2) by (simp only: of_nat_le_iff)
  also have "(of_nat (2 ^ 53) :: rat) < 2 ^ 1024" by simp
  finally show ?thesis by (auto simp: to_f64_def Let_def abs_less_iff not_le)
qed

lemma f_of_nat_small: "n \<le> 2 ^ 53 \<Longrightarrow> f_of_nat n = Fin (of_nat n)"
  using fl_below_overflow [of "of_nat n" n] by (simp add: f_of_nat_def fl_nat)

section \<open>Evaluation at small values\<close>

named_theorems f64_eval "results of f64 operations on integers and dyadic fractions"

lemma to_f64_dyadic: "\<bar>z\<bar> < 2 ^ 53 \<Longrightarrow> j \<le> 1000 \<Longrightarrow> to_f64 (of_int z / 2 ^ j) = Fin (of_int z / 2 ^ j)"
proof -
  assume z: "\<bar>z\<bar> < 2 ^ 53" and j: "j \<le> 1000"
  have "\<bar>of_int z / 2 ^ j :: rat\<bar> \<le> of_int \<bar>z\<bar>"
    by (simp add: abs_div field_simps mult_le_cancel_left1)
  also have "\<dots> \<le> of_int (2 ^ 53)" using z by (simp only: of_int_le_iff)
  finally have "to_f64 (of_int z / 2 ^ j) = Fin (fl (of_int z / 2 ^ j))"
    by (intro fl_below_overflow [of _ "2 ^ 53"]) simp_all
  with fl_dyadic [OF z j] show ?thesis by simp
qed

lemma to_f64_small [f64_eval]:
  "to_f64 0 = Fin 0" "to_f64 1 = Fin 1" "to_f64 (- 1) = Fin (- 1)"
  "(numeral n :: int) < 2 ^ 53 \<Longrightarrow> to_f64 (numeral n) = Fin (numeral n)"
  "(numeral n :: int) < 2 ^ 53 \<Longrightarrow> to_f64 (- numeral n) = Fin (- numeral n)"
  "to_f64 (1 / 2) = Fin (1 / 2)"
  "(numeral n :: int) < 2 ^ 53 \<Longrightarrow> to_f64 (numeral n / 2) = Fin (numeral n / 2)"
  "(numeral n :: int) < 2 ^ 53 \<Longrightarrow> to_f64 (numeral n / 4) = Fin (numeral n / 4)"
  using to_f64_dyadic [of 0 0] to_f64_dyadic [of 1 0] to_f64_dyadic [of "- 1" 0]
    to_f64_dyadic [of "numeral n" 0] to_f64_dyadic [of "- numeral n" 0] to_f64_dyadic [of 1 1]
    to_f64_dyadic [of "numeral n" 1] to_f64_dyadic [of "numeral n" 2]
  by simp_all

lemma f_of_nat_numeral [f64_eval]:
  "f_of_nat 0 = Fin 0" "f_of_nat (Suc 0) = Fin 1" "f_of_nat 1 = Fin 1"
  "(numeral n :: nat) \<le> 2 ^ 53 \<Longrightarrow> f_of_nat (numeral n) = Fin (numeral n)"
  using f_of_nat_small [of 0] f_of_nat_small [of 1] f_of_nat_small [of "numeral n"] by simp_all

end
