(* ===== verification/Text.thy ===== *)
theory Text
  imports Prelude "HOL-Library.Sublist"
begin

text \<open>
  The string operations of Rust's standard library that the source uses. A string is a list
  of \<open>char\<close>, read as the Unicode code points \<open>U+0000\<close> to \<open>U+00FF\<close>; the character
  classes are exact on that range and \<open>utf8_len\<close> is the byte length \<open>str::len\<close> returns
  for it. The laws proved here are what the parsers and exporters use: splitting at a
  separator, trimming, decimal printing and its inverse, lines.
\<close>

section \<open>Characters\<close>

abbreviation code :: "char \<Rightarrow> nat" where "code c \<equiv> of_char c"

definition is_ws :: "char \<Rightarrow> bool" where
  "is_ws c = (9 \<le> code c \<and> code c \<le> 13 \<or> code c = 32 \<or> code c = 133 \<or> code c = 160)"

definition is_digit :: "char \<Rightarrow> bool" where
  "is_digit c = (48 \<le> code c \<and> code c \<le> 57)"

text \<open>\<open>char::is_alphanumeric\<close>: letters, and the numeric superscripts and fractions.\<close>

definition is_alnum :: "char \<Rightarrow> bool" where
  "is_alnum c = (is_digit c \<or> 65 \<le> code c \<and> code c \<le> 90 \<or> 97 \<le> code c \<and> code c \<le> 122
     \<or> code c \<in> {170, 178, 179, 181, 185, 186, 188, 189, 190}
     \<or> 192 \<le> code c \<and> code c \<noteq> 215 \<and> code c \<noteq> 247)"

definition ascii_lower_char :: "char \<Rightarrow> char" where
  "ascii_lower_char c = (if 65 \<le> code c \<and> code c \<le> 90 then char_of (code c + 32) else c)"

definition lower_char :: "char \<Rightarrow> char" where
  "lower_char c = (if 65 \<le> code c \<and> code c \<le> 90
       \<or> 192 \<le> code c \<and> code c \<le> 222 \<and> code c \<noteq> 215
     then char_of (code c + 32) else c)"

definition to_lower :: "string \<Rightarrow> string" where
  "to_lower s = map lower_char s"

definition eq_ignore_ascii_case :: "string \<Rightarrow> string \<Rightarrow> bool" where
  "eq_ignore_ascii_case s t = (map ascii_lower_char s = map ascii_lower_char t)"

fun utf8_len :: "string \<Rightarrow> nat" where
  "utf8_len [] = 0"
| "utf8_len (c # s) = (if code c < 128 then 1 else 2) + utf8_len s"

section \<open>Prefixes, suffixes, search\<close>

definition starts_with :: "string \<Rightarrow> string \<Rightarrow> bool" where
  "starts_with p s = (take (length p) s = p)"

definition strip_prefix :: "string \<Rightarrow> string \<Rightarrow> string option" where
  "strip_prefix p s = (if starts_with p s then Some (drop (length p) s) else None)"

definition ends_with :: "string \<Rightarrow> string \<Rightarrow> bool" where
  "ends_with p s = starts_with (rev p) (rev s)"

fun contains_str :: "string \<Rightarrow> string \<Rightarrow> bool" where
  "contains_str p [] = (p = [])"
| "contains_str p (c # s) = (starts_with p (c # s) \<or> contains_str p s)"

abbreviation contains_char :: "char \<Rightarrow> string \<Rightarrow> bool" where
  "contains_char c s \<equiv> c \<in> set s"

text \<open>\<open>trim_end_matches\<close> with a string: removes the suffix as often as it is there.\<close>

function strip_repeated :: "string \<Rightarrow> string \<Rightarrow> string" where
  "strip_repeated p s = (if p \<noteq> [] \<and> starts_with p s then strip_repeated p (drop (length p) s) else s)"
  by pat_completeness auto
termination
proof (relation "measure (\<lambda>(p, s). length s)")
  fix p s :: string
  assume "p \<noteq> [] \<and> starts_with p s"
  then have "p \<noteq> []" "s \<noteq> []" by (auto simp: starts_with_def)
  then show "((p, drop (length p) s), p, s) \<in> measure (\<lambda>(p, s). length s)" by simp
qed simp

declare strip_repeated.simps [simp del]

definition trim_end_matches :: "string \<Rightarrow> string \<Rightarrow> string" where
  "trim_end_matches p s = rev (strip_repeated (rev p) (rev s))"

definition trim_start :: "string \<Rightarrow> string" where
  "trim_start s = dropWhile is_ws s"

definition trim_end :: "string \<Rightarrow> string" where
  "trim_end s = rev (dropWhile is_ws (rev s))"

definition trim :: "string \<Rightarrow> string" where
  "trim s = trim_end (trim_start s)"

definition split_once :: "char \<Rightarrow> string \<Rightarrow> (string \<times> string) option" where
  "split_once c s = (case dropWhile (\<lambda>d. d \<noteq> c) s of
     [] \<Rightarrow> None | _ # v \<Rightarrow> Some (takeWhile (\<lambda>d. d \<noteq> c) s, v))"

text \<open>\<open>split_whitespace\<close>: the maximal runs of non-white-space characters.\<close>

function split_ws :: "string \<Rightarrow> string list" where
  "split_ws [] = []"
| "split_ws (c # s) = (if is_ws c then split_ws s
     else (c # takeWhile (\<lambda>d. \<not> is_ws d) s) # split_ws (dropWhile (\<lambda>d. \<not> is_ws d) s))"
  by pat_completeness auto
termination
  by (relation "measure length") (auto intro: le_imp_less_Suc length_dropWhile_le)

text \<open>\<open>str::lines\<close>: split at newlines, one trailing carriage return of each line removed, no
  last empty line.\<close>

definition strip_cr :: "string \<Rightarrow> string" where
  "strip_cr s = (if s \<noteq> [] \<and> last s = CHR 0x0D then butlast s else s)"

function lines :: "string \<Rightarrow> string list" where
  "lines [] = []"
| "lines (c # s) = (case dropWhile (\<lambda>d. d \<noteq> CHR 0x0A) (c # s) of
     [] \<Rightarrow> [c # s]
   | _ # rest \<Rightarrow> strip_cr (takeWhile (\<lambda>d. d \<noteq> CHR 0x0A) (c # s)) # lines rest)"
  by pat_completeness auto
termination
proof (relation "measure length")
  fix c :: char and s d rest
  assume "dropWhile (\<lambda>d. d \<noteq> CHR 0x0A) (c # s) = d # rest"
  then have "length (d # rest) \<le> length (c # s)" by (metis length_dropWhile_le)
  then show "(rest, c # s) \<in> measure length" by simp
qed simp

text \<open>\<open>replace\<close> of a character by a string, and of a non-empty string by a string.\<close>

definition replace_char :: "char \<Rightarrow> string \<Rightarrow> string \<Rightarrow> string" where
  "replace_char c t s = concat (map (\<lambda>d. if d = c then t else [d]) s)"

function replace_str :: "string \<Rightarrow> string \<Rightarrow> string \<Rightarrow> string" where
  "replace_str p t [] = []"
| "replace_str p t (c # s) = (if p \<noteq> [] \<and> starts_with p (c # s)
     then t @ replace_str p t (drop (length p) (c # s)) else c # replace_str p t s)"
  by pat_completeness auto
termination
  by (relation "measure (\<lambda>(p, t, s). length s)") auto

text \<open>\<open>slice.join(sep)\<close>.\<close>

fun join_str :: "string \<Rightarrow> string list \<Rightarrow> string" where
  "join_str sep [] = []"
| "join_str sep [s] = s"
| "join_str sep (s # t # ss) = s @ sep @ join_str sep (t # ss)"

lemma join_snoc: "ss \<noteq> [] \<Longrightarrow> join_str sep (ss @ [x]) = join_str sep ss @ sep @ x"
  by (induction sep ss rule: join_str.induct) simp_all

lemma join_nonempty: "ss \<noteq> [] \<Longrightarrow> list_all (\<lambda>s. s \<noteq> []) ss \<Longrightarrow> join_str sep ss \<noteq> []"
  by (induction sep ss rule: join_str.induct) simp_all

section \<open>Decimal numbers\<close>

definition digit_char :: "nat \<Rightarrow> char" where
  "digit_char n = char_of (48 + n)"

fun show_nat :: "nat \<Rightarrow> string" where
  "show_nat n = (if n < 10 then [digit_char n] else show_nat (n div 10) @ [digit_char (n mod 10)])"

declare show_nat.simps [simp del]

definition digits_val :: "string \<Rightarrow> nat" where
  "digits_val s = foldl (\<lambda>v c. v * 10 + (code c - 48)) 0 s"

text \<open>\<open>str::parse::<u64>\<close> (and \<open>usize\<close>): an optional plus sign, at least one digit, no
  overflow.\<close>

definition parse_u64 :: "string \<Rightarrow> nat option" where
  "parse_u64 s = (let ds = (case s of c # t \<Rightarrow> if c = CHR ''+'' then t else s | [] \<Rightarrow> [])
     in if ds \<noteq> [] \<and> list_all is_digit ds \<and> digits_val ds < u64_size
        then Some (digits_val ds) else None)"

text \<open>A number padded with zeros on the left to a width.\<close>

definition pad_nat :: "nat \<Rightarrow> nat \<Rightarrow> string" where
  "pad_nat w n = replicate (w - length (show_nat n)) (CHR ''0'') @ show_nat n"

section \<open>Laws\<close>

lemma starts_with_append [text_simps]: "starts_with p (p @ s)"
  by (simp add: starts_with_def)

lemma starts_with_iff: "starts_with p s \<longleftrightarrow> (\<exists>t. s = p @ t)"
  by (auto simp: starts_with_def) (metis append_take_drop_id)

lemma strip_prefix_append [text_simps]: "strip_prefix p (p @ s) = Some s"
  by (simp add: strip_prefix_def starts_with_append)

lemma strip_prefix_Some: "strip_prefix p s = Some t \<longleftrightarrow> s = p @ t"
  by (auto simp: strip_prefix_def starts_with_iff split: if_splits)

lemma ends_with_iff: "ends_with p s \<longleftrightarrow> (\<exists>t. s = t @ p)"
  unfolding ends_with_def starts_with_iff
  by (metis rev_append rev_rev_ident)

lemma ends_with_append [text_simps]: "ends_with p (s @ p)"
  by (auto simp: ends_with_iff)

lemma takeWhile_upto [simp]: "c \<notin> set k \<Longrightarrow> takeWhile (\<lambda>d. d \<noteq> c) (k @ c # v) = k"
  by (induction k) auto

lemma dropWhile_upto [simp]: "c \<notin> set k \<Longrightarrow> dropWhile (\<lambda>d. d \<noteq> c) (k @ c # v) = c # v"
  by (induction k) auto

lemma split_once_append [text_simps]: "c \<notin> set k \<Longrightarrow> split_once c (k @ c # v) = Some (k, v)"
  by (simp add: split_once_def)

lemma split_once_Some: "split_once c s = Some (k, v) \<longleftrightarrow> s = k @ c # v \<and> c \<notin> set k"
proof
  assume "split_once c s = Some (k, v)"
  then obtain d where d: "dropWhile (\<lambda>d. d \<noteq> c) s = d # v" and k: "k = takeWhile (\<lambda>d. d \<noteq> c) s"
    by (auto simp: split_once_def split: list.splits)
  have "d = c" using d hd_dropWhile [of "\<lambda>d. d \<noteq> c" s] by simp
  with d k show "s = k @ c # v \<and> c \<notin> set k"
    by (metis (mono_tags, lifting) set_takeWhileD takeWhile_dropWhile_id)
qed (simp add: split_once_append)

lemma split_once_None: "split_once c s = None \<longleftrightarrow> c \<notin> set s"
proof
  assume "split_once c s = None"
  then have "dropWhile (\<lambda>d. d \<noteq> c) s = []" by (auto simp: split_once_def split: list.splits)
  then show "c \<notin> set s" by (auto simp: dropWhile_eq_Nil_conv)
next
  assume "c \<notin> set s"
  then have "dropWhile (\<lambda>d. d \<noteq> c) s = []" by (auto simp: dropWhile_eq_Nil_conv)
  then show "split_once c s = None" by (simp only: split_once_def list.case)
qed

lemma trim_no_ws [text_simps]: "s \<noteq> [] \<Longrightarrow> \<not> is_ws (hd s) \<Longrightarrow> \<not> is_ws (last s) \<Longrightarrow> trim s = s"
proof -
  assume s: "s \<noteq> []" "\<not> is_ws (hd s)" "\<not> is_ws (last s)"
  have "dropWhile is_ws s = s" using s(1,2) by (cases s) auto
  moreover have "dropWhile is_ws (rev s) = rev s" using s(1,3) by (cases s rule: rev_cases) auto
  ultimately show ?thesis by (simp add: trim_def trim_start_def trim_end_def)
qed

lemma trim_Nil [simp]: "trim [] = []"
  by (simp add: trim_def trim_start_def trim_end_def)

text \<open>A string that trimming leaves alone.\<close>

definition trimmed :: "string \<Rightarrow> bool" where
  "trimmed s = (trim s = s)"

lemma trimmedI: "s = [] \<or> \<not> is_ws (hd s) \<and> \<not> is_ws (last s) \<Longrightarrow> trimmed s"
  unfolding trimmed_def using trim_no_ws [of s] by (cases "s = []") auto

lemma takeWhile_word: "list_all P w \<Longrightarrow> \<not> P c \<Longrightarrow> takeWhile P (w @ c # s) = w"
  by (induction w) auto

lemma dropWhile_word: "list_all P w \<Longrightarrow> \<not> P c \<Longrightarrow> dropWhile P (w @ c # s) = c # s"
  by (induction w) auto

lemma takeWhile_all: "list_all P w \<Longrightarrow> takeWhile P w = w"
  by (induction w) auto

lemma dropWhile_all: "list_all P w \<Longrightarrow> dropWhile P w = []"
  by (induction w) auto

lemma split_ws_word [text_simps]:
  "w \<noteq> [] \<Longrightarrow> list_all (\<lambda>c. \<not> is_ws c) w \<Longrightarrow> split_ws w = [w]"
  by (cases w) (simp_all add: takeWhile_all dropWhile_all)

lemma split_ws_cons [text_simps]:
  "w \<noteq> [] \<Longrightarrow> list_all (\<lambda>c. \<not> is_ws c) w \<Longrightarrow> is_ws c \<Longrightarrow> split_ws (w @ c # s) = w # split_ws s"
  by (cases w) (simp_all add: takeWhile_word dropWhile_word)

lemma split_ws_no_ws: "w \<in> set (split_ws s) \<Longrightarrow> w \<noteq> [] \<and> list_all (\<lambda>c. \<not> is_ws c) w"
proof (induction s rule: split_ws.induct)
  case (2 c s)
  have "list_all (\<lambda>d. \<not> is_ws d) (takeWhile (\<lambda>d. \<not> is_ws d) s)"
    by (auto simp: list_all_iff dest: set_takeWhileD)
  with 2 show ?case by (cases "is_ws c") auto
qed simp

lemma digit_char_code [simp]: "n < 10 \<Longrightarrow> code (digit_char n) = 48 + n"
  by (simp add: digit_char_def of_char_of)

lemma digit_char_numeral [simp]:
  "digit_char 0 = CHR ''0''" "digit_char (Suc 0) = CHR ''1''" "digit_char 1 = CHR ''1''"
  "digit_char 2 = CHR ''2''" "digit_char 3 = CHR ''3''" "digit_char 4 = CHR ''4''"
  "digit_char 5 = CHR ''5''" "digit_char 6 = CHR ''6''" "digit_char 7 = CHR ''7''"
  "digit_char 8 = CHR ''8''" "digit_char 9 = CHR ''9''"
  by code_simp+

lemma digit_char_digit: "n < 10 \<Longrightarrow> is_digit (digit_char n)"
  by (simp add: is_digit_def)

lemma show_nat_digits: "list_all is_digit (show_nat n)"
  by (induction n rule: show_nat.induct)
    (subst show_nat.simps, auto simp: digit_char_digit list_all_iff)

lemma show_nat_nonempty [simp]: "show_nat n \<noteq> []"
  by (subst show_nat.simps) simp

lemma digits_val_snoc: "digits_val (s @ [c]) = digits_val s * 10 + (code c - 48)"
  by (simp add: digits_val_def)

lemma digits_val_show: "digits_val (show_nat n) = n"
proof (induction n rule: show_nat.induct)
  case (1 n)
  show ?case
  proof (cases "n < 10")
    case True
    then show ?thesis by (subst show_nat.simps) (simp add: digits_val_def)
  next
    case False
    with 1 show ?thesis by (subst show_nat.simps) (simp add: digits_val_snoc)
  qed
qed

lemma digit_not_ws: "is_digit c \<Longrightarrow> \<not> is_ws c"
  by (auto simp: is_digit_def is_ws_def)

lemma is_digit_plus: "\<not> is_digit (CHR ''+'')"
  by (simp add: is_digit_def)

lemma parse_show_nat [text_simps]: "n < u64_size \<Longrightarrow> parse_u64 (show_nat n) = Some n"
proof -
  assume n: "n < u64_size"
  obtain c t where ct: "show_nat n = c # t" by (cases "show_nat n") auto
  have "is_digit c" using show_nat_digits [of n] by (simp add: ct)
  then have "c \<noteq> CHR ''+''" using is_digit_plus by auto
  with n show ?thesis
    using show_nat_digits [of n] digits_val_show [of n] by (simp add: parse_u64_def ct)
qed

lemma parse_u64_bound: "parse_u64 s = Some n \<Longrightarrow> n < u64_size"
  by (auto simp: parse_u64_def Let_def split: if_splits)

lemma parse_u64_nonempty: "parse_u64 s = Some n \<Longrightarrow> s \<noteq> []"
  by (auto simp: parse_u64_def split: if_splits)

lemma parse_u64_chars: "parse_u64 s = Some n \<Longrightarrow> c \<in> set s \<Longrightarrow> is_digit c \<or> c = CHR ''+''"
  by (cases s) (auto simp: parse_u64_def list_all_iff Let_def split: if_splits)

lemma show_nat_inj: "show_nat m = show_nat n \<longleftrightarrow> m = n"
  by (metis digits_val_show)

end
