(* ===== verification/FloatText.thy ===== *)
theory FloatText
  imports Float64 Text
begin

text \<open>
  Decimal text to and from \<open>f64\<close>, as \<open>str::parse::<f64>\<close>, \<open>format!("{:.2}")\<close>
  and \<open>format!("{}")\<close> do it, and \<open>Duration::from_secs_f64\<close> with its panics. A call
  that panics is the value \<open>Panics\<close> of \<open>outcome\<close>.
\<close>

datatype 'a outcome = Panics | Returns 'a

section \<open>Parsing\<close>

fun split_sign :: "string \<Rightarrow> bool \<times> string" where
  "split_sign [] = (False, [])"
| "split_sign (c # s) = (if c = CHR ''-'' then (True, s) else if c = CHR ''+'' then (False, s)
     else (False, c # s))"

text \<open>The exponent part: nothing, or \<open>e\<close>, a sign and at least one digit.\<close>

definition parse_exponent :: "string \<Rightarrow> int option" where
  "parse_exponent s = (case s of [] \<Rightarrow> Some 0
     | c # t \<Rightarrow> if c = CHR ''e'' \<or> c = CHR ''E'' then
         (let (neg, ds) = split_sign t in
           if ds \<noteq> [] \<and> list_all is_digit ds
           then Some (if neg then - int (digits_val ds) else int (digits_val ds)) else None)
       else None)"

definition parse_decimal :: "string \<Rightarrow> rat option" where
  "parse_decimal s = (let ip = takeWhile is_digit s; r1 = dropWhile is_digit s;
       (fp, r2) = (case r1 of
          c # t \<Rightarrow> if c = CHR ''.'' then (takeWhile is_digit t, dropWhile is_digit t) else ([], r1)
        | [] \<Rightarrow> ([], []))
     in if ip @ fp = [] then None
        else case parse_exponent r2 of None \<Rightarrow> None
          | Some e \<Rightarrow> Some (of_nat (digits_val (ip @ fp)) * 10 powi (e - int (length fp))))"

definition parse_f64 :: "string \<Rightarrow> f64 option" where
  "parse_f64 s = (let (neg, body) = split_sign s; low = map ascii_lower_char body in
     if low = ''inf'' \<or> low = ''infinity'' then Some (Inf neg)
     else if low = ''nan'' then Some NaN
     else case parse_decimal body of None \<Rightarrow> None
       | Some q \<Rightarrow> Some (to_f64 (if neg then - q else q)))"

section \<open>Printing\<close>

definition fmt_fixed :: "nat \<Rightarrow> f64 \<Rightarrow> string" where
  "fmt_fixed p x = (case x of NaN \<Rightarrow> ''NaN'' | Inf s \<Rightarrow> if s then ''-inf'' else ''inf''
     | Fin q \<Rightarrow> let m = nat (round_half_even (\<bar>q\<bar> * 10 ^ p)) in
         (if q < 0 then ''-'' else []) @ show_nat (m div 10 ^ p)
         @ (if p = 0 then [] else ''.'' @ pad_nat p (m mod 10 ^ p)))"

text \<open>The shortest decimal that reads back as the same value (at most 17 digits).\<close>

definition decimal_exp :: "rat \<Rightarrow> int" where
  "decimal_exp q = (let (n, d) = quotient_of q;
       e = int (length (show_nat (nat n))) - int (length (show_nat (nat d)))
     in if 10 powi e \<le> q then e else e - 1)"

definition shortest_digits :: "rat \<Rightarrow> nat \<times> int" where
  "shortest_digits q = (let e = decimal_exp q;
       cand = (\<lambda>n. (nat (round_half_even (q / 10 powi (e + 1 - int n))), e + 1 - int n))
     in case find (\<lambda>n. fl (of_nat (fst (cand n)) * 10 powi snd (cand n)) = q) [1..<17] of
       Some n \<Rightarrow> cand n | None \<Rightarrow> cand 17)"

definition display_f64 :: "f64 \<Rightarrow> string" where
  "display_f64 x = (case x of NaN \<Rightarrow> ''NaN'' | Inf s \<Rightarrow> if s then ''-inf'' else ''inf''
     | Fin q \<Rightarrow> if q = 0 then ''0'' else
         (let (m, e) = shortest_digits \<bar>q\<bar> in
           (if q < 0 then ''-'' else []) @
           (if 0 \<le> e then show_nat (m * 10 ^ nat e)
            else show_nat (m div 10 ^ nat (- e)) @ (if m mod 10 ^ nat (- e) = 0 then [] else
              ''.'' @ pad_nat (nat (- e)) (m mod 10 ^ nat (- e))))))"

section \<open>Durations from floats\<close>

definition from_secs_f64 :: "f64 \<Rightarrow> duration outcome" where
  "from_secs_f64 x = (case x of NaN \<Rightarrow> Panics | Inf _ \<Rightarrow> Panics
     | Fin q \<Rightarrow> if q < 0 then Panics
         else let n = nat (round_half_even (q * 1000000000)) in
           if n < u64_size * 1000000000 then Returns n else Panics)"

section \<open>Laws\<close>

lemma digits_append: "list_all is_digit ds \<Longrightarrow> \<not> is_digit c \<Longrightarrow>
    takeWhile is_digit (ds @ c # s) = ds \<and> dropWhile is_digit (ds @ c # s) = c # s"
  by (simp add: takeWhile_word dropWhile_word)

lemma first_digit_facts:
  assumes "ds \<noteq> []" "list_all is_digit ds"
  shows "split_sign ds = (False, ds)" "map ascii_lower_char ds = ds"
proof -
  from assms obtain c t where ct: "ds = c # t" "is_digit c" by (cases ds) auto
  then have "c \<noteq> CHR ''-''" "c \<noteq> CHR ''+''" by (auto simp: is_digit_def)
  with ct show "split_sign ds = (False, ds)" by simp
  show "map ascii_lower_char ds = ds"
    using assms(2) by (induction ds) (auto simp: ascii_lower_char_def is_digit_def)
qed

lemma digits_not_word: "ds \<noteq> [] \<Longrightarrow> list_all is_digit ds \<Longrightarrow>
    ds \<noteq> ''inf'' \<and> ds \<noteq> ''infinity'' \<and> ds \<noteq> ''nan''"
  by (auto simp: is_digit_def)

lemma parse_decimal_digits:
  assumes "ds \<noteq> []" "list_all is_digit ds"
  shows "parse_decimal ds = Some (of_nat (digits_val ds))"
  using assms by (simp add: parse_decimal_def takeWhile_all dropWhile_all parse_exponent_def)

text \<open>A run of digits parses as the integer it spells.\<close>

lemma parse_f64_digits:
  assumes "ds \<noteq> []" "list_all is_digit ds"
  shows "parse_f64 ds = Some (f_of_nat (digits_val ds))"
  using assms first_digit_facts [OF assms] digits_not_word [OF assms]
  by (simp add: parse_f64_def parse_decimal_digits f_of_nat_def)

lemma parse_f64_show_nat [text_simps]: "parse_f64 (show_nat n) = Some (f_of_nat n)"
  by (simp add: parse_f64_digits show_nat_digits digits_val_show)

lemma from_secs_nat: "n < u64_size \<Longrightarrow> from_secs_f64 (Fin (of_nat n)) = Returns (n * 1000000000)"
proof -
  assume n: "n < u64_size"
  have "(of_nat n :: rat) * 1000000000 = of_int (int (n * 1000000000))" by simp
  then have "round_half_even ((of_nat n :: rat) * 1000000000) = int (n * 1000000000)"
    by (simp only: rhe_int)
  moreover have "nat (int (n * 1000000000)) = n * 1000000000" by (rule nat_int)
  ultimately show ?thesis using n by (simp only: from_secs_f64_def Let_def f64.case) simp
qed

lemma from_secs_negative: "q < 0 \<Longrightarrow> from_secs_f64 (Fin q) = Panics"
  by (simp add: from_secs_f64_def)

end
