(* ===== verification/Durations.thy ===== *)
theory Durations
  imports FloatText
begin

text \<open>
  Duration strings. The crate has two parsers: the engine's (\<open>src/engine/mod.rs\<close>,
  \<open>parse_duration\<close> and \<open>parse_duration_str\<close>), which takes whole numbers of \<open>ms\<close>,
  \<open>s\<close> and \<open>m\<close>, and the command line's (\<open>src/utils.rs\<close>), which also takes fractions
  and hours. \<open>format_duration\<close> prints a run's duration for \<open>handleSummary\<close>. Then
  \<open>safe_truncate\<close>.
\<close>

definition millis :: duration where "millis = 1000000"
definition secs :: duration where "secs = 1000000000"

section \<open>The engine's parser\<close>

datatype duration_error = ParseIntError string | InvalidFormat string

text \<open>\<open>mins * 60\<close> is \<open>u64\<close> arithmetic of a release build: it wraps.\<close>

definition parse_duration :: "string \<Rightarrow> duration_error + duration" where
  "parse_duration d =
     (if ends_with ''ms'' d then
        case parse_u64 (trim_end_matches ''ms'' d) of
          None \<Rightarrow> Inl (ParseIntError (trim_end_matches ''ms'' d)) | Some ms \<Rightarrow> Inr (ms * millis)
      else if ends_with ''s'' d then
        case parse_u64 (trim_end_matches ''s'' d) of
          None \<Rightarrow> Inl (ParseIntError (trim_end_matches ''s'' d)) | Some s \<Rightarrow> Inr (s * secs)
      else if ends_with ''m'' d then
        case parse_u64 (trim_end_matches ''m'' d) of
          None \<Rightarrow> Inl (ParseIntError (trim_end_matches ''m'' d))
        | Some m \<Rightarrow> Inr (((m * 60) mod u64_size) * secs)
      else Inl (InvalidFormat d))"

definition engine_parse_duration_str :: "string \<Rightarrow> duration option" where
  "engine_parse_duration_str s = (case parse_duration s of
     Inr d \<Rightarrow> Some d
   | Inl _ \<Rightarrow> (case parse_u64 s of None \<Rightarrow> None | Some ms \<Rightarrow> Some (ms * millis)))"

definition format_duration :: "duration \<Rightarrow> string" where
  "format_duration d = (let total_secs = d div secs; ms = d mod secs div millis in
     if total_secs = 0 then show_nat ms @ ''ms''
     else if total_secs < 60 then
       (if ms > 0 then show_nat total_secs @ ''s'' @ show_nat ms @ ''ms''
        else show_nat total_secs @ ''s'')
     else (let mins = total_secs div 60; s = total_secs mod 60 in
       if s > 0 then show_nat mins @ ''m'' @ show_nat s @ ''s''
       else show_nat mins @ ''m''))"

section \<open>The command line's parser\<close>

definition cli_secs :: "string \<Rightarrow> nat \<Rightarrow> duration option outcome" where
  "cli_secs s scale = (case parse_f64 s of None \<Rightarrow> Returns None
     | Some x \<Rightarrow> (case from_secs_f64 (if scale = 1 then x else f_mul x (f_of_nat scale)) of
         Panics \<Rightarrow> Panics | Returns d \<Rightarrow> Returns (Some d)))"

definition parse_duration_str :: "string \<Rightarrow> duration option outcome" where
  "parse_duration_str s0 = (let s = trim s0 in
     if ends_with ''ms'' s then
       Returns (map_option (\<lambda>ms. ms * millis) (parse_u64 (trim_end_matches ''ms'' s)))
     else if ends_with ''s'' s then cli_secs (trim_end_matches ''s'' s) 1
     else if ends_with ''m'' s then cli_secs (trim_end_matches ''m'' s) 60
     else if ends_with ''h'' s then cli_secs (trim_end_matches ''h'' s) 3600
     else Returns (map_option (\<lambda>ms. ms * millis) (parse_u64 s)))"

definition parse_duration_str_or_warn :: "string \<Rightarrow> nat \<Rightarrow> duration outcome" where
  "parse_duration_str_or_warn s default_secs = (case parse_duration_str s of
     Panics \<Rightarrow> Panics
   | Returns (Some d) \<Rightarrow> Returns d
   | Returns None \<Rightarrow> Returns (default_secs * secs))"

definition safe_truncate :: "string \<Rightarrow> nat \<Rightarrow> string" where
  "safe_truncate s max_chars = take max_chars s"

section \<open>Laws\<close>

lemma strip_repeated_stop: "\<not> starts_with p s \<Longrightarrow> strip_repeated p s = s"
  by (subst strip_repeated.simps) simp

lemma strip_repeated_once:
  "p \<noteq> [] \<Longrightarrow> \<not> starts_with p s \<Longrightarrow> strip_repeated p (p @ s) = s"
  by (subst strip_repeated.simps) (simp add: starts_with_append strip_repeated_stop)

lemma last_show_digit: "is_digit (last (show_nat n))"
  using show_nat_digits [of n] last_in_set [of "show_nat n"] by (auto simp: list_all_iff)

lemma rev_show: "\<exists>c t. rev (show_nat n) = c # t \<and> is_digit c"
  using last_show_digit [of n] by (cases "show_nat n" rule: rev_cases) auto

lemma trim_unit [text_simps]:
  assumes "u \<noteq> []" "list_all (\<lambda>c. \<not> is_digit c) u"
  shows "trim_end_matches u (show_nat n @ u) = show_nat n"
proof -
  obtain c t where ct: "rev (show_nat n) = c # t" "is_digit c" using rev_show by blast
  obtain a v where av: "rev u = a # v" "\<not> is_digit a"
    using assms by (cases u rule: rev_cases) auto
  have "\<not> starts_with (rev u) (rev (show_nat n))"
    using ct av by (auto simp: starts_with_iff)
  then show ?thesis
    using assms(1) by (simp add: trim_end_matches_def strip_repeated_once)
qed

lemma ends_with_last:
  "ends_with (u @ [c]) (s @ t) \<Longrightarrow> t \<noteq> [] \<Longrightarrow> last t = c"
proof -
  assume e: "ends_with (u @ [c]) (s @ t)" and t: "t \<noteq> []"
  from e obtain x where "s @ t = (x @ u) @ [c]" unfolding ends_with_iff by auto
  then have "last (s @ t) = c" by simp
  with t show ?thesis by simp
qed

lemma ends_with_digit: "ends_with (u @ [c]) (show_nat n) \<Longrightarrow> is_digit c"
  using ends_with_last [of u c "[]" "show_nat n"] last_show_digit [of n] by simp

lemma not_ms_s: "\<not> ends_with ''ms'' (show_nat n @ ''s'')"
proof
  assume "ends_with ''ms'' (show_nat n @ ''s'')"
  then obtain t where "show_nat n = t @ ''m''" by (auto simp: ends_with_iff)
  with ends_with_digit [of "[]" "CHR ''m''" n] show False
    by (simp add: ends_with_iff is_digit_def)
qed

lemma unit_tests [text_simps]:
  "ends_with ''ms'' (show_nat n @ ''ms'')" "ends_with ''s'' (show_nat n @ ''s'')"
  "ends_with ''m'' (show_nat n @ ''m'')" "ends_with ''h'' (show_nat n @ ''h'')"
  "\<not> ends_with ''ms'' (show_nat n @ ''s'')"
  "\<not> ends_with ''ms'' (show_nat n @ ''m'')" "\<not> ends_with ''s'' (show_nat n @ ''m'')"
  "\<not> ends_with ''ms'' (show_nat n @ ''h'')" "\<not> ends_with ''s'' (show_nat n @ ''h'')"
  "\<not> ends_with ''m'' (show_nat n @ ''h'')"
  "\<not> ends_with ''ms'' (show_nat n)" "\<not> ends_with ''s'' (show_nat n)"
  "\<not> ends_with ''m'' (show_nat n)" "\<not> ends_with ''h'' (show_nat n)"
  using ends_with_last [of "''m''" "CHR ''s''" "show_nat n" "''m''"]
    ends_with_last [of "''m''" "CHR ''s''" "show_nat n" "''h''"]
    ends_with_last [of "[]" "CHR ''s''" "show_nat n" "''m''"]
    ends_with_last [of "[]" "CHR ''s''" "show_nat n" "''h''"]
    ends_with_last [of "[]" "CHR ''m''" "show_nat n" "''h''"]
    ends_with_digit [of "''m''" "CHR ''s''" n] ends_with_digit [of "[]" "CHR ''s''" n]
    ends_with_digit [of "[]" "CHR ''m''" n] ends_with_digit [of "[]" "CHR ''h''" n]
  by (auto simp: ends_with_append not_ms_s is_digit_def)

lemma trim_show_unit [text_simps]:
  "list_all (\<lambda>c. \<not> is_ws c) u \<Longrightarrow> trim (show_nat n @ u) = show_nat n @ u"
proof (rule trim_no_ws)
  assume u: "list_all (\<lambda>c. \<not> is_ws c) u"
  show "\<not> is_ws (hd (show_nat n @ u))"
    using show_nat_digits [of n] by (cases "show_nat n") (auto simp: digit_not_ws)
  show "\<not> is_ws (last (show_nat n @ u))"
    using u last_show_digit [of n] by (cases u rule: rev_cases) (auto simp: digit_not_ws)
qed simp

lemma trim_show [text_simps]: "trim (show_nat n) = show_nat n"
  using trim_show_unit [of "[]" n] by simp

lemma parse_show_units [text_simps]:
  "n < u64_size \<Longrightarrow> parse_duration (show_nat n @ ''ms'') = Inr (n * millis)"
  "n < u64_size \<Longrightarrow> parse_duration (show_nat n @ ''s'') = Inr (n * secs)"
  "n < u64_size \<Longrightarrow> parse_duration (show_nat n @ ''m'') = Inr (((n * 60) mod u64_size) * secs)"
  "parse_duration (show_nat n @ ''h'') = Inl (InvalidFormat (show_nat n @ ''h''))"
  "parse_duration (show_nat n) = Inl (InvalidFormat (show_nat n))"
  by (simp_all add: parse_duration_def text_simps is_digit_def)

lemma cli_whole_secs:
  assumes "n * scale \<le> 2 ^ 53" "scale \<in> {1, 60, 3600}"
  shows "cli_secs (show_nat n) scale = Returns (Some (n * scale * secs))"
proof -
  have n: "n \<le> 2 ^ 53" using assms by auto
  have sc: "f_of_nat scale = Fin (of_nat scale)" using assms(2) by (intro f_of_nat_small) auto
  have "f_mul (f_of_nat n) (f_of_nat scale) = f_of_nat (n * scale)"
    using n sc by (simp add: f_of_nat_small f_of_nat_def [of "n * scale"])
  then have prod: "(if scale = 1 then f_of_nat n else f_mul (f_of_nat n) (f_of_nat scale)) =
      Fin (of_nat (n * scale))"
    using assms(1) n by (auto simp: f_of_nat_small simp del: of_nat_mult)
  have "from_secs_f64 (Fin (of_nat (n * scale))) = Returns (n * scale * 1000000000)"
    using assms(1) by (intro from_secs_nat) simp
  then show ?thesis
    unfolding cli_secs_def parse_f64_show_nat option.case prod by (simp add: secs_def)
qed

section \<open>Properties\<close>

text \<open>The engine's \<open>parse_duration\<close> on every printed \<open>u64\<close> with a unit: \<open>ms\<close>
  and \<open>s\<close> are exact, minutes are \<open>n * 60\<close> reduced modulo \<open>2 ^ 64\<close> (so a large number of
  minutes wraps), and a number with the unit \<open>h\<close> or without a unit is an error, the bare number
  being milliseconds in \<open>parse_duration_str\<close> only.\<close>

theorem engine_duration_units:
  assumes "n < u64_size"
  shows "parse_duration (show_nat n @ ''ms'') = Inr (n * millis)
    \<and> parse_duration (show_nat n @ ''s'') = Inr (n * secs)
    \<and> parse_duration (show_nat n @ ''m'') = Inr (((n * 60) mod u64_size) * secs)
    \<and> parse_duration (show_nat n @ ''h'') = Inl (InvalidFormat (show_nat n @ ''h''))
    \<and> parse_duration (show_nat n) = Inl (InvalidFormat (show_nat n))
    \<and> engine_parse_duration_str (show_nat n) = Some (n * millis)"
  using assms by (simp add: text_simps engine_parse_duration_str_def)

theorem engine_duration_units_witness:
  "parse_duration (show_nat 307445734561825861 @ ''m'') = Inr (44 * secs)
    \<and> parse_duration (show_nat 307445734561825861 @ ''h'') =
        Inl (InvalidFormat (show_nat 307445734561825861 @ ''h''))"
  using engine_duration_units [of 307445734561825861] by simp

text \<open>The two duration parsers of the crate agree on whole numbers of milliseconds, seconds
  and minutes that are exact in \<open>f64\<close>; the command line's parser also reads hours, which the
  engine's rejects, so a configuration with \<open>1h\<close> is read by one and refused by the other.\<close>

theorem duration_parsers_agree:
  assumes "n * 3600 \<le> 2 ^ 53"
  shows "parse_duration_str (show_nat n @ ''ms'') = Returns (Some (n * millis))
    \<and> parse_duration (show_nat n @ ''ms'') = Inr (n * millis)
    \<and> parse_duration_str (show_nat n @ ''s'') = Returns (Some (n * secs))
    \<and> parse_duration (show_nat n @ ''s'') = Inr (n * secs)
    \<and> parse_duration_str (show_nat n @ ''m'') = Returns (Some (n * 60 * secs))
    \<and> parse_duration (show_nat n @ ''m'') = Inr (n * 60 * secs)
    \<and> parse_duration_str (show_nat n @ ''h'') = Returns (Some (n * 3600 * secs))
    \<and> engine_parse_duration_str (show_nat n @ ''h'') = None"
proof -
  have n: "n < u64_size" "(n * 60) mod u64_size = n * 60" using assms by auto
  have h: "parse_u64 (show_nat n @ ''h'') = None"
    using parse_u64_chars [of "show_nat n @ ''h''" _ "CHR ''h''"]
    by (cases "parse_u64 (show_nat n @ ''h'')") (auto simp: is_digit_def)
  have c: "cli_secs (show_nat n) 1 = Returns (Some (n * 1 * secs))"
    "cli_secs (show_nat n) 60 = Returns (Some (n * 60 * secs))"
    "cli_secs (show_nat n) 3600 = Returns (Some (n * 3600 * secs))"
    using assms by (intro cli_whole_secs; simp)+
  have w: "list_all (\<lambda>c. \<not> is_ws c) ''ms''" "list_all (\<lambda>c. \<not> is_ws c) ''s''"
    "list_all (\<lambda>c. \<not> is_ws c) ''m''" "list_all (\<lambda>c. \<not> is_ws c) ''h''"
    by (simp_all add: is_ws_def)
  show ?thesis
    using n h c
    by (simp add: parse_duration_str_def engine_parse_duration_str_def text_simps is_digit_def
        trim_show_unit [OF w(1)] trim_show_unit [OF w(2)] trim_show_unit [OF w(3)] trim_show_unit [OF w(4)])
qed

theorem duration_parsers_agree_witness:
  "parse_duration_str (show_nat 90 @ ''m'') = Returns (Some (5400 * secs))
    \<and> parse_duration (show_nat 90 @ ''m'') = Inr (5400 * secs)"
  using duration_parsers_agree [of 90] by simp

text \<open>\<open>format_duration\<close> prints a text the engine reads back exactly whenever one unit is
  enough: whole milliseconds below a second, whole seconds below a minute, whole minutes.\<close>

theorem format_duration_roundtrip:
  assumes "d = n * millis \<and> n < 1000 \<or> d = n * secs \<and> 0 < n \<and> n < 60
    \<or> d = n * 60 * secs \<and> 0 < n \<and> n * 60 < u64_size"
  shows "parse_duration (format_duration d) = Inr d"
  using assms
proof (elim disjE conjE)
  assume "d = n * millis" "n < 1000"
  then show ?thesis by (simp add: format_duration_def Let_def text_simps millis_def secs_def)
next
  assume "d = n * secs" "0 < n" "n < 60"
  then have "format_duration d = show_nat n @ ''s''" by (simp add: format_duration_def secs_def)
  with \<open>d = n * secs\<close> \<open>n < 60\<close> show ?thesis by (simp add: text_simps)
next
  assume d: "d = n * 60 * secs" "0 < n" "n * 60 < u64_size"
  then have "format_duration d = show_nat n @ ''m''" by (simp add: format_duration_def Let_def secs_def)
  with d show ?thesis by (simp add: text_simps)
qed

theorem format_duration_roundtrip_witness:
  "format_duration (90 * 60 * secs) = ''90m'' \<and> parse_duration (format_duration (90 * 60 * secs)) = Inr (90 * 60 * secs)"
proof -
  have "parse_duration (format_duration (90 * 60 * secs)) = Inr (90 * 60 * secs)"
    by (rule format_duration_roundtrip [of _ 90]) simp
  then show ?thesis
    by (simp add: format_duration_def Let_def secs_def show_nat.simps)
qed

text \<open>The command line's parser does not return for a negative number of seconds, minutes or
  hours: \<open>Duration::from_secs_f64\<close> panics, where the function documents \<open>None\<close> for what it
  cannot parse.\<close>

theorem negative_duration_panics:
  assumes "0 < n" "n \<le> 2 ^ 53"
  shows "parse_duration_str (''-'' @ show_nat n @ ''s'') = Panics"
proof -
  let ?s = "''-'' @ show_nat n"
  have ne: "map ascii_lower_char (show_nat n) = show_nat n" "show_nat n \<noteq> ''inf''"
      "show_nat n \<noteq> ''infinity''" "show_nat n \<noteq> ''nan''"
    using first_digit_facts [of "show_nat n"] digits_not_word [of "show_nat n"] show_nat_digits [of n]
    by auto
  have val: "to_f64 (- of_nat n) = Fin (- of_nat n)"
    using fl_below_overflow [of "- of_nat n" n] fl_uminus [of "of_nat n"] fl_nat [of n] assms(2) by simp
  have x: "parse_f64 ?s = Some (Fin (- of_nat n))"
    using ne parse_decimal_digits [of "show_nat n"] show_nat_digits [of n]
    by (simp add: parse_f64_def digits_val_show val)
  have t: "trim (?s @ ''s'') = ?s @ ''s''" by (rule trim_no_ws) (simp_all add: is_ws_def)
  have e: "\<not> ends_with ''ms'' (?s @ ''s'')" "ends_with ''s'' (?s @ ''s'')"
    using ends_with_last [of "[]" "CHR ''m''" "''-''" "show_nat n"] last_show_digit [of n]
    by (auto simp: ends_with_iff is_digit_def)
  have m: "trim_end_matches ''s'' (?s @ ''s'') = ?s"
  proof -
    obtain c t where ct: "rev (show_nat n) = c # t" "is_digit c" using rev_show by blast
    then have "\<not> starts_with ''s'' (rev ?s)" by (auto simp: starts_with_iff is_digit_def)
    then show ?thesis using strip_repeated_once [of "''s''" "rev ?s"] by (simp add: trim_end_matches_def)
  qed
  have neg: "- rat_of_nat n < 0" using assms(1) by simp
  show ?thesis
    using t e m by (simp add: parse_duration_str_def cli_secs_def x from_secs_negative [OF neg] del: append.simps)
qed

theorem negative_duration_panics_witness: "parse_duration_str (''-'' @ show_nat 5 @ ''s'') = Panics"
  by (rule negative_duration_panics) simp_all

end
