(* ===== verification/Config.thy ===== *)
theory Config
  imports Durations
begin

text \<open>
  \<open>src/cli/config.rs\<close> and the part of \<open>src/main.rs\<close> that builds the configuration of a
  run: the configuration records, \<open>merge_from\<close>, and the chain script, then config file, then
  command-line flags. A \<open>HashMap\<close> field is a hash map of the prelude. The flag \<open>drop\<close> is
  \<open>c_drop_rate\<close>. Then the parsing of \<open>--threshold\<close> and of a \<open>.env\<close> file, the log level,
  and the exit code of a run.
\<close>

datatype executor_type =
    ConstantWorkers
  | RampingWorkers
  | ConstantArrivalRate
  | RampingArrivalRate
  | PerWorkerIterations
  | SharedIterations

definition default_executor :: executor_type where
  "default_executor = ConstantWorkers"

record schedule_step =
  step_duration :: string
  step_target :: nat

text \<open>Threshold expressions per metric name.\<close>

type_synonym criteria_map = "(string, string list) hmap"

record scenario_config =
  sc_executor :: "(executor_type) option"
  sc_workers :: "(nat) option"
  sc_duration :: "(string) option"
  sc_iterations :: "(nat) option"
  sc_schedule :: "(schedule_step list) option"
  sc_rate :: "(nat) option"
  sc_time_unit :: "(string) option"
  sc_exec :: "(string) option"
  sc_start_time :: "(string) option"
  sc_thresholds :: "(criteria_map) option"
  sc_stack_size :: "(nat) option"
  sc_response_sink :: "(bool) option"
  sc_no_pool :: "(bool) option"

record config =
  c_workers :: "(nat) option"
  c_duration :: "(string) option"
  c_schedule :: "(schedule_step list) option"
  c_executor :: "(executor_type) option"
  c_rate :: "(nat) option"
  c_time_unit :: "(string) option"
  c_criteria :: "(criteria_map) option"
  c_min_iteration_duration :: "(string) option"
  c_warmup :: "(string) option"
  c_stop :: "(string) option"
  c_iterations :: "(nat) option"
  c_scenarios :: "((string, scenario_config) hmap) option"
  c_jitter :: "(string) option"
  c_drop_rate :: "(f64) option"
  c_stack_size :: "(nat) option"
  c_heap_size :: "(nat) option"
  c_response_sink :: "(bool) option"
  c_no_endpoint_tracking :: "(bool) option"
  c_abort_on_fail :: "(bool) option"
  c_memory_safe :: "(bool) option"
  c_insecure :: "(bool) option"
  c_max_redirects :: "(nat) option"
  c_user_agent :: "(string) option"
  c_no_pool :: "(bool) option"
  c_env_passthrough :: "(bool) option"

definition default_scenario :: scenario_config where
  "default_scenario = \<lparr>
     sc_executor = None,
     sc_workers = None,
     sc_duration = None,
     sc_iterations = None,
     sc_schedule = None,
     sc_rate = None,
     sc_time_unit = None,
     sc_exec = None,
     sc_start_time = None,
     sc_thresholds = None,
     sc_stack_size = None,
     sc_response_sink = None,
     sc_no_pool = None\<rparr>"

definition default_config :: config where
  "default_config = \<lparr>
     c_workers = None,
     c_duration = None,
     c_schedule = None,
     c_executor = None,
     c_rate = None,
     c_time_unit = None,
     c_criteria = None,
     c_min_iteration_duration = None,
     c_warmup = None,
     c_stop = None,
     c_iterations = None,
     c_scenarios = None,
     c_jitter = None,
     c_drop_rate = None,
     c_stack_size = None,
     c_heap_size = None,
     c_response_sink = None,
     c_no_endpoint_tracking = None,
     c_abort_on_fail = None,
     c_memory_safe = None,
     c_insecure = None,
     c_max_redirects = None,
     c_user_agent = None,
     c_no_pool = None,
     c_env_passthrough = None\<rparr>"

section \<open>Merging\<close>

text \<open>\<open>if field.is_some() { self.field = field }\<close>.\<close>

definition set_or :: "'a option \<Rightarrow> 'a option \<Rightarrow> 'a option" where
  "set_or new old = (if new \<noteq> None then new else old)"

definition merge_from :: "config \<Rightarrow> config \<Rightarrow> config" where
  "merge_from self overrides = \<lparr>
     c_workers = set_or (c_workers overrides) (c_workers self),
     c_duration = set_or (c_duration overrides) (c_duration self),
     c_schedule = set_or (c_schedule overrides) (c_schedule self),
     c_executor = set_or (c_executor overrides) (c_executor self),
     c_rate = set_or (c_rate overrides) (c_rate self),
     c_time_unit = set_or (c_time_unit overrides) (c_time_unit self),
     c_criteria = set_or (c_criteria overrides) (c_criteria self),
     c_min_iteration_duration = set_or (c_min_iteration_duration overrides) (c_min_iteration_duration self),
     c_warmup = set_or (c_warmup overrides) (c_warmup self),
     c_stop = set_or (c_stop overrides) (c_stop self),
     c_iterations = set_or (c_iterations overrides) (c_iterations self),
     c_scenarios = set_or (c_scenarios overrides) (c_scenarios self),
     c_jitter = set_or (c_jitter overrides) (c_jitter self),
     c_drop_rate = set_or (c_drop_rate overrides) (c_drop_rate self),
     c_stack_size = set_or (c_stack_size overrides) (c_stack_size self),
     c_heap_size = set_or (c_heap_size overrides) (c_heap_size self),
     c_response_sink = set_or (c_response_sink overrides) (c_response_sink self),
     c_no_endpoint_tracking = set_or (c_no_endpoint_tracking overrides) (c_no_endpoint_tracking self),
     c_abort_on_fail = set_or (c_abort_on_fail overrides) (c_abort_on_fail self),
     c_memory_safe = set_or (c_memory_safe overrides) (c_memory_safe self),
     c_insecure = set_or (c_insecure overrides) (c_insecure self),
     c_max_redirects = set_or (c_max_redirects overrides) (c_max_redirects self),
     c_user_agent = set_or (c_user_agent overrides) (c_user_agent self),
     c_no_pool = set_or (c_no_pool overrides) (c_no_pool self),
     c_env_passthrough = set_or (c_env_passthrough overrides) (c_env_passthrough self)\<rparr>"

section \<open>Command-line flags\<close>

record cli_run =
  cli_workers :: "nat option"
  cli_duration :: "string option"
  cli_jitter :: "string option"
  cli_drop :: "f64 option"
  cli_no_endpoint_tracking :: "bool"
  cli_memory_safe :: "bool"
  cli_iterations :: "nat option"
  cli_warmup :: "string option"
  cli_response_sink :: "bool"
  cli_abort_on_fail :: "bool"
  cli_insecure :: "bool"
  cli_no_pool :: "bool"
  cli_env_passthrough :: "bool"
  cli_max_redirects :: "nat option"
  cli_user_agent :: "string option"
  cli_thresholds :: "string list"

definition flag :: "bool \<Rightarrow> bool option \<Rightarrow> bool option" where
  "flag b old = (if b then Some True else old)"

text \<open>One \<open>--threshold METRIC:CONDITION\<close>; a malformed one is skipped with a warning.\<close>

definition add_threshold :: "criteria_map \<Rightarrow> string \<Rightarrow> criteria_map" where
  "add_threshold criteria t = (case split_once (CHR '':'') t of
     None \<Rightarrow> criteria
   | Some (metric, condition) \<Rightarrow>
       if metric = [] \<or> condition = [] then criteria
       else hm_entry metric [] (\<lambda>cs. cs @ [condition]) criteria)"

definition apply_thresholds :: "string list \<Rightarrow> criteria_map option \<Rightarrow> criteria_map option" where
  "apply_thresholds ts old = (if ts = [] then old
     else Some (foldl add_threshold (case old of None \<Rightarrow> [] | Some c \<Rightarrow> c) ts))"

definition apply_cli :: "cli_run \<Rightarrow> config \<Rightarrow> config" where
  "apply_cli f c = c\<lparr>
     c_workers := set_or (cli_workers f) (c_workers c),
     c_duration := set_or (cli_duration f) (c_duration c),
     c_jitter := set_or (cli_jitter f) (c_jitter c),
     c_drop_rate := set_or (cli_drop f) (c_drop_rate c),
     c_no_endpoint_tracking := flag (cli_no_endpoint_tracking f) (c_no_endpoint_tracking c),
     c_memory_safe := flag (cli_memory_safe f) (c_memory_safe c),
     c_iterations := set_or (cli_iterations f) (c_iterations c),
     c_warmup := set_or (cli_warmup f) (c_warmup c),
     c_response_sink := flag (cli_response_sink f) (c_response_sink c),
     c_abort_on_fail := flag (cli_abort_on_fail f) (c_abort_on_fail c),
     c_insecure := flag (cli_insecure f) (c_insecure c),
     c_no_pool := flag (cli_no_pool f) (c_no_pool c),
     c_env_passthrough := flag (cli_env_passthrough f) (c_env_passthrough c),
     c_max_redirects := set_or (cli_max_redirects f) (c_max_redirects c),
     c_user_agent := set_or (cli_user_agent f) (c_user_agent c),
     c_criteria := apply_thresholds (cli_thresholds f) (c_criteria c)\<rparr>"

text \<open>The configuration of \<open>fusillade run\<close>: the script's options, the config file, the flags.\<close>

definition final_config :: "config option \<Rightarrow> config option \<Rightarrow> cli_run \<Rightarrow> config" where
  "final_config script file f =
     (let c = (case script of None \<Rightarrow> default_config | Some c \<Rightarrow> c);
          c = (case file of None \<Rightarrow> c | Some fc \<Rightarrow> merge_from c fc)
      in apply_cli f c)"

text \<open>Watch mode: the script's options, defaulting to one worker for five seconds.\<close>

definition watch_config :: "config option \<Rightarrow> cli_run \<Rightarrow> config" where
  "watch_config script f = (let c = (case script of None \<Rightarrow> default_config | Some c \<Rightarrow> c) in
     c\<lparr>c_workers := (case cli_workers f of Some w \<Rightarrow> Some w
          | None \<Rightarrow> if c_workers c = None then Some 1 else c_workers c),
       c_duration := (case cli_duration f of Some d \<Rightarrow> Some d
          | None \<Rightarrow> if c_duration c = None then Some ''5s'' else c_duration c),
       c_jitter := set_or (cli_jitter f) (c_jitter c),
       c_drop_rate := set_or (cli_drop f) (c_drop_rate c),
       c_no_endpoint_tracking := flag (cli_no_endpoint_tracking f) (c_no_endpoint_tracking c)\<rparr>)"

text \<open>The total number of workers, over the scenarios when there are any.\<close>

definition total_workers :: "config \<Rightarrow> nat" where
  "total_workers c = (case c_scenarios c of
     Some scs \<Rightarrow> sum_list (map (\<lambda>(_, s). case sc_workers s of None \<Rightarrow> 1 | Some w \<Rightarrow> w) scs)
   | None \<Rightarrow> (case c_workers c of None \<Rightarrow> 1 | Some w \<Rightarrow> w))"

section \<open>Environment file and log level\<close>

definition trim_matches :: "char \<Rightarrow> string \<Rightarrow> string" where
  "trim_matches c s = rev (dropWhile (\<lambda>d. d = c) (rev (dropWhile (\<lambda>d. d = c) s)))"

text \<open>One line of a \<open>.env\<close> file: a variable already set keeps its value.\<close>

definition load_env_line :: "(string, string) hmap \<Rightarrow> string \<Rightarrow> (string, string) hmap" where
  "load_env_line env l0 = (let l = trim l0 in
     if l = [] \<or> starts_with ''#'' l then env
     else case split_once (CHR ''='') l of None \<Rightarrow> env
       | Some (k, v) \<Rightarrow>
           (let key = trim k; val = trim_matches (CHR 0x27) (trim_matches (CHR 0x22) (trim v)) in
             if hm_get env key = None then hm_insert key val env else env))"

definition load_env :: "(string, string) hmap \<Rightarrow> string \<Rightarrow> (string, string) hmap" where
  "load_env env contents = foldl load_env_line env (lines contents)"

datatype log_level = Debug | Info | Warn | Error

definition parse_log_level :: "string \<Rightarrow> log_level" where
  "parse_log_level s = (let l = to_lower s in
     if l = ''debug'' then Debug
     else if l = ''warn'' \<or> l = ''warning'' then Warn
     else if l = ''error'' then Error else Info)"

section \<open>Exit code\<close>

text \<open>The end of \<open>Commands::Run\<close>: exit code 1 if an iteration threw or a threshold was breached,
  with the reasons printed.\<close>

definition run_exit :: "nat \<Rightarrow> string list \<Rightarrow> nat \<times> string list" where
  "run_exit failed_iterations threshold_failures =
     (if failed_iterations > 0 \<or> threshold_failures \<noteq> [] then
        (1, (if failed_iterations > 0 then [show_nat failed_iterations @ '' iteration(s) failed''] else [])
          @ (if threshold_failures \<noteq> []
             then [show_nat (length threshold_failures) @ '' threshold(s) breached''] else []))
      else (0, []))"

section \<open>Laws\<close>

lemma set_or_simps [simp]: "set_or None x = x" "set_or (Some v) x = Some v" "set_or x None = x"
  by (simp_all add: set_or_def)

lemma set_or_assoc [simp]: "set_or a (set_or b c) = set_or (set_or a b) c"
  by (cases a) (simp_all add: set_or_def)

lemma merge_default_right: "merge_from c default_config = c"
  by (simp add: merge_from_def default_config_def)

lemma merge_default_left: "merge_from default_config c = c"
  by (simp add: merge_from_def default_config_def)

lemma merge_assoc: "merge_from (merge_from a b) c = merge_from a (merge_from b c)"
  by (simp add: merge_from_def)

text \<open>The criteria after the flags: those of the configuration, then the well-formed flags in
  order.\<close>

definition valid_threshold :: "string \<Rightarrow> bool" where
  "valid_threshold t \<longleftrightarrow> (\<exists>m c. split_once (CHR '':'') t = Some (m, c) \<and> m \<noteq> [] \<and> c \<noteq> [])"

lemma add_threshold_get:
  "hm_or [] (add_threshold cr t) m = hm_or [] cr m @
     (case split_once (CHR '':'') t of None \<Rightarrow> []
      | Some (m', c) \<Rightarrow> if m' \<noteq> [] \<and> c \<noteq> [] \<and> m' = m then [c] else [])"
  by (auto simp: add_threshold_def hmap split: option.splits)

definition threshold_for :: "string \<Rightarrow> string \<Rightarrow> string list" where
  "threshold_for m t = (case split_once (CHR '':'') t of None \<Rightarrow> []
     | Some (m', c) \<Rightarrow> if m' \<noteq> [] \<and> c \<noteq> [] \<and> m' = m then [c] else [])"

lemma foldl_thresholds:
  "hm_or [] (foldl add_threshold cr ts) m = hm_or [] cr m @ concat (map (threshold_for m) ts)"
  by (induction ts arbitrary: cr) (simp_all add: add_threshold_get threshold_for_def)

lemma apply_thresholds_get:
  "hm_or [] (case apply_thresholds ts old of None \<Rightarrow> [] | Some c \<Rightarrow> c) m =
     hm_or [] (case old of None \<Rightarrow> [] | Some c \<Rightarrow> c) m @ concat (map (threshold_for m) ts)"
  by (simp add: apply_thresholds_def foldl_thresholds)

section \<open>Properties\<close>

text \<open>Merging is the right-biased overlay the priority chain needs: unset fields never change
  anything on either side, merging is associative (so script, file and flags can be combined in any
  grouping), and the value of every field is the override's when set and the base's otherwise.\<close>

theorem merge_overlay:
  "merge_from c default_config = c \<and> merge_from default_config c = c
   \<and> merge_from (merge_from a b) c = merge_from a (merge_from b c)
   \<and> merge_from (merge_from c b) b = merge_from c b"
  by (simp add: merge_default_left merge_default_right merge_assoc)
    (simp add: merge_from_def set_or_def)

text \<open>The priority chain of \<open>fusillade run\<close>: a flag that is given wins, a boolean flag can
  only switch on, and without a flag the config file's value wins over the script's; the
  executor, rate, schedule and scenarios cannot be set by flags.\<close>

theorem config_priority:
  assumes "script = Some s" "file = Some fc"
  shows "c_workers (final_config script file f) = set_or (cli_workers f) (set_or (c_workers fc) (c_workers s))
    \<and> c_duration (final_config script file f) = set_or (cli_duration f) (set_or (c_duration fc) (c_duration s))
    \<and> c_no_pool (final_config script file f) =
        (if cli_no_pool f then Some True else set_or (c_no_pool fc) (c_no_pool s))
    \<and> c_abort_on_fail (final_config script file f) =
        (if cli_abort_on_fail f then Some True else set_or (c_abort_on_fail fc) (c_abort_on_fail s))
    \<and> c_schedule (final_config script file f) = set_or (c_schedule fc) (c_schedule s)
    \<and> c_executor (final_config script file f) = set_or (c_executor fc) (c_executor s)
    \<and> c_scenarios (final_config script file f) = set_or (c_scenarios fc) (c_scenarios s)
    \<and> (\<forall>m. hm_or [] (case c_criteria (final_config script file f) of None \<Rightarrow> [] | Some c \<Rightarrow> c) m =
          hm_or [] (case set_or (c_criteria fc) (c_criteria s) of None \<Rightarrow> [] | Some c \<Rightarrow> c) m @
          concat (map (threshold_for m) (cli_thresholds f)))"
  using assms
  by (simp only: final_config_def Let_def option.case apply_cli_def merge_from_def flag_def
      apply_thresholds_get config.simps set_or_assoc simp_thms)

definition no_flags :: cli_run where
  "no_flags = \<lparr>cli_workers = None, cli_duration = None, cli_jitter = None, cli_drop = None,
     cli_no_endpoint_tracking = False, cli_memory_safe = False, cli_iterations = None,
     cli_warmup = None, cli_response_sink = False, cli_abort_on_fail = False, cli_insecure = False,
     cli_no_pool = False, cli_env_passthrough = False, cli_max_redirects = None,
     cli_user_agent = None, cli_thresholds = []\<rparr>"

theorem config_priority_witness:
  "c_workers (final_config (Some (default_config\<lparr>c_workers := Some 10\<rparr>))
     (Some (default_config\<lparr>c_workers := Some 50\<rparr>)) no_flags) = Some 50"
  using config_priority [OF refl refl, of "default_config\<lparr>c_workers := Some 10\<rparr>"
      "default_config\<lparr>c_workers := Some 50\<rparr>" no_flags]
  by (simp add: no_flags_def)

end
