(* ===== verification/Schedule.thy ===== *)
theory Schedule
  imports Config
begin

text \<open>
  The load profile of a run (\<open>src/engine/mod.rs\<close>): \<open>calculate_target\<close> and
  \<open>calculate_rate\<close> interpolate the schedule in \<open>f64\<close> arithmetic; the schedules are built
  from the configuration; and the pools of the engine (shards, metric channel, Tokio and May
  threads, HTTP windows) are sized from the number of workers. \<open>usize::clamp\<close> panics when its
  bounds cross, so a sizing is an \<open>outcome\<close>.
\<close>

section \<open>Interpolation\<close>

text \<open>The value inside a stage that starts at \<open>active\<close>, lasts \<open>dur\<close>, and goes from
  \<open>prev\<close> to \<open>target\<close>.\<close>

definition ramp_value :: "nat \<Rightarrow> nat \<Rightarrow> duration \<Rightarrow> duration \<Rightarrow> duration \<Rightarrow> nat" where
  "ramp_value prev target active dur elapsed =
     (let progress = f_div (f_sub (as_secs_f64 elapsed) (as_secs_f64 active)) (as_secs_f64 dur);
          diff = f_sub (f_of_nat target) (f_of_nat prev)
      in as_u64 (f_add (f_of_nat prev) (f_mul diff progress)))"

fun target_loop :: "duration \<Rightarrow> nat \<Rightarrow> (duration \<times> nat) list \<Rightarrow> duration \<Rightarrow> nat" where
  "target_loop active prev [] elapsed = 0"
| "target_loop active prev ((dur, target) # rest) elapsed =
     (if elapsed < active + dur then ramp_value prev target active dur elapsed
      else target_loop (active + dur) target rest elapsed)"

definition calculate_target :: "(duration \<times> nat) list \<Rightarrow> duration \<Rightarrow> nat" where
  "calculate_target schedule elapsed = target_loop 0 0 schedule elapsed"

fun rate_loop :: "duration \<Rightarrow> nat \<Rightarrow> (duration \<times> nat) list \<Rightarrow> duration \<Rightarrow> nat" where
  "rate_loop active prev [] elapsed = prev"
| "rate_loop active prev ((dur, rate) # rest) elapsed =
     (if elapsed < active + dur then ramp_value prev rate active dur elapsed
      else rate_loop (active + dur) rate rest elapsed)"

definition calculate_rate :: "(duration \<times> nat) list \<Rightarrow> duration \<Rightarrow> nat" where
  "calculate_rate schedule elapsed = rate_loop 0 0 schedule elapsed"

text \<open>The sleep between two arrivals. \<open>current_rate as u32\<close> truncates; division of a
  \<open>Duration\<close> by zero panics.\<close>

definition arrival_interval :: "duration \<Rightarrow> nat \<Rightarrow> duration outcome" where
  "arrival_interval time_unit current_rate =
     (if current_rate > 0 then
        (let r = current_rate mod 2 ^ 32 in if r = 0 then Panics else Returns (time_unit div r))
      else Returns secs)"

section \<open>Schedules from the configuration\<close>

fun parse_steps :: "schedule_step list \<Rightarrow> string + (duration \<times> nat) list" where
  "parse_steps [] = Inr []"
| "parse_steps (s # ss) = (case parse_duration (step_duration s) of
     Inl _ \<Rightarrow> Inl (''Invalid duration in schedule: '' @ step_duration s)
   | Inr d \<Rightarrow> (case parse_steps ss of Inl e \<Rightarrow> Inl e | Inr r \<Rightarrow> Inr ((d, step_target s) # r)))"

text \<open>Single-scenario mode: the stages, or a constant number of workers.\<close>

definition legacy_schedule :: "config \<Rightarrow> string + (duration \<times> nat) list" where
  "legacy_schedule c = (case c_schedule c of Some ss \<Rightarrow> parse_steps ss
   | None \<Rightarrow> (let ds = (case c_duration c of None \<Rightarrow> ''10s'' | Some d \<Rightarrow> d);
                   w = (case c_workers c of None \<Rightarrow> 1 | Some w \<Rightarrow> w)
               in case parse_duration ds of Inl _ \<Rightarrow> Inl (''Invalid duration: '' @ ds)
                  | Inr d \<Rightarrow> Inr [(0, w), (d, w)]))"

definition schedule_length :: "(duration \<times> nat) list \<Rightarrow> duration" where
  "schedule_length s = sum_list (map fst s)"

text \<open>Multi-scenario mode: an unreadable stage duration is ten seconds.\<close>

definition or_ten_secs :: "string \<Rightarrow> duration" where
  "or_ten_secs d = (case parse_duration d of Inl _ \<Rightarrow> 10 * secs | Inr d \<Rightarrow> d)"

definition scenario_duration :: "scenario_config \<Rightarrow> duration" where
  "scenario_duration sc = or_ten_secs (case sc_duration sc of None \<Rightarrow> ''10s'' | Some d \<Rightarrow> d)"

definition scenario_schedule :: "scenario_config \<Rightarrow> (duration \<times> nat) list" where
  "scenario_schedule sc = (case sc_schedule sc of
     Some ss \<Rightarrow> map (\<lambda>s. (or_ten_secs (step_duration s), step_target s)) ss
   | None \<Rightarrow> [(scenario_duration sc, case sc_workers sc of None \<Rightarrow> 1 | Some w \<Rightarrow> w)])"

definition scenario_rates :: "scenario_config \<Rightarrow> (duration \<times> nat) list" where
  "scenario_rates sc = (case sc_schedule sc of
     Some ss \<Rightarrow> map (\<lambda>s. (or_ten_secs (step_duration s), step_target s)) ss
   | None \<Rightarrow> [(scenario_duration sc, case sc_rate sc of None \<Rightarrow> 1 | Some r \<Rightarrow> r)])"

definition scenario_time_unit :: "scenario_config \<Rightarrow> duration" where
  "scenario_time_unit sc = (case engine_parse_duration_str
       (case sc_time_unit sc of None \<Rightarrow> ''1s'' | Some u \<Rightarrow> u) of
     None \<Rightarrow> secs | Some d \<Rightarrow> d)"

definition start_delay :: "scenario_config \<Rightarrow> duration" where
  "start_delay sc = (case sc_start_time sc of None \<Rightarrow> 0
     | Some st \<Rightarrow> (case engine_parse_duration_str st of None \<Rightarrow> 0 | Some d \<Rightarrow> d))"

text \<open>\<open>validate_scenario_name\<close>.\<close>

datatype name_error = EmptyName | NameTooLong | InvalidChar char

definition scenario_char :: "char \<Rightarrow> bool" where
  "scenario_char c = (is_alnum c \<or> c = CHR ''_'' \<or> c = CHR ''-'' \<or> c = CHR ''.'')"

definition validate_scenario_name :: "string \<Rightarrow> name_error + unit" where
  "validate_scenario_name name = (if name = [] then Inl EmptyName
     else if utf8_len name > 64 then Inl NameTooLong
     else case find (\<lambda>c. \<not> scenario_char c) name of
       Some c \<Rightarrow> Inl (InvalidChar c) | None \<Rightarrow> Inr ())"

section \<open>Sizing\<close>

definition clamp :: "nat \<Rightarrow> nat \<Rightarrow> nat \<Rightarrow> nat outcome" where
  "clamp n lo hi = (if lo \<le> hi then Returns (if n < lo then lo else if n > hi then hi else n) else Panics)"

definition num_shards :: "nat \<Rightarrow> nat outcome" where
  "num_shards workers = clamp (workers div 100) 16 256"

definition channel_size :: "nat \<Rightarrow> nat outcome" where
  "channel_size workers = (if workers > 30000 then clamp (workers * 5) 50000 250000
     else clamp (workers * 10) 20000 100000)"

definition num_aggregators :: "nat \<Rightarrow> nat" where
  "num_aggregators cpus = max cpus 2 div 2"

definition tokio_threads :: "nat \<Rightarrow> nat \<Rightarrow> nat outcome" where
  "tokio_threads workers parallelism =
     (if workers > 5000 then clamp (workers div 75) (parallelism * 2) 128
      else if workers > 1000 then clamp (workers div 50) parallelism 64
      else Returns (max parallelism 8))"

definition pool_size :: "nat \<Rightarrow> nat outcome" where
  "pool_size workers = clamp (workers div 5) 500 2000"

definition may_workers :: "nat \<Rightarrow> nat \<Rightarrow> nat option \<Rightarrow> nat outcome" where
  "may_workers workers cores override =
     (let may_cap = max (min (cores * 8) 128) cores in
       case override of Some n \<Rightarrow> Returns n | None \<Rightarrow> clamp workers cores may_cap)"

text \<open>The HTTP/2 connection and stream windows (\<open>HttpClient::with_pool_and_workers\<close>).\<close>

definition http2_windows :: "nat \<Rightarrow> nat \<times> nat" where
  "http2_windows workers = (if workers > 5000 then (128 * 1024, 64 * 1024)
     else if workers > 2000 then (256 * 1024, 128 * 1024)
     else (512 * 1024, 256 * 1024))"

text \<open>The shard the \<open>n\<close>-th metric of an aggregator thread goes to: its counter starts at the
  thread's number and advances by the number of threads, wrapping.\<close>

definition shard_of :: "nat \<Rightarrow> nat \<Rightarrow> nat \<Rightarrow> nat \<Rightarrow> nat" where
  "shard_of agg_id aggregators shards n = ((agg_id + n * aggregators) mod u64_size) mod shards"

section \<open>Laws of the interpolation\<close>

text \<open>The stage of a schedule that is active at a time: its start, the value before it, its
  length and its target.\<close>

fun active_stage :: "duration \<Rightarrow> nat \<Rightarrow> (duration \<times> nat) list \<Rightarrow> duration \<Rightarrow>
    (duration \<times> nat \<times> duration \<times> nat) option" where
  "active_stage active prev [] elapsed = None"
| "active_stage active prev ((dur, target) # rest) elapsed =
     (if elapsed < active + dur then Some (active, prev, dur, target)
      else active_stage (active + dur) target rest elapsed)"

lemma target_loop_stage:
  "target_loop active prev s e = (case active_stage active prev s e of None \<Rightarrow> 0
     | Some (a, p, d, t) \<Rightarrow> ramp_value p t a d e)"
  by (induction s arbitrary: active prev) auto

fun last_value :: "nat \<Rightarrow> (duration \<times> nat) list \<Rightarrow> nat" where
  "last_value prev [] = prev"
| "last_value prev ((_, t) # rest) = last_value t rest"

lemma rate_loop_stage:
  "rate_loop active prev s e = (case active_stage active prev s e of None \<Rightarrow> last_value prev s
     | Some (a, p, d, t) \<Rightarrow> ramp_value p t a d e)"
  by (induction s arbitrary: active prev) (auto split: option.split)

lemma active_stage_facts:
  "active_stage active prev s e = Some (a, p, d, t) \<Longrightarrow> active \<le> e \<Longrightarrow>
     a \<le> e \<and> e < a + d \<and> a + d \<le> active + schedule_length s \<and> (p = prev \<or> p \<in> snd ` set s) \<and> t \<in> snd ` set s"
  by (induction s arbitrary: active prev) (force simp: schedule_length_def split: if_splits)+

lemma active_stage_None: "active_stage active prev s e = None \<longleftrightarrow> active + schedule_length s \<le> e \<or> s = []"
  by (induction s arbitrary: active prev) (auto simp: schedule_length_def split: if_splits)

text \<open>Seconds as a float: monotone, and within \<open>2 ^ -32\<close> of the exact value below \<open>2 ^ 20\<close>
  seconds (twelve days).\<close>

definition max_schedule :: duration where
  "max_schedule = 1048576 * secs"

definition secs_val :: "duration \<Rightarrow> rat" where
  "secs_val d = fl (of_nat (d div secs) + fl (of_nat (d mod secs) / of_nat secs))"

lemma frac_bounds: "0 \<le> fl (of_nat (d mod secs) / of_nat secs) \<and> fl (of_nat (d mod secs) / of_nat secs) \<le> 1"
  by (rule f64r.rnd_quotient) (simp_all add: secs_def)

lemma as_secs_val: "d < max_schedule \<Longrightarrow> as_secs_f64 d = Fin (secs_val d)"
proof -
  assume d: "d < max_schedule"
  then have n: "d div 1000000000 \<le> 1048575" by (simp add: max_schedule_def secs_def)
  have m: "d mod 1000000000 \<le> 1000000000" by (rule less_imp_le) simp
  let ?f = "fl (of_nat (d mod 1000000000) / 1000000000)"
  have f: "0 \<le> ?f" "?f \<le> 1" using frac_bounds [of d] by (simp_all add: secs_def)
  have "to_f64 (of_nat (d mod 1000000000) / 1000000000) = Fin ?f"
    by (rule fl_below_overflow [of _ 1]) (use m in simp_all)
  moreover have "(of_nat (d div 1000000000) :: rat) \<le> of_nat 1048575" using n by (simp only: of_nat_le_iff)
  then have "to_f64 (of_nat (d div 1000000000) + ?f) = Fin (fl (of_nat (d div 1000000000) + ?f))"
    using f by (intro fl_below_overflow [of _ 1048576]) (simp_all add: abs_of_nonneg)
  ultimately show ?thesis
    using n m by (simp add: as_secs_f64_def f_of_nat_small secs_val_def secs_def)
qed

lemma secs_val_mono: "a \<le> b \<Longrightarrow> secs_val a \<le> secs_val b"
proof -
  assume le: "a \<le> b"
  then have q: "a div secs \<le> b div secs" by (rule div_le_mono)
  show ?thesis
  proof (cases "a div secs = b div secs")
    case True
    with le have "a mod secs \<le> b mod secs"
      by (metis add_le_cancel_left div_mult_mod_eq)
    then have "fl (of_nat (a mod secs) / of_nat secs) \<le> fl (of_nat (b mod secs) / of_nat secs)"
      by (intro fl_mono divide_right_mono) simp_all
    then show ?thesis by (simp add: secs_val_def True fl_mono)
  next
    case False
    with q have "a div secs + 1 \<le> b div secs" by simp
    then have "(of_nat (a div secs + 1) :: rat) \<le> of_nat (b div secs)" by (simp only: of_nat_le_iff)
    then show ?thesis
      using frac_bounds [of a] frac_bounds [of b] unfolding secs_val_def
      by (intro fl_mono) simp
  qed
qed

lemma secs_val_error:
  assumes "d < max_schedule"
  shows "\<bar>secs_val d - of_nat d / of_nat secs\<bar> \<le> 1 / 2 ^ 32"
proof -
  let ?s = "of_nat (d div secs) :: rat" and ?r = "of_nat (d mod secs) / of_nat secs :: rat"
  have dm: "of_nat d / of_nat secs = ?s + ?r"
  proof -
    have "(of_nat d :: rat) = of_nat (d div secs) * of_nat secs + of_nat (d mod secs)"
      by (metis div_mult_mod_eq of_nat_add of_nat_mult)
    moreover have "(of_nat secs :: rat) \<noteq> 0" by (simp add: secs_def)
    ultimately show ?thesis by (simp add: add_divide_distrib)
  qed
  have r: "0 \<le> ?r" "?r < 1" by (simp_all add: secs_def)
  have e1: "\<bar>fl ?r - ?r\<bar> \<le> 2 powi (0 - 53)" by (rule fl_error) (use r in simp_all)
  have n: "d div secs \<le> 1048575" using assms by (simp add: max_schedule_def secs_def)
  have "?s \<le> of_nat 1048575" using n by (simp only: of_nat_le_iff)
  with frac_bounds [of d] have "\<bar>?s + fl ?r\<bar> < 2 powi (20 + 1)" by (simp add: abs_of_nonneg)
  then have e2: "\<bar>fl (?s + fl ?r) - (?s + fl ?r)\<bar> \<le> 2 powi (20 - 53)" by (rule fl_error) simp
  have "\<bar>secs_val d - (?s + ?r)\<bar> \<le> 2 powi (20 - 53) + 2 powi (0 - 53)"
    using e1 e2 unfolding secs_val_def by linarith
  also have "\<dots> \<le> 1 / 2 ^ 32" by simp
  finally show ?thesis by (simp add: dm)
qed

text \<open>A time inside a stage is a whole nanosecond before its end, which the errors do not bridge.\<close>

lemma secs_val_stage:
  assumes "a \<le> e" "e < a + d" "a + d < max_schedule"
  shows "0 \<le> secs_val e - secs_val a \<and> secs_val e - secs_val a \<le> secs_val d"
proof -
  have lt: "e < max_schedule" "a < max_schedule" "d < max_schedule" using assms by auto
  have "(of_nat (e + 1) :: rat) \<le> of_nat (a + d)" using assms(2) by (simp only: of_nat_le_iff)
  then have "of_nat e / of_nat secs + 1 / of_nat secs \<le> (of_nat a + of_nat d) / (of_nat secs :: rat)"
    by (simp add: secs_def flip: add_divide_distrib)
  then have "of_nat e / of_nat secs - of_nat a / of_nat secs + 1 / of_nat secs \<le> of_nat d / (of_nat secs :: rat)"
    by (simp add: add_divide_distrib)
  moreover have "(3::rat) / 2 ^ 32 \<le> 1 / of_nat secs" by (simp add: secs_def)
  ultimately have "secs_val e - secs_val a \<le> secs_val d"
    using secs_val_error [OF lt(1)] secs_val_error [OF lt(2)] secs_val_error [OF lt(3)]
    unfolding abs_le_iff by linarith
  then show ?thesis using secs_val_mono [OF assms(1)] by simp
qed

lemma secs_val_pos: "0 < d \<Longrightarrow> d < max_schedule \<Longrightarrow> 0 < secs_val d \<and> secs_val d \<le> of_nat 1048577"
proof -
  assume d: "0 < d" "d < max_schedule"
  have "(of_nat 1 :: rat) \<le> of_nat d" "(of_nat d :: rat) \<le> of_nat (1048576 * secs)"
    using d by (simp_all only: of_nat_le_iff max_schedule_def)
  then have "1 / of_nat secs \<le> (of_nat d / of_nat secs :: rat)" "(of_nat d / of_nat secs :: rat) \<le> 1048576"
    by (simp_all add: divide_right_mono secs_def)
  moreover have "(3::rat) / 2 ^ 32 \<le> 1 / of_nat secs" by (simp add: secs_def)
  moreover have "(3::rat) / 2 ^ 32 \<le> 1" "(0::rat) < 1 / 2 ^ 32" by simp_all
  ultimately show ?thesis
    using secs_val_error [OF d(2)] unfolding abs_le_iff of_nat_numeral by linarith
qed

lemma ramp_value_bounds:
  assumes "a \<le> e" "e < a + d" "a + d < max_schedule" "p \<le> 2 ^ 53" "t \<le> 2 ^ 53"
  shows "min p t \<le> ramp_value p t a d e \<and> ramp_value p t a d e \<le> max p t"
proof -
  have lt: "e < max_schedule" "a < max_schedule" "d < max_schedule" "0 < d" using assms by auto
  let ?x = "secs_val e - secs_val a" and ?z = "int t - int p"
  have x: "0 \<le> ?x" "?x \<le> secs_val d" using secs_val_stage [OF assms(1-3)] by auto
  have sd: "0 < secs_val d" "secs_val d \<le> of_nat 1048577" using secs_val_pos [OF lt(4,3)] by auto
  define q where "q = fl (fl ?x / secs_val d)"
  have q: "0 \<le> q" "q \<le> 1"
    using f64r.rnd_progress [of ?x "of_nat (d div secs) + fl (of_nat (d mod secs) / of_nat secs)"] x sd(1)
    by (simp_all add: q_def secs_val_def)
  have "\<bar>?x\<bar> \<le> of_nat 1048577" using x sd(2) by simp
  then have num: "to_f64 ?x = Fin (fl ?x)" by (rule fl_below_overflow) simp
  have "fl ?x \<le> secs_val d"
    using fl_mono [OF x(2)] by (simp add: secs_val_def fl_idem)
  then have "\<bar>fl ?x / secs_val d\<bar> \<le> of_nat 1"
    using fl_nonneg [OF x(1)] sd(1) by simp
  then have prog: "to_f64 (fl ?x / secs_val d) = Fin q"
    unfolding q_def by (rule fl_below_overflow) simp
  have zb: "\<bar>of_int ?z :: rat\<bar> \<le> of_nat (2 ^ 53)"
  proof -
    have "\<bar>?z\<bar> \<le> int (2 ^ 53)" using assms(4,5) by auto
    then have "of_int \<bar>?z\<bar> \<le> (of_int (int (2 ^ 53)) :: rat)" by (simp only: of_int_le_iff)
    then show ?thesis by simp
  qed
  then have diff: "to_f64 (of_nat t - of_nat p) = Fin (of_int ?z)"
    using fl_below_overflow [OF zb] f64r.rnd_int [of ?z] assms(4,5) by simp
  have "\<bar>of_int ?z * q\<bar> \<le> \<bar>of_int ?z\<bar> * 1"
    unfolding abs_mult using q by (intro mult_left_mono) auto
  with zb have prod: "to_f64 (of_int ?z * q) = Fin (fl (of_int ?z * q))"
    by (intro fl_below_overflow [of _ "2 ^ 53"]) auto
  define y where "y = of_nat p + fl (of_int ?z * q)"
  have y: "of_nat (min p t) \<le> y" "y \<le> of_nat (max p t)" "of_nat (min p t) \<le> fl y" "fl y \<le> of_nat (max p t)"
    using f64r.rnd_interpolate [OF assms(4,5) q] by (auto simp: y_def)
  have sum: "to_f64 y = Fin (fl y)"
  proof (rule fl_below_overflow [of _ "max p t"])
    have "0 \<le> y" using y(1) by (rule order_trans [rotated]) simp
    with y(2) show "\<bar>y\<bar> \<le> of_nat (max p t)" by simp
  qed (use assms in simp)
  have "ramp_value p t a d e = as_u64 (Fin (fl y))"
    using assms(4,5) lt sd(1)
    by (simp add: ramp_value_def Let_def as_secs_val f_sub_def f_of_nat_small num prog
        diff [simplified] prod [simplified] sum y_def [symmetric, simplified])
  moreover have "int (min p t) \<le> \<lfloor>fl y\<rfloor>" using y(3) by (simp add: le_floor_iff)
  moreover have "\<lfloor>fl y\<rfloor> \<le> int (max p t)"
    using floor_mono [OF y(4)] by (simp only: floor_of_nat)
  ultimately show ?thesis using assms(4,5) by (auto simp: min_def max_def split: if_splits)
qed

section \<open>Properties\<close>

text \<open>C36. Interpolation never leaves its stage, in spite of the rounding of every \<open>f64\<close> operation:
  at any time of a schedule shorter than twelve days with targets up to \<open>2 ^ 53\<close>, the number of
  workers (and the arrival rate) lies between the value before the active stage and the stage's
  target; after the end the number of workers is 0 and the rate is the last one.\<close>

theorem target_within_stage:
  assumes "schedule_length s < max_schedule" "\<forall>(d, t) \<in> set s. t \<le> 2 ^ 53"
  shows "case active_stage 0 0 s e of
      Some (a, p, d, t) \<Rightarrow> min p t \<le> calculate_target s e \<and> calculate_target s e \<le> max p t
        \<and> min p t \<le> calculate_rate s e \<and> calculate_rate s e \<le> max p t
    | None \<Rightarrow> calculate_target s e = 0 \<and> calculate_rate s e = last_value 0 s"
proof (cases "active_stage 0 0 s e")
  case None
  then show ?thesis
    by (simp add: calculate_target_def calculate_rate_def target_loop_stage rate_loop_stage)
next
  case (Some q)
  obtain a p d t where q: "q = (a, p, d, t)" by (cases q)
  have f: "a \<le> e" "e < a + d" "a + d \<le> schedule_length s" "p = 0 \<or> p \<in> snd ` set s" "t \<in> snd ` set s"
    using active_stage_facts [OF Some [unfolded q]] by auto
  have "min p t \<le> ramp_value p t a d e \<and> ramp_value p t a d e \<le> max p t"
    by (rule ramp_value_bounds) (use f assms in auto)
  with Some q show ?thesis
    by (simp add: calculate_target_def calculate_rate_def target_loop_stage rate_loop_stage)
qed

theorem target_within_stage_witness:
  "calculate_target [(10 * secs, 10), (20 * secs, 10), (10 * secs, 0)] (15 * secs) = 10"
  using target_within_stage [of "[(10 * secs, 10), (20 * secs, 10), (10 * secs, 0)]" "15 * secs"]
  by (simp add: schedule_length_def max_schedule_def secs_def)

text \<open>A single-scenario run without stages keeps its number of workers constant from the
  start to the end of its duration, and asks for none afterwards.\<close>

theorem constant_profile:
  assumes "c_schedule c = None" "c_duration c = Some ds" "parse_duration ds = Inr d"
    and "c_workers c = Some w" "w \<le> 2 ^ 53" "d < max_schedule"
  shows "\<exists>s. legacy_schedule c = Inr s \<and> schedule_length s = d
    \<and> (\<forall>e. calculate_target s e = (if e < d then w else 0))"
proof (intro exI conjI allI)
  show "legacy_schedule c = Inr [(0, w), (d, w)]"
    using assms by (simp add: legacy_schedule_def)
  show "schedule_length [(0, w), (d, w)] = d" by (simp add: schedule_length_def)
  fix e
  show "calculate_target [(0, w), (d, w)] e = (if e < d then w else 0)"
    using ramp_value_bounds [of 0 e d w w] assms(5,6) by (auto simp: calculate_target_def)
qed

theorem constant_profile_witness:
  "\<exists>s. legacy_schedule (default_config\<lparr>c_duration := Some (show_nat 30 @ ''s''), c_workers := Some 4\<rparr>) = Inr s
    \<and> schedule_length s = 30 * secs \<and> (\<forall>e. calculate_target s e = (if e < 30 * secs then 4 else 0))"
proof (rule constant_profile)
  show "parse_duration (show_nat 30 @ ''s'') = Inr (30 * secs)" by (simp add: text_simps)
qed (simp_all add: default_config_def max_schedule_def secs_def)

text \<open>The sizes the engine computes from the number of workers are within their bounds, and
  the only one that can panic is the number of Tokio threads: \<open>clamp\<close> is called with crossed
  bounds exactly on a machine with more than 64 hardware threads and more than 1000 workers.\<close>

theorem engine_sizes:
  "(\<exists>n. num_shards w = Returns n \<and> 16 \<le> n \<and> n \<le> 256)
   \<and> (\<exists>n. channel_size w = Returns n \<and> 20000 \<le> n \<and> n \<le> 250000)
   \<and> (\<exists>n. pool_size w = Returns n \<and> 500 \<le> n \<and> n \<le> 2000)
   \<and> (\<exists>n. may_workers w cores None = Returns n \<and> cores \<le> n \<and> n \<le> max cores 128)
   \<and> (tokio_threads w p = Panics \<longleftrightarrow> 1000 < w \<and> 64 < p)
   \<and> (p \<le> 64 \<longrightarrow> (\<exists>n. tokio_threads w p = Returns n \<and> p \<le> n \<and> n \<le> 128))"
  by (auto simp: num_shards_def channel_size_def pool_size_def may_workers_def tokio_threads_def
      clamp_def Let_def)

theorem engine_sizes_witness: "\<exists>n. tokio_threads 8000 16 = Returns n \<and> 16 \<le> n \<and> n \<le> 128"
  using engine_sizes [of 8000 16 16] by simp

text \<open>\<open>validate_scenario_name\<close> accepts exactly the names of 1 to 64 bytes made of
  alphanumerics, underscore, hyphen and dot.\<close>

theorem scenario_name_ok:
  "validate_scenario_name name = Inr () \<longleftrightarrow>
     name \<noteq> [] \<and> utf8_len name \<le> 64 \<and> list_all scenario_char name"
  by (auto simp: validate_scenario_name_def list_all_iff find_None_iff find_Some_iff split: option.splits)

end
