(* ===== verification/Metrics.thy ===== *)
theory Metrics
  imports FloatText "HOL-Library.List_Lexorder" "HOL-Library.Char_ord"
begin

text \<open>
  The data of \<open>src/stats/mod.rs\<close>: metrics, per-request statistics, the aggregator, and the
  operations of the \<open>hdrhistogram\<close> crate the code calls. That crate is not part of the
  repository: its operations are the record \<open>hist_ops\<close>, an argument of every definition that
  uses one, and what the code relies on is the predicate \<open>hist_laws\<close>. Histogram equality is
  the crate's \<open>PartialEq\<close>: the same counts, minimum and maximum.
\<close>

type_synonym tag_map = "(string, string) hmap"

record request_timings =
  t_blocked :: duration
  t_connecting :: duration
  t_tls_handshaking :: duration
  t_sending :: duration
  t_waiting :: duration
  t_receiving :: duration
  t_duration :: duration
  t_response_size :: nat
  t_request_size :: nat
  t_pool_reused :: bool

definition default_timings :: request_timings where
  "default_timings = \<lparr>t_blocked = 0, t_connecting = 0, t_tls_handshaking = 0, t_sending = 0,
     t_waiting = 0, t_receiving = 0, t_duration = 0, t_response_size = 0, t_request_size = 0,
     t_pool_reused = False\<rparr>"

datatype metric =
    is_Request: Request (request_name: string) (request_time: request_timings) (request_status: nat)
      (request_error: "string option") (request_tags: tag_map)
  | Check string bool "string option"
  | Log string
  | Histogram string f64 tag_map
  | Rate string bool tag_map
  | Counter string f64 tag_map
  | Gauge string f64 tag_map

section \<open>Histograms\<close>

text \<open>\<open>Histogram::<u64>::new_with_bounds(1, 60 * 60 * 1000 * 1000, 2)\<close>, \<open>record\<close> and
  \<open>add\<close> (both leave the histogram as it was on the errors the code discards), \<open>len\<close>,
  \<open>min\<close>, \<open>max\<close> and \<open>value_at_quantile\<close>.\<close>

record 'h hist_ops =
  h_new :: 'h
  h_record :: "'h \<Rightarrow> nat \<Rightarrow> 'h"
  h_add :: "'h \<Rightarrow> 'h \<Rightarrow> 'h"
  h_len :: "'h \<Rightarrow> nat"
  h_min :: "'h \<Rightarrow> nat"
  h_max :: "'h \<Rightarrow> nat"
  h_quantile :: "'h \<Rightarrow> rat \<Rightarrow> nat"

definition hist_laws :: "'h hist_ops \<Rightarrow> bool" where
  "hist_laws H \<longleftrightarrow> (\<forall>a. h_add H a (h_new H) = a)
     \<and> (\<forall>a b v. h_add H (h_record H a v) b = h_record H (h_add H a b) v)
     \<and> (\<forall>a b v. h_add H a (h_record H b v) = h_record H (h_add H a b) v)"

text \<open>The sorted list of the recorded values: an instance of the laws.\<close>

definition list_hist :: "nat list hist_ops" where
  "list_hist = \<lparr>h_new = [], h_record = (\<lambda>h v. insort v h), h_add = (\<lambda>a b. foldr insort b a),
     h_len = length, h_min = (\<lambda>h. if h = [] then 0 else hd h),
     h_max = (\<lambda>h. if h = [] then 0 else last h),
     h_quantile = (\<lambda>h q. if h = [] then 0
       else h ! (max 1 (nat \<lceil>q * of_nat (length h)\<rceil>) - 1))\<rparr>"

section \<open>Per-request statistics and the aggregator\<close>

record 'h request_stats =
  r_total_requests :: nat
  r_total_duration :: duration
  r_min_duration :: "duration option"
  r_max_duration :: duration
  r_histogram :: 'h
  r_error_count :: nat
  r_total_blocked :: duration
  r_total_connecting :: duration
  r_total_tls_handshaking :: duration
  r_total_sending :: duration
  r_total_waiting :: duration
  r_total_receiving :: duration
  r_total_response_size :: nat
  r_total_request_size :: nat

definition request_stats_new :: "'h hist_ops \<Rightarrow> 'h request_stats" where
  "request_stats_new H = \<lparr>r_total_requests = 0, r_total_duration = 0, r_min_duration = None,
     r_max_duration = 0, r_histogram = h_new H, r_error_count = 0, r_total_blocked = 0,
     r_total_connecting = 0, r_total_tls_handshaking = 0, r_total_sending = 0, r_total_waiting = 0,
     r_total_receiving = 0, r_total_response_size = 0, r_total_request_size = 0\<rparr>"

record 'h stats_aggregator =
  total_requests :: nat
  total_duration :: duration
  min_duration :: "duration option"
  max_duration :: duration
  status_codes :: "(nat, nat) hmap"
  errors :: "(string, nat) hmap"
  checks :: "(string, nat \<times> nat) hmap"
  histogram :: 'h
  requests :: "(string, 'h request_stats) hmap"
  total_data_sent :: nat
  total_data_received :: nat
  logs :: "string list"
  histograms :: "(string, 'h) hmap"
  histogram_sums :: "(string, f64) hmap"
  rates :: "(string, nat \<times> nat) hmap"
  counters :: "(string, f64) hmap"
  gauges :: "(string, f64) hmap"
  no_endpoint_tracking :: bool
  pool_hits :: nat
  pool_misses :: nat
  failed_iterations :: nat

definition aggregator_new :: "'h hist_ops \<Rightarrow> 'h stats_aggregator" where
  "aggregator_new H = \<lparr>total_requests = 0, total_duration = 0, min_duration = None, max_duration = 0,
     status_codes = [], errors = [], checks = [], histogram = h_new H, requests = [],
     total_data_sent = 0, total_data_received = 0, logs = [], histograms = [], histogram_sums = [],
     rates = [], counters = [], gauges = [], no_endpoint_tracking = False, pool_hits = 0,
     pool_misses = 0, failed_iterations = 0\<rparr>"

section \<open>Adding a metric\<close>

definition ends_with_iteration_total :: "string \<Rightarrow> bool" where
  "ends_with_iteration_total name =
     (name = ''iteration_total'' \<or> ends_with ''::iteration_total'' name)"

definition is_iteration :: "string \<Rightarrow> bool" where
  "is_iteration name = (name = ''iteration'' \<or> ends_with ''::iteration'' name
     \<or> ends_with_iteration_total name)"

text \<open>The value a histogram records for a duration: microseconds, cast to \<open>u64\<close>, at least 1.\<close>

definition hist_micros :: "duration \<Rightarrow> nat" where
  "hist_micros d = max (d div 1000 mod u64_size) 1"

text \<open>\<open>if min.is_none_or(|m| d < m) { min = Some(d) }\<close>.\<close>

definition lower_min :: "duration \<Rightarrow> duration option \<Rightarrow> duration option" where
  "lower_min d m = (case m of None \<Rightarrow> Some d | Some x \<Rightarrow> if d < x then Some d else m)"

definition raise_max :: "duration \<Rightarrow> duration \<Rightarrow> duration" where
  "raise_max d m = (if d > m then d else m)"

definition bump_pair :: "bool \<Rightarrow> nat \<times> nat \<Rightarrow> nat \<times> nat" where
  "bump_pair ok = (\<lambda>(total, passes). (total + 1, if ok then passes + 1 else passes))"

text \<open>The name a request is grouped under: tags are appended in the order of their keys.\<close>

definition tag_text :: "string \<times> string \<Rightarrow> string" where
  "tag_text = (\<lambda>(k, v). k @ '':'' @ v)"

definition full_name :: "string \<Rightarrow> tag_map \<Rightarrow> string" where
  "full_name name tags = (if tags = [] then name
     else name @ ''{'' @ join_str '','' (map tag_text (sort_key fst tags)) @ ''}'')"

definition add_request_stats :: "'h hist_ops \<Rightarrow> request_timings \<Rightarrow> string option \<Rightarrow>
    'h request_stats \<Rightarrow> 'h request_stats" where
  "add_request_stats H t err r = \<lparr>
     r_total_requests = r_total_requests r + 1,
     r_total_duration = r_total_duration r + t_duration t,
     r_min_duration = lower_min (t_duration t) (r_min_duration r),
     r_max_duration = raise_max (t_duration t) (r_max_duration r),
     r_histogram = h_record H (r_histogram r) (hist_micros (t_duration t)),
     r_error_count = (if err \<noteq> None then r_error_count r + 1 else r_error_count r),
     r_total_blocked = r_total_blocked r + t_blocked t,
     r_total_connecting = r_total_connecting r + t_connecting t,
     r_total_tls_handshaking = r_total_tls_handshaking r + t_tls_handshaking t,
     r_total_sending = r_total_sending r + t_sending t,
     r_total_waiting = r_total_waiting r + t_waiting t,
     r_total_receiving = r_total_receiving r + t_receiving t,
     r_total_response_size = r_total_response_size r + t_response_size t,
     r_total_request_size = r_total_request_size r + t_request_size t\<rparr>"

definition count_error :: "string option \<Rightarrow> (string, nat) hmap \<Rightarrow> (string, nat) hmap" where
  "count_error err m = (case err of None \<Rightarrow> m | Some e \<Rightarrow> hm_entry e 0 (\<lambda>n. n + 1) m)"

text \<open>The three parts of the arm \<open>Metric::Request\<close>: a request proper, a failed iteration, and the
  statistics of its group.\<close>

definition add_http :: "'h hist_ops \<Rightarrow> request_timings \<Rightarrow> nat \<Rightarrow> string option \<Rightarrow>
    'h stats_aggregator \<Rightarrow> 'h stats_aggregator" where
  "add_http H t status err a = a\<lparr>
     total_requests := total_requests a + 1,
     total_duration := total_duration a + t_duration t,
     min_duration := lower_min (t_duration t) (min_duration a),
     max_duration := raise_max (t_duration t) (max_duration a),
     histogram := h_record H (histogram a) (hist_micros (t_duration t)),
     status_codes := hm_entry status 0 (\<lambda>n. n + 1) (status_codes a),
     errors := count_error err (errors a),
     total_data_sent := total_data_sent a + t_request_size t,
     total_data_received := total_data_received a + t_response_size t,
     pool_hits := (if t_pool_reused t then pool_hits a + 1 else pool_hits a),
     pool_misses := (if t_pool_reused t then pool_misses a else pool_misses a + 1)\<rparr>"

definition add_failed_iteration :: "string option \<Rightarrow> 'h stats_aggregator \<Rightarrow> 'h stats_aggregator" where
  "add_failed_iteration err a = (if err = None then a else a\<lparr>
     errors := count_error err (errors a),
     failed_iterations := failed_iterations a + 1\<rparr>)"

definition add_group :: "'h hist_ops \<Rightarrow> string \<Rightarrow> request_timings \<Rightarrow> string option \<Rightarrow> tag_map \<Rightarrow>
    'h stats_aggregator \<Rightarrow> 'h stats_aggregator" where
  "add_group H name t err tags a = a\<lparr>
     requests := hm_entry (full_name name tags) (request_stats_new H) (add_request_stats H t err) (requests a)\<rparr>"

definition push_log :: "string \<Rightarrow> string list \<Rightarrow> string list" where
  "push_log m ls = (let ls = ls @ [m] in if length ls > 100 then tl ls else ls)"

fun aggregator_add :: "'h hist_ops \<Rightarrow> 'h stats_aggregator \<Rightarrow> metric \<Rightarrow> 'h stats_aggregator" where
  "aggregator_add H a (Request name t status err tags) =
     (let a = (if \<not> is_iteration name then add_http H t status err a else a);
          a = (if is_iteration name \<and> \<not> ends_with_iteration_total name
               then add_failed_iteration err a else a)
      in if \<not> no_endpoint_tracking a then add_group H name t err tags a else a)"
| "aggregator_add H a (Check name ok _) =
     a\<lparr>checks := hm_entry name (0, 0) (bump_pair ok) (checks a)\<rparr>"
| "aggregator_add H a (Log m) = a\<lparr>logs := push_log m (logs a)\<rparr>"
| "aggregator_add H a (Histogram name v _) = a\<lparr>
     histograms := hm_entry name (h_new H)
       (\<lambda>h. h_record H h (as_u64 (f_mul v (f_of_nat 1000)))) (histograms a),
     histogram_sums := hm_entry name (Fin 0) (\<lambda>s. f_add s v) (histogram_sums a)\<rparr>"
| "aggregator_add H a (Counter name v _) =
     a\<lparr>counters := hm_entry name (Fin 0) (\<lambda>s. f_add s v) (counters a)\<rparr>"
| "aggregator_add H a (Gauge name v _) = a\<lparr>gauges := hm_insert name v (gauges a)\<rparr>"
| "aggregator_add H a (Rate name ok _) =
     a\<lparr>rates := hm_entry name (0, 0) (bump_pair ok) (rates a)\<rparr>"

definition has_reportable_data :: "'h stats_aggregator \<Rightarrow> bool" where
  "has_reportable_data a = (total_requests a > 0 \<or> requests a \<noteq> [] \<or> errors a \<noteq> [] \<or> checks a \<noteq> []
     \<or> counters a \<noteq> [] \<or> gauges a \<noteq> [] \<or> histograms a \<noteq> [] \<or> rates a \<noteq> [])"

section \<open>Shards\<close>

record 'h sharded_aggregator =
  shards :: "'h stats_aggregator list"
  num_shards :: nat

definition sharded_new :: "'h hist_ops \<Rightarrow> nat \<Rightarrow> 'h sharded_aggregator" where
  "sharded_new H n = \<lparr>shards = map (\<lambda>_. aggregator_new H) [0..<n], num_shards = n\<rparr>"

definition sharded_new_no_endpoint_tracking :: "'h hist_ops \<Rightarrow> nat \<Rightarrow> 'h sharded_aggregator" where
  "sharded_new_no_endpoint_tracking H n =
     \<lparr>shards = map (\<lambda>_. (aggregator_new H)\<lparr>no_endpoint_tracking := True\<rparr>) [0..<n], num_shards = n\<rparr>"

text \<open>\<open>worker_id % num_shards\<close> panics for no shards.\<close>

definition sharded_add :: "'h hist_ops \<Rightarrow> 'h sharded_aggregator \<Rightarrow> nat \<times> metric \<Rightarrow>
    'h sharded_aggregator outcome" where
  "sharded_add H s = (\<lambda>(worker_id, m). if num_shards s = 0 then Panics else
     (let i = worker_id mod num_shards s in
       Returns (s\<lparr>shards := (shards s)[i := aggregator_add H (shards s ! i) m]\<rparr>)))"

fun sharded_adds :: "'h hist_ops \<Rightarrow> 'h sharded_aggregator \<Rightarrow> (nat \<times> metric) list \<Rightarrow>
    'h sharded_aggregator outcome" where
  "sharded_adds H s [] = Returns s"
| "sharded_adds H s (e # es) = (case sharded_add H s e of Panics \<Rightarrow> Panics
     | Returns s' \<Rightarrow> sharded_adds H s' es)"

text \<open>One \<open>for (k, v) in &shard.map { f(merged.map.entry(k).or_insert(d), v) }\<close>.\<close>

definition merge_map :: "'v \<Rightarrow> ('v \<Rightarrow> 'v \<Rightarrow> 'v) \<Rightarrow> ('k, 'v) hmap \<Rightarrow> ('k, 'v) hmap \<Rightarrow> ('k, 'v) hmap" where
  "merge_map d f m kvs = foldl (\<lambda>m (k, v). hm_entry k d (\<lambda>x. f x v) m) m kvs"

text \<open>Comparison of \<open>Option<Duration>\<close>: \<open>None\<close> is less than every \<open>Some\<close>.\<close>

fun opt_less :: "duration option \<Rightarrow> duration option \<Rightarrow> bool" where
  "opt_less _ None = False"
| "opt_less None (Some _) = True"
| "opt_less (Some a) (Some b) = (a < b)"

definition merge_min :: "duration option \<Rightarrow> duration option \<Rightarrow> duration option" where
  "merge_min merged new = (if merged = None \<or> opt_less new merged then new else merged)"

definition merge_shard_min :: "duration option \<Rightarrow> duration option \<Rightarrow> duration option" where
  "merge_shard_min merged new = (case new of None \<Rightarrow> merged | Some _ \<Rightarrow> merge_min merged new)"

definition pair_add :: "nat \<times> nat \<Rightarrow> nat \<times> nat \<Rightarrow> nat \<times> nat" where
  "pair_add p q = (fst p + fst q, snd p + snd q)"

definition merge_request_stats :: "'h hist_ops \<Rightarrow> 'h request_stats \<Rightarrow> 'h request_stats \<Rightarrow> 'h request_stats" where
  "merge_request_stats H m s = \<lparr>
     r_total_requests = r_total_requests m + r_total_requests s,
     r_total_duration = r_total_duration m + r_total_duration s,
     r_min_duration = merge_min (r_min_duration m) (r_min_duration s),
     r_max_duration = raise_max (r_max_duration s) (r_max_duration m),
     r_histogram = h_add H (r_histogram m) (r_histogram s),
     r_error_count = r_error_count m + r_error_count s,
     r_total_blocked = r_total_blocked m + r_total_blocked s,
     r_total_connecting = r_total_connecting m + r_total_connecting s,
     r_total_tls_handshaking = r_total_tls_handshaking m + r_total_tls_handshaking s,
     r_total_sending = r_total_sending m + r_total_sending s,
     r_total_waiting = r_total_waiting m + r_total_waiting s,
     r_total_receiving = r_total_receiving m + r_total_receiving s,
     r_total_response_size = r_total_response_size m + r_total_response_size s,
     r_total_request_size = r_total_request_size m + r_total_request_size s\<rparr>"

text \<open>The body of the loop over the shards. A shard without a minimum leaves the merged one.\<close>

definition merge_shard :: "'h hist_ops \<Rightarrow> 'h stats_aggregator \<Rightarrow> 'h stats_aggregator \<Rightarrow> 'h stats_aggregator" where
  "merge_shard H m s = \<lparr>
     total_requests = total_requests m + total_requests s,
     total_duration = total_duration m + total_duration s,
     min_duration = merge_shard_min (min_duration m) (min_duration s),
     max_duration = raise_max (max_duration s) (max_duration m),
     status_codes = merge_map 0 (+) (status_codes m) (status_codes s),
     errors = merge_map 0 (+) (errors m) (errors s),
     checks = merge_map (0, 0) pair_add (checks m) (checks s),
     histogram = h_add H (histogram m) (histogram s),
     requests = merge_map (request_stats_new H) (merge_request_stats H) (requests m) (requests s),
     total_data_sent = total_data_sent m + total_data_sent s,
     total_data_received = total_data_received m + total_data_received s,
     logs = logs m @ logs s,
     histograms = merge_map (h_new H) (h_add H) (histograms m) (histograms s),
     histogram_sums = merge_map (Fin 0) f_add (histogram_sums m) (histogram_sums s),
     rates = merge_map (0, 0) pair_add (rates m) (rates s),
     counters = merge_map (Fin 0) f_add (counters m) (counters s),
     gauges = foldl (\<lambda>g (k, v). hm_insert k v g) (gauges m) (gauges s),
     no_endpoint_tracking = no_endpoint_tracking m,
     pool_hits = pool_hits m + pool_hits s,
     pool_misses = pool_misses m + pool_misses s,
     failed_iterations = failed_iterations m + failed_iterations s\<rparr>"

text \<open>\<open>merge\<close>: all the shards, then the logs trimmed to the last hundred.\<close>

definition sharded_merge :: "'h hist_ops \<Rightarrow> 'h sharded_aggregator \<Rightarrow> 'h stats_aggregator" where
  "sharded_merge H s = (let m = foldl (merge_shard H) (aggregator_new H) (shards s)
     in m\<lparr>logs := drop (length (logs m) - 100) (logs m)\<rparr>)"

end
