(* ===== verification/Aggregate.thy ===== *)
theory Aggregate
  imports Metrics
begin

text \<open>
  What the aggregator of \<open>src/stats/mod.rs\<close> promises: the invariant every \<open>add\<close> keeps, the
  exact totals of a run of metrics, and that spreading the metrics over shards and merging
  them gives the totals of a single aggregator. The interface \<open>shardable\<close> states what sharding
  needs of an accumulator; it is interpreted on the aggregator.
\<close>

section \<open>Sharding, as an interface\<close>

locale shardable =
  fixes add :: "'s \<Rightarrow> 'e \<Rightarrow> 's" and merge :: "'s \<Rightarrow> 's \<Rightarrow> 's"
    and ok :: "'s \<Rightarrow> bool" and eqv :: "'s \<Rightarrow> 's \<Rightarrow> bool"
  assumes eqv_refl: "eqv a a"
    and eqv_trans: "eqv a b \<Longrightarrow> eqv b c \<Longrightarrow> eqv a c"
    and add_ok: "ok s \<Longrightarrow> ok (add s e)"
    and merge_ok: "ok m \<Longrightarrow> ok s \<Longrightarrow> ok (merge m s)"
    and add_cong: "ok a \<Longrightarrow> ok b \<Longrightarrow> eqv a b \<Longrightarrow> eqv (add a e) (add b e)"
    and merge_cong: "ok a \<Longrightarrow> ok b \<Longrightarrow> ok s \<Longrightarrow> eqv a b \<Longrightarrow> eqv (merge a s) (merge b s)"
    and merge_add: "ok m \<Longrightarrow> ok s \<Longrightarrow> eqv (merge m (add s e)) (add (merge m s) e)"
    and add_merge: "ok m \<Longrightarrow> ok s \<Longrightarrow> eqv (merge (add m e) s) (add (merge m s) e)"
begin

lemma merges_ok: "ok m \<Longrightarrow> list_all ok ss \<Longrightarrow> ok (foldl merge m ss)"
  by (induction ss arbitrary: m) (auto intro: merge_ok)

lemma adds_ok: "ok m \<Longrightarrow> ok (foldl add m es)"
  by (induction es arbitrary: m) (auto intro: add_ok)

lemma merges_cong: "ok a \<Longrightarrow> ok b \<Longrightarrow> list_all ok ss \<Longrightarrow> eqv a b \<Longrightarrow> eqv (foldl merge a ss) (foldl merge b ss)"
  by (induction ss arbitrary: a b) (auto intro: merge_ok merge_cong)

lemma adds_cong: "ok a \<Longrightarrow> ok b \<Longrightarrow> eqv a b \<Longrightarrow> eqv (foldl add a es) (foldl add b es)"
  by (induction es arbitrary: a b) (auto intro: add_ok add_cong)

lemma merges_add: "ok m \<Longrightarrow> list_all ok ss \<Longrightarrow> eqv (foldl merge (add m e) ss) (add (foldl merge m ss) e)"
proof (induction ss arbitrary: m)
  case Nil
  then show ?case by (simp add: eqv_refl)
next
  case (Cons s ss)
  then have "eqv (foldl merge (merge (add m e) s) ss) (foldl merge (add (merge m s) e) ss)"
    by (intro merges_cong) (auto intro: merge_ok add_ok add_merge)
  moreover have "eqv (foldl merge (add (merge m s) e) ss) (add (foldl merge (merge m s) ss) e)"
    using Cons by (auto intro: merge_ok)
  ultimately show ?case by (auto intro: eqv_trans)
qed

lemma merge_update:
  "i < length ss \<Longrightarrow> ok m \<Longrightarrow> list_all ok ss \<Longrightarrow>
     eqv (foldl merge m (ss[i := add (ss ! i) e])) (add (foldl merge m ss) e)"
proof (induction ss arbitrary: m i)
  case Nil
  then show ?case by simp
next
  case (Cons s ss)
  show ?case
  proof (cases i)
    case 0
    have "eqv (foldl merge (merge m (add s e)) ss) (foldl merge (add (merge m s) e) ss)"
      using Cons.prems by (intro merges_cong) (auto intro: merge_ok add_ok merge_add)
    moreover have "eqv (foldl merge (add (merge m s) e) ss) (add (foldl merge (merge m s) ss) e)"
      using Cons.prems by (intro merges_add) (auto intro: merge_ok)
    ultimately show ?thesis by (auto simp: 0 intro: eqv_trans)
  next
    case (Suc j)
    then show ?thesis using Cons by (auto intro: merge_ok)
  qed
qed

lemma shards_ok: "list_all ok ss \<Longrightarrow> list_all ok (ss[i := add (ss ! i) e])"
proof (cases "i < length ss")
  case True
  assume "list_all ok ss"
  with True show ?thesis
    using set_update_subset_insert [of ss i "add (ss ! i) e"] add_ok [of "ss ! i" e]
    by (auto simp: list_all_iff)
qed (simp add: list_update_beyond)

text \<open>A run of events, each added to its shard, merges to the run added in order.\<close>

lemma sharded_run:
  "ok m \<Longrightarrow> list_all ok ss \<Longrightarrow> \<forall>(i, e) \<in> set es. i < length ss \<Longrightarrow>
     eqv (foldl merge m (foldl (\<lambda>ss (i, e). ss[i := add (ss ! i) e]) ss es))
       (foldl add (foldl merge m ss) (map snd es))"
proof (induction es arbitrary: ss)
  case Nil
  then show ?case by (simp add: eqv_refl)
next
  case (Cons p es)
  obtain i e where p: "p = (i, e)" by force
  let ?ss = "ss[i := add (ss ! i) e]"
  have ok: "list_all ok ?ss" by (rule shards_ok) (rule Cons.prems)
  have "eqv (foldl merge m (foldl (\<lambda>ss (i, e). ss[i := add (ss ! i) e]) ?ss es))
      (foldl add (foldl merge m ?ss) (map snd es))"
    using Cons.prems by (intro Cons.IH ok) auto
  moreover have "eqv (foldl add (foldl merge m ?ss) (map snd es))
      (foldl add (add (foldl merge m ss) e) (map snd es))"
    using Cons.prems p ok
    by (intro adds_cong) (auto intro: merges_ok add_ok merge_update)
  ultimately show ?case by (auto simp: p intro: eqv_trans)
qed

end

section \<open>Merging maps\<close>

lemma merge_map_get [hmap]:
  "hm_wf kvs \<Longrightarrow> hm_get (merge_map d f m kvs) k =
     (case hm_get kvs k of None \<Rightarrow> hm_get m k | Some v \<Rightarrow> Some (f (hm_or d m k) v))"
proof (induction kvs arbitrary: m)
  case Nil
  then show ?case by (simp add: merge_map_def)
next
  case (Cons p kvs)
  obtain k' v where p: "p = (k', v)" by force
  with Cons.prems have none: "hm_get kvs k' = None" by (simp add: map_of_eq_None_iff)
  show ?case
  proof (cases "k = k'")
    case True
    with Cons none p show ?thesis by (simp add: merge_map_def hmap)
  next
    case False
    with Cons p show ?thesis
      by (simp add: merge_map_def hmap) (simp split: option.split add: hmap)
  qed
qed

lemma merge_map_wf [hmap]: "hm_wf m \<Longrightarrow> hm_wf (merge_map d f m kvs)"
  unfolding merge_map_def by (rule foldl_invariant) (auto simp: hmap)

lemma merge_map_nil [simp]: "merge_map d f m [] = m"
  by (simp add: merge_map_def)

lemma merge_map_cong:
  "hm_wf kvs \<Longrightarrow> hm_get a = hm_get b \<Longrightarrow> hm_get (merge_map d f a kvs) = hm_get (merge_map d f b kvs)"
  by (rule ext) (simp add: merge_map_get hm_or_def split: option.split)

lemma entry_cong: "hm_get a = hm_get b \<Longrightarrow> hm_get (hm_entry k d f a) = hm_get (hm_entry k d f b)"
  by (rule ext) (simp add: hmap hm_or_def)

text \<open>An entry update before or after a merge.\<close>

lemma merge_map_entry:
  assumes "hm_wf kvs" "\<And>x v. (k, v) \<in> set kvs \<Longrightarrow> f x (g v) = g (f x v)" "\<And>x. f x (g d) = g x"
  shows "hm_get (merge_map d f m (hm_entry k d g kvs)) = hm_get (hm_entry k d g (merge_map d f m kvs))"
proof
  fix k'
  show "hm_get (merge_map d f m (hm_entry k d g kvs)) k' = hm_get (hm_entry k d g (merge_map d f m kvs)) k'"
    using assms by (auto simp: hmap hm_or_def dest: map_of_SomeD split: option.splits)
qed

lemma entry_merge_map:
  assumes "hm_wf kvs" "\<And>x v. f (g x) v = g (f x v)"
  shows "hm_get (merge_map d f (hm_entry k d g m) kvs) = hm_get (hm_entry k d g (merge_map d f m kvs))"
  using assms by (intro ext) (auto simp: hmap hm_or_def split: option.splits)

lemma merge_map_values:
  assumes "\<And>x v. P x \<Longrightarrow> P v \<Longrightarrow> P (f x v)" "\<And>v. P v \<Longrightarrow> P (f d v)"
    "\<forall>v \<in> snd ` set m. P v" "\<forall>v \<in> snd ` set kvs. P v" "hm_wf m"
  shows "\<forall>v \<in> snd ` set (merge_map d f m kvs). P v"
  using assms(3-5) unfolding merge_map_def
proof (induction kvs arbitrary: m)
  case Nil
  then show ?case by simp
next
  case (Cons p kvs)
  obtain k v where p: "p = (k, v)" by force
  have "\<forall>v \<in> snd ` set (hm_entry k d (\<lambda>x. f x v) m). P v"
  proof
    fix w assume "w \<in> snd ` set (hm_entry k d (\<lambda>x. f x v) m)"
    then obtain k' where "(k', w) \<in> set (hm_entry k d (\<lambda>x. f x v) m)" by auto
    then have "hm_get (hm_entry k d (\<lambda>x. f x v) m) k' = Some w"
      by (rule get_of_member [rotated]) (simp add: wf_entry Cons.prems)
    then have w: "(if k' = k then Some (f (hm_or d m k) v) else hm_get m k') = Some w"
      by (simp add: hmap)
    have old: "hm_get m x = Some y \<Longrightarrow> P y" for x y
      using Cons.prems(1) map_of_SomeD [of m x y] by force
    have "P v" using Cons.prems(2) p by simp
    have "P (f (hm_or d m k) v)"
    proof (cases "hm_get m k")
      case None
      then show ?thesis using assms(2) [OF \<open>P v\<close>] by (simp add: hm_or_def)
    next
      case (Some x)
      then show ?thesis using assms(1) [OF old [OF Some] \<open>P v\<close>] by (simp add: hm_or_def)
    qed
    with w old [of k' w] show "P w" by (cases "k' = k") simp_all
  qed
  then have "\<forall>v \<in> snd ` set (foldl (\<lambda>m (k, v). hm_entry k d (\<lambda>x. f x v) m) (hm_entry k d (\<lambda>x. f x v) m) kvs). P v"
    using Cons.prems by (intro Cons.IH) (auto intro: wf_entry)
  then show ?case by (simp add: p)
qed

section \<open>The invariant\<close>

definition all_values :: "('v \<Rightarrow> bool) \<Rightarrow> ('k, 'v) hmap \<Rightarrow> bool" where
  "all_values P m \<longleftrightarrow> (\<forall>v \<in> snd ` set m. P v)"

definition counted :: "nat \<times> nat \<Rightarrow> bool" where
  "counted = (\<lambda>(total, passes). passes \<le> total)"

definition group_ok :: "'h request_stats \<Rightarrow> bool" where
  "group_ok r \<longleftrightarrow> r_error_count r \<le> r_total_requests r \<and>
     (case r_min_duration r of None \<Rightarrow> False
      | Some m \<Rightarrow> m \<le> r_max_duration r \<and> r_max_duration r \<le> r_total_duration r)"

definition maps_wf :: "'h stats_aggregator \<Rightarrow> bool" where
  "maps_wf a \<longleftrightarrow> hm_wf (status_codes a) \<and> hm_wf (errors a) \<and> hm_wf (checks a) \<and> hm_wf (requests a)
     \<and> hm_wf (histograms a) \<and> hm_wf (histogram_sums a) \<and> hm_wf (rates a) \<and> hm_wf (counters a)
     \<and> hm_wf (gauges a)"

definition agg_inv :: "'h stats_aggregator \<Rightarrow> bool" where
  "agg_inv a \<longleftrightarrow> maps_wf a
     \<and> hm_sum (status_codes a) = total_requests a
     \<and> pool_hits a + pool_misses a = total_requests a
     \<and> failed_iterations a \<le> hm_sum (errors a)
     \<and> hm_sum (errors a) \<le> total_requests a + failed_iterations a
     \<and> (case min_duration a of None \<Rightarrow> total_requests a = 0 \<and> max_duration a = 0 \<and> total_duration a = 0
        | Some m \<Rightarrow> 0 < total_requests a \<and> m \<le> max_duration a \<and> max_duration a \<le> total_duration a)
     \<and> all_values counted (checks a) \<and> all_values counted (rates a)
     \<and> all_values group_ok (requests a)"

lemmas agg_defs = add_http_def add_failed_iteration_def add_group_def count_error_def

lemma entry_values:
  assumes "\<forall>v \<in> snd ` set m. P v" "hm_wf m" "P (g d)" "\<And>v. P v \<Longrightarrow> P (g v)"
  shows "\<forall>v \<in> snd ` set (hm_entry k d g m). P v"
proof
  fix w assume "w \<in> snd ` set (hm_entry k d g m)"
  then obtain k' where "(k', w) \<in> set (hm_entry k d g m)" by auto
  then have w: "hm_get (hm_entry k d g m) k' = Some w"
    by (rule get_of_member [rotated]) (simp add: wf_entry assms)
  have old: "hm_get m x = Some y \<Longrightarrow> P y" for x y
    using assms(1) map_of_SomeD [of m x y] by force
  show "P w"
  proof (cases "k' = k")
    case True
    with w assms(3,4) old [of k] show ?thesis
      by (cases "hm_get m k") (auto simp: hmap hm_or_def)
  next
    case False
    with w old show ?thesis by (simp add: hmap)
  qed
qed

lemma counted_bump: "counted v \<Longrightarrow> counted (bump_pair ok v)"
  by (auto simp: counted_def bump_pair_def)

lemma counted_zero: "counted (0, 0)"
  by (simp add: counted_def)

lemma group_ok_add: "r = request_stats_new H \<or> group_ok r \<Longrightarrow> group_ok (add_request_stats H t err r)"
  by (auto simp: group_ok_def add_request_stats_def request_stats_new_def lower_min_def raise_max_def
      split: option.splits)

lemma maps_wf_add: "maps_wf a \<Longrightarrow> maps_wf (aggregator_add H a m)"
  by (cases m) (auto simp: maps_wf_def agg_defs Let_def hmap split: option.split)

lemma hm_sum_bump [simp]: "hm_sum (hm_entry k 0 Suc m) = hm_sum m + 1"
  using hm_sum_entry [of k 1 m] by simp

lemma agg_inv_new: "agg_inv (aggregator_new H)"
  by (simp add: agg_inv_def maps_wf_def aggregator_new_def all_values_def)

lemma agg_inv_http: "agg_inv a \<Longrightarrow> agg_inv (add_http H t status err a)"
  by (cases "min_duration a"; cases err)
    (simp_all add: agg_inv_def maps_wf_def agg_defs hmap lower_min_def raise_max_def max_def)

lemma agg_inv_failed: "agg_inv a \<Longrightarrow> agg_inv (add_failed_iteration err a)"
  by (cases "min_duration a"; cases err) (simp_all add: agg_inv_def maps_wf_def agg_defs hmap)

lemma counted_entry:
  "all_values counted m \<Longrightarrow> hm_wf m \<Longrightarrow> all_values counted (hm_entry k (0, 0) (bump_pair ok) m)"
  unfolding all_values_def by (rule entry_values) (simp_all add: counted_bump counted_zero)

lemma group_ok_entry:
  "all_values group_ok m \<Longrightarrow> hm_wf m \<Longrightarrow>
     all_values group_ok (hm_entry k (request_stats_new H) (add_request_stats H t err) m)"
  unfolding all_values_def by (rule entry_values) (simp_all add: group_ok_add)

lemma agg_inv_group: "agg_inv a \<Longrightarrow> agg_inv (add_group H name t err tags a)"
  by (cases "min_duration a") (simp_all add: agg_inv_def maps_wf_def add_group_def group_ok_entry wf_entry)

lemma agg_inv_pairs:
  "agg_inv a \<Longrightarrow> agg_inv (a\<lparr>checks := hm_entry name (0, 0) (bump_pair ok) (checks a)\<rparr>)"
  "agg_inv a \<Longrightarrow> agg_inv (a\<lparr>rates := hm_entry name (0, 0) (bump_pair ok) (rates a)\<rparr>)"
  by (cases "min_duration a"; simp add: agg_inv_def maps_wf_def counted_entry wf_entry)+

lemma agg_inv_add: "agg_inv a \<Longrightarrow> agg_inv (aggregator_add H a m)"
proof (cases m)
  case (Request name t status err tags)
  assume "agg_inv a"
  then show ?thesis
    by (auto simp: Request Let_def intro: agg_inv_http agg_inv_failed agg_inv_group)
qed (simp_all add: agg_inv_pairs, (cases "min_duration a"; simp add: agg_inv_def maps_wf_def hmap)+)

interpretation aggm: event_machine "aggregator_add H" agg_inv for H
  by unfold_locales (rule agg_inv_add)

section \<open>Merging keeps the totals\<close>

text \<open>Equality of two aggregators up to the order of their maps, on everything that does not
  depend on the order of the metrics: all but the logs, the gauges, and the floating-point sums.\<close>

definition same_totals :: "'h stats_aggregator \<Rightarrow> 'h stats_aggregator \<Rightarrow> bool" where
  "same_totals a b \<longleftrightarrow> total_requests a = total_requests b \<and> total_duration a = total_duration b
     \<and> min_duration a = min_duration b \<and> max_duration a = max_duration b
     \<and> hm_get (status_codes a) = hm_get (status_codes b) \<and> hm_get (errors a) = hm_get (errors b)
     \<and> hm_get (checks a) = hm_get (checks b) \<and> histogram a = histogram b
     \<and> hm_get (requests a) = hm_get (requests b)
     \<and> total_data_sent a = total_data_sent b \<and> total_data_received a = total_data_received b
     \<and> hm_get (histograms a) = hm_get (histograms b) \<and> hm_get (rates a) = hm_get (rates b)
     \<and> pool_hits a = pool_hits b \<and> pool_misses a = pool_misses b
     \<and> failed_iterations a = failed_iterations b"

text \<open>What merging needs of a shard.\<close>

definition has_min :: "'h request_stats \<Rightarrow> bool" where
  "has_min r \<longleftrightarrow> r_min_duration r \<noteq> None"

definition shard_ok :: "'h stats_aggregator \<Rightarrow> bool" where
  "shard_ok a \<longleftrightarrow> maps_wf a \<and> \<not> no_endpoint_tracking a
     \<and> all_values has_min (requests a)"

lemma add_stats_min: "has_min (add_request_stats H t err r)"
  by (simp add: has_min_def add_request_stats_def lower_min_def split: option.split)

lemma merge_stats_min: "has_min v \<Longrightarrow> has_min (merge_request_stats H x v)"
  by (auto simp: has_min_def merge_request_stats_def merge_min_def split: option.split)

lemma min_entry:
  "all_values has_min m \<Longrightarrow> hm_wf m \<Longrightarrow>
     all_values has_min (hm_entry k (request_stats_new H) (add_request_stats H t err) m)"
  unfolding all_values_def by (rule entry_values) (simp_all add: add_stats_min)

lemma min_merge:
  "all_values has_min m \<Longrightarrow> all_values has_min s \<Longrightarrow>
     hm_wf m \<Longrightarrow> all_values has_min
       (merge_map (request_stats_new H) (merge_request_stats H) m s)"
  unfolding all_values_def
  by (rule merge_map_values) (simp_all add: merge_stats_min)

lemma tracking_add [simp]: "no_endpoint_tracking (aggregator_add H a m) = no_endpoint_tracking a"
  by (cases m) (simp_all add: agg_defs Let_def)

lemma shard_ok_add: "shard_ok a \<Longrightarrow> shard_ok (aggregator_add H a m)"
  by (cases m) (simp_all add: shard_ok_def maps_wf_add del: aggregator_add.simps,
      simp_all add: agg_defs Let_def min_entry maps_wf_def)

lemma maps_wf_merge: "maps_wf m \<Longrightarrow> maps_wf (merge_shard H m s)"
  by (simp add: maps_wf_def merge_shard_def merge_map_wf foldl_invariant [where P = hm_wf] wf_insert
      split: prod.split)

lemma shard_ok_merge: "shard_ok m \<Longrightarrow> shard_ok s \<Longrightarrow> shard_ok (merge_shard H m s)"
  by (simp add: shard_ok_def maps_wf_merge)
    (simp add: merge_shard_def min_merge maps_wf_def)

text \<open>The operations on the values of the maps commute with merging.\<close>

lemma merge_min_lower: "merge_min x (lower_min d y) = lower_min d (if y = None then x else merge_min x y)"
  by (cases x; cases y) (auto simp: merge_min_def lower_min_def)

lemma lower_merge_min: "merge_min (lower_min d x) (Some y) = lower_min d (merge_min x (Some y))"
  by (cases x) (auto simp: merge_min_def lower_min_def)

lemma raise_comm: "raise_max (raise_max d y) x = raise_max d (raise_max y x)"
  "raise_max y (raise_max d x) = raise_max d (raise_max y x)"
  by (auto simp: raise_max_def)

lemma pair_add_bump: "pair_add x (bump_pair ok v) = bump_pair ok (pair_add x v)"
  "pair_add (bump_pair ok x) v = bump_pair ok (pair_add x v)"
  "pair_add x (bump_pair ok (0, 0)) = bump_pair ok x"
  by (auto simp: pair_add_def bump_pair_def split: prod.splits)

lemma hist_laws_simps:
  assumes "hist_laws H"
  shows "h_add H a (h_record H b v) = h_record H (h_add H a b) v"
    "h_add H (h_record H a v) b = h_record H (h_add H a b) v" "h_add H a (h_new H) = a"
  using assms by (simp_all add: hist_laws_def)

lemma merge_stats_add:
  assumes "hist_laws H"
  shows "has_min v \<Longrightarrow>
      merge_request_stats H x (add_request_stats H t err v) = add_request_stats H t err (merge_request_stats H x v)"
    "merge_request_stats H x (add_request_stats H t err (request_stats_new H)) = add_request_stats H t err x"
    "has_min v \<Longrightarrow>
      merge_request_stats H (add_request_stats H t err x) v = add_request_stats H t err (merge_request_stats H x v)"
  using hist_laws_simps [OF assms]
  by (auto simp: has_min_def merge_request_stats_def add_request_stats_def request_stats_new_def
      merge_min_lower lower_merge_min raise_comm raise_max_def)

lemma same_totals_trans: "same_totals a b \<Longrightarrow> same_totals b c \<Longrightarrow> same_totals a c"
  by (simp add: same_totals_def)

lemma count_error_cong: "hm_get a = hm_get b \<Longrightarrow> hm_get (count_error err a) = hm_get (count_error err b)"
  by (cases err) (auto simp: count_error_def intro: entry_cong)

lemma same_totals_http: "same_totals a b \<Longrightarrow> same_totals (add_http H t status err a) (add_http H t status err b)"
  by (simp add: same_totals_def add_http_def) (intro conjI entry_cong count_error_cong; simp)

lemma same_totals_failed: "same_totals a b \<Longrightarrow> same_totals (add_failed_iteration err a) (add_failed_iteration err b)"
  by (simp add: same_totals_def add_failed_iteration_def) (intro impI count_error_cong; simp)

lemma same_totals_group: "same_totals a b \<Longrightarrow> same_totals (add_group H name t err tags a) (add_group H name t err tags b)"
  by (simp add: same_totals_def add_group_def) (intro entry_cong; simp)

lemma same_totals_other: "\<not> is_Request e \<Longrightarrow> same_totals a b \<Longrightarrow>
    same_totals (aggregator_add H a e) (aggregator_add H b e)"
  by (cases e) (simp_all add: same_totals_def, (intro entry_cong; simp)+)

lemma tracking_parts [simp]:
  "no_endpoint_tracking (add_http H t status err a) = no_endpoint_tracking a"
  "no_endpoint_tracking (add_failed_iteration err a) = no_endpoint_tracking a"
  by (simp_all add: add_http_def add_failed_iteration_def)

lemma same_totals_add:
  assumes "shard_ok a" "shard_ok b" "same_totals a b"
  shows "same_totals (aggregator_add H a e) (aggregator_add H b e)"
proof (cases "is_Request e")
  case True
  with assms show ?thesis
    by (cases e) (simp_all add: shard_ok_def Let_def same_totals_http same_totals_failed same_totals_group)
qed (rule same_totals_other [OF _ assms(3)])

lemma same_totals_merge:
  "shard_ok a \<Longrightarrow> shard_ok b \<Longrightarrow> shard_ok s \<Longrightarrow> same_totals a b \<Longrightarrow>
     same_totals (merge_shard H a s) (merge_shard H b s)"
  unfolding shard_ok_def maps_wf_def same_totals_def merge_shard_def stats_aggregator.simps
  by (elim conjE, intro conjI; (simp only:)?; intro merge_map_cong; assumption)

lemma merge_counts:
  "hm_wf s \<Longrightarrow> hm_get (merge_map 0 (+) m (hm_entry k 0 Suc s)) = hm_get (hm_entry k 0 Suc (merge_map 0 (+) m s))"
  "hm_wf s \<Longrightarrow> hm_get (merge_map 0 (+) (hm_entry k 0 Suc m) s) = hm_get (hm_entry k 0 Suc (merge_map 0 (+) m s))"
  by (rule merge_map_entry entry_merge_map; simp)+

lemma merge_errors:
  "hm_wf s \<Longrightarrow> hm_get (merge_map 0 (+) m (count_error err s)) = hm_get (count_error err (merge_map 0 (+) m s))"
  "hm_wf s \<Longrightarrow> hm_get (merge_map 0 (+) (count_error err m) s) = hm_get (count_error err (merge_map 0 (+) m s))"
  by (cases err; simp add: count_error_def merge_counts)+

lemma merge_pairs:
  "hm_wf s \<Longrightarrow> hm_get (merge_map (0, 0) pair_add m (hm_entry k (0, 0) (bump_pair ok) s)) =
     hm_get (hm_entry k (0, 0) (bump_pair ok) (merge_map (0, 0) pair_add m s))"
  "hm_wf s \<Longrightarrow> hm_get (merge_map (0, 0) pair_add (hm_entry k (0, 0) (bump_pair ok) m) s) =
     hm_get (hm_entry k (0, 0) (bump_pair ok) (merge_map (0, 0) pair_add m s))"
  by (rule merge_map_entry; (assumption | rule pair_add_bump(3) | rule pair_add_bump(1)))
    (rule entry_merge_map; (assumption | rule pair_add_bump(2)))

lemma merge_hists:
  assumes "hist_laws H"
  shows "hm_wf s \<Longrightarrow> hm_get (merge_map (h_new H) (h_add H) m (hm_entry k (h_new H) (\<lambda>h. h_record H h v) s)) =
      hm_get (hm_entry k (h_new H) (\<lambda>h. h_record H h v) (merge_map (h_new H) (h_add H) m s))"
    "hm_wf s \<Longrightarrow> hm_get (merge_map (h_new H) (h_add H) (hm_entry k (h_new H) (\<lambda>h. h_record H h v) m) s) =
      hm_get (hm_entry k (h_new H) (\<lambda>h. h_record H h v) (merge_map (h_new H) (h_add H) m s))"
  by (rule merge_map_entry entry_merge_map; simp add: hist_laws_simps [OF assms])+

text \<open>For the groups the merged value has to have a minimum, so the map of the shard matters.\<close>

lemma merge_groups_right:
  assumes "hist_laws H" "hm_wf s" "all_values has_min s"
  shows "hm_get (merge_map (request_stats_new H) (merge_request_stats H) m
        (hm_entry k (request_stats_new H) (add_request_stats H t err) s)) =
      hm_get (hm_entry k (request_stats_new H) (add_request_stats H t err)
        (merge_map (request_stats_new H) (merge_request_stats H) m s))"
  using assms by (intro merge_map_entry merge_stats_add) (force simp: all_values_def)+

lemma merge_groups_left:
  assumes "hist_laws H" "hm_wf s" "all_values has_min s"
  shows "hm_get (merge_map (request_stats_new H) (merge_request_stats H)
        (hm_entry k (request_stats_new H) (add_request_stats H t err) m) s) =
      hm_get (hm_entry k (request_stats_new H) (add_request_stats H t err)
        (merge_map (request_stats_new H) (merge_request_stats H) m s))"
proof
  fix k'
  have v: "hm_get s k = Some v \<Longrightarrow> has_min v" for v
    using assms(3) map_of_SomeD [of s k v] by (force simp: all_values_def)
  show "hm_get (merge_map (request_stats_new H) (merge_request_stats H)
        (hm_entry k (request_stats_new H) (add_request_stats H t err) m) s) k' =
      hm_get (hm_entry k (request_stats_new H) (add_request_stats H t err)
        (merge_map (request_stats_new H) (merge_request_stats H) m s)) k'"
    using assms(2) v merge_stats_add(3) [OF assms(1)]
    by (auto simp: hmap hm_or_def split: option.splits)
qed


text \<open>One metric before or after the merge of a shard.\<close>

lemma shard_min_lower:
  "merge_shard_min x (lower_min d y) = lower_min d (merge_shard_min x y)"
  "merge_shard_min (lower_min d x) y = lower_min d (merge_shard_min x y)"
  by (cases x; cases y; force simp: merge_shard_min_def merge_min_def lower_min_def)+

lemma merge_http:
  assumes "hist_laws H" "maps_wf s"
  shows "same_totals (merge_shard H m (add_http H t status err s)) (add_http H t status err (merge_shard H m s))"
    "same_totals (merge_shard H (add_http H t status err m) s) (add_http H t status err (merge_shard H m s))"
  using assms(2)
  by (simp_all add: same_totals_def merge_shard_def add_http_def maps_wf_def merge_counts merge_errors
      shard_min_lower raise_comm hist_laws_simps [OF assms(1)])

lemma merge_failed:
  assumes "maps_wf s"
  shows "same_totals (merge_shard H m (add_failed_iteration err s)) (add_failed_iteration err (merge_shard H m s))"
    "same_totals (merge_shard H (add_failed_iteration err m) s) (add_failed_iteration err (merge_shard H m s))"
  using assms
  by (simp_all add: same_totals_def merge_shard_def add_failed_iteration_def maps_wf_def merge_errors)

lemma merge_group:
  assumes "hist_laws H" "shard_ok s"
  shows "same_totals (merge_shard H m (add_group H name t err tags s)) (add_group H name t err tags (merge_shard H m s))"
    "same_totals (merge_shard H (add_group H name t err tags m) s) (add_group H name t err tags (merge_shard H m s))"
  using assms(2)
  by (simp_all add: same_totals_def merge_shard_def add_group_def shard_ok_def maps_wf_def
      merge_groups_right [OF assms(1)] merge_groups_left [OF assms(1)])

lemma merge_other:
  assumes "hist_laws H" "maps_wf s" "\<not> is_Request e"
  shows "same_totals (merge_shard H m (aggregator_add H s e)) (aggregator_add H (merge_shard H m s) e)"
    "same_totals (merge_shard H (aggregator_add H m e) s) (aggregator_add H (merge_shard H m s) e)"
  using assms(2,3) by (cases e; simp add: same_totals_def merge_shard_def maps_wf_def merge_pairs
      merge_hists [OF assms(1)])+

lemma maps_wf_parts [simp]:
  "maps_wf a \<Longrightarrow> maps_wf (add_http H t status err a)"
  "maps_wf a \<Longrightarrow> maps_wf (add_failed_iteration err a)"
  by (auto simp: maps_wf_def agg_defs hmap split: option.split)

lemma shard_ok_parts:
  "shard_ok a \<Longrightarrow> shard_ok (add_http H t status err a)"
  "shard_ok a \<Longrightarrow> shard_ok (add_failed_iteration err a)"
  by (simp_all add: shard_ok_def) (simp_all add: add_http_def add_failed_iteration_def)

lemma merge_tracking [simp]: "no_endpoint_tracking (merge_shard H m s) = no_endpoint_tracking m"
  by (simp add: merge_shard_def)

text \<open>A request does its parts in turn, and each commutes with the merge.\<close>

lemma merge_request:
  assumes H: "hist_laws H" and m: "shard_ok m" and s: "shard_ok s"
  shows "same_totals (merge_shard H m (aggregator_add H s (Request name t status err tags)))
      (aggregator_add H (merge_shard H m s) (Request name t status err tags))"
    and "same_totals (merge_shard H (aggregator_add H m (Request name t status err tags)) s)
      (aggregator_add H (merge_shard H m s) (Request name t status err tags))"
proof -
  note ok = m s shard_ok_parts [OF m] shard_ok_parts [OF s]
  have wf: "maps_wf s" using s by (simp add: shard_ok_def)
  have track: "\<not> no_endpoint_tracking m" "\<not> no_endpoint_tracking s" using m s by (simp_all add: shard_ok_def)
  note step = same_totals_trans [OF merge_group(1) [OF H] same_totals_group]
    same_totals_trans [OF merge_group(2) [OF H] same_totals_group]
  show "same_totals (merge_shard H m (aggregator_add H s (Request name t status err tags)))
      (aggregator_add H (merge_shard H m s) (Request name t status err tags))"
    using track
    by (auto simp: Let_def intro!: step ok merge_http(1) [OF H wf] merge_failed(1) [OF wf] merge_group(1) [OF H])
  show "same_totals (merge_shard H (aggregator_add H m (Request name t status err tags)) s)
      (aggregator_add H (merge_shard H m s) (Request name t status err tags))"
    using track
    by (auto simp: Let_def intro!: step ok merge_http(2) [OF H wf] merge_failed(2) [OF wf] merge_group(2) [OF H])
qed

lemma merge_add:
  assumes "hist_laws H" "shard_ok m" "shard_ok s"
  shows "same_totals (merge_shard H m (aggregator_add H s e)) (aggregator_add H (merge_shard H m s) e)"
    and "same_totals (merge_shard H (aggregator_add H m e) s) (aggregator_add H (merge_shard H m s) e)"
proof -
  have wf: "maps_wf s" using assms by (simp add: shard_ok_def)
  show "same_totals (merge_shard H m (aggregator_add H s e)) (aggregator_add H (merge_shard H m s) e)"
    by (cases "is_Request e", cases e)
      (simp_all only: merge_request [OF assms] merge_other [OF assms(1) wf] metric.disc not_True_eq_False not_False_eq_True)
  show "same_totals (merge_shard H (aggregator_add H m e) s) (aggregator_add H (merge_shard H m s) e)"
    by (cases "is_Request e", cases e)
      (simp_all only: merge_request [OF assms] merge_other [OF assms(1) wf] metric.disc not_True_eq_False not_False_eq_True)
qed

text \<open>The aggregator is shardable; the laws of the histogram are part of what is \<open>ok\<close>.\<close>

interpretation agg_shard: shardable "aggregator_add H" "merge_shard H"
    "\<lambda>a. hist_laws H \<and> shard_ok a" same_totals for H
  by unfold_locales
    (auto simp: same_totals_def [of a a for a] simp del: aggregator_add.simps
      intro: same_totals_trans shard_ok_add shard_ok_merge same_totals_add same_totals_merge merge_add)

end
