(* ===== verification/Totals.thy ===== *)
theory Totals
  imports Aggregate
begin

text \<open>
  The properties of the aggregator (\<open>src/stats/mod.rs\<close>) over whole runs: sharding, the exact
  totals as a function of the list of metrics, the grouping by tagged name, the bounded log, and
  what merging does to gauges.
\<close>

section \<open>Shards\<close>

definition run_shards :: "'h hist_ops \<Rightarrow> 'h stats_aggregator list \<Rightarrow> (nat \<times> metric) list \<Rightarrow>
    'h stats_aggregator list" where
  "run_shards H ss es = foldl (\<lambda>ss (i, e). ss[i := aggregator_add H (ss ! i) e]) ss es"

lemma sharded_adds_shards:
  "0 < num_shards s \<Longrightarrow> sharded_adds H s es =
     Returns (s\<lparr>shards := run_shards H (shards s) (map (\<lambda>(w, e). (w mod num_shards s, e)) es)\<rparr>)"
  by (induction es arbitrary: s) (auto simp: run_shards_def sharded_add_def Let_def)

lemma merge_new: "hist_laws H \<Longrightarrow> merge_shard H (aggregator_new H) (aggregator_new H) = aggregator_new H"
  by (simp add: merge_shard_def aggregator_new_def hist_laws_simps merge_shard_min_def raise_max_def)

lemma merge_news: "hist_laws H \<Longrightarrow> foldl (merge_shard H) (aggregator_new H) (map (\<lambda>_. aggregator_new H) [0..<n]) = aggregator_new H"
  by (induction n) (simp_all add: merge_new)

lemma shard_ok_new: "shard_ok (aggregator_new H)"
  by (simp add: shard_ok_def maps_wf_def aggregator_new_def all_values_def)

lemma same_totals_logs: "same_totals (a\<lparr>logs := l\<rparr>) b = same_totals a b"
  by (simp add: same_totals_def)

lemma sharded_run_totals:
  assumes H: "hist_laws H" and n: "0 < n"
  shows "\<exists>s. sharded_adds H (sharded_new H n) es = Returns s
    \<and> same_totals (sharded_merge H s) (foldl (aggregator_add H) (aggregator_new H) (map snd es))"
proof (intro exI conjI)
  let ?es = "map (\<lambda>(w, e). (w mod n, e)) es"
  let ?ss = "map (\<lambda>_. aggregator_new H) [0..<n]"
  show "sharded_adds H (sharded_new H n) es = Returns ((sharded_new H n)\<lparr>shards := run_shards H ?ss ?es\<rparr>)"
    using n by (simp add: sharded_adds_shards sharded_new_def)
  have "same_totals (foldl (merge_shard H) (aggregator_new H) (run_shards H ?ss ?es))
      (foldl (aggregator_add H) (foldl (merge_shard H) (aggregator_new H) ?ss) (map snd ?es))"
    unfolding run_shards_def using n H
    by (intro agg_shard.sharded_run) (auto simp: list_all_iff shard_ok_new)
  moreover have "map snd ?es = map snd es" by (auto simp: comp_def case_prod_beta)
  ultimately show "same_totals (sharded_merge H ((sharded_new H n)\<lparr>shards := run_shards H ?ss ?es\<rparr>))
      (foldl (aggregator_add H) (aggregator_new H) (map snd es))"
    by (simp add: sharded_merge_def Let_def same_totals_logs merge_news [OF H] del: map_map)
qed

text \<open>C2. Sharded aggregation is aggregation: however the metrics of a run are spread over the
  worker ids and any positive number of shards, \<open>merge\<close> reports the same totals as a single
  aggregator that received all the metrics in order: requests, durations, status codes, errors,
  checks, histograms, per-request groups, data, rates, pool use and failed iterations.\<close>

theorem sharding_is_transparent:
  assumes H: "hist_laws H" and n: "0 < n"
  shows "\<exists>s. sharded_adds H (sharded_new H n) es = Returns s
    \<and> same_totals (sharded_merge H s) (foldl (aggregator_add H) (aggregator_new H) (map snd es))"
  using sharded_run_totals [OF assms] .

lemma insort_comm: "insort a (insort b xs) = insort b (insort (a :: nat) xs)"
  by (rule insort_left_comm)

lemma foldr_insort: "foldr insort b (insort v a) = insort (v :: nat) (foldr insort b a)"
  by (induction b) (simp_all add: insort_comm)

lemma foldr_insort_insort: "foldr insort (insort v b) a = insort (v :: nat) (foldr insort b a)"
  by (induction b) (simp_all add: insort_comm)

lemma hist_laws_list: "hist_laws list_hist"
  by (simp add: hist_laws_def list_hist_def foldr_insort_insort foldr_insort)

text \<open>The merged log keeps at most a hundred messages, and the log of a single aggregator is
  exactly the last hundred messages in the order they arrived.\<close>

fun log_text :: "metric \<Rightarrow> string list" where
  "log_text (Log m) = [m]"
| "log_text _ = []"

definition last_hundred :: "string list \<Rightarrow> string list" where
  "last_hundred ls = drop (length ls - 100) ls"

lemma push_log_last: "push_log m (last_hundred ls) = last_hundred (ls @ [m])"
proof -
  have "tl (drop k ls @ [m]) = drop (Suc k) ls @ [m]" if "k < length ls" for k
    using that by (simp add: tl_append2 drop_Suc tl_drop)
  moreover have "Suc (length ls - 100) = length ls - 99" if "\<not> length ls < 100" using that by linarith
  ultimately show ?thesis
    by (cases "length ls < 100") (auto simp: push_log_def last_hundred_def Let_def)
qed

lemma log_run: "logs (foldl (aggregator_add H) a ms) = last_hundred (ls @ concat (map log_text ms))"
  if "logs a = last_hundred ls" for ls
  using that
proof (induction ms arbitrary: a ls)
  case Nil
  then show ?case by simp
next
  case (Cons m ms)
  have "logs (aggregator_add H a m) = last_hundred (ls @ log_text m)"
    by (cases m) (simp_all add: Cons.prems push_log_last agg_defs Let_def)
  then show ?case using Cons.IH by simp
qed

theorem logs_bounded:
  "logs (foldl (aggregator_add H) (aggregator_new H) ms) = last_hundred (concat (map log_text ms))
   \<and> length (logs (sharded_merge H s)) \<le> 100"
  using log_run [of "aggregator_new H" "[]" H ms]
  by (simp add: sharded_merge_def Let_def aggregator_new_def last_hundred_def)

section \<open>Exact totals\<close>

text \<open>The metrics that count as requests, and the errors a metric contributes.\<close>

definition is_http :: "metric \<Rightarrow> bool" where
  "is_http m \<longleftrightarrow> is_Request m \<and> \<not> is_iteration (request_name m)"

definition is_failed_iteration :: "metric \<Rightarrow> bool" where
  "is_failed_iteration m \<longleftrightarrow> is_Request m \<and> is_iteration (request_name m)
     \<and> \<not> ends_with_iteration_total (request_name m) \<and> request_error m \<noteq> None"

definition counts_error :: "string \<Rightarrow> metric \<Rightarrow> bool" where
  "counts_error e m \<longleftrightarrow> (is_http m \<or> is_failed_iteration m) \<and> request_error m = Some e"

definition http_durations :: "metric list \<Rightarrow> duration list" where
  "http_durations ms = map (\<lambda>m. t_duration (request_time m)) (filter is_http ms)"

definition count_of :: "(metric \<Rightarrow> bool) \<Rightarrow> metric list \<Rightarrow> nat" where
  "count_of P ms = length (filter P ms)"

definition run_agg :: "'h hist_ops \<Rightarrow> metric list \<Rightarrow> 'h stats_aggregator" where
  "run_agg H ms = foldl (aggregator_add H) (aggregator_new H) ms"

lemma run_agg_snoc: "run_agg H (ms @ [m]) = aggregator_add H (run_agg H ms) m"
  by (simp add: run_agg_def)

lemma run_agg_Nil: "run_agg H [] = aggregator_new H"
  by (simp add: run_agg_def)

lemma or_bump: "hm_or 0 (hm_entry k 0 Suc m) k' = hm_or 0 m k' + (if k' = k then 1 else 0)"
  by (simp add: hmap)

lemma or_count_error: "hm_or 0 (count_error err m) e = hm_or 0 m e + (if err = Some e then 1 else 0)"
  by (cases err) (auto simp: count_error_def or_bump)

lemma request_totals:
  assumes b_def: "b = aggregator_add H a (Request name t status err tags)"
  shows "total_requests b = total_requests a + (if is_iteration name then 0 else 1)"
    "total_duration b = total_duration a + (if is_iteration name then 0 else t_duration t)"
    "hm_or 0 (status_codes b) c = hm_or 0 (status_codes a) c + (if \<not> is_iteration name \<and> status = c then 1 else 0)"
    "hm_or 0 (errors b) e = hm_or 0 (errors a) e +
       (if counts_error e (Request name t status err tags) then 1 else 0)"
    "failed_iterations b = failed_iterations a +
       (if is_failed_iteration (Request name t status err tags) then 1 else 0)"
    "total_data_sent b = total_data_sent a + (if is_iteration name then 0 else t_request_size t)"
    "total_data_received b = total_data_received a + (if is_iteration name then 0 else t_response_size t)"
    "pool_hits b = pool_hits a + (if \<not> is_iteration name \<and> t_pool_reused t then 1 else 0)"
  by (auto simp: b_def Let_def add_http_def add_failed_iteration_def add_group_def or_bump or_count_error
      counts_error_def is_http_def is_failed_iteration_def)

lemma other_totals:
  assumes "\<not> is_Request m" and b_def: "b = aggregator_add H a m"
  shows "total_requests b = total_requests a" "total_duration b = total_duration a"
    "status_codes b = status_codes a" "errors b = errors a" "failed_iterations b = failed_iterations a"
    "total_data_sent b = total_data_sent a" "total_data_received b = total_data_received a"
    "pool_hits b = pool_hits a" "requests b = requests a"
    "min_duration b = min_duration a" "max_duration b = max_duration a"
  using assms(1) by (cases m; simp add: b_def)+

section \<open>Extremes and averages\<close>

definition min_of :: "duration list \<Rightarrow> duration option" where
  "min_of ds = (if ds = [] then None else Some (Min (set ds)))"

definition max_of :: "duration list \<Rightarrow> duration" where
  "max_of ds = (if ds = [] then 0 else Max (set ds))"

lemma some_min: "Some (min d x) = (if d < x then Some d else Some (x :: nat))"
  by (simp add: min_def)

lemma min_of_snoc: "min_of (ds @ [d]) = lower_min d (min_of ds)"
proof (cases "ds = []")
  case False
  then have "Min (set (ds @ [d])) = min d (Min (set ds))" by simp
  with False have "min_of (ds @ [d]) = Some (min d (Min (set ds)))" by (simp add: min_of_def)
  with False show ?thesis by (simp only: some_min) (simp add: min_of_def lower_min_def)
qed (simp add: min_of_def lower_min_def)

lemma max_of_snoc: "max_of (ds @ [d]) = raise_max d (max_of ds)"
proof (cases "ds = []")
  case False
  then have "Max (set (ds @ [d])) = max d (Max (set ds))" by simp
  moreover have "max d x = (if d > x then d else x)" for x :: nat by (simp add: max_def)
  ultimately show ?thesis using False by (simp only: max_of_def raise_max_def append_is_Nil_conv if_False simp_thms)
qed (simp add: max_of_def raise_max_def)

lemma sum_between: "ds \<noteq> [] \<Longrightarrow> length ds * Min (set ds) \<le> sum_list ds \<and> sum_list ds \<le> length ds * Max (set (ds :: nat list))"
proof (intro conjI)
  assume "ds \<noteq> []"
  have "sum_list (map (\<lambda>_. Min (set ds)) ds) \<le> sum_list (map (\<lambda>d. d) ds)" by (rule sum_list_mono) simp
  then show "length ds * Min (set ds) \<le> sum_list ds" by (simp add: sum_list_triv)
  have "sum_list (map (\<lambda>d. d) ds) \<le> sum_list (map (\<lambda>_. Max (set ds)) ds)" by (rule sum_list_mono) simp
  then show "sum_list ds \<le> length ds * Max (set ds)" by (simp add: sum_list_triv)
qed

lemma extremes_run:
  "min_duration (run_agg H ms) = min_of (http_durations ms) \<and> max_duration (run_agg H ms) = max_of (http_durations ms)
   \<and> total_requests (run_agg H ms) = length (http_durations ms)
   \<and> total_duration (run_agg H ms) = sum_list (http_durations ms)"
proof (induction ms rule: rev_induct)
  case Nil
  then show ?case by (simp add: run_agg_Nil aggregator_new_def http_durations_def min_of_def max_of_def)
next
  case (snoc m ms)
  show ?case
  proof (cases m)
    case (Request name t status err tags)
    then show ?thesis using snoc.IH
      by (simp add: run_agg_snoc Let_def add_http_def add_failed_iteration_def add_group_def
          http_durations_def is_http_def min_of_snoc max_of_snoc)
  qed (use snoc.IH in \<open>simp_all add: run_agg_snoc other_totals [OF _ refl] http_durations_def is_http_def
      del: aggregator_add.simps\<close>)
qed

lemma total_requests_count: "total_requests (run_agg H ms) = count_of is_http ms"
  using extremes_run [of H ms] by (simp add: http_durations_def count_of_def)

text \<open>The reported extremes are the smallest and the largest request duration of the run, so
  the average lies between them: the minimum is absent exactly when there was no request, and
  requests times minimum, total duration, and requests times maximum are in order.\<close>

theorem extremes_exact:
  "min_duration (run_agg H ms) = min_of (http_durations ms)
   \<and> max_duration (run_agg H ms) = max_of (http_durations ms)
   \<and> (case min_duration (run_agg H ms) of None \<Rightarrow> total_requests (run_agg H ms) = 0
      | Some m \<Rightarrow> total_requests (run_agg H ms) * m \<le> total_duration (run_agg H ms)
          \<and> total_duration (run_agg H ms) \<le> total_requests (run_agg H ms) * max_duration (run_agg H ms))"
proof -
  have n: "total_requests (run_agg H ms) = length (http_durations ms)"
    and d: "total_duration (run_agg H ms) = sum_list (http_durations ms)"
    using extremes_run [of H ms] by simp_all
  show ?thesis
    using extremes_run [of H ms] sum_between [of "http_durations ms"]
    by (simp add: n d min_of_def max_of_def)
qed

lemma failed_run: "failed_iterations (run_agg H ms) = count_of is_failed_iteration ms"
proof (induction ms rule: rev_induct)
  case (snoc m ms)
  show ?case
  proof (cases "is_Request m")
    case True
    then show ?thesis using snoc
      by (cases m) (simp_all add: run_agg_snoc request_totals [OF refl] count_of_def del: aggregator_add.simps)
  next
    case False
    then show ?thesis using snoc
      by (simp add: run_agg_snoc other_totals [OF _ refl] count_of_def is_failed_iteration_def)
  qed
qed (simp add: run_agg_Nil aggregator_new_def count_of_def)

section \<open>Groups\<close>

definition group_of :: "metric \<Rightarrow> string" where
  "group_of m = full_name (request_name m) (request_tags m)"

definition in_group :: "string \<Rightarrow> metric \<Rightarrow> bool" where
  "in_group k m \<longleftrightarrow> is_Request m \<and> group_of m = k"

definition group_durations :: "string \<Rightarrow> metric list \<Rightarrow> duration list" where
  "group_durations k ms = map (\<lambda>m. t_duration (request_time m)) (filter (in_group k) ms)"

text \<open>The statistics of a group, as a function of its metrics in order.\<close>

definition group_stats :: "'h hist_ops \<Rightarrow> metric list \<Rightarrow> 'h request_stats" where
  "group_stats H ms = foldl (\<lambda>r m. add_request_stats H (request_time m) (request_error m) r) (request_stats_new H) ms"

lemma in_group_other: "\<not> is_Request m \<Longrightarrow> \<not> in_group k m"
  by (simp add: in_group_def)

lemma groups_run:
  "hm_get (requests (run_agg H ms)) k =
     (if filter (in_group k) ms = [] then None else Some (group_stats H (filter (in_group k) ms)))"
proof (induction ms rule: rev_induct)
  case Nil
  then show ?case by (simp add: run_agg_Nil aggregator_new_def)
next
  case (snoc m ms)
  have nt: "\<not> no_endpoint_tracking (run_agg H ms)"
    unfolding run_agg_def by (rule foldl_invariant) (simp_all add: aggregator_new_def del: aggregator_add.simps)
  show ?case
  proof (cases m)
    case (Request name t status err tags)
    then have "requests (run_agg H (ms @ [m])) =
        hm_entry (full_name name tags) (request_stats_new H) (add_request_stats H t err) (requests (run_agg H ms))"
      using nt by (simp add: run_agg_snoc Let_def add_http_def add_failed_iteration_def add_group_def)
    moreover have "in_group k m \<longleftrightarrow> k = full_name name tags"
      by (auto simp: in_group_def group_of_def Request)
    ultimately show ?thesis
      using snoc.IH Request
      by (cases "k = full_name name tags") (auto simp: hmap hm_or_def group_stats_def)
  qed (use snoc.IH in \<open>simp_all add: run_agg_snoc other_totals [OF _ refl] in_group_other
      del: aggregator_add.simps\<close>)
qed

lemma group_stats_fields:
  "r_total_requests (group_stats H ms) = length ms
   \<and> r_total_duration (group_stats H ms) = sum_list (map (\<lambda>m. t_duration (request_time m)) ms)
   \<and> r_error_count (group_stats H ms) = count_of (\<lambda>m. request_error m \<noteq> None) ms
   \<and> r_min_duration (group_stats H ms) = min_of (map (\<lambda>m. t_duration (request_time m)) ms)
   \<and> r_max_duration (group_stats H ms) = max_of (map (\<lambda>m. t_duration (request_time m)) ms)
   \<and> r_histogram (group_stats H ms) =
       foldl (h_record H) (h_new H) (map (\<lambda>m. hist_micros (t_duration (request_time m))) ms)"
proof (induction ms rule: rev_induct)
  case Nil
  then show ?case by (simp add: group_stats_def request_stats_new_def count_of_def min_of_def max_of_def)
next
  case (snoc m ms)
  have "group_stats H (ms @ [m]) = add_request_stats H (request_time m) (request_error m) (group_stats H ms)"
    by (simp add: group_stats_def)
  then show ?case
    using snoc.IH by (auto simp: add_request_stats_def count_of_def min_of_snoc max_of_snoc)
qed

text \<open>C23. Requests are grouped by name and tags: the group of a tagged name exists exactly when a
  request or iteration metric with it was received, and holds their count, their errors, their
  total, smallest and largest duration, and the histogram of their durations.\<close>

theorem groups_exact:
  "case hm_get (requests (run_agg H ms)) k of
     None \<Rightarrow> filter (in_group k) ms = []
   | Some r \<Rightarrow> r_total_requests r = length (filter (in_group k) ms) \<and> 0 < r_total_requests r
       \<and> r_total_duration r = sum_list (group_durations k ms)
       \<and> r_error_count r = count_of (\<lambda>m. in_group k m \<and> request_error m \<noteq> None) ms
       \<and> r_min_duration r = min_of (group_durations k ms)
       \<and> r_max_duration r = max_of (group_durations k ms)
       \<and> r_histogram r = foldl (h_record H) (h_new H) (map hist_micros (group_durations k ms))"
  using group_stats_fields [of H "filter (in_group k) ms"]
  by (simp add: groups_run group_durations_def count_of_def conj_commute comp_def)

text \<open>The group of a request does not depend on the order in which the tag map iterates.\<close>

theorem full_name_order:
  assumes "mset tags = mset tags'" "hm_wf tags"
  shows "full_name name tags = full_name name tags'"
proof -
  have "sort_key fst tags = sort_key fst tags'"
  proof (rule properties_for_sort_key)
    show "mset (sort_key fst tags') = mset tags" using assms by simp
    show "sorted (map fst (sort_key fst tags'))" by simp
    fix k assume k: "k \<in> set (sort_key fst tags')"
    have d: "distinct (map fst ts) \<Longrightarrow> k \<in> set ts \<Longrightarrow> filter (\<lambda>x. fst k = fst x) ts = [k]" for ts :: tag_map
      by (induction ts) (auto simp: filter_empty_conv)
    have "mset (map fst tags) = mset (map fst (sort_key fst tags'))" using assms by simp
    then have "distinct (map fst (sort_key fst tags'))" using assms(2) by (metis mset_eq_imp_distinct_iff)
    moreover have "k \<in> set tags" using assms(1) k by (metis set_mset_mset set_sort)
    ultimately show "filter (\<lambda>x. fst k = fst x) (sort_key fst tags') = filter (\<lambda>x. fst k = fst x) tags"
      using d assms(2) k by simp
  qed
  moreover have "tags = [] \<longleftrightarrow> tags' = []" using assms(1) by (metis mset_zero_iff)
  ultimately show ?thesis by (simp add: full_name_def)
qed

theorem full_name_order_witness:
  "full_name ''r'' [(''b'', ''2''), (''a'', ''1'')] = full_name ''r'' [(''a'', ''1''), (''b'', ''2'')]"
  by (rule full_name_order) simp_all

section \<open>Gauges\<close>

lemma get_rev: "hm_wf m \<Longrightarrow> hm_get (rev m) k = hm_get m k"
proof (induction m)
  case (Cons p m)
  then have "hm_get m (fst p) = None" by (simp add: map_of_eq_None_iff)
  with Cons show ?case by (cases p) (auto simp: map_add_def split: option.split)
qed simp

text \<open>The value of a gauge in the last shard that has it.\<close>

fun last_gauge :: "string \<Rightarrow> 'h stats_aggregator list \<Rightarrow> f64 option" where
  "last_gauge k [] = None"
| "last_gauge k (s # ss) = (case last_gauge k ss of Some v \<Rightarrow> Some v | None \<Rightarrow> hm_get (gauges s) k)"

lemma gauges_shard:
  "hm_wf (gauges s) \<Longrightarrow> hm_get (gauges (merge_shard H m s)) k =
     (case hm_get (gauges s) k of None \<Rightarrow> hm_get (gauges m) k | Some v \<Rightarrow> Some v)"
proof -
  assume wf: "hm_wf (gauges s)"
  have "foldl (\<lambda>g (k, v). hm_insert k v g) (gauges m) (gauges s) = fold (\<lambda>(k, v). hm_insert k v) (gauges s) (gauges m)"
    by (simp add: foldl_conv_fold case_prod_beta')
  then show ?thesis using wf by (simp add: merge_shard_def hms.last_put_wins get_rev)
qed

lemma gauges_merged:
  "list_all (\<lambda>s. hm_wf (gauges s)) ss \<Longrightarrow> hm_get (gauges (foldl (merge_shard H) m ss)) k =
     (case last_gauge k ss of Some v \<Rightarrow> Some v | None \<Rightarrow> hm_get (gauges m) k)"
  by (induction ss arbitrary: m) (simp_all add: gauges_shard split: option.split)

text \<open>A merged gauge is the value of the last shard, by shard number, that has it; a single
  aggregator keeps the last value recorded. The two differ when the later value was recorded in
  an earlier shard, so the reported gauge depends on how the metrics were spread.\<close>

theorem merged_gauge:
  assumes "list_all (\<lambda>a. hm_wf (gauges a)) (shards s)"
  shows "hm_get (gauges (sharded_merge H s)) k = last_gauge k (shards s)"
  using gauges_merged [OF assms, of H "aggregator_new H" k]
  by (simp add: sharded_merge_def Let_def aggregator_new_def split: option.splits)

theorem merged_gauge_witness:
  "\<exists>s. sharded_adds list_hist (sharded_new list_hist 2) [(1, Gauge ''g'' (Fin 5) []), (0, Gauge ''g'' (Fin 3) [])] = Returns s
    \<and> hm_get (gauges (sharded_merge list_hist s)) ''g'' = Some (Fin 5)
    \<and> hm_get (gauges (run_agg list_hist [Gauge ''g'' (Fin 5) [], Gauge ''g'' (Fin 3) []])) ''g'' = Some (Fin 3)"
proof -
  let ?new = "aggregator_new list_hist"
  let ?s = "\<lparr>shards = [?new\<lparr>gauges := [(''g'', Fin 3)]\<rparr>, ?new\<lparr>gauges := [(''g'', Fin 5)]\<rparr>], num_shards = 2\<rparr>"
  have "sharded_adds list_hist (sharded_new list_hist 2) [(1, Gauge ''g'' (Fin 5) []), (0, Gauge ''g'' (Fin 3) [])] = Returns ?s"
    by (simp add: sharded_new_def sharded_add_def Let_def hm_insert_def aggregator_new_def upt_rec numeral_2_eq_2)
  moreover have "hm_get (gauges (sharded_merge list_hist ?s)) ''g'' = Some (Fin 5)"
    by (subst merged_gauge) simp_all
  ultimately show ?thesis
    by (simp add: run_agg_def aggregator_new_def hm_insert_def)
qed

text \<open>C3. The totals of a run are exactly those of the list of metrics received, for one
  aggregator. Iteration metrics are never counted as requests. An HTTP error is counted once under
  its message, and a failed iteration once (its \<open>::iteration\<close> metric, not the
  \<open>::iteration_total\<close> twin).\<close>

theorem totals_exact:
  "total_requests (run_agg H ms) = count_of is_http ms
   \<and> total_duration (run_agg H ms) = sum_list (http_durations ms)
   \<and> (\<forall>c. hm_or 0 (status_codes (run_agg H ms)) c = count_of (\<lambda>m. is_http m \<and> request_status m = c) ms)
   \<and> (\<forall>e. hm_or 0 (errors (run_agg H ms)) e = count_of (counts_error e) ms)
   \<and> failed_iterations (run_agg H ms) = count_of is_failed_iteration ms
   \<and> total_data_sent (run_agg H ms) = sum_list (map (\<lambda>m. t_request_size (request_time m)) (filter is_http ms))
   \<and> total_data_received (run_agg H ms) = sum_list (map (\<lambda>m. t_response_size (request_time m)) (filter is_http ms))
   \<and> pool_hits (run_agg H ms) = count_of (\<lambda>m. is_http m \<and> t_pool_reused (request_time m)) ms"
proof (induction ms rule: rev_induct)
  case Nil
  then show ?case
    by (simp add: run_agg_Nil aggregator_new_def count_of_def http_durations_def hmap)
next
  case (snoc m ms)
  show ?case
  proof (cases m)
    case (Request name t status err tags)
    then show ?thesis
      using snoc.IH by (simp add: run_agg_snoc request_totals [OF refl] count_of_def http_durations_def is_http_def
          del: aggregator_add.simps)
  qed (use snoc.IH in \<open>simp_all add: run_agg_snoc other_totals [OF _ refl] count_of_def http_durations_def is_http_def
      counts_error_def is_failed_iteration_def del: aggregator_add.simps\<close>)
qed

text \<open>C22. The invariant of the aggregator after any run: the status codes and the pool counters
  each add up to the number of requests, every error is a request's or a failed iteration's, passed
  checks and successes never exceed their totals, and the group counts are consistent.\<close>

theorem aggregator_invariant:
  "hm_sum (status_codes (run_agg H ms)) = total_requests (run_agg H ms)
   \<and> pool_hits (run_agg H ms) + pool_misses (run_agg H ms) = total_requests (run_agg H ms)
   \<and> failed_iterations (run_agg H ms) \<le> hm_sum (errors (run_agg H ms))
   \<and> hm_sum (errors (run_agg H ms)) \<le> total_requests (run_agg H ms) + failed_iterations (run_agg H ms)
   \<and> all_values counted (checks (run_agg H ms)) \<and> all_values counted (rates (run_agg H ms))
   \<and> all_values group_ok (requests (run_agg H ms)) \<and> maps_wf (run_agg H ms)"
  using aggm.run_inv [OF agg_inv_new [of H], where es = ms and H = H] by (simp add: run_agg_def agg_inv_def)

theorem sharding_is_transparent_witness:
  "\<exists>s. sharded_adds list_hist (sharded_new list_hist 16) [(3, Check ''ok'' True None), (20, Check ''ok'' False None)] = Returns s
    \<and> hm_get (checks (sharded_merge list_hist s)) ''ok'' = Some (2, 1)"
proof -
  let ?es = "[(3, Check ''ok'' True None), (20, Check ''ok'' False None)]"
  obtain s where s: "sharded_adds list_hist (sharded_new list_hist 16) ?es = Returns s"
      "same_totals (sharded_merge list_hist s) (foldl (aggregator_add list_hist) (aggregator_new list_hist) (map snd ?es))"
    using sharding_is_transparent [OF hist_laws_list, of 16 ?es] by auto
  have "hm_get (checks (foldl (aggregator_add list_hist) (aggregator_new list_hist) (map snd ?es))) ''ok'' = Some (2, 1)"
    by (simp add: aggregator_new_def hm_entry_def hm_insert_def bump_pair_def)
  with s show ?thesis by (intro exI [of _ s]) (simp add: same_totals_def)
qed

end
