(* ===== verification/Control.thy ===== *)
theory Control
  imports Durations
begin

text \<open>
  \<open>src/engine/control.rs\<close>: the state shared by the control loop and the workers (pause, stop,
  target, tags, the bookkeeping of paused time) and the parser of interactive commands. The
  clock (\<open>reference_instant.elapsed()\<close> in milliseconds) is the argument \<open>now\<close> of the
  operations that read it. Timed runs of operations with a clock that does not go back are the
  executions the invariants are about.
\<close>

datatype control_command =
    Ramp nat | Pause | Resume | Tag string string | Status | Stop

record control_state =
  paused :: bool
  target_workers :: nat
  run_tags :: "(string, string) hmap"
  stopped :: bool
  total_paused_ms :: nat
  pause_started_ms :: nat

definition new_control :: "nat \<Rightarrow> control_state" where
  "new_control initial_workers = \<lparr>paused = False, target_workers = initial_workers, run_tags = [],
     stopped = False, total_paused_ms = 0, pause_started_ms = 0\<rparr>"

definition pause :: "nat \<Rightarrow> control_state \<Rightarrow> control_state" where
  "pause now s = s\<lparr>pause_started_ms := now, paused := True\<rparr>"

definition resume :: "nat \<Rightarrow> control_state \<Rightarrow> control_state" where
  "resume now s = (let started = pause_started_ms s; s1 = s\<lparr>paused := False, pause_started_ms := 0\<rparr>
     in if started > 0 then s1\<lparr>total_paused_ms := total_paused_ms s1 + (now - started)\<rparr> else s1)"

definition total_paused :: "nat \<Rightarrow> control_state \<Rightarrow> duration" where
  "total_paused now s = (let total = total_paused_ms s;
       total = (if paused s then (let started = pause_started_ms s in
                  if started > 0 then total + (now - started) else total)
                else total)
     in total * millis)"

definition is_paused :: "control_state \<Rightarrow> bool" where
  "is_paused s = paused s"

definition set_target_workers :: "nat \<Rightarrow> control_state \<Rightarrow> control_state" where
  "set_target_workers n s = s\<lparr>target_workers := n\<rparr>"

definition get_target_workers :: "control_state \<Rightarrow> nat" where
  "get_target_workers s = target_workers s"

definition add_tag :: "string \<Rightarrow> string \<Rightarrow> control_state \<Rightarrow> control_state" where
  "add_tag k v s = s\<lparr>run_tags := hm_insert k v (run_tags s)\<rparr>"

definition get_tags :: "control_state \<Rightarrow> (string, string) hmap" where
  "get_tags s = run_tags s"

definition stop_control :: "control_state \<Rightarrow> control_state" where
  "stop_control s = s\<lparr>stopped := True\<rparr>"

definition is_stopped :: "control_state \<Rightarrow> bool" where
  "is_stopped s = stopped s"

definition default_control :: control_state where
  "default_control = new_control 1"

section \<open>The command parser\<close>

definition parse_control_command :: "string \<Rightarrow> control_command option" where
  "parse_control_command input = (let parts = split_ws (trim input) in
     if parts = [] then None
     else let word = to_lower (hd parts) in
       if word = ''ramp'' \<or> word = ''scale'' then
         (if length parts \<le> 1 then None else map_option Ramp (parse_u64 (parts ! 1)))
       else if word = ''pause'' then Some Pause
       else if word = ''resume'' \<or> word = ''unpause'' then Some Resume
       else if word = ''tag'' then
         (if length parts \<le> 1 then None
          else map_option (\<lambda>(k, v). Tag k v) (split_once (CHR ''='') (parts ! 1)))
       else if word = ''status'' \<or> word = ''stats'' then Some Status
       else if word = ''stop'' \<or> word = ''quit'' \<or> word = ''exit'' then Some Stop
       else None)"

section \<open>Timed executions\<close>

text \<open>The calls on the shared state, each at its clock value.\<close>

datatype control_call =
    CallPause | CallResume | CallTarget nat | CallTag string string | CallStop

fun control_apply :: "control_state \<Rightarrow> nat \<times> control_call \<Rightarrow> control_state" where
  "control_apply s (now, CallPause) = pause now s"
| "control_apply s (now, CallResume) = resume now s"
| "control_apply s (now, CallTarget n) = set_target_workers n s"
| "control_apply s (now, CallTag k v) = add_tag k v s"
| "control_apply s (now, CallStop) = stop_control s"

definition control_run :: "nat \<Rightarrow> (nat \<times> control_call) list \<Rightarrow> control_state" where
  "control_run w calls = foldl control_apply (new_control w) calls"

lemmas control_defs = new_control_def pause_def resume_def total_paused_def is_paused_def
  set_target_workers_def add_tag_def get_tags_def stop_control_def is_stopped_def Let_def

text \<open>Paused time is bounded by the clock, and a running state has no pause in progress.\<close>

definition control_inv :: "nat \<Rightarrow> control_state \<Rightarrow> bool" where
  "control_inv now s \<longleftrightarrow> (\<not> paused s \<longrightarrow> pause_started_ms s = 0) \<and>
     total_paused_ms s \<le> now \<and> pause_started_ms s \<le> now \<and>
     (pause_started_ms s > 0 \<longrightarrow> total_paused_ms s \<le> pause_started_ms s) \<and> hm_wf (run_tags s)"

lemma control_inv_new: "control_inv now (new_control w)"
  by (simp add: control_inv_def new_control_def)

lemma control_inv_later: "control_inv now s \<Longrightarrow> now \<le> later \<Longrightarrow> control_inv later s"
  by (auto simp: control_inv_def)

lemma control_inv_apply: "control_inv now s \<Longrightarrow> control_inv now (control_apply s (now, c))"
  by (cases c) (auto simp: control_inv_def control_defs hmap)

lemma control_inv_run:
  assumes "sorted (map fst calls)" "\<forall>(t, c) \<in> set calls. start \<le> t \<and> t \<le> now"
    and "control_inv start s" "start \<le> now"
  shows "control_inv now (foldl control_apply s calls)"
  using assms
proof (induction calls arbitrary: s start)
  case Nil
  then show ?case by (auto intro: control_inv_later)
next
  case (Cons p calls)
  obtain t c where p: "p = (t, c)" by force
  with Cons.prems have "control_inv t s" by (auto intro: control_inv_later)
  then have "control_inv t (control_apply s p)" by (simp add: p control_inv_apply)
  moreover have "\<forall>(t', c) \<in> set calls. t \<le> t' \<and> t' \<le> now"
    using Cons.prems(1,2) p by fastforce
  ultimately show ?case
    using Cons.IH [of t "control_apply s p"] Cons.prems p by simp
qed

lemma total_paused_le: "control_inv now s \<Longrightarrow> total_paused now s \<le> now * millis"
  by (auto simp: control_inv_def total_paused_def Let_def)

text \<open>The calls between two pauses do not touch the bookkeeping.\<close>

definition quiet :: "control_call \<Rightarrow> bool" where
  "quiet c \<longleftrightarrow> c \<noteq> CallPause \<and> c \<noteq> CallResume"

definition pause_view :: "control_state \<Rightarrow> bool \<times> nat \<times> nat" where
  "pause_view s = (paused s, total_paused_ms s, pause_started_ms s)"

lemma quiet_view: "quiet c \<Longrightarrow> pause_view (control_apply s (t, c)) = pause_view s"
  by (cases c) (auto simp: quiet_def pause_view_def control_defs)

lemma total_paused_view: "pause_view s = pause_view s' \<Longrightarrow> total_paused now s = total_paused now s'"
  by (auto simp: pause_view_def total_paused_def Let_def)

text \<open>A schedule of complete pauses: \<open>(from, upto)\<close> pairs.\<close>

fun pause_calls :: "(nat \<times> nat) list \<Rightarrow> (nat \<times> control_call) list" where
  "pause_calls [] = []"
| "pause_calls ((a, b) # ps) = (a, CallPause) # (b, CallResume) # pause_calls ps"

lemma pauses_add:
  assumes "\<forall>(a, b) \<in> set ps. 0 < a \<and> a \<le> b" "\<not> paused s" "pause_started_ms s = 0"
  shows "pause_view (foldl control_apply s (pause_calls ps)) =
    (False, total_paused_ms s + sum_list (map (\<lambda>(a, b). b - a) ps), 0)"
  using assms
  by (induction ps arbitrary: s rule: pause_calls.induct) (auto simp: pause_view_def control_defs)

section \<open>Properties\<close>

text \<open>Whatever operations arrive in whatever order, with a clock that does not go back, the
  paused time the engine subtracts from the elapsed time never exceeds the clock, and a state
  that is not paused has no pause in progress and reports exactly the accumulated total.\<close>

theorem paused_time_bounded:
  assumes "sorted (map fst calls)" "\<forall>(t, c) \<in> set calls. t \<le> now"
  shows "total_paused now (control_run w calls) \<le> now * millis
    \<and> (\<not> is_paused (control_run w calls) \<longrightarrow>
        pause_started_ms (control_run w calls) = 0 \<and>
        total_paused now (control_run w calls) = total_paused_ms (control_run w calls) * millis)"
proof -
  have "control_inv now (control_run w calls)"
    unfolding control_run_def using assms
    by (intro control_inv_run [where start = 0]) (auto simp: control_inv_new)
  then show ?thesis
    using total_paused_le by (simp add: control_inv_def is_paused_def total_paused_def)
qed

theorem paused_time_bounded_witness:
  "total_paused 9 (control_run 1 [(2, CallPause), (5, CallPause), (7, CallResume)]) \<le> 9 * millis"
  using paused_time_bounded [of "[(2, CallPause), (5, CallPause), (7, CallResume)]" 9 1] by simp

text \<open>Complete pauses are accounted exactly: after pausing at \<open>a\<close> and resuming at \<open>b\<close>
  for each pair of a list, the paused time is the sum of the lengths.\<close>

theorem complete_pauses_add_up:
  assumes "\<forall>(a, b) \<in> set ps. 0 < a \<and> a \<le> b"
  shows "total_paused now (control_run w (pause_calls ps)) =
    sum_list (map (\<lambda>(a, b). b - a) ps) * millis"
  using pauses_add [OF assms, of "new_control w"]
  by (simp add: control_run_def new_control_def pause_view_def total_paused_def)

theorem complete_pauses_add_up_witness:
  "total_paused 30 (control_run 1 (pause_calls [(2, 5), (10, 20)])) = 13 * millis"
  using complete_pauses_add_up [of "[(2, 5), (10, 20)]" 30 1] by simp

text \<open>A second \<open>pause\<close> while paused restarts the pause: at that moment the reported
  paused time falls by the whole first stretch, so the elapsed time the schedule sees jumps
  ahead. (The first stretch is lost for good: \<open>resume\<close> adds the second one only.)\<close>

theorem second_pause_loses_time:
  assumes "0 < a" "a < b" "b \<le> c"
  shows "total_paused b (control_run w [(a, CallPause)]) = (b - a) * millis
    \<and> total_paused b (control_run w [(a, CallPause), (b, CallPause)]) = 0
    \<and> total_paused c (control_run w [(a, CallPause), (b, CallPause), (c, CallResume)]) = (c - b) * millis"
  using assms by (simp add: control_run_def control_defs)

theorem second_pause_loses_time_witness:
  "total_paused 5000 (control_run 1 [(1000, CallPause), (5000, CallPause)]) = 0
    \<and> total_paused 5000 (control_run 1 [(1000, CallPause)]) = 4000 * millis"
  using second_pause_loses_time [of 1000 5000 6000 1] by simp

text \<open>The text a user types for a command.\<close>

fun command_text :: "control_command \<Rightarrow> string" where
  "command_text (Ramp n) = ''ramp '' @ show_nat n"
| "command_text Pause = ''pause''"
| "command_text Resume = ''resume''"
| "command_text (Tag k v) = ''tag '' @ k @ ''='' @ v"
| "command_text Status = ''status''"
| "command_text Stop = ''stop''"

definition typable :: "control_command \<Rightarrow> bool" where
  "typable c = (case c of Ramp n \<Rightarrow> n < u64_size
     | Tag k v \<Rightarrow> CHR ''='' \<notin> set k \<and> list_all (\<lambda>c. \<not> is_ws c) (k @ v)
     | _ \<Rightarrow> True)"

lemma words2: "list_all (\<lambda>c. \<not> is_ws c) a \<Longrightarrow> list_all (\<lambda>c. \<not> is_ws c) b \<Longrightarrow> a \<noteq> [] \<Longrightarrow> b \<noteq> [] \<Longrightarrow>
    split_ws (trim (a @ CHR 0x20 # b)) = [a, b]"
proof -
  assume ab: "list_all (\<lambda>c. \<not> is_ws c) a" "list_all (\<lambda>c. \<not> is_ws c) b" "a \<noteq> []" "b \<noteq> []"
  have "trim (a @ CHR 0x20 # b) = a @ CHR 0x20 # b"
    by (rule trim_no_ws) (use ab in \<open>auto simp: hd_append list_all_iff\<close>)
  with ab show ?thesis by (simp add: text_simps is_ws_def)
qed

lemma word1: "list_all (\<lambda>c. \<not> is_ws c) a \<Longrightarrow> a \<noteq> [] \<Longrightarrow> split_ws (trim a) = [a]"
  by (subst trim_no_ws) (auto simp: text_simps list_all_iff)

lemma show_nat_no_ws: "list_all (\<lambda>c. \<not> is_ws c) (show_nat n)"
  using show_nat_digits [of n] by (auto simp: list_all_iff digit_not_ws)

text \<open>Every command that can be typed (a target below \<open>2 ^ 64\<close>; a tag without white space and
  with no equals sign in its key) is read back as that command.\<close>

theorem command_roundtrip:
  assumes "typable c"
  shows "parse_control_command (command_text c) = Some c"
proof (cases c)
  case (Ramp n)
  have "split_ws (trim (''ramp'' @ CHR 0x20 # show_nat n)) = [''ramp'', show_nat n]"
    by (rule words2) (simp add: is_ws_def, simp_all add: show_nat_no_ws)
  moreover have "to_lower ''ramp'' = ''ramp''" by code_simp
  ultimately show ?thesis
    using assms Ramp by (simp add: parse_control_command_def typable_def parse_show_nat)
next
  case (Tag k v)
  have "split_ws (trim (''tag'' @ CHR 0x20 # (k @ CHR ''='' # v))) = [''tag'', k @ CHR ''='' # v]"
    using assms Tag by (intro words2) (auto simp: is_ws_def typable_def)
  moreover have "to_lower ''tag'' = ''tag''" by code_simp
  ultimately show ?thesis
    using assms Tag by (simp add: parse_control_command_def typable_def split_once_append)
qed (simp; code_simp)+

theorem command_roundtrip_witness:
  "parse_control_command (command_text (Tag ''env'' ''a=b'')) = Some (Tag ''env'' ''a=b'')"
  by (rule command_roundtrip) (simp add: typable_def is_ws_def)

end
