(* ===== verification/Workers.thy ===== *)
theory Workers
  imports Schedule Totals Control
begin

text \<open>
  The workers of \<open>src/engine/mod.rs\<close> (\<open>run_load_test\<close>). A worker's loop reads shared flags and
  the clock and calls the script; those readings are its input, one record per pass, and its
  output is what it does: the iterations it runs with the metrics it sends, its waits, and why it
  ends. \<open>SharedIterations\<close> is a step relation over all the workers of a scenario, since they
  race on one counter. The arrival-rate dispatcher and its workers share a bounded channel, whose
  answers are input.
\<close>

section \<open>Metrics of an iteration\<close>

definition iteration_name :: "string option \<Rightarrow> string \<Rightarrow> string" where
  "iteration_name scenario base = (case scenario of None \<Rightarrow> base | Some s \<Rightarrow> s @ ''::'' @ base)"

text \<open>Two metrics per iteration: the active time without the script's sleeps, and the total time.
  A thrown error is status 0 with its message.\<close>

definition iteration_metrics :: "string option \<Rightarrow> duration \<Rightarrow> duration \<Rightarrow> string option \<Rightarrow> tag_map \<Rightarrow> metric list" where
  "iteration_metrics scenario elapsed sleep_time err tags =
     (let active_time = elapsed - sleep_time;
          status = (if err = None then 200 else 0)
      in [Request (iteration_name scenario ''iteration'')
            (default_timings\<lparr>t_duration := active_time\<rparr>) status err tags,
          Request (iteration_name scenario ''iteration_total'')
            (default_timings\<lparr>t_duration := elapsed\<rparr>) status err tags])"

text \<open>The function a worker calls: the scenario's, or \<open>default\<close>; none ends the worker.\<close>

definition resolve_exec :: "string list \<Rightarrow> string \<Rightarrow> string option" where
  "resolve_exec exports exec_fn = (if exec_fn \<in> set exports then Some exec_fn
     else if ''default'' \<in> set exports then Some ''default'' else None)"

text \<open>The check of the script before any worker is spawned.\<close>

fun missing_exec :: "string list \<Rightarrow> (string \<times> scenario_config) list \<Rightarrow> string option" where
  "missing_exec exports [] = None"
| "missing_exec exports ((name, sc) # rest) =
     (let exec_fn = (case sc_exec sc of None \<Rightarrow> ''default'' | Some f \<Rightarrow> f) in
       if exec_fn \<notin> set exports \<and> ''default'' \<notin> set exports
       then Some (''Scenario '' @ [CHR 0x27] @ name @ [CHR 0x27] @ '': function '' @ [CHR 0x27] @ exec_fn
         @ [CHR 0x27] @ '' not found and no '' @ [CHR 0x27] @ ''default'' @ [CHR 0x27] @ '' fallback'')
       else missing_exec exports rest)"

definition validate_exports :: "string list \<Rightarrow> config \<Rightarrow> string option" where
  "validate_exports exports c =
     (if ''default'' \<notin> set exports \<and> c_scenarios c = None then
        Some (''Script error: '' @ [CHR 0x27] @ ''default'' @ [CHR 0x27]
          @ '' function not found. Did you forget to export default function?'')
      else case c_scenarios c of None \<Rightarrow> None | Some scs \<Rightarrow> missing_exec exports scs)"

section \<open>The closed worker loop\<close>

text \<open>What a worker reads in one pass: its flag at the head of the loop, the number of 100 ms
  pauses it waits through, the flags after them, the iteration's duration, sleeps and error, the
  tags, and for shared iterations the value \<open>fetch_add\<close> returned.\<close>

record pass =
  p_running :: bool
  p_pause_polls :: nat
  p_stopped :: bool
  p_still_running :: bool
  p_elapsed :: duration
  p_slept :: duration
  p_error :: "string option"
  p_tags :: tag_map
  p_claimed :: nat

record worker_config =
  w_scenario :: "string option"
  w_shared :: bool
  w_total_shared :: nat
  w_max_iterations :: "nat option"
  w_min_duration :: "duration option"

datatype worker_exit = FlagCleared | GlobalStop | LimitReached | SharedExhausted | Running

datatype action = PausePolls nat | Iteration nat "metric list" | Wait duration

definition min_wait :: "duration option \<Rightarrow> duration \<Rightarrow> action list" where
  "min_wait md elapsed = (case md of None \<Rightarrow> []
     | Some d \<Rightarrow> if elapsed < d then [Wait (d - elapsed)] else [])"

text \<open>The check of the limits after \<open>iteration_count\<close> iterations.\<close>

definition limit_after :: "worker_config \<Rightarrow> nat \<Rightarrow> pass \<Rightarrow> worker_exit option" where
  "limit_after w iteration_count p =
     (if w_shared w then (if p_claimed p \<ge> w_total_shared w then Some SharedExhausted else None)
      else case w_max_iterations w of None \<Rightarrow> None
        | Some m \<Rightarrow> if iteration_count \<ge> m then Some LimitReached else None)"

definition run_iteration :: "worker_config \<Rightarrow> nat \<Rightarrow> pass \<Rightarrow> action list" where
  "run_iteration w iteration_count p = [PausePolls (p_pause_polls p), Iteration iteration_count
     (iteration_metrics (w_scenario w) (p_elapsed p) (p_slept p) (p_error p) (p_tags p))]"

fun worker_loop :: "worker_config \<Rightarrow> nat \<Rightarrow> pass list \<Rightarrow> action list \<times> worker_exit" where
  "worker_loop w iteration_count [] = ([], Running)"
| "worker_loop w iteration_count (p # ps) =
     (if \<not> p_running p then ([], FlagCleared)
      else if p_stopped p \<or> \<not> p_still_running p then
        ([PausePolls (p_pause_polls p)], if p_stopped p then GlobalStop else FlagCleared)
      else case limit_after w (iteration_count + 1) p of
        Some e \<Rightarrow> (run_iteration w iteration_count p, e)
      | None \<Rightarrow> (let (acts, e) = worker_loop w (iteration_count + 1) ps in
          (run_iteration w iteration_count p @ min_wait (w_min_duration w) (p_elapsed p) @ acts, e)))"

text \<open>The iterations a worker ran and the metrics it sent.\<close>

fun iteration_of :: "action \<Rightarrow> (nat \<times> metric list) list" where
  "iteration_of (Iteration n ms) = [(n, ms)]"
| "iteration_of _ = []"

definition iterations :: "action list \<Rightarrow> (nat \<times> metric list) list" where
  "iterations acts = concat (map iteration_of acts)"

definition sent :: "action list \<Rightarrow> metric list" where
  "sent acts = concat (map snd (iterations acts))"

section \<open>Shared iterations\<close>

text \<open>The shared counter and, per worker, whether it is in its loop and how many iterations it has
  run. An iteration runs first and claims from the counter afterwards; the main thread may clear a
  worker's flag at any moment.\<close>

record shared_state =
  claimed :: nat
  workers :: "(bool \<times> nat) list"

definition shared_start :: "nat \<Rightarrow> shared_state" where
  "shared_start n = \<lparr>claimed = 0, workers = replicate n (True, 0)\<rparr>"

inductive shared_step :: "nat \<Rightarrow> shared_state \<Rightarrow> shared_state \<Rightarrow> bool" for budget :: nat where
  iterate: "i < length ws \<Longrightarrow> ws ! i = (True, d) \<Longrightarrow>
     shared_step budget \<lparr>claimed = c, workers = ws\<rparr>
       \<lparr>claimed = c + 1, workers = ws[i := (c < budget, d + 1)]\<rparr>"
| stop: "i < length ws \<Longrightarrow> ws ! i = (True, d) \<Longrightarrow>
     shared_step budget \<lparr>claimed = c, workers = ws\<rparr> \<lparr>claimed = c, workers = ws[i := (False, d)]\<rparr>"

inductive_cases shared_stepE: "shared_step budget s t"

text \<open>The number of iterations of a shared run: \<open>max_iterations\<close>, or ten per worker.\<close>

definition total_shared_iterations :: "nat option \<Rightarrow> nat \<Rightarrow> nat" where
  "total_shared_iterations max_iterations n = (case max_iterations of Some m \<Rightarrow> m | None \<Rightarrow> n * 10)"

section \<open>The workers of each executor\<close>

text \<open>A worker resolves its function and enters the loop; without a function it is over. The three
  copies of the loop in the source differ in their configuration: the closed executors of a
  scenario, \<open>ramping-workers\<close>, and a run without scenarios.\<close>

definition start_worker :: "string list \<Rightarrow> string \<Rightarrow> worker_config \<Rightarrow> pass list \<Rightarrow> (action list \<times> worker_exit) option" where
  "start_worker exports exec_fn w ps = (case resolve_exec exports exec_fn of None \<Rightarrow> None
     | Some _ \<Rightarrow> Some (worker_loop w 0 ps))"

definition exec_name :: "scenario_config \<Rightarrow> string" where
  "exec_name sc = (case sc_exec sc of None \<Rightarrow> ''default'' | Some f \<Rightarrow> f)"

definition min_iteration_duration :: "config \<Rightarrow> duration option" where
  "min_iteration_duration c = (case c_min_iteration_duration c of None \<Rightarrow> None
     | Some s \<Rightarrow> (case parse_duration s of Inl _ \<Rightarrow> None | Inr d \<Rightarrow> Some d))"

definition shared_budget :: "scenario_config \<Rightarrow> nat" where
  "shared_budget sc = (if sc_executor sc = Some SharedIterations
     then total_shared_iterations (sc_iterations sc) (case sc_workers sc of None \<Rightarrow> 1 | Some n \<Rightarrow> n) else 0)"

definition closed_config :: "config \<Rightarrow> string \<Rightarrow> scenario_config \<Rightarrow> worker_config" where
  "closed_config c name sc = \<lparr>w_scenario = Some name, w_shared = sc_executor sc = Some SharedIterations,
     w_total_shared = shared_budget sc, w_max_iterations = sc_iterations sc,
     w_min_duration = min_iteration_duration c\<rparr>"

definition closed_worker :: "string list \<Rightarrow> config \<Rightarrow> string \<Rightarrow> scenario_config \<Rightarrow> pass list \<Rightarrow> (action list \<times> worker_exit) option" where
  "closed_worker exports c name sc ps = start_worker exports (exec_name sc) (closed_config c name sc) ps"

definition ramping_worker :: "string list \<Rightarrow> config \<Rightarrow> string \<Rightarrow> scenario_config \<Rightarrow> pass list \<Rightarrow> (action list \<times> worker_exit) option" where
  "ramping_worker exports c name sc ps = start_worker exports (exec_name sc)
     \<lparr>w_scenario = Some name, w_shared = False, w_total_shared = 0, w_max_iterations = sc_iterations sc,
      w_min_duration = min_iteration_duration c\<rparr> ps"

definition legacy_worker :: "string list \<Rightarrow> config \<Rightarrow> pass list \<Rightarrow> (action list \<times> worker_exit) option" where
  "legacy_worker exports c ps = start_worker exports ''default''
     \<lparr>w_scenario = None, w_shared = False, w_total_shared = 0, w_max_iterations = c_iterations c,
      w_min_duration = min_iteration_duration c\<rparr> ps"

text \<open>The main thread of a closed scenario waits until the duration is over, a stop, or all shared
  iterations are claimed; it reads the time, the stop flag and the counter every 100 ms.\<close>

fun closed_wait :: "scenario_config \<Rightarrow> duration \<Rightarrow> (duration \<times> bool \<times> nat) list \<Rightarrow> nat" where
  "closed_wait sc dur [] = 0"
| "closed_wait sc dur ((elapsed, halt, claims) # ticks) =
     (if \<not> elapsed < dur then 0 else if halt then 0
      else if sc_executor sc = Some SharedIterations \<and> claims \<ge> shared_budget sc then 0
      else Suc (closed_wait sc dur ticks))"

section \<open>Arrival rate\<close>

datatype send_result = Sent | Full | Disconnected

text \<open>What the dispatcher reads in one pass: the time, the global stop flag, the answer of the
  channel.\<close>

record dispatch_pass =
  d_elapsed :: duration
  d_stopped :: bool
  d_send :: send_result

record arrival_config =
  ar_duration :: duration
  ar_ramping :: bool
  ar_rate :: nat
  ar_rates :: "(duration \<times> nat) list"
  ar_time_unit :: duration
  ar_max_iterations :: "nat option"

record arrival_state =
  started :: nat
  dropped :: nat
  counter :: nat
  sleeps :: "duration list"

definition current_rate :: "arrival_config \<Rightarrow> duration \<Rightarrow> nat" where
  "current_rate a elapsed = (if ar_ramping a then calculate_rate (ar_rates a) elapsed else ar_rate a)"

definition count_send :: "send_result \<Rightarrow> arrival_state \<Rightarrow> arrival_state" where
  "count_send r s = (let s = (if r = Sent then s\<lparr>started := started s + 1\<rparr>
       else s\<lparr>dropped := dropped s + 1\<rparr>) in s\<lparr>counter := counter s + 1\<rparr>)"

definition at_limit :: "arrival_config \<Rightarrow> arrival_state \<Rightarrow> bool" where
  "at_limit a s = (case ar_max_iterations a of None \<Rightarrow> False | Some m \<Rightarrow> counter s \<ge> m)"

fun dispatch :: "arrival_config \<Rightarrow> arrival_state \<Rightarrow> dispatch_pass list \<Rightarrow> arrival_state outcome" where
  "dispatch a s [] = Returns s"
| "dispatch a s (p # ps) =
     (if \<not> d_elapsed p < ar_duration a then Returns s
      else if d_stopped p then Returns s
      else case arrival_interval (ar_time_unit a) (current_rate a (d_elapsed p)) of
        Panics \<Rightarrow> Panics
      | Returns interval \<Rightarrow>
          (if d_send p = Disconnected then Returns s
           else if at_limit a (count_send (d_send p) s) then Returns (count_send (d_send p) s)
           else dispatch a ((count_send (d_send p) s)\<lparr>sleeps := sleeps s @ [interval]\<rparr>) ps))"

definition arrival_start :: arrival_state where
  "arrival_start = \<lparr>started = 0, dropped = 0, counter = 0, sleeps = []\<rparr>"

text \<open>The counters the dispatcher reports when it is done.\<close>

definition arrival_report :: "string \<Rightarrow> arrival_state \<Rightarrow> nat \<Rightarrow> metric list" where
  "arrival_report scenario s completed =
     (if dropped s > 0 then [Counter (scenario @ ''::dropped_iterations'') (f_of_nat (dropped s)) []] else [])
     @ [Counter (scenario @ ''::iterations_started'') (f_of_nat (started s)) [],
        Counter (scenario @ ''::iterations_completed'') (f_of_nat completed) []]"

text \<open>A worker of the pool: it waits for a request with a timeout.\<close>

datatype recv_result = Received nat | Timeout | Closed

record pool_pass =
  q_pass :: pass
  q_recv :: recv_result

fun pool_worker :: "string \<Rightarrow> pool_pass list \<Rightarrow> action list \<times> nat \<times> worker_exit" where
  "pool_worker scenario [] = ([], 0, Running)"
| "pool_worker scenario (q # qs) =
     (let p = q_pass q in
       if \<not> p_running p then ([], 0, FlagCleared)
       else if p_stopped p \<or> \<not> p_still_running p then
         ([PausePolls (p_pause_polls p)], 0, if p_stopped p then GlobalStop else FlagCleared)
       else case q_recv q of
         Closed \<Rightarrow> ([PausePolls (p_pause_polls p)], 0, FlagCleared)
       | Timeout \<Rightarrow> (let (acts, n, e) = pool_worker scenario qs in
           (PausePolls (p_pause_polls p) # acts, n, e))
       | Received num \<Rightarrow> (let (acts, n, e) = pool_worker scenario qs in
           ([PausePolls (p_pause_polls p), Iteration num
              (iteration_metrics (Some scenario) (p_elapsed p) (p_slept p) (p_error p) (p_tags p))] @ acts,
            n + 1, e)))"

section \<open>Laws\<close>

lemma iterations_simps [simp]: "iterations [] = []" "iterations (a # acts) = iteration_of a @ iterations acts"
  "iterations (xs @ ys) = iterations xs @ iterations ys"
  by (simp_all add: iterations_def)

lemma iterations_wait [simp]: "iterations (min_wait md e) = []"
  by (simp add: min_wait_def split: option.split)

lemma is_iteration_names:
  "is_iteration (iteration_name sc ''iteration'')"
  "\<not> ends_with_iteration_total (iteration_name sc ''iteration'')"
  "is_iteration (iteration_name sc ''iteration_total'')"
  "ends_with_iteration_total (iteration_name sc ''iteration_total'')"
proof -
  have e: "ends_with (u @ v) (s @ u @ v)" for u v s :: string by (simp add: ends_with_iff) 
  show "is_iteration (iteration_name sc ''iteration'')"
    "is_iteration (iteration_name sc ''iteration_total'')"
    "ends_with_iteration_total (iteration_name sc ''iteration_total'')"
    by (auto simp: is_iteration_def ends_with_iteration_total_def iteration_name_def ends_with_iff
        split: option.split)
  show "\<not> ends_with_iteration_total (iteration_name sc ''iteration'')"
    by (auto simp: ends_with_iteration_total_def iteration_name_def ends_with_iff split: option.split
        dest: arg_cong [where f = rev])
qed

section \<open>Closed workers\<close>

lemma iterations_run [simp]: "iterations (run_iteration w n p) =
    [(n, iteration_metrics (w_scenario w) (p_elapsed p) (p_slept p) (p_error p) (p_tags p))]"
  by (simp add: run_iteration_def)

lemma worker_numbers:
  "map fst (iterations (fst (worker_loop w n ps))) = [n..<n + length (iterations (fst (worker_loop w n ps)))]"
  by (induction w n ps rule: worker_loop.induct)
    (auto simp: case_prod_beta upt_conv_Cons split: option.splits)

lemma worker_limit:
  "\<not> w_shared w \<Longrightarrow> w_max_iterations w = Some m \<Longrightarrow>
     length (iterations (fst (worker_loop w n ps))) \<le> max 1 (m - n)
   \<and> (snd (worker_loop w n ps) = LimitReached \<longrightarrow> length (iterations (fst (worker_loop w n ps))) = max 1 (m - n))
   \<and> snd (worker_loop w n ps) \<noteq> SharedExhausted"
proof (induction w n ps rule: worker_loop.induct)
  case (2 w n p ps)
  show ?case
  proof (cases "p_running p \<and> \<not> p_stopped p \<and> p_still_running p \<and> \<not> m \<le> n + 1")
    case True
    then have "limit_after w (n + 1) p = None" using 2 by (simp add: limit_after_def)
    moreover from this have "length (iterations (fst (worker_loop w (n + 1) ps))) \<le> max 1 (m - (n + 1))
       \<and> (snd (worker_loop w (n + 1) ps) = LimitReached \<longrightarrow>
            length (iterations (fst (worker_loop w (n + 1) ps))) = max 1 (m - (n + 1)))
       \<and> snd (worker_loop w (n + 1) ps) \<noteq> SharedExhausted"
      using True 2 by blast
    ultimately show ?thesis using True by (auto simp: case_prod_beta)
  next
    case False
    then show ?thesis using 2(2,3) by (auto simp: limit_after_def)
  qed
qed simp

lemma worker_sends:
  "sent (fst (worker_loop w n ps)) = concat (map snd (iterations (fst (worker_loop w n ps))))"
  by (simp add: sent_def)

text \<open>A worker with an iteration limit, run over any sequence of readings, numbers its
  iterations from 0 without gaps and runs at most the limit; it ends with \<open>LimitReached\<close> exactly
  after that many. A limit of 0 still runs one iteration, since the limit is checked afterwards.\<close>

theorem iteration_limit:
  assumes "\<not> w_shared w" "w_max_iterations w = Some m" "worker_loop w 0 ps = (acts, e)"
  shows "map fst (iterations acts) = [0..<length (iterations acts)]
    \<and> length (iterations acts) \<le> max 1 m
    \<and> (e = LimitReached \<longrightarrow> length (iterations acts) = max 1 m)"
  using worker_limit [OF assms(1,2), of 0 ps] worker_numbers [of w 0 ps] assms(3) by simp

definition idle_pass :: pass where
  "idle_pass = \<lparr>p_running = True, p_pause_polls = 0, p_stopped = False, p_still_running = True,
     p_elapsed = 5 * millis, p_slept = 2 * millis, p_error = None, p_tags = [], p_claimed = 0\<rparr>"

definition limited_worker :: "nat \<Rightarrow> worker_config" where
  "limited_worker m = \<lparr>w_scenario = Some ''s'', w_shared = False, w_total_shared = 0,
     w_max_iterations = Some m, w_min_duration = None\<rparr>"

theorem iteration_limit_witness:
  "length (iterations (fst (worker_loop (limited_worker 0) 0 [idle_pass, idle_pass]))) = 1"
proof -
  have "snd (worker_loop (limited_worker 0) 0 [idle_pass, idle_pass]) = LimitReached"
    by (simp add: limited_worker_def idle_pass_def limit_after_def)
  then show ?thesis
    using iteration_limit [of "limited_worker 0" 0 "[idle_pass, idle_pass]"]
    by (cases "worker_loop (limited_worker 0) 0 [idle_pass, idle_pass]") (simp add: limited_worker_def)
qed

lemma start_limit:
  assumes "start_worker exports f w ps = Some (acts, e)" "\<not> w_shared w" "w_max_iterations w = Some n"
  shows "map fst (iterations acts) = [0..<length (iterations acts)] \<and> length (iterations acts) \<le> max 1 n"
  using worker_limit [OF assms(2,3), of 0 ps] worker_numbers [of w 0 ps] assms(1)
  by (simp add: start_worker_def split: option.splits)

text \<open>C18. A limit on iterations holds for the workers of every executor that has one: whatever the
  worker reads, its iterations are numbered from 0 and there are at most \<open>n\<close> of them, except that
  a limit of 0 still runs one.\<close>

theorem executors_respect_limit:
  assumes "closed_worker exports c name sc ps = Some (acts, e) \<and> sc_executor sc \<noteq> Some SharedIterations \<and> sc_iterations sc = Some n
    \<or> ramping_worker exports c name sc ps = Some (acts, e) \<and> sc_iterations sc = Some n
    \<or> legacy_worker exports c ps = Some (acts, e) \<and> c_iterations c = Some n"
  shows "map fst (iterations acts) = [0..<length (iterations acts)] \<and> length (iterations acts) \<le> max 1 n"
  using assms unfolding closed_worker_def ramping_worker_def legacy_worker_def
  by (elim disjE conjE; elim start_limit; simp add: closed_config_def)

theorem executors_respect_limit_witness:
  "\<exists>acts e. legacy_worker [''default''] (default_config\<lparr>c_iterations := Some 1\<rparr>) [idle_pass, idle_pass] = Some (acts, e)
    \<and> length (iterations acts) \<le> 1"
proof -
  have "legacy_worker [''default''] (default_config\<lparr>c_iterations := Some 1\<rparr>) [idle_pass, idle_pass] \<noteq> None"
    by (simp add: legacy_worker_def start_worker_def resolve_exec_def del: worker_loop.simps)
  then obtain acts e where l: "legacy_worker [''default''] (default_config\<lparr>c_iterations := Some 1\<rparr>) [idle_pass, idle_pass] = Some (acts, e)"
    by fastforce
  show ?thesis
    using executors_respect_limit [of "[''default'']" "default_config\<lparr>c_iterations := Some 1\<rparr>" "''x''"
        "default_scenario" "[idle_pass, idle_pass]" acts e 1] l by auto
qed

lemma iteration_metrics_counts:
  "count_of is_http (iteration_metrics sc e s err tags) = 0"
  "count_of is_failed_iteration (iteration_metrics sc e s err tags) = (if err = None then 0 else 1)"
  by (simp_all add: count_of_def iteration_metrics_def Let_def is_http_def is_failed_iteration_def is_iteration_names)

lemma count_of_append [simp]: "count_of P (xs @ ys) = count_of P xs + count_of P ys"
  by (simp add: count_of_def)

lemma count_of_Nil [simp]: "count_of P [] = 0"
  by (simp add: count_of_def)

lemma sent_simps [simp]: "sent [] = []" "sent (a # acts) = concat (map snd (iteration_of a)) @ sent acts"
  "sent (xs @ ys) = sent xs @ sent ys" "sent (min_wait md e) = []"
  by (simp_all add: sent_def)

text \<open>The passes of a worker whose iteration ran and threw.\<close>

definition threw :: "nat \<times> metric list \<Rightarrow> bool" where
  "threw it \<longleftrightarrow> (\<exists>m \<in> set (snd it). request_error m \<noteq> None)"

lemma threw_iteration: "threw (n, iteration_metrics sc e s err tags) \<longleftrightarrow> err \<noteq> None"
  by (simp add: threw_def iteration_metrics_def Let_def)

lemma worker_counts:
  "count_of is_http (sent (fst (worker_loop w n ps))) = 0
   \<and> count_of is_failed_iteration (sent (fst (worker_loop w n ps))) =
       length (filter threw (iterations (fst (worker_loop w n ps))))"
  by (induction w n ps rule: worker_loop.induct)
    (simp_all add: case_prod_beta run_iteration_def iteration_metrics_counts threw_iteration split: option.split)

text \<open>Iterations are not requests: whatever a worker does, its metrics leave the number of
  requests of the statistics as it was, and raise the number of failed iterations by exactly the
  number of its iterations that threw.\<close>

theorem worker_statistics:
  "total_requests (run_agg H (ms @ sent (fst (worker_loop w n ps)))) = total_requests (run_agg H ms)
   \<and> failed_iterations (run_agg H (ms @ sent (fst (worker_loop w n ps)))) =
       failed_iterations (run_agg H ms) + length (filter threw (iterations (fst (worker_loop w n ps))))"
  using worker_counts [of w n ps] by (simp add: total_requests_count failed_run)

section \<open>Shared iterations\<close>

definition stopped_workers :: "(bool \<times> nat) list \<Rightarrow> nat" where
  "stopped_workers ws = length (filter (\<lambda>w. \<not> fst w) ws)"

definition iterations_done :: "shared_state \<Rightarrow> nat" where
  "iterations_done s = sum_list (map snd (workers s))"

definition shared_inv :: "nat \<Rightarrow> nat \<Rightarrow> shared_state \<Rightarrow> bool" where
  "shared_inv budget n s \<longleftrightarrow> length (workers s) = n \<and> iterations_done s = claimed s
     \<and> claimed s \<le> budget + stopped_workers (workers s)"

lemma stopped_update:
  "i < length ws \<Longrightarrow> fst (ws ! i) \<Longrightarrow> stopped_workers (ws[i := (b, d)]) = stopped_workers ws + (if b then 0 else 1)"
  by (induction ws arbitrary: i) (auto simp: stopped_workers_def nth_Cons split: nat.splits)

lemma sum_update:
  "i < length ws \<Longrightarrow> snd (ws ! i) = d \<Longrightarrow> sum_list (map snd (ws[i := (b, d + k)])) = sum_list (map snd ws) + (k :: nat)"
  by (induction ws arbitrary: i) (auto simp: nth_Cons split: nat.splits)

lemma shared_step_inv:
  assumes "shared_step budget s t" "shared_inv budget n s"
  shows "shared_inv budget n t"
  using assms
proof (cases rule: shared_step.cases)
  case (iterate i ws d c)
  then show ?thesis
    using assms(2) stopped_update [of i ws "c < budget" "d + 1"] sum_update [of i ws d "c < budget" 1]
    by (auto simp: shared_inv_def iterations_done_def)
next
  case (stop i ws d c)
  then show ?thesis
    using assms(2) stopped_update [of i ws False d] sum_update [of i ws d False 0]
    by (auto simp: shared_inv_def iterations_done_def)
qed

lemma shared_start_inv: "shared_inv budget n (shared_start n)"
  by (simp add: shared_inv_def shared_start_def iterations_done_def stopped_workers_def sum_list_replicate)

interpretation shared: step_system "\<lambda>s. s = shared_start n" "shared_step budget" "shared_inv budget n" for budget n
  by unfold_locales (auto intro: shared_step_inv shared_start_inv)

text \<open>C19. Shared iterations overrun their number by at most one per worker, in every interleaving
  of the workers and of the main thread's stops: each worker that claims too much has already run
  the iteration and stops. While any worker is still in its loop the overrun is smaller.\<close>

theorem shared_iterations_bound:
  assumes "(shared_step budget)\<^sup>*\<^sup>* (shared_start n) s"
  shows "iterations_done s = claimed s \<and> iterations_done s \<le> budget + stopped_workers (workers s)
    \<and> iterations_done s \<le> budget + n"
proof -
  have "shared_inv budget n s" by (rule shared.reachable_inv [OF refl assms])
  moreover have "stopped_workers (workers s) \<le> length (workers s)" by (simp add: stopped_workers_def)
  ultimately show ?thesis by (auto simp: shared_inv_def)
qed

lemma first_worker_runs:
  "k \<le> budget \<Longrightarrow> (shared_step budget)\<^sup>*\<^sup>* \<lparr>claimed = 0, workers = (True, 0) # ws\<rparr>
     \<lparr>claimed = k, workers = (True, k) # ws\<rparr>"
proof (induction k)
  case (Suc k)
  have "shared_step budget \<lparr>claimed = k, workers = (True, k) # ws\<rparr> \<lparr>claimed = Suc k, workers = (True, Suc k) # ws\<rparr>"
    using shared_step.iterate [of 0 "(True, k) # ws" k budget k] Suc.prems by simp
  with Suc show ?case by (auto intro: rtranclp.rtrancl_into_rtrancl)
qed simp

lemma each_overruns:
  "budget \<le> c \<Longrightarrow> (shared_step budget)\<^sup>*\<^sup>* \<lparr>claimed = c, workers = done @ replicate m (True, 0)\<rparr>
     \<lparr>claimed = c + m, workers = done @ replicate m (False, 1)\<rparr>"
proof (induction m arbitrary: c "done")
  case (Suc m)
  have "shared_step budget \<lparr>claimed = c, workers = done @ replicate (Suc m) (True, 0)\<rparr>
      \<lparr>claimed = c + 1, workers = (done @ [(False, 1)]) @ replicate m (True, 0)\<rparr>"
    using shared_step.iterate [of "length done" "done @ replicate (Suc m) (True, 0)" 0 budget c] Suc.prems
    by (simp add: list_update_append)
  moreover have "(shared_step budget)\<^sup>*\<^sup>* \<lparr>claimed = c + 1, workers = (done @ [(False, 1)]) @ replicate m (True, 0)\<rparr>
      \<lparr>claimed = c + 1 + m, workers = (done @ [(False, 1)]) @ replicate m (False, 1)\<rparr>"
    using Suc.prems by (intro Suc.IH) simp
  ultimately show ?case by (simp add: converse_rtranclp_into_rtranclp)
qed simp

text \<open>The overrun is real: for every number of shared iterations and every positive number of
  workers there is an interleaving in which the run executes one iteration too many per worker and
  every worker ends because the counter was exhausted.\<close>

theorem shared_iterations_overrun:
  assumes "0 < n"
  shows "\<exists>s. (shared_step budget)\<^sup>*\<^sup>* (shared_start n) s \<and> iterations_done s = budget + n
    \<and> stopped_workers (workers s) = n"
proof -
  obtain m where n: "n = Suc m" using assms gr0_implies_Suc by blast
  let ?w = "replicate m (True, 0)"
  have "(shared_step budget)\<^sup>*\<^sup>* (shared_start n) \<lparr>claimed = budget, workers = (True, budget) # ?w\<rparr>"
    using first_worker_runs [of budget budget ?w] by (simp add: shared_start_def n)
  moreover have "shared_step budget \<lparr>claimed = budget, workers = (True, budget) # ?w\<rparr>
      \<lparr>claimed = budget + 1, workers = [(False, budget + 1)] @ ?w\<rparr>"
    using shared_step.iterate [of 0 "(True, budget) # ?w" budget budget budget] by simp
  moreover have "(shared_step budget)\<^sup>*\<^sup>* \<lparr>claimed = budget + 1, workers = [(False, budget + 1)] @ ?w\<rparr>
      \<lparr>claimed = budget + 1 + m, workers = [(False, budget + 1)] @ replicate m (False, 1)\<rparr>"
    by (rule each_overruns) simp
  ultimately have "(shared_step budget)\<^sup>*\<^sup>* (shared_start n)
      \<lparr>claimed = budget + 1 + m, workers = [(False, budget + 1)] @ replicate m (False, 1)\<rparr>" by simp
  then show ?thesis
    by (intro exI conjI, assumption) (simp_all add: iterations_done_def sum_list_replicate stopped_workers_def n)
qed

theorem shared_iterations_overrun_witness:
  "\<exists>s. (shared_step 100)\<^sup>*\<^sup>* (shared_start 10) s \<and> iterations_done s = 110"
  using shared_iterations_overrun [of 10 100] by auto

theorem shared_iterations_bound_witness:
  "iterations_done \<lparr>claimed = 1, workers = [(False, 1)]\<rparr> \<le> 0 + 1"
proof -
  have "shared_step 0 (shared_start 1) \<lparr>claimed = 1, workers = [(False, 1)]\<rparr>"
    using shared_step.iterate [of 0 "[(True, 0)]" 0 0 0] by (simp add: shared_start_def)
  then show ?thesis
    using shared_iterations_bound [of 0 1 "\<lparr>claimed = 1, workers = [(False, 1)]\<rparr>"] by blast
qed

section \<open>Arrival rate\<close>

definition before_pass :: "arrival_config \<Rightarrow> arrival_state \<Rightarrow> bool" where
  "before_pass a s \<longleftrightarrow> started s + dropped s = counter s \<and> counter s = length (sleeps s)
     \<and> (\<forall>m. ar_max_iterations a = Some m \<longrightarrow> counter s < max 1 m)"

definition after_run :: "arrival_config \<Rightarrow> arrival_state \<Rightarrow> bool" where
  "after_run a s \<longleftrightarrow> started s + dropped s = counter s
     \<and> length (sleeps s) \<le> counter s \<and> counter s \<le> length (sleeps s) + 1
     \<and> (\<forall>m. ar_max_iterations a = Some m \<longrightarrow> counter s \<le> max 1 m)"

lemma before_after: "before_pass a s \<Longrightarrow> after_run a s"
  by (auto simp: before_pass_def after_run_def less_imp_le)

lemma count_send_fields [simp]:
  "counter (count_send r s) = counter s + 1" "sleeps (count_send r s) = sleeps s"
  "started (count_send r s) + dropped (count_send r s) = started s + dropped s + 1"
  by (simp_all add: count_send_def Let_def)

lemma count_send_after: "before_pass a s \<Longrightarrow> after_run a (count_send r s)"
  by (auto simp: before_pass_def after_run_def)

lemma count_send_before:
  "before_pass a s \<Longrightarrow> \<not> at_limit a (count_send r s) \<Longrightarrow>
     before_pass a ((count_send r s)\<lparr>sleeps := sleeps s @ [i]\<rparr>)"
  by (auto simp: before_pass_def at_limit_def)

lemma dispatch_inv: "before_pass a s \<Longrightarrow> dispatch a s ps = Returns t \<Longrightarrow> after_run a t"
proof (induction a s ps rule: dispatch.induct)
  case (2 a s p ps)
  then show ?case
    by (auto split: if_splits outcome.splits intro: before_after count_send_after count_send_before)
qed (auto intro: before_after)

text \<open>The sleeps of a run are the intervals of the rate.\<close>

lemma dispatch_sleeps:
  "dispatch a s ps = Returns t \<Longrightarrow> \<not> ar_ramping a \<Longrightarrow> 0 < ar_rate a \<Longrightarrow> ar_rate a < 2 ^ 32 \<Longrightarrow>
     set (sleeps t) \<subseteq> set (sleeps s) \<union> {ar_time_unit a div ar_rate a}"
proof (induction a s ps rule: dispatch.induct)
  case (2 a s p ps)
  then show ?case
    by (fastforce simp: arrival_interval_def current_rate_def Let_def split: if_splits)
qed auto

lemma dispatch_returns:
  "\<not> ar_ramping a \<Longrightarrow> 0 < ar_rate a \<Longrightarrow> ar_rate a < 2 ^ 32 \<Longrightarrow> dispatch a s ps \<noteq> Panics"
  by (induction a s ps rule: dispatch.induct) (auto simp: arrival_interval_def current_rate_def)

text \<open>C24. The dispatcher of a constant arrival rate never panics for a rate that fits \<open>u32\<close>,
  accounts for every tick (each iteration request is started or dropped), stays within the limit
  of iterations (at least one), and sleeps exactly one time unit divided by the rate between two
  requests.\<close>

theorem arrival_rate_accounting:
  assumes "\<not> ar_ramping a" "0 < ar_rate a" "ar_rate a < 2 ^ 32"
  shows "\<exists>t. dispatch a arrival_start ps = Returns t \<and> started t + dropped t = counter t
    \<and> counter t \<le> length (sleeps t) + 1 \<and> set (sleeps t) \<subseteq> {ar_time_unit a div ar_rate a}
    \<and> (\<forall>m. ar_max_iterations a = Some m \<longrightarrow> counter t \<le> max 1 m)"
proof -
  obtain t where t: "dispatch a arrival_start ps = Returns t"
    using dispatch_returns [OF assms, of arrival_start ps] by (cases "dispatch a arrival_start ps") auto
  have "before_pass a arrival_start" by (simp add: before_pass_def arrival_start_def less_max_iff_disj)
  then have "after_run a t" using t by (rule dispatch_inv)
  then show ?thesis
    using t dispatch_sleeps [OF t assms] by (auto simp: after_run_def arrival_start_def)
qed

definition ten_per_second :: arrival_config where
  "ten_per_second = \<lparr>ar_duration = 60 * secs, ar_ramping = False, ar_rate = 10, ar_rates = [],
     ar_time_unit = secs, ar_max_iterations = Some 2\<rparr>"

theorem arrival_rate_accounting_witness:
  "\<exists>t. dispatch ten_per_second arrival_start
      (map (\<lambda>i. \<lparr>d_elapsed = i * 100 * millis, d_stopped = False, d_send = Sent\<rparr>) [0..<5]) = Returns t
    \<and> counter t \<le> 2 \<and> set (sleeps t) \<subseteq> {100 * millis}"
  using arrival_rate_accounting [of ten_per_second
      "map (\<lambda>i. \<lparr>d_elapsed = i * 100 * millis, d_stopped = False, d_send = Sent\<rparr>) [0..<5]"]
  by (auto simp: ten_per_second_def secs_def millis_def)

text \<open>A rate that is a positive multiple of \<open>2 ^ 32\<close> is truncated to zero by \<open>as u32\<close>, and
  the division of the time unit by zero panics on the first tick.\<close>

theorem huge_rate_panics:
  assumes "\<not> ar_ramping a" "ar_rate a = k * 2 ^ 32" "0 < k" "d_elapsed p < ar_duration a" "\<not> d_stopped p"
  shows "dispatch a s (p # ps) = Panics"
  using assms by (simp add: arrival_interval_def current_rate_def)

theorem huge_rate_panics_witness:
  "dispatch (ten_per_second\<lparr>ar_rate := 4294967296\<rparr>) arrival_start
     [\<lparr>d_elapsed = 0, d_stopped = False, d_send = Sent\<rparr>] = Panics"
  by (rule huge_rate_panics [where k = 1]) (simp_all add: ten_per_second_def secs_def)

lemma iteration_metrics_length: "length (iteration_metrics sc e s err tags) = 2"
  by (simp add: iteration_metrics_def Let_def)

text \<open>A worker of the arrival-rate pool counts as completed exactly the iterations it ran, and
  sends two metrics for each, neither of which is a request.\<close>

theorem pool_worker_counts:
  "fst (snd (pool_worker scenario qs)) = length (iterations (fst (pool_worker scenario qs)))
   \<and> count_of is_http (sent (fst (pool_worker scenario qs))) = 0
   \<and> length (sent (fst (pool_worker scenario qs))) = 2 * fst (snd (pool_worker scenario qs))"
  by (induction scenario qs rule: pool_worker.induct)
    (auto simp: Let_def case_prod_beta iteration_metrics_counts iteration_metrics_length
      split: recv_result.splits)

end
