(* ===== verification/Engine.thy ===== *)
theory Engine
  imports Workers
begin

text \<open>
  The control loop of \<open>run_load_test\<close> (\<open>src/engine/mod.rs\<close>): scaling of the workers by the
  schedule, by the \<open>ramping-workers\<close> executor and by interactive commands, memory throttling,
  the end of a run with its graceful stop, and the thread that batches metrics to a controller. A
  pass of the loop reads clocks, commands and flags; they are its input. Workers are their ids:
  \<open>active\<close> is the vector of running workers, \<open>released\<close> the workers whose flag was cleared.
\<close>

section \<open>The ramping-workers executor\<close>

text \<open>One tick: spawn up to the target, or clear the flags of the last workers.\<close>

record pool =
  active :: "nat list"
  released :: "nat list"
  next_id :: nat

definition spawn :: "nat \<Rightarrow> pool \<Rightarrow> pool" where
  "spawn n p = p\<lparr>active := active p @ [next_id p..<next_id p + n], next_id := next_id p + n\<rparr>"

definition release_to :: "nat \<Rightarrow> pool \<Rightarrow> pool" where
  "release_to n p = p\<lparr>active := take n (active p), released := released p @ rev (drop n (active p))\<rparr>"

definition ramp_tick :: "nat \<Rightarrow> pool \<Rightarrow> pool" where
  "ramp_tick target p = (if length (active p) < target then spawn (target - length (active p)) p
     else if length (active p) > target then release_to target p else p)"

definition vus_gauge :: "string \<Rightarrow> pool \<Rightarrow> metric" where
  "vus_gauge scenario p = Gauge (scenario @ ''::vus'') (f_of_nat (length (active p))) []"

fun ramping_run :: "(duration \<times> nat) list \<Rightarrow> duration \<Rightarrow> pool \<Rightarrow> (duration \<times> bool \<times> duration) list \<Rightarrow> pool" where
  "ramping_run schedule dur p [] = p"
| "ramping_run schedule dur p ((head_elapsed, stop, elapsed) # ticks) =
     (if \<not> head_elapsed < dur \<or> stop then p
      else ramping_run schedule dur (ramp_tick (calculate_target schedule elapsed) p) ticks)"

section \<open>The control loop\<close>

record main_state =
  control :: control_state
  pool_of :: pool
  dynamic_target :: "nat option"
  throttle :: bool
  critical :: bool

text \<open>What a pass reads: whether the scenario threads are done, the elapsed time and the control
  clock at the head and at the scaling step, the commands in the channel, whether the memory
  monitor raised its flags since the last pass, and the memory usage.\<close>

record main_input =
  i_all_finished :: bool
  i_elapsed :: duration
  i_now :: nat
  i_commands :: "control_command list"
  i_set_throttle :: bool
  i_set_critical :: bool
  i_usage :: f64
  i_elapsed_scale :: duration
  i_now_scale :: nat

record main_params =
  m_multi :: bool
  m_schedule :: "(duration \<times> nat) list"
  m_duration :: duration

fun run_command :: "bool \<Rightarrow> nat \<Rightarrow> control_command \<Rightarrow> main_state \<Rightarrow> main_state" where
  "run_command multi now (Ramp n) s = (if n = 0 then s\<lparr>dynamic_target := None\<rparr>
     else if multi then s
     else s\<lparr>control := set_target_workers n (control s), dynamic_target := Some n\<rparr>)"
| "run_command multi now Pause s = s\<lparr>control := pause now (control s)\<rparr>"
| "run_command multi now Resume s = s\<lparr>control := resume now (control s)\<rparr>"
| "run_command multi now (Tag k v) s = s\<lparr>control := add_tag k v (control s)\<rparr>"
| "run_command multi now Status s = s"
| "run_command multi now Stop s = s\<lparr>control := stop_control (control s)\<rparr>"

text \<open>The commands in the channel, up to a \<open>Stop\<close>, which leaves the main loop.\<close>

fun run_commands :: "bool \<Rightarrow> nat \<Rightarrow> control_command list \<Rightarrow> main_state \<Rightarrow> main_state \<times> bool" where
  "run_commands multi now [] s = (s, False)"
| "run_commands multi now (c # cs) s =
     (if c = Stop then (run_command multi now c s, True)
      else run_commands multi now cs (run_command multi now c s))"

definition warn_threshold :: f64 where
  "warn_threshold = to_f64 (85 / 100)"

text \<open>The scaling step; \<open>None\<close> is the \<open>continue\<close> of a throttled tick.\<close>

definition scale_down :: "nat option \<Rightarrow> pool \<Rightarrow> pool" where
  "scale_down dyn p = (case dyn of None \<Rightarrow> p
     | Some target \<Rightarrow> if target < length (active p) then release_to target p else p)"

definition scale_step :: "main_params \<Rightarrow> main_input \<Rightarrow> main_state \<Rightarrow> main_state option" where
  "scale_step m i s =
     (let elapsed = i_elapsed_scale i - total_paused (i_now_scale i) (control s);
          target = (case dynamic_target s of Some t \<Rightarrow> t | None \<Rightarrow> calculate_target (m_schedule m) elapsed);
          n = length (active (pool_of s))
      in if target > n then
           (if throttle s \<and> \<not> f_lt (i_usage i) warn_threshold then None
            else (let s = (if throttle s then s\<lparr>throttle := False, critical := False\<rparr> else s)
              in Some (s\<lparr>pool_of := scale_down (dynamic_target s) (spawn (target - n) (pool_of s))\<rparr>)))
         else Some (s\<lparr>pool_of := scale_down (dynamic_target s) (pool_of s)\<rparr>))"

datatype loop_end = Finished | Interrupted

definition main_pass :: "main_params \<Rightarrow> main_input \<Rightarrow> main_state \<Rightarrow> main_state \<times> loop_end option" where
  "main_pass m i s0 =
     (let s = s0\<lparr>throttle := throttle s0 \<or> i_set_throttle i, critical := critical s0 \<or> i_set_critical i\<rparr>
      in if (if m_multi m then i_all_finished i
             else i_elapsed i - total_paused (i_now i) (control s) \<ge> m_duration m \<and> \<not> is_stopped (control s))
         then (s, Some Finished)
         else if is_stopped (control s) then (s, Some Interrupted)
         else (let (s, stop) = run_commands (m_multi m) (i_now i) (i_commands i) s
           in if stop then (s, Some Interrupted)
              else if \<not> m_multi m \<and> \<not> is_stopped (control s) then
                (case scale_step m i s of None \<Rightarrow> (s, None) | Some s \<Rightarrow> (s, None))
              else (s, None)))"

fun main_loop :: "main_params \<Rightarrow> main_state \<Rightarrow> main_input list \<Rightarrow> main_state \<times> loop_end option" where
  "main_loop m s [] = (s, None)"
| "main_loop m s (i # is) = (case main_pass m i s of
     (s, Some e) \<Rightarrow> (s, Some e)
   | (s, None) \<Rightarrow> main_loop m s is)"

definition main_start :: "nat \<Rightarrow> main_state" where
  "main_start w = \<lparr>control = new_control w, pool_of = \<lparr>active = [], released = [], next_id = 1\<rparr>,
     dynamic_target = None, throttle = False, critical = False\<rparr>"

section \<open>Graceful stop\<close>

text \<open>The wait after the flags are cleared: it polls the flags the loop itself has just cleared,
  at the given elapsed times. The result is the number of 100 ms sleeps.\<close>

fun grace_wait :: "duration \<Rightarrow> bool list \<Rightarrow> duration list \<Rightarrow> nat" where
  "grace_wait grace flags [] = 0"
| "grace_wait grace flags (elapsed # rest) =
     (if \<not> elapsed < grace then 0
      else if list_all Not flags then 0
      else 1 + grace_wait grace flags rest)"

definition grace_period :: "string option \<Rightarrow> duration" where
  "grace_period stop = (case stop of None \<Rightarrow> 30 * secs
     | Some s \<Rightarrow> (case engine_parse_duration_str s of None \<Rightarrow> 30 * secs | Some d \<Rightarrow> d))"

definition graceful_stop :: "string option \<Rightarrow> pool \<Rightarrow> duration list \<Rightarrow> nat" where
  "graceful_stop stop p polls =
     (let flags = map (\<lambda>_. False) (active p); grace = grace_period stop
      in if grace > 0 then grace_wait grace flags polls else 0)"

section \<open>Batches for a controller\<close>

text \<open>The first aggregator thread with a remote URL: metrics are batched, and a batch is posted when
  a second has passed or it has a hundred metrics. The rest of the batch is dropped with the thread
  when the channel closes.\<close>

record batcher =
  batch :: "metric list"
  posts :: "metric list list"

definition batch_step :: "batcher \<Rightarrow> metric \<times> bool \<Rightarrow> batcher" where
  "batch_step b = (\<lambda>(m, second_passed). let bs = batch b @ [m] in
     if second_passed \<or> length bs \<ge> 100 then b\<lparr>batch := [], posts := posts b @ [bs]\<rparr>
     else b\<lparr>batch := bs\<rparr>)"

definition batch_run :: "(metric \<times> bool) list \<Rightarrow> batcher" where
  "batch_run ms = foldl batch_step \<lparr>batch = [], posts = []\<rparr> ms"

text \<open>The shards the metrics of aggregator thread \<open>agg_id\<close> go to, in order.\<close>

definition thread_adds :: "nat \<Rightarrow> nat \<Rightarrow> nat \<Rightarrow> metric list \<Rightarrow> (nat \<times> metric) list" where
  "thread_adds agg_id aggregators nshards ms =
     map (\<lambda>(n, m). (shard_of agg_id aggregators nshards n, m)) (zip [0..<length ms] ms)"

section \<open>Reporting to a URL\<close>

definition auth_header :: "string \<Rightarrow> (string \<times> string) option" where
  "auth_header auth = map_option (\<lambda>(n, v). (trim n, trim v)) (split_once (CHR '':'') auth)"

definition summary_url :: "string \<Rightarrow> string" where
  "summary_url url = replace_str ''/metrics'' ''/summary'' url"

definition elapsed_secs :: "duration \<Rightarrow> duration \<Rightarrow> f64" where
  "elapsed_secs elapsed paused_time = f_max (as_secs_f64 (elapsed - paused_time)) (to_f64 (1 / 1000))"

section \<open>Laws of the pool\<close>

text \<open>Every worker spawned so far is running or released, exactly once.\<close>

definition pool_inv :: "pool \<Rightarrow> bool" where
  "pool_inv p \<longleftrightarrow> mset (active p @ released p) = mset [1..<next_id p] \<and> 1 \<le> next_id p"

lemma pool_inv_spawn: "pool_inv p \<Longrightarrow> pool_inv (spawn n p)"
proof -
  assume p: "pool_inv p"
  then have "[1..<next_id p + n] = [1..<next_id p] @ [next_id p..<next_id p + n]"
    unfolding pool_inv_def by (intro upt_add_eq_append) simp
  then have "mset [1..<next_id p + n] = mset (active p @ released p) + mset [next_id p..<next_id p + n]"
    using p unfolding pool_inv_def by (simp only: mset_append)
  moreover have "1 \<le> next_id p + n" using p by (simp add: pool_inv_def)
  ultimately show ?thesis
    by (simp add: pool_inv_def spawn_def ac_simps del: mset_upt)
qed

lemma pool_inv_release: "pool_inv p \<Longrightarrow> pool_inv (release_to n p)"
proof -
  assume "pool_inv p"
  moreover have "mset (active p) = mset (take n (active p)) + mset (drop n (active p))"
    by (metis append_take_drop_id mset_append)
  ultimately show ?thesis by (simp add: pool_inv_def release_to_def ac_simps)
qed

lemma pool_inv_tick: "pool_inv p \<Longrightarrow> pool_inv (ramp_tick t p)"
  by (simp add: ramp_tick_def pool_inv_spawn pool_inv_release)

lemma pool_inv_scale_down: "pool_inv p \<Longrightarrow> pool_inv (scale_down d p)"
  by (simp add: scale_down_def pool_inv_release split: option.split)

interpretation ramping: event_machine "\<lambda>p t. ramp_tick t p" pool_inv
  by unfold_locales (rule pool_inv_tick)

lemma ramp_tick_exact: "length (active (ramp_tick t p)) = t"
  by (auto simp: ramp_tick_def spawn_def release_to_def)

lemma ramping_inv: "pool_inv p \<Longrightarrow> pool_inv (ramping_run s d p ticks)"
  by (induction s d p ticks rule: ramping_run.induct) (auto intro: pool_inv_tick)

lemma ramping_last:
  "(\<forall>(h, stop, e) \<in> set ticks. h < d \<and> \<not> stop) \<Longrightarrow> ticks \<noteq> [] \<Longrightarrow>
     length (active (ramping_run s d p ticks)) = calculate_target s (snd (snd (last ticks)))"
proof (induction s d p ticks rule: ramping_run.induct)
  case (2 s d p h stop e ticks)
  then show ?case
    by (cases "ticks = []") (auto simp: ramp_tick_exact)
qed simp

text \<open>C20. The \<open>ramping-workers\<close> executor follows its schedule: after every tick it runs exactly
  the scheduled number of workers, and over the whole run every worker id from 1 on was spawned
  exactly once and is either still running or was told to stop.\<close>

theorem ramping_follows_schedule:
  assumes "\<forall>(h, stop, e) \<in> set ticks. h < d \<and> \<not> stop" "ticks \<noteq> []"
  shows "length (active (ramping_run s d \<lparr>active = [], released = [], next_id = 1\<rparr> ticks)) =
      calculate_target s (snd (snd (last ticks)))
    \<and> pool_inv (ramping_run s d \<lparr>active = [], released = [], next_id = 1\<rparr> ticks)"
proof -
  have "pool_inv \<lparr>active = [], released = [], next_id = 1\<rparr>" by (simp add: pool_inv_def)
  then show ?thesis using ramping_last [OF assms] ramping_inv by blast
qed

theorem ramping_follows_schedule_witness:
  "length (active (ramping_run [(10 * secs, 0)] (10 * secs) \<lparr>active = [], released = [], next_id = 1\<rparr>
     [(0, False, 0), (secs, False, secs)])) = calculate_target [(10 * secs, 0)] secs"
  using ramping_follows_schedule [of "[(0, False, 0), (secs, False, secs)]" "10 * secs" "[(10 * secs, 0)]"]
  by (simp add: secs_def)

section \<open>Laws of the control loop\<close>

lemma run_command_pool [simp]: "pool_of (run_command multi now c s) = pool_of s"
  by (cases c) simp_all

lemma run_commands_pool: "pool_of (fst (run_commands multi now cs s)) = pool_of s"
  by (induction multi now cs s rule: run_commands.induct) (auto simp: case_prod_beta)

lemma scale_step_inv: "pool_inv (pool_of s) \<Longrightarrow> scale_step m i s = Some t \<Longrightarrow> pool_inv (pool_of t)"
  by (auto simp: scale_step_def Let_def pool_inv_spawn pool_inv_scale_down split: if_splits)

lemma main_pass_inv: "pool_inv (pool_of s) \<Longrightarrow> pool_inv (pool_of (fst (main_pass m i s)))"
  by (auto simp: main_pass_def Let_def run_commands_pool case_prod_beta dest: scale_step_inv [rotated]
      split: option.splits)

lemma main_loop_inv: "pool_inv (pool_of s) \<Longrightarrow> pool_inv (pool_of (fst (main_loop m s is)))"
proof (induction m s "is" rule: main_loop.induct)
  case (2 m s i "is")
  then show ?case
    using main_pass_inv [of s m i] by (auto split: prod.splits option.splits)
qed simp

text \<open>Without a dynamic target the pool only grows.\<close>

definition no_ramp :: "main_input \<Rightarrow> bool" where
  "no_ramp i \<longleftrightarrow> (\<forall>n. Ramp n \<in> set (i_commands i) \<longrightarrow> n = 0)"

lemma run_commands_no_ramp:
  "dynamic_target s = None \<Longrightarrow> \<forall>n. Ramp n \<in> set cs \<longrightarrow> n = 0 \<Longrightarrow>
     dynamic_target (fst (run_commands multi now cs s)) = None"
proof (induction multi now cs s rule: run_commands.induct)
  case (2 multi now c cs s)
  then show ?case by (cases c) auto
qed simp

lemma scale_step_grows:
  "dynamic_target s = None \<Longrightarrow> scale_step m i s = Some t \<Longrightarrow>
     dynamic_target t = None \<and> released (pool_of t) = released (pool_of s)
   \<and> (\<exists>new. active (pool_of t) = active (pool_of s) @ new)"
  by (auto simp: scale_step_def Let_def scale_down_def spawn_def split: if_splits)

lemma main_pass_grows:
  "dynamic_target s = None \<Longrightarrow> no_ramp i \<Longrightarrow>
     dynamic_target (fst (main_pass m i s)) = None \<and> released (pool_of (fst (main_pass m i s))) = released (pool_of s)
   \<and> (\<exists>new. active (pool_of (fst (main_pass m i s))) = active (pool_of s) @ new)"
proof -
  assume d: "dynamic_target s = None" and r: "no_ramp i"
  let ?s = "s\<lparr>throttle := throttle s \<or> i_set_throttle i, critical := critical s \<or> i_set_critical i\<rparr>"
  obtain u b where u: "run_commands (m_multi m) (i_now i) (i_commands i) ?s = (u, b)" by force
  have ud: "dynamic_target u = None"
    using run_commands_no_ramp [of ?s "i_commands i" "m_multi m" "i_now i"] d r u by (simp add: no_ramp_def)
  have up: "pool_of u = pool_of s"
    using run_commands_pool [of "m_multi m" "i_now i" "i_commands i" ?s] u by simp
  show ?thesis
    using d u ud up scale_step_grows [OF ud, of m i]
    by (auto simp: main_pass_def Let_def split: option.splits)
qed

lemma main_loop_grows:
  "dynamic_target s = None \<Longrightarrow> \<forall>i \<in> set is. no_ramp i \<Longrightarrow>
     released (pool_of (fst (main_loop m s is))) = released (pool_of s)
   \<and> (\<exists>new. active (pool_of (fst (main_loop m s is))) = active (pool_of s) @ new)"
proof (induction m s "is" rule: main_loop.induct)
  case (2 m s i "is")
  then show ?case
    using main_pass_grows [of s i m] by (fastforce split: prod.splits option.splits)
qed simp

text \<open>In single-scenario mode a falling schedule never stops a worker: whatever the stages,
  the clock and the memory, as long as no \<open>ramp\<close> command is given the control loop releases no
  worker, and the workers running at any time are still there later. Stages that ramp down only stop
  the growth.\<close>

theorem schedule_never_stops_workers:
  assumes "\<forall>i \<in> set (earlier @ later). no_ramp i"
    and "main_loop m (main_start w) earlier = (s, None)" "main_loop m s later = (t, e)"
  shows "released (pool_of t) = [] \<and> (\<exists>new. active (pool_of t) = active (pool_of s) @ new)"
proof -
  have d: "dynamic_target s = None"
  proof -
    have "main_loop m u is = (s, None) \<Longrightarrow> dynamic_target u = None \<Longrightarrow> \<forall>i \<in> set is. no_ramp i \<Longrightarrow>
        dynamic_target s = None" for u "is"
    proof (induction m u "is" rule: main_loop.induct)
      case (2 m u i "is")
      then show ?case using main_pass_grows [of u i m] by (auto split: prod.splits option.splits)
    qed simp
    then show ?thesis using assms by (simp add: main_start_def)
  qed
  have "released (pool_of s) = []"
    using main_loop_grows [of "main_start w" earlier m] assms by (auto simp: main_start_def)
  then show ?thesis
    using main_loop_grows [OF d, of later m] assms by auto
qed

definition quiet_input :: "duration \<Rightarrow> main_input" where
  "quiet_input e = \<lparr>i_all_finished = False, i_elapsed = e, i_now = 0, i_commands = [],
     i_set_throttle = False, i_set_critical = False, i_usage = Fin 0, i_elapsed_scale = e, i_now_scale = 0\<rparr>"

lemma ramp_down_values:
  "calculate_target [(0, 4), (10 * secs, 0)] 0 = 4" "calculate_target [(0, 4), (10 * secs, 0)] (5 * secs) = 2"
  by (simp_all add: calculate_target_def ramp_value_def secs_def as_secs_f64_def f_sub_def Let_def f64_eval)

definition ramp_down :: main_params where
  "ramp_down = \<lparr>m_multi = False, m_schedule = [(0, 4), (10 * secs, 0)], m_duration = 10 * secs\<rparr>"

lemma ramp_down_runs:
  "main_loop ramp_down (main_start 1) [quiet_input 0] =
     ((main_start 1)\<lparr>pool_of := \<lparr>active = [1..<5], released = [], next_id = 5\<rparr>\<rparr>, None)"
  "main_loop ramp_down ((main_start 1)\<lparr>pool_of := \<lparr>active = [1..<5], released = [], next_id = 5\<rparr>\<rparr>)
       [quiet_input (5 * secs)] =
     ((main_start 1)\<lparr>pool_of := \<lparr>active = [1..<5], released = [], next_id = 5\<rparr>\<rparr>, None)"
  using ramp_down_values
  by (simp_all add: main_pass_def Let_def ramp_down_def quiet_input_def main_start_def new_control_def
      scale_step_def total_paused_def is_stopped_def scale_down_def spawn_def secs_def)

text \<open>Half way down a schedule from 4 to 0 the scheduled number is 2 and four workers run.\<close>

theorem schedule_never_stops_workers_witness:
  "released (pool_of ((main_start 1)\<lparr>pool_of := \<lparr>active = [1..<5], released = [], next_id = 5\<rparr>\<rparr>)) = []
   \<and> calculate_target (m_schedule ramp_down) (5 * secs) = 2"
  using schedule_never_stops_workers [OF _ ramp_down_runs] ramp_down_values
  by (simp add: no_ramp_def quiet_input_def ramp_down_def)

text \<open>A \<open>ramp\<close> command sets the number of workers exactly, up or down, unless the memory is
  throttled: after a pass in single-scenario mode whose dynamic target is \<open>n\<close>, exactly \<open>n\<close>
  workers run, and no worker was lost: every id was spawned once and is running or released.\<close>

theorem ramp_command_exact:
  assumes "dynamic_target s = Some n" "i_commands i = []" "\<not> m_multi m" "\<not> throttle s" "\<not> i_set_throttle i"
    and "pool_inv (pool_of s)" "main_pass m i s = (t, None)"
  shows "length (active (pool_of t)) = n \<and> pool_inv (pool_of t)"
proof
  show "pool_inv (pool_of t)" using main_pass_inv [OF assms(6), of m i] assms(7) by simp
  show "length (active (pool_of t)) = n"
    using assms(1-5,7)
    by (auto simp: main_pass_def Let_def scale_step_def scale_down_def spawn_def release_to_def
        split: if_splits option.splits)
qed

theorem ramp_command_exact_witness:
  "\<exists>t. main_pass ramp_down (quiet_input secs) ((main_start 1)\<lparr>dynamic_target := Some 3\<rparr>) = (t, None)
     \<and> length (active (pool_of t)) = 3"
proof -
  obtain t e where t: "main_pass ramp_down (quiet_input secs) ((main_start 1)\<lparr>dynamic_target := Some 3\<rparr>) = (t, e)"
    by force
  then have "e = None"
    by (auto simp: main_pass_def Let_def ramp_down_def quiet_input_def main_start_def new_control_def
        total_paused_def is_stopped_def secs_def scale_step_def)
  with t show ?thesis
    using ramp_command_exact [of "(main_start 1)\<lparr>dynamic_target := Some 3\<rparr>" 3 "quiet_input secs" ramp_down t]
    by (simp add: ramp_down_def quiet_input_def main_start_def pool_inv_def)
qed

text \<open>The commands act in order and stop at \<open>stop\<close>: \<open>ramp 0\<close> returns to the schedule,
  \<open>ramp n\<close> is ignored with several scenarios, and nothing after a \<open>stop\<close> is read.\<close>

theorem commands_in_order:
  "run_commands multi now (cs @ Stop # ds) s = run_commands multi now (cs @ [Stop]) s
   \<and> snd (run_commands multi now (cs @ [Stop]) s)
   \<and> is_stopped (control (fst (run_commands multi now (cs @ [Stop]) s)))
   \<and> dynamic_target (run_command multi now (Ramp 0) s) = None
   \<and> run_command True now (Ramp (Suc n)) s = s
   \<and> dynamic_target (run_command False now (Ramp (Suc n)) s) = Some (Suc n)"
proof -
  have a: "run_commands multi now (cs @ Stop # ds) s = run_commands multi now (cs @ [Stop]) s"
    by (induction cs arbitrary: s) simp_all
  have b: "snd (run_commands multi now (cs @ [Stop]) s) \<and> is_stopped (control (fst (run_commands multi now (cs @ [Stop]) s)))"
    by (induction cs arbitrary: s) (simp_all add: is_stopped_def stop_control_def)
  from a b show ?thesis by simp
qed

text \<open>C21. A run ends: in single-scenario mode, without commands and never paused, the control loop
  leaves by itself no later than the first pass at which the elapsed time has reached the length of
  the schedule, whatever the memory does.\<close>

theorem main_loop_ends:
  assumes "\<not> m_multi m" "\<forall>i \<in> set is. i_commands i = []" "\<not> paused (control s)" "total_paused_ms (control s) = 0"
    and "\<not> stopped (control s)" "\<exists>i \<in> set is. m_duration m \<le> i_elapsed i"
  shows "snd (main_loop m s is) = Some Finished"
  using assms
proof (induction "is" arbitrary: s)
  case (Cons i "is")
  obtain t e where t: "main_pass m i s = (t, e)" by force
  have p: "total_paused now (control s) = 0" for now
    using Cons.prems(3,4) by (simp add: total_paused_def Let_def)
  show ?case
  proof (cases "m_duration m \<le> i_elapsed i")
    case True
    then have "e = Some Finished"
      using t p Cons.prems(1,5) by (auto simp: main_pass_def Let_def is_stopped_def)
    with t show ?thesis by simp
  next
    case False
    then have "e = None \<and> control t = control s"
      using t p Cons.prems(1,2,5)
      by (auto simp: main_pass_def Let_def is_stopped_def scale_step_def split: if_splits option.splits)
    with False t show ?thesis using Cons.IH [of t] Cons.prems by auto
  qed
qed simp

theorem main_loop_ends_witness:
  "snd (main_loop ramp_down (main_start 1) [quiet_input 0, quiet_input (5 * secs), quiet_input (10 * secs)]) = Some Finished"
  by (rule main_loop_ends)
    (simp_all add: ramp_down_def quiet_input_def main_start_def new_control_def secs_def)

section \<open>Properties of the end of a run\<close>

text \<open>The graceful stop never waits: the loop that waits for the workers polls the flags that
  were cleared just before it, so for every configured period, every pool and every clock it sleeps
  zero times. Only the joins of the multi-scenario executors wait for a worker.\<close>

theorem graceful_stop_never_waits: "graceful_stop stop p polls = 0"
proof -
  have "grace_wait g (map (\<lambda>_. False) ws) polls = 0" for g and ws :: "nat list"
    by (cases polls) (simp_all add: list_all_iff)
  then show ?thesis by (simp add: graceful_stop_def Let_def)
qed

lemma batch_step_inv:
  "concat (posts b) @ batch b = ms \<Longrightarrow> list_all (\<lambda>x. x \<noteq> [] \<and> length x \<le> 100) (posts b) \<Longrightarrow> length (batch b) < 100 \<Longrightarrow>
     concat (posts (batch_step b (m, t))) @ batch (batch_step b (m, t)) = ms @ [m]
   \<and> list_all (\<lambda>x. x \<noteq> [] \<and> length x \<le> 100) (posts (batch_step b (m, t))) \<and> length (batch (batch_step b (m, t))) < 100"
  by (auto simp: batch_step_def Let_def)

text \<open>Batching loses nothing and reorders nothing while the channel is open: the posted batches
  followed by the pending one are the metrics received, each posted batch has 1 to 100 metrics and
  fewer than a hundred are pending. What is pending when the channel closes is never posted.\<close>

theorem batches_complete:
  "concat (posts (batch_run ms)) @ batch (batch_run ms) = map fst ms
   \<and> list_all (\<lambda>b. b \<noteq> [] \<and> length b \<le> 100) (posts (batch_run ms)) \<and> length (batch (batch_run ms)) < 100"
proof (induction ms rule: rev_induct)
  case (snoc p ms)
  obtain m t where "p = (m, t)" by force
  then show ?case using snoc batch_step_inv [of "batch_run ms" "map fst ms" m t] by (simp add: batch_run_def)
qed (simp add: batch_run_def)

text \<open>The aggregator threads of a run hand every metric to a shard that exists.\<close>

lemma thread_adds_complete:
  "map snd (thread_adds a k n ms) = ms \<and> (0 < n \<longrightarrow> (\<forall>(i, m) \<in> set (thread_adds a k n ms). i < n))"
  by (auto simp: thread_adds_def shard_of_def case_prod_beta comp_def map_snd_zip)

end
