(* ===== verification/Report.thy ===== *)
theory Report
  imports Totals Config
begin

text \<open>
  Reports and thresholds of \<open>src/stats/mod.rs\<close> (\<open>to_report\<close>, \<open>validate_thresholds\<close>,
  \<open>validate_scenario_thresholds\<close>) and the script's \<open>stats.get\<close> (\<open>src/bridge/stats.rs\<close>).
  A quantile is named by its decimal literal. \<open>to_json\<close> only calls the serializer of a library on the
  report and is not modelled; what is printed and the HTML page are in \<open>Summary\<close> and \<open>HtmlReport\<close>.
\<close>

record request_report =
  rr_total_requests :: nat
  rr_min_latency_ms :: nat
  rr_max_latency_ms :: nat
  rr_avg_latency_ms :: f64
  rr_p95_latency_ms :: f64
  rr_p99_latency_ms :: f64
  rr_error_count :: nat
  rr_avg_blocked_ms :: f64
  rr_avg_connecting_ms :: f64
  rr_avg_tls_handshaking_ms :: f64
  rr_avg_sending_ms :: f64
  rr_avg_waiting_ms :: f64
  rr_avg_receiving_ms :: f64
  rr_avg_response_size :: f64

record histogram_report =
  hr_avg :: f64
  hr_min :: f64
  hr_max :: f64
  hr_p90 :: f64
  hr_p95 :: f64
  hr_p99 :: f64
  hr_count :: nat

record rate_report =
  ra_total :: nat
  ra_success :: nat
  ra_rate :: f64

record report_stats =
  rep_total_requests :: nat
  rep_total_duration_ms :: nat
  rep_avg_latency_ms :: f64
  rep_min_latency_ms :: nat
  rep_max_latency_ms :: nat
  rep_p50_latency_ms :: f64
  rep_p90_latency_ms :: f64
  rep_p95_latency_ms :: f64
  rep_p99_latency_ms :: f64
  rep_status_codes :: "(nat, nat) hmap"
  rep_errors :: "(string, nat) hmap"
  rep_checks :: "(string, nat \<times> nat) hmap"
  rep_grouped_requests :: "(string, request_report) hmap"
  rep_total_data_sent :: nat
  rep_total_data_received :: nat
  rep_histograms :: "(string, histogram_report) hmap"
  rep_rates :: "(string, rate_report) hmap"
  rep_counters :: "(string, f64) hmap"
  rep_gauges :: "(string, f64) hmap"
  rep_pool_hits :: nat
  rep_pool_misses :: nat
  rep_threshold_failures :: "string list"
  rep_failed_iterations :: nat

definition as_millis :: "duration \<Rightarrow> nat" where
  "as_millis d = d div 1000000"

definition unwrap_or_zero :: "duration option \<Rightarrow> duration" where
  "unwrap_or_zero d = (case d of None \<Rightarrow> 0 | Some x \<Rightarrow> x)"

text \<open>A mean that is 0 for no samples.\<close>

definition mean :: "nat \<Rightarrow> nat \<Rightarrow> f64" where
  "mean x n = (if n > 0 then f_div (f_of_nat x) (f_of_nat n) else Fin 0)"

text \<open>\<open>Duration::from_micros(h.value_at_quantile(q)).as_secs_f64() * 1000.0\<close>.\<close>

definition quantile_ms :: "'h hist_ops \<Rightarrow> 'h \<Rightarrow> rat \<Rightarrow> f64" where
  "quantile_ms H h q = f_mul (as_secs_f64 (h_quantile H h q * 1000)) (f_of_nat 1000)"

definition request_report_of :: "'h hist_ops \<Rightarrow> 'h request_stats \<Rightarrow> request_report" where
  "request_report_of H s = (let n = r_total_requests s in \<lparr>
     rr_total_requests = n,
     rr_min_latency_ms = as_millis (unwrap_or_zero (r_min_duration s)),
     rr_max_latency_ms = as_millis (r_max_duration s),
     rr_avg_latency_ms = mean (as_millis (r_total_duration s)) n,
     rr_p95_latency_ms = quantile_ms H (r_histogram s) (95 / 100),
     rr_p99_latency_ms = quantile_ms H (r_histogram s) (99 / 100),
     rr_error_count = r_error_count s,
     rr_avg_blocked_ms = mean (as_millis (r_total_blocked s)) n,
     rr_avg_connecting_ms = mean (as_millis (r_total_connecting s)) n,
     rr_avg_tls_handshaking_ms = mean (as_millis (r_total_tls_handshaking s)) n,
     rr_avg_sending_ms = mean (as_millis (r_total_sending s)) n,
     rr_avg_waiting_ms = mean (as_millis (r_total_waiting s)) n,
     rr_avg_receiving_ms = mean (as_millis (r_total_receiving s)) n,
     rr_avg_response_size = mean (r_total_response_size s) n\<rparr>)"

definition thousandth :: "nat \<Rightarrow> f64" where
  "thousandth n = f_div (f_of_nat n) (f_of_nat 1000)"

definition histogram_report_of :: "'h hist_ops \<Rightarrow> (string, f64) hmap \<Rightarrow> string \<Rightarrow> 'h \<Rightarrow> histogram_report" where
  "histogram_report_of H sum_map name h = (let n = h_len H h in \<lparr>
     hr_avg = (if n > 0 then f_div (hm_or (Fin 0) sum_map name) (f_of_nat n) else Fin 0),
     hr_min = thousandth (h_min H h),
     hr_max = thousandth (h_max H h),
     hr_p90 = thousandth (h_quantile H h (9 / 10)),
     hr_p95 = thousandth (h_quantile H h (95 / 100)),
     hr_p99 = thousandth (h_quantile H h (99 / 100)),
     hr_count = n\<rparr>)"

definition rate_report_of :: "nat \<times> nat \<Rightarrow> rate_report" where
  "rate_report_of = (\<lambda>(total, success). \<lparr>ra_total = total, ra_success = success, ra_rate = mean success total\<rparr>)"

text \<open>A map built by inserting, for every entry of another, the report of its value.\<close>

definition map_reports :: "(string \<Rightarrow> 'v \<Rightarrow> 'r) \<Rightarrow> (string, 'v) hmap \<Rightarrow> (string, 'r) hmap" where
  "map_reports f m = foldl (\<lambda>out (k, v). hm_insert k (f k v) out) [] m"

definition to_report :: "'h hist_ops \<Rightarrow> 'h stats_aggregator \<Rightarrow> report_stats" where
  "to_report H a = \<lparr>
     rep_total_requests = total_requests a,
     rep_total_duration_ms = as_millis (total_duration a),
     rep_avg_latency_ms = mean (as_millis (total_duration a)) (total_requests a),
     rep_min_latency_ms = as_millis (unwrap_or_zero (min_duration a)),
     rep_max_latency_ms = as_millis (max_duration a),
     rep_p50_latency_ms = quantile_ms H (histogram a) (1 / 2),
     rep_p90_latency_ms = quantile_ms H (histogram a) (9 / 10),
     rep_p95_latency_ms = quantile_ms H (histogram a) (95 / 100),
     rep_p99_latency_ms = quantile_ms H (histogram a) (99 / 100),
     rep_status_codes = status_codes a,
     rep_errors = errors a,
     rep_checks = checks a,
     rep_grouped_requests = map_reports (\<lambda>_. request_report_of H) (requests a),
     rep_total_data_sent = total_data_sent a,
     rep_total_data_received = total_data_received a,
     rep_histograms = map_reports (histogram_report_of H (histogram_sums a)) (histograms a),
     rep_rates = map_reports (\<lambda>_. rate_report_of) (rates a),
     rep_counters = counters a,
     rep_gauges = gauges a,
     rep_pool_hits = pool_hits a,
     rep_pool_misses = pool_misses a,
     rep_threshold_failures = [],
     rep_failed_iterations = failed_iterations a\<rparr>"

section \<open>Thresholds\<close>

text \<open>The value a threshold compares: by metric name first, then by the kind of custom metric.\<close>

definition actual_value :: "report_stats \<Rightarrow> string \<Rightarrow> string \<Rightarrow> f64" where
  "actual_value r metric_name check_type =
     (if metric_name = ''http_req_duration'' then
        (if check_type = ''p95'' then rep_p95_latency_ms r
         else if check_type = ''p99'' then rep_p99_latency_ms r
         else if check_type = ''avg'' then rep_avg_latency_ms r
         else if check_type = ''max'' then f_of_nat (rep_max_latency_ms r)
         else if check_type = ''min'' then f_of_nat (rep_min_latency_ms r)
         else Fin 0)
      else if metric_name = ''http_req_failed'' then
        (if check_type = ''rate'' then mean (hm_sum (rep_errors r)) (rep_total_requests r) else Fin 0)
      else case hm_get (rep_histograms r) metric_name of
        Some h \<Rightarrow>
          (if check_type = ''p95'' then hr_p95 h
           else if check_type = ''p99'' then hr_p99 h
           else if check_type = ''p90'' then hr_p90 h
           else if check_type = ''avg'' then hr_avg h
           else if check_type = ''max'' then hr_max h
           else if check_type = ''min'' then hr_min h
           else if check_type = ''count'' then f_of_nat (hr_count h)
           else Fin 0)
      | None \<Rightarrow> (case hm_get (rep_rates r) metric_name of
        Some q \<Rightarrow> (if check_type = ''rate'' then ra_rate q else Fin 0)
      | None \<Rightarrow> (case hm_get (rep_counters r) metric_name of
        Some v \<Rightarrow> (if check_type = ''count'' \<or> check_type = ''value'' then v else Fin 0)
      | None \<Rightarrow> (case hm_get (rep_gauges r) metric_name of
        Some v \<Rightarrow> (if check_type = ''value'' then v else Fin 0)
      | None \<Rightarrow> Fin 0))))"

definition compare_values :: "string \<Rightarrow> f64 \<Rightarrow> f64 \<Rightarrow> bool" where
  "compare_values operator actual val =
     (if operator = ''<'' then f_lt actual val
      else if operator = ''<='' then f_le actual val
      else if operator = ''>'' then f_lt val actual
      else if operator = ''>='' then f_le val actual
      else if operator = ''=='' then f_lt (f_abs (f_sub actual val)) f64_epsilon
      else False)"

definition check_threshold :: "report_stats \<Rightarrow> string \<Rightarrow> string \<Rightarrow> string list" where
  "check_threshold r metric_name threshold = (case split_ws threshold of
     check_type # operator # val # _ \<Rightarrow>
       (let actual = actual_value r metric_name check_type;
            v = (case parse_f64 val of None \<Rightarrow> Fin 0 | Some x \<Rightarrow> x)
        in if compare_values operator actual v then []
           else [''Threshold FAILED: '' @ metric_name @ '' '' @ check_type @ '' '' @ threshold
             @ '' (actual: '' @ fmt_fixed 2 actual @ '')''])
   | _ \<Rightarrow> [])"

definition validate_thresholds :: "'h hist_ops \<Rightarrow> 'h stats_aggregator \<Rightarrow> criteria_map \<Rightarrow> string list" where
  "validate_thresholds H a criteria = (let r = to_report H a in
     concat (map (\<lambda>(m, ts). concat (map (check_threshold r m) ts)) criteria))"

text \<open>The aggregator of one scenario: the groups whose name starts with \<open>scenario::\<close>.\<close>

definition scenario_group :: "'h hist_ops \<Rightarrow> string \<Rightarrow> 'h stats_aggregator \<Rightarrow> string \<times> 'h request_stats \<Rightarrow>
    'h stats_aggregator" where
  "scenario_group H pre sub = (\<lambda>(name, s). if starts_with pre name then sub\<lparr>
     total_requests := total_requests sub + r_total_requests s,
     total_duration := total_duration sub + r_total_duration s,
     min_duration := merge_min (min_duration sub) (r_min_duration s),
     max_duration := raise_max (r_max_duration s) (max_duration sub),
     histogram := h_add H (histogram sub) (r_histogram s),
     total_data_sent := total_data_sent sub + r_total_request_size s,
     total_data_received := total_data_received sub + r_total_response_size s,
     errors := hm_entry ''error'' 0 (\<lambda>n. n + r_error_count s) (errors sub)\<rparr> else sub)"

definition scenario_aggregator :: "'h hist_ops \<Rightarrow> string \<Rightarrow> 'h stats_aggregator \<Rightarrow> 'h stats_aggregator" where
  "scenario_aggregator H scenario a =
     (let sub = foldl (scenario_group H (scenario @ ''::'')) (aggregator_new H) (requests a);
          sub = sub\<lparr>checks := checks a, histograms := histograms a, histogram_sums := histogram_sums a,
            rates := rates a, counters := counters a, gauges := gauges a\<rparr>
      in if hm_get (errors sub) ''error'' = Some 0 then sub\<lparr>errors := hm_remove ''error'' (errors sub)\<rparr> else sub)"

definition validate_scenario_thresholds :: "'h hist_ops \<Rightarrow> 'h stats_aggregator \<Rightarrow> string \<Rightarrow> criteria_map \<Rightarrow> string list" where
  "validate_scenario_thresholds H a scenario criteria =
     map (\<lambda>f. ''[scenario: '' @ scenario @ ''] '' @ f) (validate_thresholds H (scenario_aggregator H scenario a) criteria)"

text \<open>The failures of a run: the global criteria, then each scenario's.\<close>

definition run_failures :: "'h hist_ops \<Rightarrow> 'h stats_aggregator \<Rightarrow> config \<Rightarrow> string list" where
  "run_failures H a c =
     (case c_criteria c of None \<Rightarrow> [] | Some cr \<Rightarrow> validate_thresholds H a cr) @
     (case c_scenarios c of None \<Rightarrow> []
      | Some scs \<Rightarrow> concat (map (\<lambda>(name, sc). case sc_thresholds sc of None \<Rightarrow> []
          | Some cr \<Rightarrow> validate_scenario_thresholds H a name cr) scs))"

text \<open>With \<open>abort_on_fail\<close> a run with failures is an error.\<close>

definition run_outcome :: "'h hist_ops \<Rightarrow> 'h stats_aggregator \<Rightarrow> config \<Rightarrow> string + report_stats" where
  "run_outcome H a c = (let failures = run_failures H a c in
     if c_abort_on_fail c = Some True \<and> failures \<noteq> []
     then Inl (''Thresholds breached: '' @ show_nat (length failures) @ '' failure(s)'')
     else Inr ((to_report H a)\<lparr>rep_threshold_failures := failures\<rparr>))"

section \<open>The script's view\<close>

record script_stats =
  st_p95 :: f64
  st_p99 :: f64
  st_avg :: f64
  st_count :: nat
  st_min :: f64
  st_max :: f64

definition stats_get :: "'h hist_ops \<Rightarrow> 'h stats_aggregator \<Rightarrow> string \<Rightarrow> script_stats" where
  "stats_get H a name = (case hm_get (requests a) name of
     Some s \<Rightarrow> \<lparr>st_p95 = thousandth (h_quantile H (r_histogram s) (95 / 100)),
       st_p99 = thousandth (h_quantile H (r_histogram s) (99 / 100)),
       st_avg = f_div (f_of_nat (as_millis (r_total_duration s))) (f_of_nat (max (r_total_requests s) 1)),
       st_count = r_total_requests s,
       st_min = f_of_nat (as_millis (unwrap_or_zero (r_min_duration s))),
       st_max = f_of_nat (as_millis (r_max_duration s))\<rparr>
   | None \<Rightarrow> \<lparr>st_p95 = Fin 0, st_p99 = Fin 0, st_avg = Fin 0, st_count = 0, st_min = Fin 0, st_max = Fin 0\<rparr>)"

section \<open>Laws\<close>

lemma map_reports_get: "hm_wf m \<Longrightarrow> hm_get (map_reports f m) k = map_option (f k) (hm_get m k)"
proof -
  have "hm_wf m \<Longrightarrow> hm_get (foldl (\<lambda>out (k, v). hm_insert k (f k v) out) out m) k =
      (case hm_get m k of None \<Rightarrow> hm_get out k | Some v \<Rightarrow> Some (f k v))" for out
  proof (induction m arbitrary: out)
    case (Cons p m)
    then have "hm_get m (fst p) = None" by (simp add: map_of_eq_None_iff)
    with Cons show ?case by (cases p) (simp add: hmap split: option.split)
  qed simp
  then show "hm_wf m \<Longrightarrow> hm_get (map_reports f m) k = map_option (f k) (hm_get m k)"
    by (simp add: map_reports_def split: option.split)
qed

text \<open>A quotient of a number by a larger one, in \<open>f64\<close>, is between 0 and 1; a mean is between
  the bounds of what it averages.\<close>

lemma fl_quotient_between:
  assumes "0 < n" "lo * n \<le> x" "x \<le> hi * n" "hi \<le> 2 ^ 53" "x \<le> 2 ^ 53" "n \<le> 2 ^ 53"
  shows "\<exists>q. mean x n = Fin q \<and> of_nat lo \<le> q \<and> q \<le> of_nat hi"
proof -
  let ?q = "of_nat x / of_nat n :: rat"
  have "(of_nat (lo * n) :: rat) \<le> of_nat x" "(of_nat x :: rat) \<le> of_nat (hi * n)"
    using assms(2,3) by (simp_all only: of_nat_le_iff)
  then have q: "of_nat lo \<le> ?q" "?q \<le> of_nat hi" using assms(1) by (simp_all add: pos_le_divide_eq pos_divide_le_eq)
  have "0 \<le> ?q" by simp
  with q(2) have "to_f64 ?q = Fin (fl ?q)"
    by (intro fl_below_overflow [OF _ assms(4)]) simp
  moreover have "lo \<le> hi"
  proof -
    have "lo * n \<le> hi * n" using assms(2,3) by (rule order_trans)
    then show ?thesis using assms(1) by simp
  qed
  then have "of_nat lo \<le> fl ?q" "fl ?q \<le> of_nat hi"
    using fl_mono [OF q(1)] fl_mono [OF q(2)] fl_nat [of lo] fl_nat [of hi] assms(4) by simp_all
  ultimately show ?thesis using assms by (simp add: mean_def f_of_nat_small)
qed

text \<open>The groups of a scenario and their totals.\<close>

lemma scenario_total:
  "total_requests (foldl (scenario_group H pre) sub gs) =
     total_requests sub + sum_list (map (\<lambda>g. r_total_requests (snd g)) (filter (\<lambda>g. starts_with pre (fst g)) gs))"
  by (induction gs arbitrary: sub) (auto simp: scenario_group_def)

text \<open>The groups of a run count its request metrics.\<close>

lemma group_sum:
  assumes "hm_wf m" "finite K" "fst ` set (filter (\<lambda>g. P (fst g)) m) \<subseteq> K" "\<forall>k \<in> K. P k"
  shows "sum_list (map (\<lambda>g. f (snd g)) (filter (\<lambda>g. P (fst g)) m)) =
     (\<Sum>k\<in>K. case hm_get m k of None \<Rightarrow> 0 | Some v \<Rightarrow> (f v :: nat))"
  using assms
proof (induction m arbitrary: K)
  case (Cons p m)
  obtain k v where p: "p = (k, v)" by force
  have nk: "hm_get m k = None" using Cons.prems p by (simp add: map_of_eq_None_iff)
  show ?case
  proof (cases "P k")
    case True
    then have k: "k \<in> K" using Cons.prems p by auto
    have "(\<Sum>k'\<in>K. case hm_get (p # m) k' of None \<Rightarrow> 0 | Some v \<Rightarrow> f v) =
        f v + (\<Sum>k'\<in>K - {k}. case hm_get (p # m) k' of None \<Rightarrow> 0 | Some v \<Rightarrow> f v)"
      using sum.remove [OF Cons.prems(2) k, of "\<lambda>k'. case hm_get (p # m) k' of None \<Rightarrow> 0 | Some v \<Rightarrow> f v"] p by simp
    also have "(\<Sum>k'\<in>K - {k}. case hm_get (p # m) k' of None \<Rightarrow> 0 | Some v \<Rightarrow> f v) =
        (\<Sum>k'\<in>K - {k}. case hm_get m k' of None \<Rightarrow> 0 | Some v \<Rightarrow> f v)"
      by (rule sum.cong) (auto simp: p)
    also have "\<dots> = sum_list (map (\<lambda>g. f (snd g)) (filter (\<lambda>g. P (fst g)) m))"
      using Cons.prems p True by (intro Cons.IH [symmetric]) auto
    finally show ?thesis using True p by simp
  next
    case False
    then have "k \<notin> K" using Cons.prems by auto
    then have "(\<Sum>k'\<in>K. case hm_get (p # m) k' of None \<Rightarrow> 0 | Some v \<Rightarrow> f v) =
        (\<Sum>k'\<in>K. case hm_get m k' of None \<Rightarrow> 0 | Some v \<Rightarrow> f v)"
      by (intro sum.cong) (auto simp: p)
    with False p Cons show ?thesis by simp
  qed
qed simp

lemma count_by_group:
  assumes "finite K" "\<And>m. m \<in> set ms \<Longrightarrow> is_Request m \<and> P (group_of m) \<Longrightarrow> group_of m \<in> K" "\<forall>k \<in> K. P k"
  shows "(\<Sum>k\<in>K. length (filter (in_group k) ms)) = count_of (\<lambda>m. is_Request m \<and> P (group_of m)) ms"
  using assms(2)
proof (induction ms)
  case (Cons m ms)
  have "(\<Sum>k\<in>K. length (filter (in_group k) (m # ms))) =
      (\<Sum>k\<in>K. (if in_group k m then 1 else 0)) + (\<Sum>k\<in>K. length (filter (in_group k) ms))"
    by (subst sum.distrib [symmetric]) (rule sum.cong, simp_all)
  also have "(\<Sum>k\<in>K. (if in_group k m then 1 else 0)) = (if is_Request m \<and> P (group_of m) then 1 else (0 :: nat))"
    using assms(1,3) Cons.prems by (auto simp: in_group_def)
  finally show ?case using Cons by (simp add: count_of_def)
qed (simp add: count_of_def)

lemma scenario_total_run:
  "total_requests (scenario_aggregator H scenario (run_agg H ms)) =
     count_of (\<lambda>m. is_Request m \<and> starts_with (scenario @ ''::'') (group_of m)) ms"
proof -
  let ?P = "starts_with (scenario @ ''::'')"
  let ?K = "{k \<in> group_of ` set ms. ?P k}"
  have wf: "hm_wf (requests (run_agg H ms))"
    using aggm.run_inv [OF agg_inv_new [of H], where es = ms and H = H] by (simp add: run_agg_def agg_inv_def maps_wf_def)
  have sub: "fst ` set (filter (\<lambda>g. ?P (fst g)) (requests (run_agg H ms))) \<subseteq> ?K"
  proof
    fix k assume "k \<in> fst ` set (filter (\<lambda>g. ?P (fst g)) (requests (run_agg H ms)))"
    then obtain v where v: "(k, v) \<in> set (requests (run_agg H ms))" "?P k" by auto
    with wf have "filter (in_group k) ms \<noteq> []" using groups_run [of H ms k] by (auto split: if_splits)
    then show "k \<in> ?K" using v(2) by (auto simp: filter_empty_conv in_group_def)
  qed
  have "total_requests (scenario_aggregator H scenario (run_agg H ms)) =
      total_requests (foldl (scenario_group H (scenario @ ''::'')) (aggregator_new H) (requests (run_agg H ms)))"
    by (simp add: scenario_aggregator_def Let_def)
  also have "\<dots> = (\<Sum>k\<in>?K. case hm_get (requests (run_agg H ms)) k of None \<Rightarrow> 0 | Some v \<Rightarrow> r_total_requests v)"
    unfolding scenario_total by (subst group_sum [OF wf _ sub]) (simp_all add: aggregator_new_def)
  also have "\<dots> = (\<Sum>k\<in>?K. length (filter (in_group k) ms))"
    by (rule sum.cong) (simp_all add: groups_run group_stats_fields)
  also have "\<dots> = count_of (\<lambda>m. is_Request m \<and> ?P (group_of m)) ms"
    by (rule count_by_group) auto
  finally show ?thesis .
qed

section \<open>Properties\<close>

text \<open>The report of a run is within its bounds: every rate is between 0 and 1, and the average
  latency lies between the reported minimum and the reported maximum plus one millisecond, for runs
  whose counts and durations in milliseconds are exact in \<open>f64\<close>.\<close>

theorem report_bounds:
  assumes "total_requests (run_agg H ms) \<le> 2 ^ 53" "as_millis (total_duration (run_agg H ms)) < 2 ^ 53"
    and "hm_get (rates (run_agg H ms)) k = Some (tot, success)" "tot \<le> 2 ^ 53"
  shows "(\<exists>q. ra_rate (rate_report_of (tot, success)) = Fin q \<and> 0 \<le> q \<and> q \<le> 1)
    \<and> hm_get (rep_rates (to_report H (run_agg H ms))) k = Some (rate_report_of (tot, success))
    \<and> (total_requests (run_agg H ms) > 0 \<longrightarrow>
        (\<exists>q. rep_avg_latency_ms (to_report H (run_agg H ms)) = Fin q
          \<and> of_nat (rep_min_latency_ms (to_report H (run_agg H ms))) \<le> q
          \<and> q \<le> of_nat (rep_max_latency_ms (to_report H (run_agg H ms)) + 1)))"
proof -
  let ?a = "run_agg H ms"
  have inv: "agg_inv ?a" using aggm.run_inv [OF agg_inv_new [of H], where es = ms and H = H] by (simp add: run_agg_def)
  have suc: "success \<le> tot"
  proof -
    have "(k, tot, success) \<in> set (rates ?a)" using assms(3) by (rule map_of_SomeD)
    then have "counted (tot, success)" using inv by (force simp: agg_inv_def all_values_def)
    then show ?thesis by (simp add: counted_def)
  qed
  have rate: "\<exists>q. ra_rate (rate_report_of (tot, success)) = Fin q \<and> 0 \<le> q \<and> q \<le> 1"
  proof (cases "tot = 0")
    case False
    then show ?thesis
      using fl_quotient_between [of tot 0 success 1] suc assms(4) by (simp add: rate_report_of_def)
  qed (simp add: rate_report_of_def mean_def)
  have avg: "\<exists>q. mean (as_millis (total_duration ?a)) (total_requests ?a) = Fin q
      \<and> of_nat (as_millis (unwrap_or_zero (min_duration ?a))) \<le> q \<and> q \<le> of_nat (as_millis (max_duration ?a) + 1)"
    if pos: "0 < total_requests ?a"
  proof -
    let ?n = "total_requests ?a" and ?ds = "http_durations ms"
    have ds: "?ds \<noteq> []" "?n = length ?ds" using extremes_run [of H ms] pos by auto
    have sum: "?n * Min (set ?ds) \<le> total_duration ?a" "total_duration ?a \<le> ?n * Max (set ?ds)"
      using sum_between [OF ds(1)] extremes_run [of H ms] ds(2) by auto
    have ext: "unwrap_or_zero (min_duration ?a) = Min (set ?ds)" "max_duration ?a = Max (set ?ds)"
      using extremes_run [of H ms] ds(1) by (simp_all add: min_of_def max_of_def unwrap_or_zero_def)
    have "as_millis (Min (set ?ds)) * ?n \<le> as_millis (total_duration ?a)"
    proof -
      have "Min (set ?ds) div 1000000 * 1000000 \<le> Min (set ?ds)" by simp
      then have "(Min (set ?ds) div 1000000 * 1000000) * ?n \<le> Min (set ?ds) * ?n" by (rule mult_le_mono1)
      moreover have "(Min (set ?ds) div 1000000 * 1000000) * ?n = Min (set ?ds) div 1000000 * ?n * 1000000" by simp
      ultimately have "Min (set ?ds) div 1000000 * ?n * 1000000 \<le> total_duration ?a"
        using sum(1) by (metis mult.commute order_trans)
      then show ?thesis unfolding as_millis_def by (simp add: less_eq_div_iff_mult_less_eq)
    qed
    moreover have "as_millis (total_duration ?a) \<le> (as_millis (Max (set ?ds)) + 1) * ?n"
    proof -
      have "Max (set ?ds) \<le> (Max (set ?ds) div 1000000 + 1) * 1000000"
        using div_mult_mod_eq [of "Max (set ?ds)" 1000000] by simp
      then have "?n * Max (set ?ds) \<le> ?n * ((Max (set ?ds) div 1000000 + 1) * 1000000)" by (rule mult_le_mono2)
      with sum(2) have "total_duration ?a \<le> ((Max (set ?ds) div 1000000 + 1) * ?n) * 1000000"
        by (simp add: algebra_simps)
      then have "total_duration ?a div 1000000 \<le> ((Max (set ?ds) div 1000000 + 1) * ?n) * 1000000 div 1000000"
        by (rule div_le_mono)
      then show ?thesis by (simp add: as_millis_def)
    qed
    moreover have "as_millis (Max (set ?ds)) + 1 \<le> 2 ^ 53"
    proof -
      have "max_duration ?a \<le> total_duration ?a" using inv pos by (auto simp: agg_inv_def split: option.splits)
      then have "as_millis (max_duration ?a) \<le> as_millis (total_duration ?a)"
        unfolding as_millis_def by (rule div_le_mono)
      then show ?thesis using assms(2) by (simp add: ext)
    qed
    ultimately show ?thesis
      using fl_quotient_between [OF pos, of "as_millis (Min (set ?ds))" "as_millis (total_duration ?a)"
          "as_millis (Max (set ?ds)) + 1"] assms(1,2) by (simp add: ext)
  qed
  have "hm_wf (rates ?a)" using inv by (simp add: agg_inv_def maps_wf_def)
  then show ?thesis using rate avg assms(3) by (simp add: to_report_def map_reports_get)
qed

text \<open>The request of a duration in nanoseconds, with or without an error.\<close>

definition a_request :: "string \<Rightarrow> duration \<Rightarrow> string option \<Rightarrow> metric" where
  "a_request name d err = Request name (default_timings\<lparr>t_duration := d\<rparr>) (if err = None then 200 else 0) err []"

theorem report_bounds_witness:
  "\<exists>q. rep_avg_latency_ms (to_report list_hist (run_agg list_hist [a_request ''r'' 1900000 None, Rate ''ok'' True []])) = Fin q
     \<and> 1 \<le> q \<and> q \<le> 2"
proof -
  let ?a = "run_agg list_hist [a_request ''r'' 1900000 None, Rate ''ok'' True []]"
  have n: "is_iteration ''r'' = False" by (simp add: is_iteration_def ends_with_iteration_total_def ends_with_def starts_with_def)
  have f: "total_requests ?a = 1" "total_duration ?a = 1900000" "hm_get (rates ?a) ''ok'' = Some (1, 1)"
    "min_duration ?a = Some 1900000" "max_duration ?a = 1900000"
    by (simp_all add: run_agg_def aggregator_new_def a_request_def n add_http_def add_group_def default_timings_def
        hm_entry_def hm_insert_def bump_pair_def lower_min_def raise_max_def)
  show ?thesis
    using report_bounds [of list_hist "[a_request ''r'' 1900000 None, Rate ''ok'' True []]" "''ok''" 1 1] f
    by (simp add: as_millis_def to_report_def unwrap_or_zero_def)
qed

text \<open>The reported average can exceed the reported maximum: the extremes are truncated to whole
  milliseconds and the average is not. Two requests of 1.5 ms have the average 1.5 and the maximum
  1.\<close>

theorem average_above_maximum:
  "rep_avg_latency_ms (to_report H (run_agg H [a_request ''r'' 1500000 None, a_request ''r'' 1500000 None])) = Fin (3 / 2)
   \<and> rep_max_latency_ms (to_report H (run_agg H [a_request ''r'' 1500000 None, a_request ''r'' 1500000 None])) = 1"
proof -
  let ?a = "run_agg H [a_request ''r'' 1500000 None, a_request ''r'' 1500000 None]"
  have n: "is_iteration ''r'' = False" by (simp add: is_iteration_def ends_with_iteration_total_def ends_with_def starts_with_def)
  have f: "total_requests ?a = 2" "total_duration ?a = 3000000" "max_duration ?a = 1500000"
    by (simp_all add: run_agg_def aggregator_new_def a_request_def n add_http_def add_group_def default_timings_def
        raise_max_def)
  show ?thesis by (simp add: to_report_def f as_millis_def mean_def f64_eval)
qed



text \<open>A threshold given on the command line the way its help text shows, without spaces
  (\<open>METRIC:CONDITION\<close>, as in \<open>http_req_duration:p95<500\<close>), is never enforced: the condition is
  one word, validation skips it, and no statistics whatever make the run fail.\<close>

theorem cli_threshold_ignored:
  assumes "metric \<noteq> []" "CHR '':'' \<notin> set metric" "cond \<noteq> []" "list_all (\<lambda>c. \<not> is_ws c) cond"
    and "apply_thresholds [metric @ '':'' @ cond] None = Some cr"
  shows "validate_thresholds H a cr = [] \<and> hm_get cr metric = Some [cond]"
proof -
  have "split_once (CHR '':'') (metric @ '':'' @ cond) = Some (metric, cond)"
    using split_once_append [OF assms(2), of cond] by simp
  then have cr: "cr = [(metric, [cond])]"
    using assms(1,3,5) by (simp add: apply_thresholds_def add_threshold_def hm_entry_def hm_insert_def)
  have "split_ws cond = [cond]" using assms(3,4) by (rule split_ws_word)
  then show ?thesis by (simp add: cr validate_thresholds_def check_threshold_def)
qed

theorem cli_threshold_ignored_witness:
  "validate_thresholds list_hist (run_agg list_hist [a_request ''r'' (9 * secs) None])
     [(''http_req_duration'', [''p95<500''])] = []"
  using cli_threshold_ignored [of "''http_req_duration''" "''p95<500''" "[(''http_req_duration'', [''p95<500''])]"
      list_hist "run_agg list_hist [a_request ''r'' (9 * secs) None]"]
  by (simp add: is_ws_def apply_thresholds_def add_threshold_def split_once_def hm_entry_def hm_insert_def)

text \<open>The threshold on \<open>http_req_failed\<close> compares the errors of requests and of iterations
  together with the number of requests: the numerator counts the failed requests and, in addition,
  the failed iterations, so the rate is not bounded by 1.\<close>

theorem failed_rate_mixes_iterations:
  assumes "total_requests (run_agg H ms) > 0"
  shows "\<exists>failed_requests. failed_requests \<le> total_requests (run_agg H ms)
    \<and> actual_value (to_report H (run_agg H ms)) ''http_req_failed'' ''rate'' =
        f_div (f_of_nat (failed_requests + failed_iterations (run_agg H ms))) (f_of_nat (total_requests (run_agg H ms)))"
proof -
  let ?a = "run_agg H ms"
  have inv: "agg_inv ?a" using aggm.run_inv [OF agg_inv_new [of H], where es = ms and H = H] by (simp add: run_agg_def)
  then have b: "failed_iterations ?a \<le> hm_sum (errors ?a)" "hm_sum (errors ?a) \<le> total_requests ?a + failed_iterations ?a"
    by (simp_all add: agg_inv_def)
  show ?thesis
    using assms b by (intro exI [of _ "hm_sum (errors ?a) - failed_iterations ?a"])
      (simp add: actual_value_def to_report_def mean_def)
qed

theorem failed_rate_mixes_iterations_witness:
  "\<exists>n. actual_value (to_report list_hist (run_agg list_hist
       [a_request ''r'' 5 None, a_request ''iteration'' 5 (Some ''x''), a_request ''iteration'' 5 (Some ''x'')]))
     ''http_req_failed'' ''rate'' = f_div (f_of_nat (n + 2)) (f_of_nat 1)"
proof -
  let ?ms = "[a_request ''r'' 5 None, a_request ''iteration'' 5 (Some ''x''), a_request ''iteration'' 5 (Some ''x'')]"
  have n: "is_iteration ''r'' = False" "is_iteration ''iteration'' = True" "ends_with_iteration_total ''iteration'' = False"
    by (simp_all add: is_iteration_def ends_with_iteration_total_def ends_with_def starts_with_def)
  have "total_requests (run_agg list_hist ?ms) = 1" "failed_iterations (run_agg list_hist ?ms) = 2"
    by (simp_all add: total_requests_count failed_run count_of_def is_http_def is_failed_iteration_def a_request_def n)
  then show ?thesis using failed_rate_mixes_iterations [of list_hist ?ms] by auto
qed

text \<open>Thresholds of a scenario are evaluated on the groups named \<open>scenario::...\<close>. Requests are
  not named that way, so when no request of the run is, the number of requests a scenario's
  thresholds see is the number of its iteration metrics (two per iteration), and no HTTP request
  contributes.\<close>

theorem scenario_thresholds_see_iterations:
  assumes "\<forall>m \<in> set ms. is_http m \<longrightarrow> \<not> starts_with (scenario @ ''::'') (group_of m)"
  shows "total_requests (scenario_aggregator H scenario (run_agg H ms)) =
    count_of (\<lambda>m. is_Request m \<and> is_iteration (request_name m) \<and> starts_with (scenario @ ''::'') (group_of m)) ms"
proof -
  have "filter (\<lambda>m. is_Request m \<and> starts_with (scenario @ ''::'') (group_of m)) ms =
      filter (\<lambda>m. is_Request m \<and> is_iteration (request_name m) \<and> starts_with (scenario @ ''::'') (group_of m)) ms"
    using assms by (intro filter_cong) (auto simp: is_http_def)
  then show ?thesis by (simp add: scenario_total_run count_of_def)
qed

theorem scenario_thresholds_see_iterations_witness:
  "total_requests (scenario_aggregator list_hist ''s'' (run_agg list_hist
     [a_request ''http://x/'' 5 None, a_request ''s::iteration'' 7 None, a_request ''s::iteration_total'' 9 None])) = 2"
proof -
  let ?ms = "[a_request ''http://x/'' 5 None, a_request ''s::iteration'' 7 None, a_request ''s::iteration_total'' 9 None]"
  have n: "is_iteration ''http://x/'' = False" "is_iteration ''s::iteration'' = True" "is_iteration ''s::iteration_total'' = True"
    by (simp_all add: is_iteration_def ends_with_iteration_total_def ends_with_def starts_with_def)
  show ?thesis
    using scenario_thresholds_see_iterations [of ?ms "''s''" list_hist]
    by (simp add: count_of_def a_request_def group_of_def full_name_def n starts_with_def is_http_def)
qed

text \<open>The script's \<open>stats.get\<close> reports the number of requests of a group, and zeros for a
  group that has none.\<close>

theorem stats_get_counts:
  "st_count (stats_get H (run_agg H ms) name) = length (filter (in_group name) ms)
   \<and> (filter (in_group name) ms = [] \<longrightarrow> stats_get H (run_agg H ms) name =
        \<lparr>st_p95 = Fin 0, st_p99 = Fin 0, st_avg = Fin 0, st_count = 0, st_min = Fin 0, st_max = Fin 0\<rparr>)"
  by (simp add: stats_get_def groups_run group_stats_fields)

theorem stats_get_counts_witness:
  "st_count (stats_get list_hist (run_agg list_hist []) ''r'') = 0"
  using stats_get_counts [of list_hist "[]" "''r''"] by simp

end
