(* ===== verification/Exporters.thy ===== *)
theory Exporters
  imports Report
begin

text \<open>
  The exporters of \<open>src/stats/\<close>: StatsD (\<open>statsd.rs\<close>: the metric lines and their packing into
  UDP packets), CSV (\<open>csv.rs\<close>), the OTLP payload (\<open>otlp.rs\<close>), and the run history
  (\<open>db.rs\<close>), whose table is a list of rows and whose JSON codec is a pair of arguments. The
  sockets and the HTTP client are not modelled: a send is an element of the result, or an error of
  the environment.
\<close>

section \<open>StatsD\<close>

record statsd_exporter =
  sd_endpoint :: string
  sd_prefix :: string

definition statsd_new :: "string \<Rightarrow> statsd_exporter" where
  "statsd_new endpoint = \<lparr>sd_endpoint = (if contains_char (CHR '':'') endpoint then endpoint else endpoint @ '':8125''),
     sd_prefix = ''fusillade''\<rparr>"

definition statsd_with_prefix :: "string \<Rightarrow> string \<Rightarrow> statsd_exporter" where
  "statsd_with_prefix endpoint pre = (statsd_new endpoint)\<lparr>sd_prefix := pre\<rparr>"

definition sanitize_char :: "char \<Rightarrow> char" where
  "sanitize_char c = (if is_alnum c \<or> c = CHR ''_'' \<or> c = CHR ''.'' \<or> c = CHR ''-'' then c else CHR ''_'')"

definition sanitize_metric_name :: "string \<Rightarrow> string" where
  "sanitize_metric_name name = map sanitize_char name"

text \<open>Requests per second as the exporter computes them: requests over the summed durations.\<close>

definition report_rps :: "report_stats \<Rightarrow> f64" where
  "report_rps r = (if rep_total_duration_ms r > 0
     then f_div (f_of_nat (rep_total_requests r)) (f_div (f_of_nat (rep_total_duration_ms r)) (f_of_nat 1000))
     else Fin 0)"

definition checks_totals :: "(string, nat \<times> nat) hmap \<Rightarrow> nat \<times> nat" where
  "checks_totals m = foldl (\<lambda>(p, f) (_, tot, passes). (p + passes, f + (tot - passes))) (0, 0) m"

definition endpoint_lines :: "string \<Rightarrow> string \<times> request_report \<Rightarrow> string list" where
  "endpoint_lines pre = (\<lambda>(name, r). let tag = ''|#endpoint:'' @ sanitize_metric_name name in
     [pre @ ''.http.endpoint.requests:'' @ show_nat (rr_total_requests r) @ ''|c'' @ tag,
      pre @ ''.http.endpoint.latency.avg:'' @ fmt_fixed 2 (rr_avg_latency_ms r) @ ''|ms'' @ tag,
      pre @ ''.http.endpoint.latency.p95:'' @ fmt_fixed 2 (rr_p95_latency_ms r) @ ''|ms'' @ tag,
      pre @ ''.http.endpoint.latency.p99:'' @ fmt_fixed 2 (rr_p99_latency_ms r) @ ''|ms'' @ tag,
      pre @ ''.http.endpoint.errors:'' @ show_nat (rr_error_count r) @ ''|c'' @ tag])"

definition histogram_lines :: "string \<Rightarrow> string \<times> histogram_report \<Rightarrow> string list" where
  "histogram_lines pre = (\<lambda>(name, h). let tag = ''|#name:'' @ sanitize_metric_name name in
     [pre @ ''.custom.histogram.count:'' @ show_nat (hr_count h) @ ''|c'' @ tag,
      pre @ ''.custom.histogram.min:'' @ fmt_fixed 2 (hr_min h) @ ''|g'' @ tag,
      pre @ ''.custom.histogram.max:'' @ fmt_fixed 2 (hr_max h) @ ''|g'' @ tag,
      pre @ ''.custom.histogram.avg:'' @ fmt_fixed 2 (hr_avg h) @ ''|g'' @ tag,
      pre @ ''.custom.histogram.p95:'' @ fmt_fixed 2 (hr_p95 h) @ ''|g'' @ tag])"

definition rate_lines :: "string \<Rightarrow> string \<times> rate_report \<Rightarrow> string list" where
  "rate_lines pre = (\<lambda>(name, r). let tag = ''|#name:'' @ sanitize_metric_name name in
     [pre @ ''.custom.rate:'' @ fmt_fixed 4 (ra_rate r) @ ''|g'' @ tag,
      pre @ ''.custom.rate.successes:'' @ show_nat (ra_success r) @ ''|c'' @ tag,
      pre @ ''.custom.rate.total:'' @ show_nat (ra_total r) @ ''|c'' @ tag])"

definition build_metrics :: "string \<Rightarrow> report_stats \<Rightarrow> string list" where
  "build_metrics pre r =
     [pre @ ''.http.requests.total:'' @ show_nat (rep_total_requests r) @ ''|c'',
      pre @ ''.http.rps:'' @ fmt_fixed 2 (report_rps r) @ ''|g'',
      pre @ ''.http.latency.avg:'' @ fmt_fixed 2 (rep_avg_latency_ms r) @ ''|ms'',
      pre @ ''.http.latency.min:'' @ show_nat (rep_min_latency_ms r) @ ''|ms'',
      pre @ ''.http.latency.max:'' @ show_nat (rep_max_latency_ms r) @ ''|ms'',
      pre @ ''.http.latency.p50:'' @ fmt_fixed 2 (rep_p50_latency_ms r) @ ''|ms'',
      pre @ ''.http.latency.p90:'' @ fmt_fixed 2 (rep_p90_latency_ms r) @ ''|ms'',
      pre @ ''.http.latency.p95:'' @ fmt_fixed 2 (rep_p95_latency_ms r) @ ''|ms'',
      pre @ ''.http.latency.p99:'' @ fmt_fixed 2 (rep_p99_latency_ms r) @ ''|ms'',
      pre @ ''.http.errors.total:'' @ show_nat (hm_sum (rep_errors r)) @ ''|c'']
     @ map (\<lambda>(e, n). pre @ ''.http.errors.by_type:'' @ show_nat n @ ''|c|#error:'' @ sanitize_metric_name e) (rep_errors r)
     @ map (\<lambda>(s, n). pre @ ''.http.status:'' @ show_nat n @ ''|c|#code:'' @ show_nat s) (rep_status_codes r)
     @ concat (map (endpoint_lines pre) (rep_grouped_requests r))
     @ concat (map (histogram_lines pre) (rep_histograms r))
     @ map (\<lambda>(k, v). pre @ ''.custom.counter:'' @ display_f64 v @ ''|c|#name:'' @ sanitize_metric_name k) (rep_counters r)
     @ map (\<lambda>(k, v). pre @ ''.custom.gauge:'' @ display_f64 v @ ''|g|#name:'' @ sanitize_metric_name k) (rep_gauges r)
     @ concat (map (rate_lines pre) (rep_rates r))
     @ [pre @ ''.http.bytes.sent:'' @ show_nat (rep_total_data_sent r) @ ''|c'',
        pre @ ''.http.bytes.received:'' @ show_nat (rep_total_data_received r) @ ''|c'']
     @ (let (passed, failed) = checks_totals (rep_checks r) in
          if passed > 0 \<or> failed > 0 then
            [pre @ ''.checks.passed:'' @ show_nat passed @ ''|c'', pre @ ''.checks.failed:'' @ show_nat failed @ ''|c'']
          else [])"

text \<open>Packing: a metric that would make the packet longer than 1400 bytes closes it.\<close>

definition max_packet_size :: nat where
  "max_packet_size = 1400"

fun pack_metrics :: "string \<Rightarrow> string list \<Rightarrow> string list" where
  "pack_metrics batch [] = (if batch = [] then [] else [batch])"
| "pack_metrics batch (m # ms) =
     (if batch \<noteq> [] \<and> utf8_len batch + utf8_len m + 1 > max_packet_size then batch # pack_metrics m ms
      else pack_metrics (if batch = [] then m else batch @ [CHR 0x0A] @ m) ms)"

text \<open>\<open>export\<close>: the packets sent until the first send error.\<close>

fun send_packets :: "(string \<Rightarrow> string option) \<Rightarrow> string list \<Rightarrow> string + nat" where
  "send_packets send [] = Inr 0"
| "send_packets send (p # ps) = (case send p of
     Some e \<Rightarrow> Inl (''Failed to send UDP packet: '' @ e)
   | None \<Rightarrow> (case send_packets send ps of Inl e \<Rightarrow> Inl e | Inr n \<Rightarrow> Inr (n + 1)))"

definition statsd_export :: "(string \<Rightarrow> string option) \<Rightarrow> statsd_exporter \<Rightarrow> report_stats \<Rightarrow> string + nat" where
  "statsd_export send x r = send_packets send (pack_metrics [] (build_metrics (sd_prefix x) r))"

section \<open>CSV\<close>

definition needs_quotes :: "string \<Rightarrow> bool" where
  "needs_quotes v = (CHR '','' \<in> set v \<or> CHR 0x22 \<in> set v \<or> CHR 0x0A \<in> set v \<or> CHR 0x0D \<in> set v)"

definition csv_escape :: "string \<Rightarrow> string" where
  "csv_escape v = (if needs_quotes v
     then [CHR 0x22] @ replace_char (CHR 0x22) [CHR 0x22, CHR 0x22] v @ [CHR 0x22] else v)"

definition csv_row :: "string \<Rightarrow> string \<Rightarrow> string \<Rightarrow> string" where
  "csv_row name kind val = name @ '','' @ kind @ '','' @ val @ [CHR 0x0A]"

definition check_column :: "string \<Rightarrow> string" where
  "check_column name = csv_escape (map (\<lambda>c. if c = CHR '' '' \<or> c = CHR '':'' then CHR ''_'' else c) name)"

definition generate_csv :: "report_stats \<Rightarrow> string" where
  "generate_csv r = concat (
     [csv_row ''metric_name'' ''metric_type'' ''value'',
      csv_row ''http_req_count'' ''counter'' (show_nat (rep_total_requests r)),
      csv_row ''http_req_duration_avg'' ''gauge'' (fmt_fixed 3 (rep_avg_latency_ms r)),
      csv_row ''http_req_duration_min'' ''gauge'' (show_nat (rep_min_latency_ms r)),
      csv_row ''http_req_duration_max'' ''gauge'' (show_nat (rep_max_latency_ms r)),
      csv_row ''http_req_duration_p50'' ''gauge'' (fmt_fixed 3 (rep_p50_latency_ms r)),
      csv_row ''http_req_duration_p90'' ''gauge'' (fmt_fixed 3 (rep_p90_latency_ms r)),
      csv_row ''http_req_duration_p95'' ''gauge'' (fmt_fixed 3 (rep_p95_latency_ms r)),
      csv_row ''http_req_duration_p99'' ''gauge'' (fmt_fixed 3 (rep_p99_latency_ms r))]
     @ map (\<lambda>(c, n). csv_row (''http_req_status_'' @ show_nat c) ''counter'' (show_nat n)) (rep_status_codes r)
     @ concat (map (\<lambda>(name, tot, passes).
          [csv_row (''check_'' @ check_column name @ ''_passed'') ''counter'' (show_nat passes),
           csv_row (''check_'' @ check_column name @ ''_failed'') ''counter'' (show_nat (tot - passes))]) (rep_checks r))
     @ concat (map (\<lambda>(name, h).
          [csv_row (csv_escape name @ ''_count'') ''counter'' (show_nat (hr_count h)),
           csv_row (csv_escape name @ ''_avg'') ''gauge'' (fmt_fixed 3 (hr_avg h)),
           csv_row (csv_escape name @ ''_p95'') ''gauge'' (fmt_fixed 3 (hr_p95 h))]) (rep_histograms r))
     @ map (\<lambda>(name, v). csv_row (csv_escape name) ''counter'' (display_f64 v)) (rep_counters r)
     @ map (\<lambda>(name, q). csv_row (csv_escape name @ ''_rate'') ''gauge'' (fmt_fixed 4 (ra_rate q))) (rep_rates r))"

section \<open>OTLP\<close>

record metric_data =
  md_name :: string
  md_value :: f64
  md_labels :: "(string, string) hmap option"

record otlp_payload =
  op_service_name :: string
  op_service_version :: string
  op_metrics :: "metric_data list"

definition plain_metric :: "string \<Rightarrow> f64 \<Rightarrow> metric_data" where
  "plain_metric name v = \<lparr>md_name = name, md_value = v, md_labels = None\<rparr>"

definition labelled_metric :: "string \<Rightarrow> f64 \<Rightarrow> string \<Rightarrow> string \<Rightarrow> metric_data" where
  "labelled_metric name v k l = \<lparr>md_name = name, md_value = v, md_labels = Some [(k, l)]\<rparr>"

definition build_payload :: "string \<Rightarrow> report_stats \<Rightarrow> otlp_payload" where
  "build_payload version r = \<lparr>op_service_name = ''fusillade'', op_service_version = version, op_metrics =
     [plain_metric ''fusillade.http.requests.total'' (f_of_nat (rep_total_requests r)),
      plain_metric ''fusillade.http.latency.avg_ms'' (rep_avg_latency_ms r),
      plain_metric ''fusillade.http.latency.p95_ms'' (rep_p95_latency_ms r),
      plain_metric ''fusillade.http.latency.p99_ms'' (rep_p99_latency_ms r),
      plain_metric ''fusillade.http.errors.total'' (f_of_nat (hm_sum (rep_errors r)))]
     @ concat (map (\<lambda>(name, q).
          [labelled_metric ''fusillade.http.request.count'' (f_of_nat (rr_total_requests q)) ''request.name'' name,
           labelled_metric ''fusillade.http.request.p95_ms'' (rr_p95_latency_ms q) ''request.name'' name])
        (rep_grouped_requests r))
     @ concat (map (\<lambda>(name, h). map (\<lambda>(suffix, v). labelled_metric (name @ ''.'' @ suffix) v ''metric_type'' ''histogram'')
          [(''p95'', hr_p95 h), (''p99'', hr_p99 h), (''avg'', hr_avg h), (''min'', hr_min h), (''max'', hr_max h),
           (''count'', f_of_nat (hr_count h))]) (rep_histograms r))
     @ map (\<lambda>(name, v). labelled_metric name v ''metric_type'' ''counter'') (rep_counters r)
     @ map (\<lambda>(name, v). labelled_metric name v ''metric_type'' ''gauge'') (rep_gauges r)
     @ map (\<lambda>(name, q). labelled_metric name (ra_rate q) ''metric_type'' ''rate'') (rep_rates r)\<rparr>"

definition otlp_result :: "nat \<Rightarrow> string option" where
  "otlp_result status = (if 200 \<le> status \<and> status < 300 then None
     else Some (''OTLP export failed: HTTP '' @ show_nat status))"

section \<open>Run history\<close>

record run_row =
  run_id :: nat
  run_start :: string
  run_scenario :: string
  run_json :: string

text \<open>\<open>INTEGER PRIMARY KEY\<close>: the next id is one more than the largest.\<close>

definition next_row_id :: "run_row list \<Rightarrow> nat" where
  "next_row_id rows = foldr (\<lambda>r n. max (run_id r) n) rows 0 + 1"

definition save_run :: "(report_stats \<Rightarrow> string) \<Rightarrow> string \<Rightarrow> string \<Rightarrow> report_stats \<Rightarrow> run_row list \<Rightarrow> run_row list \<times> nat" where
  "save_run to_json now scenario r rows = (let i = next_row_id rows in
     (rows @ [\<lparr>run_id = i, run_start = now, run_scenario = scenario, run_json = to_json r\<rparr>], i))"

text \<open>\<open>ORDER BY id DESC LIMIT ?1\<close>, with \<open>limit as i64\<close>: a negative limit is no limit.\<close>

definition list_runs :: "nat \<Rightarrow> run_row list \<Rightarrow> (nat \<times> string \<times> string) list" where
  "list_runs limit rows = (let sorted = rev (sort_key run_id rows) in
     map (\<lambda>r. (run_id r, run_start r, run_scenario r))
       (if limit mod u64_size < 2 ^ 63 then take (limit mod u64_size) sorted else sorted))"

definition get_report :: "(string \<Rightarrow> report_stats option) \<Rightarrow> nat \<Rightarrow> run_row list \<Rightarrow> report_stats option" where
  "get_report of_json i rows = (case find (\<lambda>r. run_id r = i) rows of None \<Rightarrow> None | Some r \<Rightarrow> of_json (run_json r))"

section \<open>Laws\<close>

text \<open>The characters of a printed number, and of a sanitized name.\<close>

definition number_char :: "char \<Rightarrow> bool" where
  "number_char c \<longleftrightarrow> is_digit c \<or> c \<in> set ''-.Nainf''"

lemma show_nat_chars: "list_all number_char (show_nat n)"
  using show_nat_digits [of n] by (auto simp: list_all_iff number_char_def)

lemma pad_nat_chars: "list_all number_char (pad_nat w n)"
  using show_nat_chars [of n] by (auto simp: pad_nat_def list_all_iff number_char_def is_digit_def)

lemma fmt_fixed_chars: "list_all number_char (fmt_fixed p x)"
  using show_nat_chars pad_nat_chars
  by (cases x) (auto simp: fmt_fixed_def Let_def number_char_def [of "CHR ''-''"] number_char_def [of "CHR ''.''"]
      number_char_def [of "CHR ''N''"] number_char_def [of "CHR ''a''"] number_char_def [of "CHR ''i''"]
      number_char_def [of "CHR ''n''"] number_char_def [of "CHR ''f''"])

lemma display_f64_chars: "list_all number_char (display_f64 x)"
  using show_nat_chars pad_nat_chars
  by (cases x) (auto simp: display_f64_def Let_def case_prod_beta number_char_def [of "CHR ''-''"] number_char_def [of "CHR ''.''"]
      number_char_def [of "CHR ''N''"] number_char_def [of "CHR ''a''"] number_char_def [of "CHR ''i''"]
      number_char_def [of "CHR ''n''"] number_char_def [of "CHR ''f''"] number_char_def [of "CHR ''0''"] is_digit_def)

lemma no_newline_number: "list_all number_char s \<Longrightarrow> CHR 0x0A \<notin> set s"
  by (auto simp: list_all_iff number_char_def is_digit_def)

lemma no_newline_numbers [simp]:
  "CHR 0x0A \<notin> set (show_nat n)" "CHR 0x0A \<notin> set (fmt_fixed p x)" "CHR 0x0A \<notin> set (display_f64 x)"
  by (rule no_newline_number, rule show_nat_chars fmt_fixed_chars display_f64_chars)+

lemma no_newline_sanitized [simp]: "CHR 0x0A \<notin> set (sanitize_metric_name s)"
  by (auto simp: sanitize_metric_name_def sanitize_char_def is_alnum_def is_digit_def split: if_splits)

lemma utf8_len_append [simp]: "utf8_len (s @ t) = utf8_len s + utf8_len t"
  by (induction s) simp_all

text \<open>A group of metrics that travels in one packet.\<close>

definition fits :: "string list \<Rightarrow> bool" where
  "fits g \<longleftrightarrow> g \<noteq> [] \<and> (length g = 1 \<or> utf8_len (join_str [CHR 0x0A] g) \<le> max_packet_size)"

lemma pack_groups:
  "fits g \<Longrightarrow> list_all (\<lambda>m. m \<noteq> []) (g @ ms) \<Longrightarrow>
     \<exists>gs. pack_metrics (join_str [CHR 0x0A] g) ms = map (join_str [CHR 0x0A]) gs \<and> concat gs = g @ ms \<and> list_all fits gs"
proof (induction ms arbitrary: g)
  case Nil
  then have "join_str [CHR 0x0A] g \<noteq> []" using join_nonempty [of g] by (simp add: fits_def)
  with Nil show ?case by (intro exI [of _ "[g]"]) simp
next
  case (Cons m ms)
  have ne: "join_str [CHR 0x0A] g \<noteq> []" using join_nonempty [of g] Cons.prems by (simp add: fits_def)
  show ?case
  proof (cases "utf8_len (join_str [CHR 0x0A] g) + utf8_len m + 1 > max_packet_size")
    case True
    have "fits [m]" by (simp add: fits_def)
    then obtain gs where "pack_metrics (join_str [CHR 0x0A] [m]) ms = map (join_str [CHR 0x0A]) gs"
        "concat gs = [m] @ ms" "list_all fits gs"
      using Cons.IH [of "[m]"] Cons.prems(2) by auto
    with ne True Cons.prems(1) show ?thesis by (intro exI [of _ "g # gs"]) simp
  next
    case False
    have "fits (g @ [m])" using False Cons.prems(1) by (simp add: fits_def join_snoc)
    then obtain gs where "pack_metrics (join_str [CHR 0x0A] (g @ [m])) ms = map (join_str [CHR 0x0A]) gs"
        "concat gs = (g @ [m]) @ ms" "list_all fits gs"
      using Cons.IH [of "g @ [m]"] Cons.prems(2) by auto
    moreover have "g \<noteq> []" using Cons.prems(1) by (simp add: fits_def)
    ultimately show ?thesis using ne False by (intro exI [of _ gs]) (simp add: join_snoc)
  qed
qed

lemma metric_lines_nonempty: "list_all (\<lambda>m. m \<noteq> []) (build_metrics pre r)"
  by (auto simp: build_metrics_def list_all_iff endpoint_lines_def histogram_lines_def rate_lines_def Let_def
      split: prod.splits if_splits)

section \<open>Properties\<close>

text \<open>C37. The StatsD export sends every metric line exactly once and in order: the packets are the
  lines of the report in consecutive groups joined by newlines, no packet is longer than 1400 bytes
  unless it is a single line, and when the prefix has no newline no line has one, so a receiver
  that splits a packet at newlines gets the lines back.\<close>

theorem statsd_packets:
  assumes "CHR 0x0A \<notin> set pre"
  shows "\<exists>gs. pack_metrics [] (build_metrics pre r) = map (join_str [CHR 0x0A]) gs \<and> concat gs = build_metrics pre r
    \<and> list_all fits gs \<and> list_all (\<lambda>l. CHR 0x0A \<notin> set l) (build_metrics pre r)"
proof -
  obtain m ms where m: "build_metrics pre r = m # ms" by (simp add: build_metrics_def)
  have "fits [m]" by (simp add: fits_def)
  then obtain gs where "pack_metrics (join_str [CHR 0x0A] [m]) ms = map (join_str [CHR 0x0A]) gs"
      "concat gs = [m] @ ms" "list_all fits gs"
    using pack_groups [of "[m]" ms] metric_lines_nonempty [of pre r] by (auto simp: m)
  moreover have "list_all (\<lambda>l. CHR 0x0A \<notin> set l) (build_metrics pre r)"
    using assms by (auto simp: build_metrics_def list_all_iff endpoint_lines_def histogram_lines_def rate_lines_def
        Let_def split: prod.splits if_splits)
  ultimately show ?thesis by (intro exI [of _ gs]) (simp add: m)
qed

definition empty_report :: report_stats where
  "empty_report = to_report list_hist (run_agg list_hist [])"

theorem statsd_packets_witness:
  "\<exists>gs. pack_metrics [] (build_metrics ''fusillade'' empty_report) = map (join_str [CHR 0x0A]) gs
     \<and> concat gs = build_metrics ''fusillade'' empty_report"
  using statsd_packets [of "''fusillade''" empty_report] by auto

lemma next_id_fresh: "i \<in> run_id ` set rows \<Longrightarrow> i < next_row_id rows"
  unfolding next_row_id_def by (induction rows) (auto simp: less_Suc_eq_le le_max_iff_disj)

text \<open>The run history: saving a run gives it an id no earlier run has, reading that id back
  decodes what was encoded, every earlier run is read as before, and the newest run is listed
  first.\<close>

theorem history_roundtrip:
  assumes "of_json (to_json r) = Some r'" "save_run to_json now scenario r rows = (rows', i)" "0 < limit" "limit < 2 ^ 63"
  shows "get_report of_json i rows' = Some r' \<and> i \<notin> run_id ` set rows
    \<and> (\<forall>j \<in> run_id ` set rows. get_report of_json j rows' = get_report of_json j rows)
    \<and> hd (list_runs limit rows') = (i, now, scenario)"
proof -
  have i: "i = next_row_id rows" and rows': "rows' = rows @ [\<lparr>run_id = i, run_start = now, run_scenario = scenario, run_json = to_json r\<rparr>]"
    using assms(2) by (auto simp: save_run_def Let_def)
  have less: "j < i" if "j \<in> run_id ` set rows" for j using next_id_fresh [OF that] i by simp
  have none: "find (\<lambda>x. run_id x = i) rows = None" using less by (fastforce simp: find_None_iff)
  have app: "find P (xs @ ys) = (case find P xs of None \<Rightarrow> find P ys | Some x \<Rightarrow> Some x)" for P and xs ys :: "run_row list"
    by (induction xs) simp_all
  have old: "find (\<lambda>x. run_id x = j) rows \<noteq> None" if "j \<in> run_id ` set rows" for j
    using that by (auto simp: find_None_iff)
  have "sort_key run_id rows' = sort_key run_id rows @ [last rows']"
  proof (rule properties_for_sort_key)
    show "mset (sort_key run_id rows @ [last rows']) = mset rows'" by (simp add: rows')
    show "sorted (map run_id (sort_key run_id rows @ [last rows']))"
      using less by (auto simp: sorted_append rows' less_imp_le)
    show "filter (\<lambda>y. run_id x = run_id y) (sort_key run_id rows @ [last rows']) = filter (\<lambda>y. run_id x = run_id y) rows'" for x
      using sort_key_stable [of run_id "run_id x" rows] by (simp add: rows' eq_commute [of "run_id x"])
  qed
  then have "hd (list_runs limit rows') = (i, now, scenario)"
    using assms(3,4) by (cases limit) (simp_all add: list_runs_def Let_def rows')
  then show ?thesis
    using none old less assms(1)
    by (auto simp: get_report_def rows' app split: option.splits)
qed

theorem history_roundtrip_witness:
  "get_report (\<lambda>s. if s = ''{}'' then Some empty_report else None) 1
     (fst (save_run (\<lambda>_. ''{}'') ''now'' ''t.js'' empty_report [])) = Some empty_report"
  using history_roundtrip [of "\<lambda>s. if s = ''{}'' then Some empty_report else None" "\<lambda>_. ''{}''" empty_report empty_report
      "''now''" "''t.js''" "[]" "fst (save_run (\<lambda>_. ''{}'') ''now'' ''t.js'' empty_report [])" 1 1]
  by (simp add: save_run_def Let_def next_row_id_def)

end
