(* ===== verification/DataFiles.thy ===== *)
theory DataFiles
  imports Exporters
begin

text \<open>
  Test data and captured traffic: the CSV reader and the shared arrays of
  \<open>src/bridge/data.rs\<close>, the event stream reader of \<open>src/bridge/sse.rs\<close>, and the captured
  requests of \<open>src/bridge/replay.rs\<close>. The JSON codecs are arguments. A store shared by the
  workers is a map that the constructor reads, and writes under a lock when the name is missing.
\<close>

section \<open>CSV\<close>

text \<open>The reader's loop: finished fields, the current field, whether it is inside quotes.\<close>

fun csv_go :: "string list \<Rightarrow> string \<Rightarrow> bool \<Rightarrow> string \<Rightarrow> string list" where
  "csv_go out current in_quotes [] = out @ [trim current]"
| "csv_go out current True (c # cs) =
     (if c = CHR 0x22 then
        (case cs of
           d # ds \<Rightarrow> if d = CHR 0x22 then csv_go out (current @ [CHR 0x22]) True ds
                     else csv_go out current False (d # ds)
         | [] \<Rightarrow> csv_go out current False [])
      else csv_go out (current @ [c]) True cs)"
| "csv_go out current False (c # cs) =
     (if c = CHR '','' then csv_go (out @ [trim current]) [] False cs
      else if c = CHR 0x22 then csv_go out current True cs
      else csv_go out (current @ [c]) False cs)"

definition parse_csv_line :: "string \<Rightarrow> string list" where
  "parse_csv_line l = csv_go [] [] False l"

text \<open>\<open>SharedCSV::new\<close> on the content of a file, and its cache by path.\<close>

type_synonym csv_table = "string list \<times> string list list"

definition parse_csv_file :: "string \<Rightarrow> string + csv_table" where
  "parse_csv_file content = (case lines content of [] \<Rightarrow> Inl ''CSV file is empty''
     | h # rest \<Rightarrow> Inr (parse_csv_line h, map parse_csv_line (filter (\<lambda>l. trim l \<noteq> []) rest)))"

definition shared_csv_new :: "(string \<Rightarrow> string option) \<Rightarrow> string \<Rightarrow> (string, csv_table) hmap \<Rightarrow>
    string + (csv_table \<times> (string, csv_table) hmap)" where
  "shared_csv_new read_file path store = (case hm_get store path of
     Some d \<Rightarrow> Inr (d, store)
   | None \<Rightarrow> (case read_file path of None \<Rightarrow> Inl ''Failed to read CSV file''
     | Some content \<Rightarrow> (case parse_csv_file content of Inl e \<Rightarrow> Inl e
       | Inr d \<Rightarrow> Inr (d, hm_insert path d store))))"

text \<open>A row as an object: a header without a value is absent, a repeated header keeps the last.\<close>

definition csv_get :: "csv_table \<Rightarrow> nat \<Rightarrow> (string, string) hmap option" where
  "csv_get t i = (if i < length (snd t) then
     Some (foldl (\<lambda>obj (h, v). hm_insert h v obj) [] (zip (fst t) (snd t ! i))) else None)"

definition csv_random :: "csv_table \<Rightarrow> nat \<Rightarrow> (string, string) hmap option" where
  "csv_random t rand = (if snd t = [] then None else csv_get t (rand mod length (snd t)))"

section \<open>Shared arrays\<close>

text \<open>What a factory does when it is called: throw, return something that is no array, or an array
  of items as their JSON text.\<close>

datatype factory = NoFunction | Throws string | NoArray | Items "string list"

definition build_array :: "(string \<Rightarrow> 'j option) \<Rightarrow> factory \<Rightarrow> string + 'j list" where
  "build_array from_json f = (case f of
     NoFunction \<Rightarrow> Inl ''Factory must be a function''
   | Throws e \<Rightarrow> Inl e
   | NoArray \<Rightarrow> Inl ''Factory must return an array''
   | Items items \<Rightarrow> (let vs = map from_json items in
       if None \<in> set vs then Inl ''String'' else Inr (map the vs)))"

text \<open>The part under the write lock: the name is looked up again first.\<close>

definition array_write :: "(string \<Rightarrow> 'j option) \<Rightarrow> string \<Rightarrow> factory \<Rightarrow> (string, 'j list) hmap \<Rightarrow>
    (string + 'j list) \<times> (string, 'j list) hmap" where
  "array_write from_json name f store = (case hm_get store name of
     Some d \<Rightarrow> (Inr d, store)
   | None \<Rightarrow> (case build_array from_json f of Inl e \<Rightarrow> (Inl e, store)
     | Inr d \<Rightarrow> (Inr d, hm_insert name d store)))"

text \<open>The constructor: \<open>seen\<close> is the store at the read, \<open>store\<close> the store at the write.\<close>

definition array_new :: "(string \<Rightarrow> 'j option) \<Rightarrow> string \<Rightarrow> factory \<Rightarrow> (string, 'j list) hmap \<Rightarrow>
    (string, 'j list) hmap \<Rightarrow> (string + 'j list) \<times> (string, 'j list) hmap" where
  "array_new from_json name f seen store = (case hm_get seen name of
     Some d \<Rightarrow> (Inr d, store) | None \<Rightarrow> array_write from_json name f store)"

definition array_get :: "'j list \<Rightarrow> nat \<Rightarrow> 'j option" where
  "array_get d i = (if i < length d then Some (d ! i) else None)"

section \<open>Server-sent events\<close>

record sse_event =
  ev_event :: "string option"
  ev_data :: string
  ev_id :: "string option"

text \<open>What reading a line gives: a line with its terminator, the end, or an error.\<close>

datatype read_line = Line string | Eof | ReadError string bool

record sse_acc =
  ac_event :: "string option"
  ac_data :: "string list"
  ac_id :: "string option"
  ac_content :: bool

definition empty_acc :: sse_acc where
  "empty_acc = \<lparr>ac_event = None, ac_data = [], ac_id = None, ac_content = False\<rparr>"

definition acc_event :: "sse_acc \<Rightarrow> sse_event" where
  "acc_event a = \<lparr>ev_event = ac_event a, ev_data = join_str [CHR 0x0A] (ac_data a), ev_id = ac_id a\<rparr>"

definition trim_newlines :: "string \<Rightarrow> string" where
  "trim_newlines l = rev (dropWhile (\<lambda>c. c = CHR 0x0D \<or> c = CHR 0x0A) (rev l))"

definition sse_field :: "string \<Rightarrow> sse_acc \<Rightarrow> sse_acc" where
  "sse_field l a0 = (let a = a0\<lparr>ac_content := True\<rparr> in
     case strip_prefix ''event:'' l of Some v \<Rightarrow> a\<lparr>ac_event := Some (trim v)\<rparr>
   | None \<Rightarrow> (case strip_prefix ''data:'' l of Some v \<Rightarrow> a\<lparr>ac_data := ac_data a @ [trim v]\<rparr>
   | None \<Rightarrow> (case strip_prefix ''id:'' l of Some v \<Rightarrow> a\<lparr>ac_id := Some (trim v)\<rparr>
   | None \<Rightarrow> a)))"

datatype sse_result = Event sse_event | NoMore | Failed string bool | Waiting

text \<open>\<open>read_sse_event\<close> on the lines still to come: the result and the lines after it.\<close>

fun read_sse_event :: "sse_acc \<Rightarrow> read_line list \<Rightarrow> sse_result \<times> read_line list" where
  "read_sse_event a [] = (Waiting, [])"
| "read_sse_event a (Eof # rest) = (if ac_content a then Event (acc_event a) else NoMore, Eof # rest)"
| "read_sse_event a (ReadError e transient # rest) = (Failed e transient, rest)"
| "read_sse_event a (Line l # rest) =
     (let l = trim_newlines l in
       if l = [] then (if ac_content a then (Event (acc_event a), rest) else read_sse_event a rest)
       else if starts_with '':'' l then read_sse_event a rest
       else read_sse_event (sse_field l a) rest)"

text \<open>\<open>recv\<close> on a connection: the open stream with the last id, or none.\<close>

record sse_client =
  sse_stream :: "read_line list option"
  sse_last_id :: "string option"

datatype sse_value = JsNull | JsEvent string string "string option"

definition sse_metric :: "string \<Rightarrow> duration \<Rightarrow> string option \<Rightarrow> metric" where
  "sse_metric name d err = Request name (default_timings\<lparr>t_duration := d, t_waiting := d\<rparr>)
     (if err = None then 200 else 0) err []"

definition sse_recv :: "duration \<Rightarrow> sse_client \<Rightarrow> sse_value \<times> sse_client \<times> metric list" where
  "sse_recv d c = (case sse_stream c of None \<Rightarrow> (JsNull, c, [])
   | Some ls \<Rightarrow> (case read_sse_event empty_acc ls of
       (Event e, rest) \<Rightarrow>
         (JsEvent (case ev_event e of None \<Rightarrow> ''message'' | Some n \<Rightarrow> n) (ev_data e) (ev_id e),
          c\<lparr>sse_stream := Some rest, sse_last_id := (if ev_id e = None then sse_last_id c else ev_id e)\<rparr>,
          [sse_metric ''sse::recv'' d None])
     | (NoMore, rest) \<Rightarrow> (JsNull, c\<lparr>sse_stream := None\<rparr>, [])
     | (Failed m transient, rest) \<Rightarrow>
         (JsNull, c\<lparr>sse_stream := (if transient then Some rest else None)\<rparr>,
          [sse_metric ''sse::recv'' d (Some (''SSE Read Error: '' @ m))])
     | (Waiting, rest) \<Rightarrow> (JsNull, c, [])))"

definition sse_close :: "sse_client \<Rightarrow> sse_client" where
  "sse_close c = c\<lparr>sse_stream := None\<rparr>"

text \<open>\<open>connect\<close>: the response status with its stream, or an error; a failure throws its message.\<close>

definition sse_connect :: "duration \<Rightarrow> string + (nat \<times> read_line list) \<Rightarrow> (string + sse_client) \<times> metric list" where
  "sse_connect d resp = (case resp of
     Inl e \<Rightarrow> (let m = ''SSE connection failed: '' @ e in (Inl m, [sse_metric ''sse::connect'' d (Some m)]))
   | Inr (status, ls) \<Rightarrow>
       if \<not> (200 \<le> status \<and> status < 300) then
         (let m = ''SSE connection failed: HTTP '' @ show_nat status in (Inl m, [sse_metric ''sse::connect'' d (Some m)]))
       else (Inr \<lparr>sse_stream = Some ls, sse_last_id = None\<rparr>, [sse_metric ''sse::connect'' d None]))"

section \<open>Captured requests\<close>

record captured_request =
  cr_timestamp :: string
  cr_method :: string
  cr_url :: string
  cr_headers :: "(string, string) hmap"
  cr_body :: "string option"
  cr_status :: nat
  cr_error :: "string option"
  cr_response_body :: "string option"

abbreviation backslash :: char where "backslash \<equiv> CHR 0x5C"

abbreviation dquote :: char where "dquote \<equiv> CHR 0x22"

abbreviation squote :: char where "squote \<equiv> CHR 0x27"

definition escape_quotes :: "string \<Rightarrow> string" where
  "escape_quotes s = replace_char dquote [backslash, dquote] s"

definition escape_body :: "string \<Rightarrow> string" where
  "escape_body s = replace_char (CHR 0x0A) [backslash, CHR ''n''] (escape_quotes s)"

definition to_curl :: "captured_request \<Rightarrow> string" where
  "to_curl r = join_str ('' '' @ [backslash, CHR 0x0A] @ ''  '')
     ([''curl -X '' @ cr_method r]
      @ map (\<lambda>(k, v). ''-H '' @ [dquote] @ k @ '': '' @ escape_quotes v @ [dquote]) (cr_headers r)
      @ (case cr_body r of None \<Rightarrow> [] | Some b \<Rightarrow>
           if b = [] then [] else [''-d '' @ [dquote] @ escape_body b @ [dquote]])
      @ [[squote] @ cr_url r @ [squote]])"

text \<open>The capture file: one JSON text per line; a line that does not parse is skipped.\<close>

definition capture_failed_request :: "(captured_request \<Rightarrow> string) \<Rightarrow> captured_request \<Rightarrow> string \<Rightarrow> string" where
  "capture_failed_request to_json r file = file @ to_json r @ [CHR 0x0A]"

definition load_captured_requests :: "(string \<Rightarrow> captured_request option) \<Rightarrow> string \<Rightarrow> captured_request list" where
  "load_captured_requests from_json file = concat (map (\<lambda>l. case from_json l of None \<Rightarrow> [] | Some r \<Rightarrow> [r]) (lines file))"

definition export_to_curl :: "captured_request list \<Rightarrow> string" where
  "export_to_curl rs = join_str [CHR 0x0A, CHR 0x0A]
     (map (\<lambda>(i, r). ''# Request '' @ show_nat (i + 1) @ '' - '' @ cr_method r @ '' '' @ cr_url r @ '' (Status: ''
        @ show_nat (cr_status r) @ '', Error: '' @ (case cr_error r of None \<Rightarrow> ''none'' | Some e \<Rightarrow> e) @ '')''
        @ [CHR 0x0A] @ to_curl r) (zip [0..<length rs] rs))"

section \<open>Laws of the CSV reader\<close>

lemma csv_plain:
  "list_all (\<lambda>c. c \<noteq> CHR '','' \<and> c \<noteq> CHR 0x22) v \<Longrightarrow> csv_go out cur False (v @ rest) = csv_go out (cur @ v) False rest"
  by (induction v arbitrary: cur) simp_all

lemma replace_char_Cons [simp]: "replace_char c t (d # s) = (if d = c then t else [d]) @ replace_char c t s"
  "replace_char c t [] = []"
  by (simp_all add: replace_char_def)

lemma csv_quoted:
  "rest = [] \<or> hd rest \<noteq> CHR 0x22 \<Longrightarrow>
     csv_go out cur True (replace_char (CHR 0x22) [CHR 0x22, CHR 0x22] v @ CHR 0x22 # rest) = csv_go out (cur @ v) False rest"
  by (induction v arbitrary: cur) (auto split: list.splits)

lemma csv_field:
  "rest = [] \<or> hd rest \<noteq> CHR 0x22 \<Longrightarrow> csv_go out [] False (csv_escape v @ rest) = csv_go out v False rest"
  using csv_plain [of v out "[]" rest] csv_quoted [of rest out "[]" v]
  by (auto simp: csv_escape_def needs_quotes_def list_all_iff)

lemma csv_fields:
  "vs \<noteq> [] \<Longrightarrow> csv_go out [] False (join_str '','' (map csv_escape vs)) = out @ map trim vs"
proof (induction vs arbitrary: out rule: induct_list012)
  case (2 v)
  then show ?case using csv_field [of "[]" out v] by simp
next
  case (3 v w vs)
  then show ?case
    using csv_field [of "'','' @ join_str '','' (map csv_escape (w # vs))" out v] by simp
qed simp

text \<open>Splitting a text into lines undoes writing lines.\<close>

definition plain_line :: "string \<Rightarrow> bool" where
  "plain_line l \<longleftrightarrow> CHR 0x0A \<notin> set l \<and> CHR 0x0D \<notin> set l"

lemma lines_cons: "plain_line l \<Longrightarrow> lines (l @ CHR 0x0A # rest) = l # lines rest"
proof -
  assume l: "plain_line l"
  have d: "dropWhile (\<lambda>d. d \<noteq> CHR 0x0A) (l @ CHR 0x0A # rest) = CHR 0x0A # rest"
    and t: "takeWhile (\<lambda>d. d \<noteq> CHR 0x0A) (l @ CHR 0x0A # rest) = l"
    using l by (auto simp: plain_line_def dropWhile_append takeWhile_append)
  obtain c s where cs: "l @ CHR 0x0A # rest = c # s" by (cases "l @ CHR 0x0A # rest") auto
  have "strip_cr l = l" using l by (auto simp: strip_cr_def plain_line_def dest: last_in_set)
  then show ?thesis using d t unfolding cs lines.simps by simp
qed

lemma lines_concat: "list_all plain_line ls \<Longrightarrow> lines (concat (map (\<lambda>l. l @ [CHR 0x0A]) ls)) = ls"
  by (induction ls) (simp_all add: lines_cons)

lemma escape_plain: "plain_line v \<Longrightarrow> plain_line (csv_escape v)"
  by (auto simp: plain_line_def csv_escape_def replace_char_def split: if_splits)

lemma join_plain: "list_all plain_line vs \<Longrightarrow> plain_line (join_str '','' (map csv_escape vs))"
proof (induction vs rule: induct_list012)
  case (2 v)
  then show ?case by (simp add: escape_plain)
next
  case (3 v w vs)
  then have "plain_line (csv_escape v)" "plain_line (join_str '','' (map csv_escape (w # vs)))"
    by (simp_all add: escape_plain)
  then show ?case by (simp add: plain_line_def)
qed (simp add: plain_line_def)

section \<open>Properties\<close>

text \<open>The CSV reader inverts the CSV writer up to white space: the fields escaped by the
  exporter and joined by commas read back as the same fields, trimmed, whatever commas, quotes and
  newlines they contain. (Trimming also strips the inside of quoted fields, which RFC 4180 keeps.)\<close>

theorem csv_roundtrip:
  assumes "vs \<noteq> []"
  shows "parse_csv_line (join_str '','' (map csv_escape vs)) = map trim vs"
  using csv_fields [OF assms, of "[]"] by (simp add: parse_csv_line_def)

theorem csv_roundtrip_witness:
  "parse_csv_line (csv_escape ''a,b'' @ '','' @ csv_escape ([dquote] @ ''x'')) = [''a,b'', [dquote] @ ''x'']"
proof -
  have "trim ''a,b'' = ''a,b''" "trim ([dquote] @ ''x'') = [dquote] @ ''x''"
    by (rule trim_no_ws; simp add: is_ws_def)+
  then show ?thesis using csv_roundtrip [of "[''a,b'', [dquote] @ ''x'']"] by simp
qed



text \<open>A shared array is built once: whatever stores the constructors of a name see at their
  reads, along any sequence of writes, the first array built for the name is kept, every later
  constructor of that name returns it without calling its factory's result, and other names are
  not touched.\<close>

theorem shared_array_once:
  assumes "hm_get store name = Some d"
  shows "fst (array_write from_json name f store) = Inr d \<and> snd (array_write from_json name f store) = store
    \<and> (\<forall>name' f'. hm_get (snd (array_write from_json name' f' store)) name = Some d)
    \<and> (\<forall>seen. (hm_get seen name = None \<or> hm_get seen name = Some d) \<longrightarrow>
          fst (array_new from_json name f seen store) = Inr d)"
  using assms by (auto simp: array_write_def array_new_def hmap split: option.splits sum.splits)

theorem shared_array_once_witness:
  "fst (array_new Some ''users'' NoFunction [] [(''users'', [''a''])]) = Inr [''a'']"
  using shared_array_once [of "[(''users'', [''a''])]" "''users''" "[''a'']" Some NoFunction] by simp

text \<open>A failed constructor leaves the store as it was, and a successful one returns what the
  store now holds for its name.\<close>

theorem shared_array_write:
  "(case array_write from_json name f store of
      (Inl e, store') \<Rightarrow> store' = store \<and> hm_get store name = None
    | (Inr d, store') \<Rightarrow> hm_get store' name = Some d \<and> (hm_wf store \<longrightarrow> hm_wf store'))"
  by (auto simp: array_write_def hmap split: option.splits sum.splits)

theorem shared_array_write_witness:
  "snd (array_write (Some :: string \<Rightarrow> string option) ''a'' NoFunction []) = []"
  using shared_array_write [where from_json = "Some :: string \<Rightarrow> string option" and name = "''a''"
      and f = NoFunction and store = "[]"]
  by (simp add: array_write_def build_array_def)

section \<open>Event streams\<close>

text \<open>An event as a server writes it: its name, one line per line of data, its id, a blank line.\<close>

definition sse_lines :: "string option \<Rightarrow> string list \<Rightarrow> string option \<Rightarrow> read_line list" where
  "sse_lines ev ds i =
     (case ev of None \<Rightarrow> [] | Some e \<Rightarrow> [Line (''event:'' @ e @ [CHR 0x0A])])
     @ map (\<lambda>d. Line (''data:'' @ d @ [CHR 0x0A])) ds
     @ (case i of None \<Rightarrow> [] | Some x \<Rightarrow> [Line (''id:'' @ x @ [CHR 0x0A])])
     @ [Line [CHR 0x0A]]"

definition clean :: "string \<Rightarrow> bool" where
  "clean v \<longleftrightarrow> plain_line v \<and> trim v = v"

lemma trim_newlines_line: "plain_line v \<Longrightarrow> trim_newlines (v @ [CHR 0x0A]) = v"
proof -
  assume v: "plain_line v"
  have "dropWhile (\<lambda>c. c = CHR 0x0D \<or> c = CHR 0x0A) (rev v) = rev v"
    using v by (cases "rev v") (auto simp: plain_line_def dest: arg_cong [where f = set])
  then show ?thesis by (simp add: trim_newlines_def)
qed

lemma plain_field: "plain_line v \<Longrightarrow> plain_line (''event:'' @ v) \<and> plain_line (''data:'' @ v) \<and> plain_line (''id:'' @ v)"
  by (simp add: plain_line_def)

lemma sse_event_step:
  "clean e \<Longrightarrow> read_sse_event a (Line (''event:'' @ e @ [CHR 0x0A]) # rest) =
     read_sse_event (a\<lparr>ac_content := True, ac_event := Some e\<rparr>) rest"
  using trim_newlines_line [of "''event:'' @ e"]
  by (simp add: clean_def plain_line_def Let_def starts_with_def sse_field_def strip_prefix_def)

lemma sse_data_step:
  "clean d \<Longrightarrow> read_sse_event a (Line (''data:'' @ d @ [CHR 0x0A]) # rest) =
     read_sse_event (a\<lparr>ac_content := True, ac_data := ac_data a @ [d]\<rparr>) rest"
  using trim_newlines_line [of "''data:'' @ d"]
  by (simp add: clean_def plain_line_def Let_def starts_with_def sse_field_def strip_prefix_def)

lemma sse_id_step:
  "clean i \<Longrightarrow> read_sse_event a (Line (''id:'' @ i @ [CHR 0x0A]) # rest) =
     read_sse_event (a\<lparr>ac_content := True, ac_id := Some i\<rparr>) rest"
  using trim_newlines_line [of "''id:'' @ i"]
  by (simp add: clean_def plain_line_def Let_def starts_with_def sse_field_def strip_prefix_def)

lemma sse_blank_step:
  "read_sse_event a (Line [CHR 0x0A] # rest) =
     (if ac_content a then (Event (acc_event a), rest) else read_sse_event a rest)"
  using trim_newlines_line [of "[]"] by (simp add: plain_line_def)

lemma sse_data_steps:
  "list_all clean ds \<Longrightarrow> read_sse_event a (map (\<lambda>d. Line (''data:'' @ d @ [CHR 0x0A])) ds @ rest) =
     read_sse_event (a\<lparr>ac_content := ac_content a \<or> ds \<noteq> [], ac_data := ac_data a @ ds\<rparr>) rest"
proof (induction ds arbitrary: a)
  case (Cons d ds)
  have "read_sse_event a (map (\<lambda>d. Line (''data:'' @ d @ [CHR 0x0A])) (d # ds) @ rest) =
      read_sse_event (a\<lparr>ac_content := True, ac_data := ac_data a @ [d]\<rparr>)
        (map (\<lambda>d. Line (''data:'' @ d @ [CHR 0x0A])) ds @ rest)"
    using sse_data_step [of d a] Cons.prems by (simp del: read_sse_event.simps)
  also have "\<dots> = read_sse_event (a\<lparr>ac_content := True, ac_data := ac_data a @ d # ds\<rparr>) rest"
    using Cons.prems by (subst Cons.IH) simp_all
  finally show ?case by simp
qed simp

text \<open>The event reader inverts an event writer: an event with at least one field, whose name,
  lines of data and id are trimmed and have no line breaks, is read back with its name, its data
  joined by newlines and its id, and exactly its lines are consumed.\<close>

theorem sse_roundtrip:
  assumes "list_all clean ds" "ev = None \<or> (\<exists>e. ev = Some e \<and> clean e)" "i = None \<or> (\<exists>x. i = Some x \<and> clean x)"
    and "ev \<noteq> None \<or> ds \<noteq> [] \<or> i \<noteq> None"
  shows "read_sse_event empty_acc (sse_lines ev ds i @ rest) =
    (Event \<lparr>ev_event = ev, ev_data = join_str [CHR 0x0A] ds, ev_id = i\<rparr>, rest)"
proof -
  let ?data = "map (\<lambda>d. Line (''data:'' @ d @ [CHR 0x0A])) ds"
  let ?tail = "(case i of None \<Rightarrow> [] | Some x \<Rightarrow> [Line (''id:'' @ x @ [CHR 0x0A])]) @ [Line [CHR 0x0A]] @ rest"
  let ?a = "empty_acc\<lparr>ac_content := ev \<noteq> None, ac_event := ev\<rparr>"
  have 1: "read_sse_event empty_acc (sse_lines ev ds i @ rest) = read_sse_event ?a (?data @ ?tail)"
    using assms(2)
  proof
    assume "ev = None"
    then show ?thesis by (simp add: sse_lines_def empty_acc_def del: read_sse_event.simps)
  next
    assume "\<exists>e. ev = Some e \<and> clean e"
    then obtain e where e: "ev = Some e" "clean e" by blast
    then show ?thesis
      using sse_event_step [OF e(2), of empty_acc "?data @ ?tail"]
      by (simp add: sse_lines_def del: read_sse_event.simps)
  qed
  let ?b = "?a\<lparr>ac_content := ev \<noteq> None \<or> ds \<noteq> [], ac_data := ds\<rparr>"
  have 2: "read_sse_event ?a (?data @ ?tail) = read_sse_event ?b ?tail"
    using sse_data_steps [OF assms(1), of ?a ?tail] by (simp add: empty_acc_def del: read_sse_event.simps)
  have 3: "read_sse_event ?b ?tail = read_sse_event (?b\<lparr>ac_content := True, ac_id := i\<rparr>) ([Line [CHR 0x0A]] @ rest)"
    using assms(3)
  proof
    assume "i = None"
    then show ?thesis using assms(4) by (auto simp: empty_acc_def simp del: read_sse_event.simps)
  next
    assume "\<exists>x. i = Some x \<and> clean x"
    then obtain x where x: "i = Some x" "clean x" by blast
    then show ?thesis using sse_id_step [OF x(2), of ?b "[Line [CHR 0x0A]] @ rest"] by (simp del: read_sse_event.simps)
  qed
  show ?thesis
    unfolding 1 2 3 using sse_blank_step [of "?b\<lparr>ac_content := True, ac_id := i\<rparr>" rest]
    by (simp add: acc_event_def empty_acc_def del: read_sse_event.simps)
qed

theorem sse_roundtrip_witness:
  "fst (read_sse_event empty_acc (sse_lines (Some ''tick'') [''1'', ''2''] None @ [Eof])) =
     Event \<lparr>ev_event = Some ''tick'', ev_data = ''1'' @ [CHR 0x0A] @ ''2'', ev_id = None\<rparr>"
proof -
  have "clean ''tick''" "clean ''1''" "clean ''2''"
    by (auto simp: clean_def plain_line_def is_ws_def intro!: trim_no_ws)
  then show ?thesis using sse_roundtrip [of "[''1'', ''2'']" "Some ''tick''" None "[Eof]"] by simp
qed

text \<open>Receiving from an event stream: a received event is one successful metric, the end of the
  stream closes the connection without a metric, a transient error keeps it open and any other
  error closes it, each with one failed metric; a closed connection gives null and no metric.\<close>

theorem sse_recv_outcome:
  "case sse_recv d c of (v, c', ms) \<Rightarrow>
     length ms \<le> 1 \<and> count_of is_http ms = length ms
   \<and> (v \<noteq> JsNull \<longrightarrow> length ms = 1 \<and> request_error (hd ms) = None \<and> sse_stream c' \<noteq> None)
   \<and> (sse_stream c = None \<longrightarrow> v = JsNull \<and> ms = [] \<and> c' = c)
   \<and> (sse_stream c \<noteq> None \<and> sse_stream c' = None \<longrightarrow> v = JsNull)"
proof -
  have n: "is_iteration ''sse::recv'' = False"
    by (simp add: is_iteration_def ends_with_iteration_total_def ends_with_def starts_with_def)
  show ?thesis
    by (auto simp: sse_recv_def sse_metric_def count_of_def is_http_def n
        split: option.splits prod.splits sse_result.splits)
qed

theorem sse_recv_outcome_witness:
  "fst (sse_recv 0 (sse_close \<lparr>sse_stream = Some [Eof], sse_last_id = None\<rparr>)) = JsNull"
  using sse_recv_outcome [where d = 0 and c = "sse_close \<lparr>sse_stream = Some [Eof], sse_last_id = None\<rparr>"]
  by (auto simp: sse_close_def split: prod.splits)

text \<open>The cURL export does not keep the request: backslashes are not escaped, so a body with a
  newline and the different body with a backslash and an \<open>n\<close> in its place are exported as the
  same command.\<close>

theorem curl_conflates_bodies:
  "to_curl (r\<lparr>cr_body := Some (s @ [CHR 0x0A] @ t)\<rparr>) = to_curl (r\<lparr>cr_body := Some (s @ [backslash, CHR ''n''] @ t)\<rparr>)
   \<and> s @ [CHR 0x0A] @ t \<noteq> s @ [backslash, CHR ''n''] @ t"
  by (simp add: to_curl_def escape_body_def escape_quotes_def replace_char_def)

end
