(* ===== verification/Converters.thy ===== *)
theory Converters
  imports DataFiles
begin

text \<open>
  Scripts from other sources: the option keys a script may use (\<open>extract_config\<close> of
  \<open>src/engine/mod.rs\<close>), the converters of HAR files (\<open>src/cli/har.rs\<close>) and of OpenAPI
  documents (\<open>src/cli/openapi.rs\<close>), the recording proxy (\<open>src/cli/recorder.rs\<close>), and the
  choice of converter in \<open>src/main.rs\<close>. JSON values are a datatype; their parser and printer
  are arguments. The derived decoder of a Rust struct is written out: a field is looked up under
  its own name, a missing optional field is \<open>None\<close>, unknown keys are ignored.
\<close>

datatype json = JNull | JBool bool | JNum f64 | JInt int | JStr string | JArr "json list" | JObj "(string, json) hmap"

text \<open>\<open>as_i64\<close>, \<open>as_u64\<close> and \<open>as_f64\<close> of a JSON number.\<close>

definition json_as_i64 :: "json \<Rightarrow> int option" where
  "json_as_i64 j = (case j of JInt i \<Rightarrow> if - (2 ^ 63) \<le> i \<and> i < 2 ^ 63 then Some i else None | _ \<Rightarrow> None)"

definition json_as_u64 :: "json \<Rightarrow> int option" where
  "json_as_u64 j = (case j of JInt i \<Rightarrow> if 0 \<le> i \<and> i < 2 ^ 64 then Some i else None | _ \<Rightarrow> None)"

definition json_as_f64 :: "json \<Rightarrow> f64 option" where
  "json_as_f64 j = (case j of JInt i \<Rightarrow> Some (to_f64 (of_int i)) | JNum x \<Rightarrow> Some x | _ \<Rightarrow> None)"

section \<open>Option keys of a script\<close>

text \<open>\<open>if let Some(v) = obj.remove(k) { obj.insert(k', v) }\<close>.\<close>

definition rename_key :: "string \<Rightarrow> string \<Rightarrow> (string, json) hmap \<Rightarrow> (string, json) hmap" where
  "rename_key k k' obj = (case hm_get obj k of None \<Rightarrow> obj | Some v \<Rightarrow> hm_insert k' v (hm_remove k obj))"

definition scenario_keys :: "json \<Rightarrow> json" where
  "scenario_keys s = (case s of
     JObj o1 \<Rightarrow> JObj (rename_key ''responseSink'' ''response_sink'' (rename_key ''timeUnit'' ''time_unit''
       (rename_key ''stages'' ''schedule'' (rename_key ''vus'' ''workers'' o1))))
   | _ \<Rightarrow> s)"

definition option_keys :: "(string, json) hmap \<Rightarrow> (string, json) hmap" where
  "option_keys obj =
     (let obj = rename_key ''stages'' ''schedule'' obj;
          obj = rename_key ''thresholds'' ''criteria'' obj;
          obj = rename_key ''executor'' ''executor'' obj;
          obj = rename_key ''rate'' ''rate'' obj;
          obj = rename_key ''timeUnit'' ''time_unit'' obj;
          obj = rename_key ''minIterationDuration'' ''min_iteration_duration'' obj;
          obj = rename_key ''responseSink'' ''response_sink'' obj
      in case hm_get obj ''scenarios'' of
        Some (JObj scs) \<Rightarrow> hm_insert ''scenarios'' (JObj (map (\<lambda>(n, s). (n, scenario_keys s)) scs)) obj
      | _ \<Rightarrow> obj)"

section \<open>HAR\<close>

record har_request =
  h_method :: string
  h_url :: string
  h_headers :: "(string \<times> string) list"
  h_post_data :: "string option option"

definition json_field :: "string \<Rightarrow> json \<Rightarrow> json option" where
  "json_field k v = (case v of JObj m \<Rightarrow> hm_get m k | _ \<Rightarrow> None)"

definition as_string :: "json option \<Rightarrow> string option" where
  "as_string v = (case v of Some (JStr s) \<Rightarrow> Some s | _ \<Rightarrow> None)"

fun option_all :: "('a \<Rightarrow> 'b option) \<Rightarrow> 'a list \<Rightarrow> 'b list option" where
  "option_all f [] = Some []"
| "option_all f (x # xs) = (case f x of None \<Rightarrow> None | Some y \<Rightarrow>
     (case option_all f xs of None \<Rightarrow> None | Some ys \<Rightarrow> Some (y # ys)))"

definition har_header :: "json \<Rightarrow> (string \<times> string) option" where
  "har_header v = (case (as_string (json_field ''name'' v), as_string (json_field ''value'' v)) of
     (Some n, Some x) \<Rightarrow> Some (n, x) | _ \<Rightarrow> None)"

definition har_headers :: "json option \<Rightarrow> (string \<times> string) list option" where
  "har_headers v = (case v of Some (JArr hs) \<Rightarrow> option_all har_header hs | _ \<Rightarrow> None)"

text \<open>\<open>post_data: Option<PostData>\<close>, under the key \<open>post_data\<close>.\<close>

definition har_post_data :: "json option \<Rightarrow> string option option option" where
  "har_post_data v = (case v of None \<Rightarrow> Some None | Some JNull \<Rightarrow> Some None
   | Some (JObj m) \<Rightarrow> (case hm_get m ''text'' of None \<Rightarrow> Some (Some None) | Some JNull \<Rightarrow> Some (Some None)
       | Some (JStr s) \<Rightarrow> Some (Some (Some s)) | Some _ \<Rightarrow> None)
   | Some _ \<Rightarrow> None)"

definition har_request_of :: "json \<Rightarrow> har_request option" where
  "har_request_of v = (case (as_string (json_field ''method'' v), as_string (json_field ''url'' v),
       har_headers (json_field ''headers'' v), har_post_data (json_field ''post_data'' v)) of
     (Some m, Some u, Some hs, Some p) \<Rightarrow> Some \<lparr>h_method = m, h_url = u, h_headers = hs, h_post_data = p\<rparr>
   | _ \<Rightarrow> None)"

definition har_entries :: "json \<Rightarrow> har_request list option" where
  "har_entries v = (case json_field ''log'' v of None \<Rightarrow> None | Some lg \<Rightarrow>
     (case json_field ''entries'' lg of Some (JArr es) \<Rightarrow>
        option_all (\<lambda>e. case json_field ''request'' e of None \<Rightarrow> None | Some r \<Rightarrow> har_request_of r) es
      | _ \<Rightarrow> None))"

definition ln :: "string \<Rightarrow> string" where
  "ln s = s @ [CHR 0x0A]"

definition js_escape :: "string \<Rightarrow> string" where
  "js_escape s = replace_char squote [backslash, squote] (replace_char backslash [backslash, backslash] s)"

definition quoted :: "string \<Rightarrow> string" where
  "quoted s = [squote] @ s @ [squote]"

definition script_head :: string where
  "script_head = ln ''export const options = {'' @ ln ''    workers: 1,'' @ ln (''    duration: '' @ quoted ''10s'')
     @ ln ''};'' @ ln []"

definition har_entry_js :: "har_request \<Rightarrow> string" where
  "har_entry_js r = ln ''    http.request({''
     @ ln (''        method: '' @ quoted (h_method r) @ '','')
     @ ln (''        url: '' @ quoted (h_url r) @ '','')
     @ (if h_headers r = [] then [] else
          ln ''        headers: {''
          @ concat (map (\<lambda>(n, v). ln (''            '' @ quoted n @ '': '' @ quoted (js_escape v) @ '','')) (h_headers r))
          @ ln ''        },'')
     @ (case h_post_data r of Some (Some t) \<Rightarrow> ln (''        body: '' @ quoted (js_escape t) @ '','') | _ \<Rightarrow> [])
     @ ln ''    })'' @ ln ''    sleep(0.1);''"

definition har_script :: "har_request list \<Rightarrow> string" where
  "har_script rs = script_head @ ln ''export default function() {'' @ concat (map har_entry_js rs) @ ln ''}''"

definition convert_from_string :: "(string \<Rightarrow> json option) \<Rightarrow> string \<Rightarrow> string option" where
  "convert_from_string parse content = (case parse content of None \<Rightarrow> None
     | Some v \<Rightarrow> map_option har_script (har_entries v))"

section \<open>OpenAPI\<close>

record api_parameter =
  pa_name :: string
  pa_example :: "json option"

record media_type =
  mt_schema_example :: "json option"
  mt_example :: "json option"

record operation =
  op_summary :: "string option"
  op_operation_id :: "string option"
  op_request_body :: "(string, media_type) hmap option option"
  op_parameters :: "api_parameter list option"

record path_item =
  it_get :: "operation option"
  it_post :: "operation option"
  it_put :: "operation option"
  it_delete :: "operation option"
  it_patch :: "operation option"

record open_api_spec =
  spec_servers :: "string list option"
  spec_paths :: "(string \<times> path_item) list"

definition base_url :: "open_api_spec \<Rightarrow> string" where
  "base_url s = (case spec_servers s of Some (u # _) \<Rightarrow> trim_end_matches ''/'' u | _ \<Rightarrow> ''https://api.example.com'')"

definition param_value :: "(json \<Rightarrow> string) \<Rightarrow> api_parameter \<Rightarrow> string" where
  "param_value to_text p = (case pa_example p of None \<Rightarrow> pa_name p | Some (JStr s) \<Rightarrow> s | Some v \<Rightarrow> to_text v)"

definition resolve_param :: "(json \<Rightarrow> string) \<Rightarrow> string \<Rightarrow> api_parameter \<Rightarrow> string" where
  "resolve_param to_text path p = (let placeholder = ''{'' @ pa_name p @ ''}'' in
     if contains_str placeholder path then replace_str placeholder (param_value to_text p) path else path)"

definition resolve_path_params :: "(json \<Rightarrow> string) \<Rightarrow> string \<Rightarrow> operation \<Rightarrow> string" where
  "resolve_path_params to_text path op = (case op_parameters op of None \<Rightarrow> path
     | Some ps \<Rightarrow> foldl (resolve_param to_text) path ps)"

definition extract_example_body :: "(json \<Rightarrow> string) \<Rightarrow> operation \<Rightarrow> string" where
  "extract_example_body to_text op = (case op_request_body op of
     Some (Some content) \<Rightarrow>
       (case (case hm_get content ''application/json'' of Some m \<Rightarrow> Some m
              | None \<Rightarrow> (case content of [] \<Rightarrow> None | (_, m) # _ \<Rightarrow> Some m)) of
          None \<Rightarrow> ''{}''
        | Some m \<Rightarrow> (case mt_example m of Some e \<Rightarrow> to_text e
            | None \<Rightarrow> (case mt_schema_example m of Some e \<Rightarrow> to_text e | None \<Rightarrow> ''{}'')))
   | _ \<Rightarrow> ''{}'')"

definition path_operations :: "path_item \<Rightarrow> (string \<times> operation) list" where
  "path_operations it = concat (map (\<lambda>(m, op). case op of None \<Rightarrow> [] | Some x \<Rightarrow> [(m, x)])
     [(''GET'', it_get it), (''POST'', it_post it), (''PUT'', it_put it), (''DELETE'', it_delete it), (''PATCH'', it_patch it)])"

definition json_header :: string where
  "json_header = ''{'' @ quoted ''Content-Type'' @ '': '' @ quoted ''application/json'' @ ''}''"

definition operation_js :: "(json \<Rightarrow> string) \<Rightarrow> string \<Rightarrow> string \<times> operation \<Rightarrow> string" where
  "operation_js to_text path = (\<lambda>(method, op).
     (let comment = (case op_summary op of Some s \<Rightarrow> s | None \<Rightarrow>
            (case op_operation_id op of Some i \<Rightarrow> i | None \<Rightarrow> method @ '' '' @ path));
          resolved = resolve_path_params to_text path op
      in ln (''    // '' @ comment)
         @ (if method = ''GET'' then
              ln (''    http.get(BASE_URL + '' @ quoted resolved @ '', { headers: '' @ json_header @ '' });'')
            else if method = ''DELETE'' then ln (''    http.del(BASE_URL + '' @ quoted resolved @ '');'')
            else ln ''    http.request({'' @ ln (''        method: '' @ quoted method @ '','')
              @ ln (''        url: BASE_URL + '' @ quoted resolved @ '','')
              @ ln (''        headers: '' @ json_header @ '','')
              @ ln (''        body: JSON.stringify('' @ extract_example_body to_text op @ '')'')
              @ ln ''    });'')
         @ ln ''    sleep(0.1);''))"

text \<open>The paths are a \<open>BTreeMap\<close>: their order is that of the keys.\<close>

definition convert_from_spec :: "(json \<Rightarrow> string) \<Rightarrow> open_api_spec \<Rightarrow> string" where
  "convert_from_spec to_text s = script_head
     @ ln (''const BASE_URL = '' @ quoted (base_url s) @ '';'') @ ln []
     @ ln ''export default function() {''
     @ concat (map (\<lambda>(path, it). concat (map (operation_js to_text path) (path_operations it))) (sort_key fst (spec_paths s)))
     @ ln ''}''"

section \<open>Choosing a converter\<close>

datatype converter = OpenApiConverter | HarConverter

definition max_import_file_bytes :: nat where
  "max_import_file_bytes = 100 * 1024 * 1024"

definition choose_converter :: "string \<Rightarrow> string \<Rightarrow> converter" where
  "choose_converter ext content =
     (if ext = ''yaml'' \<or> ext = ''yml'' then OpenApiConverter
      else if ext = ''json'' then
        (if contains_str ([dquote] @ ''log'' @ [dquote]) content then HarConverter else OpenApiConverter)
      else HarConverter)"

section \<open>The recorder\<close>

record recorded_request =
  q_method :: string
  q_url :: string
  q_headers :: "(string, string) hmap"
  q_body :: "string option"

text \<open>What the proxy answers: its own error, or the response of the target.\<close>

datatype proxy_answer = BadRequest | BadGateway string | Forwarded nat

definition forwarded_headers :: "(string, string) hmap \<Rightarrow> (string, string) hmap" where
  "forwarded_headers hs = filter (\<lambda>(k, _). to_lower k \<noteq> ''host'' \<and> to_lower k \<noteq> ''content-length'') hs"

definition handle_proxy :: "(string \<Rightarrow> string \<Rightarrow> (string, string) hmap \<Rightarrow> string option \<Rightarrow> string + nat) \<Rightarrow>
    recorded_request list \<Rightarrow> recorded_request \<Rightarrow> recorded_request list \<times> proxy_answer" where
  "handle_proxy send reqs q =
     (let reqs = reqs @ [q] in
      if \<not> starts_with ''http'' (q_url q) then (reqs, BadRequest)
      else case send (q_method q) (q_url q) (forwarded_headers (q_headers q)) (q_body q) of
        Inr status \<Rightarrow> (reqs, Forwarded status)
      | Inl e \<Rightarrow> (reqs, BadGateway (''Proxy Error: '' @ e)))"

definition recorded_js :: "(string \<Rightarrow> string) \<Rightarrow> recorded_request \<Rightarrow> string" where
  "recorded_js json_text q = ln ''    http.request({''
     @ ln (''        method: '' @ quoted (q_method q) @ '','')
     @ ln (''        url: '' @ quoted (q_url q) @ '','')
     @ (case q_body q of None \<Rightarrow> [] | Some b \<Rightarrow> ln (''        body: '' @ json_text b @ '',''))
     @ (if q_headers q = [] then [] else
          ln ''        headers: {''
          @ concat (map (\<lambda>(k, v). ln (''            '' @ quoted k @ '': '' @ quoted (js_escape v) @ '','')) (forwarded_headers (q_headers q)))
          @ ln ''        },'')
     @ ln ''    });'' @ ln ''    sleep(1);'' @ ln []"

definition save_flow :: "(string \<Rightarrow> string) \<Rightarrow> recorded_request list \<Rightarrow> string" where
  "save_flow json_text qs = ln ''export const options = {'' @ ln ''    workers: 1,''
     @ ln (''    duration: '' @ quoted ''10s'' @ '','') @ ln ''};'' @ ln [] @ ln ''export default function() {''
     @ concat (map (recorded_js json_text) qs) @ ln ''}''"

section \<open>String literals\<close>

text \<open>The value of a single-quoted literal of the script language and the text after it, read after
  the opening quote: a line break inside is a syntax error, a backslash takes the next character
  (with \<open>n\<close>, \<open>r\<close> and \<open>t\<close> for control characters).\<close>

definition escaped_char :: "char \<Rightarrow> char" where
  "escaped_char c = (if c = CHR ''n'' then CHR 0x0A else if c = CHR ''r'' then CHR 0x0D
     else if c = CHR ''t'' then CHR 0x09 else c)"

fun read_literal :: "string \<Rightarrow> (string \<times> string) option" where
  "read_literal [] = None"
| "read_literal (c # cs) =
     (if c = squote then Some ([], cs)
      else if c = CHR 0x0A \<or> c = CHR 0x0D then None
      else if c = backslash then
        (case cs of [] \<Rightarrow> None | d # ds \<Rightarrow> map_option (\<lambda>(v, rest). (escaped_char d # v, rest)) (read_literal ds))
      else map_option (\<lambda>(v, rest). (c # v, rest)) (read_literal cs))"

lemma js_escape_Cons: "js_escape (c # s) =
    (if c = squote then [backslash, squote] else if c = backslash then [backslash, backslash] else [c]) @ js_escape s"
  by (simp add: js_escape_def replace_char_def)

lemma js_escape_Nil [simp]: "js_escape [] = []"
  by (simp add: js_escape_def)

lemma read_escaped: "plain_line s \<Longrightarrow> read_literal (js_escape s @ squote # rest) = Some (s, rest)"
  by (induction s) (auto simp: js_escape_Cons plain_line_def escaped_char_def)

lemma read_broken: "\<not> plain_line s \<Longrightarrow> read_literal (js_escape s @ rest) = None"
  by (induction s) (auto simp: js_escape_Cons plain_line_def)

section \<open>Properties\<close>

text \<open>The escaping of the converters is right on one line and wrong across lines: the literal
  generated for a header value or a body reads back as that value when it has no line break, and
  when it has one the generated script does not parse at that literal.\<close>

theorem generated_literal:
  "(plain_line s \<longrightarrow> read_literal (js_escape s @ squote # rest) = Some (s, rest))
   \<and> (\<not> plain_line s \<longrightarrow> read_literal (js_escape s @ squote # rest) = None)"
  using read_escaped read_broken [of s "squote # rest"] by blast

theorem generated_literal_witness:
  "read_literal (js_escape ([backslash] @ ''a'' @ [squote]) @ squote # '','') = Some ([backslash] @ ''a'' @ [squote], '','')
   \<and> read_literal (js_escape ([CHR 0x0A]) @ squote # '','') = None"
  using generated_literal [of "[backslash] @ ''a'' @ [squote]" "'',''"] generated_literal [of "[CHR 0x0A]" "'',''"]
  by (simp add: plain_line_def)

text \<open>The HAR converter drops every request body: HAR files keep it under \<open>postData\<close>, the
  decoder looks under \<open>post_data\<close>, so a request without that key has no body in the script, and
  adding or changing \<open>postData\<close> changes nothing.\<close>

theorem har_body_dropped:
  assumes "hm_get m ''post_data'' = None" "har_request_of (JObj m) = Some r"
  shows "h_post_data r = None \<and> har_request_of (JObj (hm_insert ''postData'' v m)) = Some r"
  using assms
  by (auto simp: har_request_of_def json_field_def har_post_data_def hmap split: option.splits)

theorem har_body_dropped_witness:
  "har_request_of (JObj (hm_insert ''postData'' (JObj [(''text'', JStr ''x=1'')])
     [(''method'', JStr ''POST''), (''url'', JStr ''/''), (''headers'', JArr [])])) =
   Some \<lparr>h_method = ''POST'', h_url = ''/'', h_headers = [], h_post_data = None\<rparr>"
proof -
  let ?m = "[(''method'', JStr ''POST''), (''url'', JStr ''/''), (''headers'', JArr [])]"
  have "har_request_of (JObj ?m) = Some \<lparr>h_method = ''POST'', h_url = ''/'', h_headers = [], h_post_data = None\<rparr>"
    by (simp add: har_request_of_def json_field_def as_string_def har_headers_def har_post_data_def)
  then show ?thesis using har_body_dropped [of ?m] by simp
qed

lemma rename_rules:
  "x \<noteq> k \<Longrightarrow> x \<noteq> k' \<Longrightarrow> hm_get (rename_key k k' obj) x = hm_get obj x"
  "k \<noteq> k' \<Longrightarrow> hm_get (rename_key k k' obj) k' = (case hm_get obj k of Some v \<Rightarrow> Some v | None \<Rightarrow> hm_get obj k')"
  "k \<noteq> k' \<Longrightarrow> hm_get (rename_key k k' obj) k = None"
  by (auto simp: rename_key_def hmap split: option.split)

lemma rename_same: "hm_get (rename_key k k obj) x = hm_get obj x"
  by (simp add: rename_key_def hmap split: option.split)

lemma scenario_case: "x \<noteq> ''scenarios'' \<Longrightarrow>
    hm_get (case v of Some (JObj scs) \<Rightarrow> hm_insert ''scenarios'' (f scs) obj | _ \<Rightarrow> obj) x = hm_get obj x"
  by (auto simp: hmap split: option.split json.split)

text \<open>The option keys of a script: \<open>stages\<close>, \<open>thresholds\<close>, \<open>timeUnit\<close>,
  \<open>minIterationDuration\<close> and \<open>responseSink\<close> take the place of the canonical keys and win over
  them when both are given; no alias survives, and every other key but \<open>scenarios\<close> keeps its
  value.\<close>

theorem option_keys_canonical:
  "hm_get (option_keys obj) ''schedule'' = (case hm_get obj ''stages'' of Some v \<Rightarrow> Some v | None \<Rightarrow> hm_get obj ''schedule'')
   \<and> hm_get (option_keys obj) ''criteria'' = (case hm_get obj ''thresholds'' of Some v \<Rightarrow> Some v | None \<Rightarrow> hm_get obj ''criteria'')
   \<and> hm_get (option_keys obj) ''time_unit'' = (case hm_get obj ''timeUnit'' of Some v \<Rightarrow> Some v | None \<Rightarrow> hm_get obj ''time_unit'')
   \<and> hm_get (option_keys obj) ''stages'' = None \<and> hm_get (option_keys obj) ''thresholds'' = None
   \<and> hm_get (option_keys obj) ''timeUnit'' = None
   \<and> hm_get (option_keys obj) ''workers'' = hm_get obj ''workers'' \<and> hm_get (option_keys obj) ''executor'' = hm_get obj ''executor''"
  by (simp add: option_keys_def Let_def scenario_case rename_rules rename_same cong: option.case_cong)

lemma proxy_run:
  "fst (foldl (\<lambda>(rs, as) q. case handle_proxy send rs q of (rs', a) \<Rightarrow> (rs', as @ [a])) (rs, as) qs) = rs @ qs"
proof (induction qs arbitrary: rs as)
  case (Cons q qs)
  have "fst (handle_proxy send rs q) = rs @ [q]"
    by (simp add: handle_proxy_def Let_def split: sum.split)
  then show ?case using Cons by (simp add: case_prod_beta)
qed simp

text \<open>The recorder saves every request it received, in order, including those it refused (no
  absolute URL) and those the target did not answer, and forwards no \<open>host\<close> or
  \<open>content-length\<close> header.\<close>

theorem recorder_records_all:
  "save_flow json_text (fst (foldl (\<lambda>(rs, as) q. case handle_proxy send rs q of (rs', a) \<Rightarrow> (rs', as @ [a])) ([], []) qs)) =
     save_flow json_text qs
   \<and> (\<forall>(k, v) \<in> set (forwarded_headers hs). to_lower k \<noteq> ''host'' \<and> to_lower k \<noteq> ''content-length'')"
  by (auto simp: proxy_run forwarded_headers_def)

theorem recorder_records_all_witness:
  "to_lower (fst (hd (forwarded_headers [(''Host'', ''x''), (''Accept'', ''y'')]))) \<noteq> ''host''"
proof -
  have e: "forwarded_headers [(''Host'', ''x''), (''Accept'', ''y'')] = [(''Accept'', ''y'')]"
    by code_simp
  show ?thesis
    using recorder_records_all [where hs = "[(''Host'', ''x''), (''Accept'', ''y'')]" and qs = "[]" and json_text = "\<lambda>s. s"]
    by (simp add: e)
qed

end
