(* ===== verification/Paths.thy ===== *)
theory Paths
  imports Text
begin

text \<open>
  The part of \<open>std::path\<close> (on Unix) that the worker's assets and the script's \<open>open()\<close> rely on,
  and the check of \<open>src/bridge/file.rs\<close>.
\<close>

text \<open>\<open>Path::components\<close> on Unix: a root, then the names between slashes; empty names and dots
  vanish, except a leading dot.\<close>

datatype component = RootDir | CurDir | ParentDir | Normal string

fun split_slash :: "string \<Rightarrow> string \<Rightarrow> string list" where
  "split_slash acc [] = [acc]"
| "split_slash acc (c # s) = (if c = CHR ''/'' then acc # split_slash [] s else split_slash (acc @ [c]) s)"

definition name_component :: "string \<Rightarrow> component" where
  "name_component n = (if n = ''..'' then ParentDir else Normal n)"

definition components :: "string \<Rightarrow> component list" where
  "components path = (let parts = split_slash [] path;
       names = map name_component (filter (\<lambda>n. n \<noteq> [] \<and> n \<noteq> ''.'') parts)
     in if starts_with ''/'' path then RootDir # names
        else if hd parts = ''.'' then CurDir # names else names)"

text \<open>\<open>cwd.join(p)\<close>, the parent of a path and its file name.\<close>

definition join_path :: "component list \<Rightarrow> component list \<Rightarrow> component list" where
  "join_path cwd p = (if p \<noteq> [] \<and> hd p = RootDir then p else cwd @ filter (\<lambda>c. c \<noteq> CurDir) p)"

definition parent_path :: "component list \<Rightarrow> component list option" where
  "parent_path p = (if p = [] \<or> p = [RootDir] then None else Some (butlast p))"

definition file_name :: "component list \<Rightarrow> component list" where
  "file_name p = (case last p of Normal n \<Rightarrow> [Normal n] | _ \<Rightarrow> [])"

text \<open>\<open>Path::extension\<close>: what follows the last dot of the file name, unless that dot begins it.\<close>

definition extension :: "string \<Rightarrow> string option" where
  "extension path = (case components path of [] \<Rightarrow> None | cs \<Rightarrow> (case last cs of
     Normal n \<Rightarrow> (let suffix = takeWhile (\<lambda>c. c \<noteq> CHR ''.'') (rev n); stem = drop (length suffix + 1) (rev n) in
       if length suffix = length n \<or> stem = [] then None else Some (rev suffix))
   | _ \<Rightarrow> None))"

section \<open>Files a script opens\<close>

definition absolute_error :: "string \<Rightarrow> string" where
  "absolute_error path = ''Absolute paths are not allowed: '' @ [CHR 0x27] @ path @ [CHR 0x27]
     @ ''. Use a path relative to your script directory.''"

definition traversal_error :: "string \<Rightarrow> string" where
  "traversal_error path = ''Path traversal ('' @ [CHR 0x27] @ ''..'' @ [CHR 0x27] @ '') is not allowed: '' @ [CHR 0x27] @ path
     @ [CHR 0x27] @ ''. Use a path relative to your script directory.''"

definition validate_path :: "string \<Rightarrow> string + unit" where
  "validate_path path = (if starts_with ''/'' path then Inl (absolute_error path)
     else if ParentDir \<in> set (components path) then Inl (traversal_error path) else Inr ())"

text \<open>\<open>read_file\<close>: no file is touched when the check fails; \<open>read\<close> is the file system. \<open>open\<close> maps
  every error to one value.\<close>

datatype io_error = PermissionDenied string | OsError string

definition read_file :: "(string \<Rightarrow> io_error + string) \<Rightarrow> string \<Rightarrow> io_error + string" where
  "read_file read path = (case validate_path path of Inl e \<Rightarrow> Inl (PermissionDenied e) | Inr _ \<Rightarrow> read path)"

definition open_file :: "(string \<Rightarrow> io_error + string) \<Rightarrow> string \<Rightarrow> string option" where
  "open_file read path = (case read_file read path of Inl _ \<Rightarrow> None | Inr s \<Rightarrow> Some s)"

section \<open>Typescript\<close>

definition is_typescript :: "string \<Rightarrow> bool" where
  "is_typescript path = (extension path = Some ''ts'' \<or> extension path = Some ''mts'')"

text \<open>\<open>transpile\<close> is the compiler (the oxc crates), which can fail.\<close>

definition maybe_transpile :: "(string \<Rightarrow> string \<Rightarrow> string + string) \<Rightarrow> string \<Rightarrow> string \<Rightarrow> string + string" where
  "maybe_transpile transpile source path = (if is_typescript path then transpile source path else Inr source)"

datatype load_error = NotFound string | LoadMessage string string

definition load_module :: "(string \<Rightarrow> io_error + string) \<Rightarrow> (string \<Rightarrow> string \<Rightarrow> string + string) \<Rightarrow> string \<Rightarrow>
    load_error + string" where
  "load_module read transpile path =
     (if \<not> list_ex (\<lambda>known. known = (case extension path of None \<Rightarrow> [] | Some e \<Rightarrow> e)) [''js'', ''ts'', ''mts'']
      then Inl (NotFound path)
      else case read path of Inl _ \<Rightarrow> Inl (NotFound path)
        | Inr source \<Rightarrow> if is_typescript path then
              (case transpile source path of Inl e \<Rightarrow> Inl (LoadMessage path e) | Inr js \<Rightarrow> Inr js)
            else Inr source)"

section \<open>Where a path leads\<close>

lemma file_name_joins: "p \<noteq> [] \<Longrightarrow> take n (butlast p @ file_name p) = cwd \<Longrightarrow> length cwd = n \<Longrightarrow> take n p = cwd"
  by (cases p rule: rev_cases) (auto simp: file_name_def take_Cons' split: component.splits)

text \<open>Walking a path from a directory, on a file system without links.\<close>

fun walk :: "component list \<Rightarrow> component list \<Rightarrow> component list" where
  "walk dir [] = dir"
| "walk dir (RootDir # cs) = walk [RootDir] cs"
| "walk dir (CurDir # cs) = walk dir cs"
| "walk dir (ParentDir # cs) = walk (if dir = [RootDir] then dir else butlast dir) cs"
| "walk dir (Normal n # cs) = walk (dir @ [Normal n]) cs"

lemma root_only_first: "RootDir \<in> set (components path) \<Longrightarrow> starts_with ''/'' path"
  by (auto simp: components_def Let_def name_component_def split: if_splits)

lemma walk_stays: "ParentDir \<notin> set cs \<Longrightarrow> RootDir \<notin> set cs \<Longrightarrow> \<exists>rest. walk dir cs = dir @ rest"
proof (induction dir cs rule: walk.induct)
  case (5 dir n cs)
  then obtain rest where "walk (dir @ [Normal n]) cs = (dir @ [Normal n]) @ rest" by auto
  then show ?case by simp
qed auto

text \<open>A script reads files below its directory only: whatever \<open>open\<close> returns was read at a path
  that, walked from the script's directory, ends at or below that directory; a path that is absolute
  or has a parent component is refused before the file system is asked.\<close>

theorem open_stays_below:
  assumes "open_file read path = Some text"
  shows "read path = Inr text \<and> (\<exists>rest. walk dir (components path) = dir @ rest)"
proof -
  have ok: "\<not> starts_with ''/'' path" "ParentDir \<notin> set (components path)" "read path = Inr text"
    using assms by (auto simp: open_file_def read_file_def validate_path_def split: sum.splits if_splits)
  moreover have "RootDir \<notin> set (components path)"
    using root_only_first ok(1) by blast
  ultimately show ?thesis using walk_stays by blast
qed

theorem open_stays_below_witness:
  "walk [RootDir, Normal ''srv''] (components ''data/users.csv'')
     = [RootDir, Normal ''srv'', Normal ''data'', Normal ''users.csv'']
   \<and> (\<exists>rest. walk [RootDir, Normal ''srv''] (components ''data/users.csv'') = [RootDir, Normal ''srv''] @ rest)"
proof -
  have "open_file (\<lambda>_. Inr ''x'') ''data/users.csv'' = Some ''x''" by code_simp
  from open_stays_below [OF this, of "[RootDir, Normal ''srv'']"]
  show ?thesis by (simp add: components_def name_component_def starts_with_def)
qed

lemma typescript_examples:
  "is_typescript ''a/test.mts''" "\<not> is_typescript ''test.js''" "\<not> is_typescript ''.ts''" "is_typescript ''a.b.ts''"
  by code_simp+

end
