(* ===== verification/Cluster.thy ===== *)
theory Cluster
  imports Converters Engine Paths
begin

text \<open>
  Distributed runs: the controller's registry of workers and its gRPC service
  (\<open>src/cluster/mod.rs\<close>), and the worker and controller servers of
  \<open>src/engine/distributed.rs\<close>. A connection is a session with a number; its task keeps the
  session's state and the channel of commands to that worker (capacity 100). The network is a
  list of events. The file system is the argument \<open>canon\<close> (the answer of \<open>canonicalize\<close> after
  the effects so far), the JSON decoder an argument where it is used.
\<close>

section \<open>The controller's registry\<close>

record start_test =
  st_script :: string
  st_config_json :: string
  st_assets :: "(string, string) hmap"
  st_metrics_url :: string

datatype command = StartTest start_test | StopTest | NoCommand

datatype worker_message = Register string string nat | Heartbeat string nat | TestFinished string | NoMessage

record worker_info =
  wi_id :: string
  wi_address :: string
  wi_cpus :: nat
  wi_sender :: nat

datatype session_state = Unregistered | Registered string | Ended

record session =
  ss_state :: session_state
  ss_queue :: "command list"
  ss_receiving :: bool

record controller =
  ct_registry :: "(string, worker_info) hmap"
  ct_sessions :: "session list"

text \<open>A request may register if no token is configured, or if it carries that token.\<close>

definition check_auth :: "string option \<Rightarrow> string option \<Rightarrow> bool" where
  "check_auth token authorization = (case token of None \<Rightarrow> True
     | Some expected \<Rightarrow>
         (let provided = (case authorization of None \<Rightarrow> []
            | Some v \<Rightarrow> (case strip_prefix ''Bearer '' v of None \<Rightarrow> [] | Some p \<Rightarrow> p))
          in provided = expected))"

text \<open>What happens on the connections: one is opened with its metadata, a message or the end of the
  stream arrives, the worker takes a command, or drops its receiving side.\<close>

datatype net_event =
    Connect "string option"
  | Message nat worker_message
  | StreamEnd nat
  | TakeCommand nat
  | HangUp nat

definition set_state :: "nat \<Rightarrow> session_state \<Rightarrow> controller \<Rightarrow> controller" where
  "set_state i st c = c\<lparr>ct_sessions := (ct_sessions c)[i := (ct_sessions c ! i)\<lparr>ss_state := st\<rparr>]\<rparr>"

definition on_message :: "nat \<Rightarrow> worker_message \<Rightarrow> controller \<Rightarrow> controller" where
  "on_message i m c = (case ss_state (ct_sessions c ! i) of
     Unregistered \<Rightarrow> (case m of
       Register wid addr cpus \<Rightarrow> (set_state i (Registered wid) c)\<lparr>ct_registry := hm_insert wid
           \<lparr>wi_id = wid, wi_address = addr, wi_cpus = cpus, wi_sender = i\<rparr> (ct_registry c)\<rparr>
     | _ \<Rightarrow> set_state i Ended c)
   | Registered _ \<Rightarrow> c
   | Ended \<Rightarrow> c)"

definition on_end :: "nat \<Rightarrow> controller \<Rightarrow> controller" where
  "on_end i c = (case ss_state (ct_sessions c ! i) of
     Unregistered \<Rightarrow> set_state i Ended c
   | Registered wid \<Rightarrow> (set_state i Ended c)\<lparr>ct_registry := hm_remove wid (ct_registry c)\<rparr>
   | Ended \<Rightarrow> c)"

definition controller_step :: "string option \<Rightarrow> controller \<Rightarrow> net_event \<Rightarrow> controller" where
  "controller_step token c e = (case e of
     Connect md \<Rightarrow> (if check_auth token md
       then c\<lparr>ct_sessions := ct_sessions c @ [\<lparr>ss_state = Unregistered, ss_queue = [], ss_receiving = True\<rparr>]\<rparr>
       else c)
   | Message i m \<Rightarrow> (if i < length (ct_sessions c) then on_message i m c else c)
   | StreamEnd i \<Rightarrow> (if i < length (ct_sessions c) then on_end i c else c)
   | TakeCommand i \<Rightarrow> c\<lparr>ct_sessions := (ct_sessions c)
       [i := (ct_sessions c ! i)\<lparr>ss_queue := tl (ss_queue (ct_sessions c ! i))\<rparr>]\<rparr>
   | HangUp i \<Rightarrow> c\<lparr>ct_sessions := (ct_sessions c)[i := (ct_sessions c ! i)\<lparr>ss_receiving := False\<rparr>]\<rparr>)"

definition new_controller :: controller where
  "new_controller = \<lparr>ct_registry = [], ct_sessions = []\<rparr>"

section \<open>Dispatch\<close>

definition channel_capacity :: nat where
  "channel_capacity = 100"

text \<open>\<open>try_send\<close>: fails when the channel is full or its receiver is gone.\<close>

definition accepts :: "session \<Rightarrow> bool" where
  "accepts s = (ss_receiving s \<and> length (ss_queue s) < channel_capacity)"

definition try_send :: "command \<Rightarrow> session list \<times> nat \<Rightarrow> string \<times> worker_info \<Rightarrow> session list \<times> nat" where
  "try_send cmd = (\<lambda>(ss, n) (wid, w).
     if accepts (ss ! wi_sender w)
     then (ss[wi_sender w := (ss ! wi_sender w)\<lparr>ss_queue := ss_queue (ss ! wi_sender w) @ [cmd]\<rparr>], n + 1)
     else (ss, n))"

definition dispatch_test_to_workers :: "start_test \<Rightarrow> controller \<Rightarrow> controller \<times> (string + nat)" where
  "dispatch_test_to_workers t c =
     (if ct_registry c = [] then (c, Inl ''No workers connected'')
      else (let (ss, n) = foldl (try_send (StartTest t)) (ct_sessions c, 0) (ct_registry c)
        in (c\<lparr>ct_sessions := ss\<rparr>, Inr n)))"

record dispatch_response =
  dr_success :: bool
  dr_workers_dispatched :: nat
  dr_message :: string

text \<open>\<open>POST /api/dispatch\<close>; \<open>to_json\<close> serializes the configuration.\<close>

definition handle_api_dispatch :: "(config \<Rightarrow> string + string) \<Rightarrow> string \<Rightarrow> string \<Rightarrow> config \<Rightarrow> (string, string) hmap \<Rightarrow>
    controller \<Rightarrow> controller \<times> dispatch_response" where
  "handle_api_dispatch to_json metrics_url script cfg assets c = (case to_json cfg of
     Inl e \<Rightarrow> (c, \<lparr>dr_success = False, dr_workers_dispatched = 0,
        dr_message = ''Failed to serialize config: '' @ e\<rparr>)
   | Inr json \<Rightarrow> (case dispatch_test_to_workers \<lparr>st_script = script, st_config_json = json,
         st_assets = assets, st_metrics_url = metrics_url\<rparr> c of
       (c, Inr n) \<Rightarrow> (c, \<lparr>dr_success = True, dr_workers_dispatched = n,
          dr_message = ''Test dispatched to '' @ show_nat n @ '' workers''\<rparr>)
     | (c, Inl e) \<Rightarrow> (c, \<lparr>dr_success = False, dr_workers_dispatched = 0, dr_message = e\<rparr>)))"

definition handle_api_workers :: "controller \<Rightarrow> (string \<times> string \<times> nat) list" where
  "handle_api_workers c = map (\<lambda>(_, w). (wi_id w, wi_address w, wi_cpus w)) (ct_registry c)"

definition handle_api_screenshots :: "string list \<Rightarrow> string list" where
  "handle_api_screenshots entries = rev (sort entries)"

section \<open>Metrics over gRPC and over HTTP\<close>

record proto_metric =
  pm_name :: string
  pm_duration_ns :: nat
  pm_status :: nat
  pm_error :: "string option"
  pm_timestamp :: nat
  pm_blocked_ns :: nat
  pm_connecting_ns :: nat
  pm_tls_ns :: nat
  pm_sending_ns :: nat
  pm_waiting_ns :: nat
  pm_receiving_ns :: nat
  pm_response_size :: nat
  pm_request_size :: nat

text \<open>\<open>d.as_nanos() as u64\<close>.\<close>

definition nanos_u64 :: "duration \<Rightarrow> nat" where
  "nanos_u64 d = d mod u64_size"

definition internal_metric_to_proto :: "metric \<Rightarrow> proto_metric option" where
  "internal_metric_to_proto m = (case m of
     Request name t status err _ \<Rightarrow> Some \<lparr>pm_name = name, pm_duration_ns = nanos_u64 (t_duration t),
       pm_status = status, pm_error = err, pm_timestamp = 0, pm_blocked_ns = nanos_u64 (t_blocked t),
       pm_connecting_ns = nanos_u64 (t_connecting t), pm_tls_ns = nanos_u64 (t_tls_handshaking t),
       pm_sending_ns = nanos_u64 (t_sending t), pm_waiting_ns = nanos_u64 (t_waiting t),
       pm_receiving_ns = nanos_u64 (t_receiving t), pm_response_size = t_response_size t,
       pm_request_size = t_request_size t\<rparr>
   | _ \<Rightarrow> None)"

definition metric_of_proto :: "proto_metric \<Rightarrow> metric" where
  "metric_of_proto p = Request (pm_name p)
     \<lparr>t_blocked = pm_blocked_ns p, t_connecting = pm_connecting_ns p, t_tls_handshaking = pm_tls_ns p,
      t_sending = pm_sending_ns p, t_waiting = pm_waiting_ns p, t_receiving = pm_receiving_ns p,
      t_duration = pm_duration_ns p, t_response_size = pm_response_size p,
      t_request_size = pm_request_size p, t_pool_reused = False\<rparr>
     (pm_status p mod 65536) (pm_error p) []"

text \<open>\<open>report_metrics\<close>: every batch until the stream ends or fails, if the request may.\<close>

definition report_metrics :: "'h hist_ops \<Rightarrow> string option \<Rightarrow> string option \<Rightarrow> proto_metric list list \<Rightarrow>
    'h stats_aggregator \<Rightarrow> 'h stats_aggregator option" where
  "report_metrics H token md batches a = (if check_auth token md
     then Some (foldl (\<lambda>a b. foldl (aggregator_add H) a (map metric_of_proto b)) a batches) else None)"

definition handle_metrics :: "'h hist_ops \<Rightarrow> metric list \<Rightarrow> 'h stats_aggregator \<Rightarrow> 'h stats_aggregator" where
  "handle_metrics H ms a = foldl (aggregator_add H) a ms"

definition handle_api_stats :: "'h hist_ops \<Rightarrow> 'h stats_aggregator \<Rightarrow> report_stats" where
  "handle_api_stats H a = to_report H a"

text \<open>The URLs of a distributed run: the one the controller gives its workers, and the one a
  worker's first aggregator thread posts its batches to.\<close>

definition controller_metrics_url :: "string \<Rightarrow> string" where
  "controller_metrics_url addr = ''http://'' @ addr @ ''/metrics''"

definition batch_uri :: "string \<Rightarrow> string" where
  "batch_uri url = url @ ''/metrics''"

text \<open>The routes of the controller; \<open>/screenshots\<close> serves a directory.\<close>

datatype route = Index | Dashboard | PostMetrics | ApiStats | ApiHistory | ApiScreenshots | ApiWorkers
  | ApiDispatch | Screenshots

definition controller_route :: "string \<Rightarrow> string \<Rightarrow> route option" where
  "controller_route meth path =
     (if path = ''/'' \<and> meth = ''GET'' then Some Index
      else if path = ''/dashboard'' \<and> meth = ''GET'' then Some Dashboard
      else if path = ''/metrics'' \<and> meth = ''POST'' then Some PostMetrics
      else if path = ''/api/stats'' \<and> meth = ''GET'' then Some ApiStats
      else if path = ''/api/history'' \<and> meth = ''GET'' then Some ApiHistory
      else if path = ''/api/screenshots'' \<and> meth = ''GET'' then Some ApiScreenshots
      else if path = ''/api/workers'' \<and> meth = ''GET'' then Some ApiWorkers
      else if path = ''/api/dispatch'' \<and> meth = ''POST'' then Some ApiDispatch
      else if path = ''/screenshots'' \<or> starts_with ''/screenshots/'' path then Some Screenshots
      else None)"

text \<open>The JSON body \<open>POST /metrics\<close> decodes, with the decoder of a metric as an argument.\<close>

definition decode_metric_batch :: "(json \<Rightarrow> metric option) \<Rightarrow> json \<Rightarrow> metric list option" where
  "decode_metric_batch dec v = (case (json_field ''worker_id'' v, json_field ''metrics'' v) of
     (Some (JInt w), Some (JArr ms)) \<Rightarrow> (if 0 \<le> w \<and> w < int u64_size then option_all dec ms else None)
   | _ \<Rightarrow> None)"

text \<open>The periodic report of a run with a metrics URL, and the endpoint summary at its end.\<close>

definition endpoint_json :: "bool \<Rightarrow> string \<times> request_report \<Rightarrow> json" where
  "endpoint_json extremes = (\<lambda>(name, r). JObj (
     [(''name'', JStr name), (''requests'', JInt (int (rr_total_requests r))),
      (''avg_latency_ms'', JNum (rr_avg_latency_ms r)), (''p95_latency_ms'', JNum (rr_p95_latency_ms r))]
     @ (if extremes then [(''min_latency_ms'', JInt (int (rr_min_latency_ms r))),
          (''max_latency_ms'', JInt (int (rr_max_latency_ms r)))] else [])
     @ [(''errors'', JInt (int (rr_error_count r)))]))"

definition periodic_payload :: "report_stats \<Rightarrow> f64 \<Rightarrow> nat \<Rightarrow> json" where
  "periodic_payload r secs_elapsed active_workers = JObj (
     [(''requests_total'', JInt (int (rep_total_requests r))),
      (''requests_per_sec'', JNum (f_div (f_of_nat (rep_total_requests r)) secs_elapsed)),
      (''latency_avg_ms'', JNum (rep_avg_latency_ms r)), (''latency_p95_ms'', JNum (rep_p95_latency_ms r)),
      (''errors'', JInt (int (sum_list (map snd (rep_errors r))))),
      (''active_workers'', JInt (int active_workers)),
      (''data_sent'', JInt (int (rep_total_data_sent r))),
      (''data_received'', JInt (int (rep_total_data_received r)))]
     @ (if rep_grouped_requests r = [] then []
        else [(''endpoints'', JArr (map (endpoint_json False) (rep_grouped_requests r)))]))"

text \<open>No summary is sent when no endpoint was tracked.\<close>

definition summary_payload :: "report_stats \<Rightarrow> json option" where
  "summary_payload r = (if rep_grouped_requests r = [] then None
     else Some (JObj [(''endpoints'', JArr (map (endpoint_json True) (rep_grouped_requests r))),
       (''status_codes'', JObj (map (\<lambda>(code, n). (show_nat code, JInt (int n))) (rep_status_codes r)))]))"

section \<open>The worker\<close>

definition grpc_url :: "string \<Rightarrow> string" where
  "grpc_url addr = (if starts_with ''http'' addr then addr else ''http://'' @ addr)"

text \<open>The metrics URL of a test: an empty one is none.\<close>

definition worker_metrics_url :: "start_test \<Rightarrow> string option" where
  "worker_metrics_url t = (if st_metrics_url t = [] then None else Some (st_metrics_url t))"

text \<open>A configuration that does not parse is replaced by the default one.\<close>

definition worker_run_config :: "(string \<Rightarrow> config option) \<Rightarrow> start_test \<Rightarrow> config" where
  "worker_run_config parse t = (case parse (st_config_json t) of None \<Rightarrow> default_config | Some c \<Rightarrow> c)"

text \<open>The command loop: the tests started (by number) that still run, the one whose control channel
  is stored, the stop commands each test was sent, and the messages to the controller.\<close>

record worker_state =
  ws_next :: nat
  ws_running :: "nat list"
  ws_control :: "nat option"
  ws_stops :: "nat list"
  ws_sent :: "worker_message list"

datatype worker_event = Command command | TestDone nat

definition worker_step :: "string \<Rightarrow> worker_state \<Rightarrow> worker_event \<Rightarrow> worker_state" where
  "worker_step wid s e = (case e of
     Command (StartTest _) \<Rightarrow> s\<lparr>ws_next := ws_next s + 1, ws_running := ws_running s @ [ws_next s],
       ws_control := Some (ws_next s)\<rparr>
   | Command StopTest \<Rightarrow> (case ws_control s of None \<Rightarrow> s | Some k \<Rightarrow> s\<lparr>ws_stops := ws_stops s @ [k]\<rparr>)
   | Command NoCommand \<Rightarrow> s
   | TestDone k \<Rightarrow> (if k \<in> set (ws_running s)
       then s\<lparr>ws_running := remove1 k (ws_running s), ws_control := None, ws_sent := ws_sent s @ [TestFinished wid]\<rparr>
       else s))"

definition worker_start :: worker_state where
  "worker_start = \<lparr>ws_next = 0, ws_running = [], ws_control = None, ws_stops = [], ws_sent = []\<rparr>"

section \<open>Assets\<close>

datatype fs_effect = MakeDirs "component list" | WriteFile "component list" string

text \<open>The check of one asset: its canonical path, canonicalizing the parent after creating it when
  the file does not exist; the effects come with it.\<close>

definition resolve_asset :: "(fs_effect list \<Rightarrow> component list \<Rightarrow> component list option) \<Rightarrow> component list \<Rightarrow>
    fs_effect list \<Rightarrow> component list option \<times> fs_effect list" where
  "resolve_asset canon resolved effs = (case canon effs resolved of
     Some c \<Rightarrow> (Some c, effs)
   | None \<Rightarrow> (case parent_path resolved of None \<Rightarrow> (None, effs)
       | Some par \<Rightarrow> (let effs = effs @ [MakeDirs par]
           in (map_option (\<lambda>cp. cp @ file_name resolved) (canon effs par), effs))))"

definition save_asset :: "(fs_effect list \<Rightarrow> component list \<Rightarrow> component list option) \<Rightarrow> component list \<Rightarrow>
    fs_effect list \<Rightarrow> string \<times> string \<Rightarrow> fs_effect list" where
  "save_asset canon cwd effs = (\<lambda>(path, content).
     let p = components path in
     if ParentDir \<in> set p then effs
     else (case resolve_asset canon (join_path cwd p) effs of
       (Some c, effs) \<Rightarrow>
         (if take (length cwd) c = cwd
          then effs @ (case parent_path p of None \<Rightarrow> [] | Some par \<Rightarrow> [MakeDirs par]) @ [WriteFile p content]
          else effs)
     | (None, effs) \<Rightarrow> effs))"

definition save_assets :: "(fs_effect list \<Rightarrow> component list \<Rightarrow> component list option) \<Rightarrow> component list \<Rightarrow>
    (string \<times> string) list \<Rightarrow> fs_effect list" where
  "save_assets canon cwd assets = foldl (save_asset canon cwd) [] assets"

section \<open>The registry is the set of live sessions\<close>

definition live :: "controller \<Rightarrow> nat \<Rightarrow> string \<Rightarrow> bool" where
  "live c i wid \<longleftrightarrow> i < length (ct_sessions c) \<and> ss_state (ct_sessions c ! i) = Registered wid"

definition registry_inv :: "controller \<Rightarrow> bool" where
  "registry_inv c \<longleftrightarrow> hm_wf (ct_registry c)
     \<and> (\<forall>wid w. hm_get (ct_registry c) wid = Some w \<longrightarrow> wi_id w = wid \<and> live c (wi_sender w) wid)"

lemma live_set_state:
  "i < length (ct_sessions c) \<Longrightarrow> live (set_state i st c) j wid = (if j = i then st = Registered wid else live c j wid)"
  by (auto simp: live_def set_state_def nth_list_update)

lemma set_state_registry [simp]: "ct_registry (set_state i st c) = ct_registry c"
  by (simp add: set_state_def)

lemma live_registry [simp]: "live (c\<lparr>ct_registry := r\<rparr>) i wid = live c i wid"
  by (simp add: live_def)

lemma registry_invD:
  "registry_inv c \<Longrightarrow> hm_get (ct_registry c) wid = Some w \<Longrightarrow> wi_id w = wid \<and> live c (wi_sender w) wid"
  by (simp add: registry_inv_def del: map_of_eq_Some_iff)

lemma live_state: "live c i wid \<Longrightarrow> ss_state (ct_sessions c ! i) = Registered wid"
  by (simp add: live_def)

text \<open>How each kind of event changes the live sessions and the registry.\<close>

lemma on_message_live:
  assumes "i < length (ct_sessions c)"
  shows "live (on_message i m c) j wid =
    (if j = i \<and> ss_state (ct_sessions c ! i) = Unregistered then (\<exists>a n. m = Register wid a n) else live c j wid)"
  using assms
  by (auto simp: on_message_def live_set_state split: session_state.split worker_message.split)

lemma on_message_registry:
  "hm_get (ct_registry (on_message i m c)) wid = (case m of
     Register wid' a n \<Rightarrow> if ss_state (ct_sessions c ! i) = Unregistered \<and> wid = wid'
        then Some \<lparr>wi_id = wid, wi_address = a, wi_cpus = n, wi_sender = i\<rparr> else hm_get (ct_registry c) wid
   | _ \<Rightarrow> hm_get (ct_registry c) wid)"
  by (auto simp: on_message_def hmap split: session_state.split worker_message.split)

lemma on_end_live:
  "i < length (ct_sessions c) \<Longrightarrow> live (on_end i c) j wid = (j \<noteq> i \<and> live c j wid)"
  by (auto simp: on_end_def live_set_state split: session_state.split) (auto simp: live_def)

lemma on_end_registry:
  "hm_get (ct_registry (on_end i c)) wid =
     (if ss_state (ct_sessions c ! i) = Registered wid then None else hm_get (ct_registry c) wid)"
  by (auto simp: on_end_def hmap split: session_state.split)

lemma registry_wf_step: "hm_wf (ct_registry c) \<Longrightarrow> hm_wf (ct_registry (controller_step token c e))"
  by (auto simp: controller_step_def on_message_def on_end_def hmap
      split: net_event.split session_state.split worker_message.split)

lemma queue_live:
  "ss_state s = ss_state (ct_sessions c ! i) \<Longrightarrow> live (c\<lparr>ct_sessions := (ct_sessions c)[i := s]\<rparr>) j wid = live c j wid"
  by (cases "i < length (ct_sessions c)") (auto simp: live_def nth_list_update)

lemma connect_live: "live (c\<lparr>ct_sessions := ct_sessions c @ [\<lparr>ss_state = Unregistered, ss_queue = q, ss_receiving = b\<rparr>]\<rparr>) j wid = live c j wid"
  by (auto simp: live_def nth_append)

lemma registry_inv_step: "registry_inv c \<Longrightarrow> registry_inv (controller_step token c e)"
proof (cases e)
  case (Message i m)
  assume inv: "registry_inv c"
  then show ?thesis
  proof (cases "i < length (ct_sessions c)")
    case True
    have "wi_id w = wid \<and> live (on_message i m c) (wi_sender w) wid"
      if "hm_get (ct_registry (on_message i m c)) wid = Some w" for wid w
      using that registry_invD [OF inv, of wid w] live_state [of c "wi_sender w" wid] True
      by (auto simp: on_message_registry on_message_live simp del: map_of_eq_Some_iff
          split: worker_message.splits if_splits)
    with inv True Message registry_wf_step [of c token e] show ?thesis
      by (simp add: registry_inv_def controller_step_def del: map_of_eq_Some_iff)
  qed (use inv Message in \<open>simp add: controller_step_def\<close>)
next
  case (StreamEnd i)
  assume inv: "registry_inv c"
  then show ?thesis
  proof (cases "i < length (ct_sessions c)")
    case True
    have "wi_id w = wid \<and> live (on_end i c) (wi_sender w) wid"
      if "hm_get (ct_registry (on_end i c)) wid = Some w" for wid w
      using that registry_invD [OF inv, of wid w] live_state [of c "wi_sender w" wid] True
      by (auto simp: on_end_registry on_end_live simp del: map_of_eq_Some_iff split: if_splits)
    with inv True StreamEnd registry_wf_step [of c token e] show ?thesis
      by (simp add: registry_inv_def controller_step_def del: map_of_eq_Some_iff)
  qed (use inv StreamEnd in \<open>simp add: controller_step_def\<close>)
qed (simp_all add: controller_step_def registry_inv_def queue_live connect_live)

interpretation cluster: event_machine "controller_step token" registry_inv for token
  by unfold_locales (rule registry_inv_step)

lemma registry_inv_new: "registry_inv new_controller"
  by (simp add: registry_inv_def new_controller_def)

text \<open>Ids are fresh along a run when no worker registers under an id that is still listed.\<close>

fun fresh_ids :: "string option \<Rightarrow> controller \<Rightarrow> net_event list \<Rightarrow> bool" where
  "fresh_ids token c [] = True"
| "fresh_ids token c (e # es) = ((case e of
     Message i (Register wid _ _) \<Rightarrow> hm_get (ct_registry c) wid = None | _ \<Rightarrow> True)
     \<and> fresh_ids token (controller_step token c e) es)"

definition registry_complete :: "controller \<Rightarrow> bool" where
  "registry_complete c \<longleftrightarrow> (\<forall>i wid. live c i wid \<longrightarrow> (\<exists>w. hm_get (ct_registry c) wid = Some w \<and> wi_sender w = i))"

lemma registry_completeD:
  "registry_complete c \<Longrightarrow> live c i wid \<Longrightarrow> \<exists>w. hm_get (ct_registry c) wid = Some w \<and> wi_sender w = i"
  by (simp add: registry_complete_def del: map_of_eq_Some_iff)

lemma registry_complete_step:
  assumes "registry_complete c" "fresh_ids token c (e # es)"
  shows "registry_complete (controller_step token c e)"
proof (cases e)
  case (Message i m)
  show ?thesis
  proof (cases "i < length (ct_sessions c)")
    case True
    have "\<exists>w. hm_get (ct_registry (on_message i m c)) wid = Some w \<and> wi_sender w = j"
      if "live (on_message i m c) j wid" for j wid
      using that assms(2) registry_completeD [OF assms(1), of j wid] live_state [of c j wid] True Message
      by (auto simp: on_message_live on_message_registry simp del: map_of_eq_Some_iff
          split: if_splits worker_message.splits)
    with True Message show ?thesis
      by (simp add: registry_complete_def controller_step_def del: map_of_eq_Some_iff)
  qed (use assms(1) Message in \<open>simp add: controller_step_def\<close>)
next
  case (StreamEnd i)
  show ?thesis
  proof (cases "i < length (ct_sessions c)")
    case True
    then have reg: "ss_state (ct_sessions c ! i) = Registered wid \<longleftrightarrow> live c i wid" for wid
      by (simp add: live_def)
    have "\<exists>w. hm_get (ct_registry (on_end i c)) wid = Some w \<and> wi_sender w = j"
      if "live (on_end i c) j wid" for j wid
      using that registry_completeD [OF assms(1), of j wid] registry_completeD [OF assms(1), of i wid] True
      by (auto simp: on_end_live on_end_registry reg simp del: map_of_eq_Some_iff)
    with True StreamEnd show ?thesis
      by (simp add: registry_complete_def controller_step_def del: map_of_eq_Some_iff)
  qed (use assms(1) StreamEnd in \<open>simp add: controller_step_def\<close>)
qed (use assms(1) in \<open>simp_all add: controller_step_def registry_complete_def queue_live connect_live
      del: map_of_eq_Some_iff\<close>)

lemma registry_complete_run:
  "registry_complete c \<Longrightarrow> fresh_ids token c es \<Longrightarrow> registry_complete (foldl (controller_step token) c es)"
  by (induction es arbitrary: c) (auto dest: registry_complete_step)

text \<open>C13. The registry lists live workers: in every run of the controller, whatever arrives on its
  connections in whatever order, a listed worker's session is open and registered under that id.
  When no worker registers under an id that is still listed, the registry is exactly the set of
  registered sessions.\<close>

theorem registry_exact:
  assumes "c = foldl (controller_step token) new_controller es"
  shows "(\<forall>wid w. hm_get (ct_registry c) wid = Some w \<longrightarrow> wi_id w = wid \<and> live c (wi_sender w) wid)
    \<and> (fresh_ids token new_controller es \<longrightarrow>
        (\<forall>i wid. (\<exists>w. hm_get (ct_registry c) wid = Some w \<and> wi_sender w = i) \<longleftrightarrow> live c i wid))"
proof -
  have inv: "registry_inv c" unfolding assms by (rule cluster.run_inv [OF registry_inv_new])
  have "registry_complete c" if "fresh_ids token new_controller es"
    unfolding assms using registry_complete_run [OF _ that]
    by (simp add: registry_complete_def live_def new_controller_def)
  then show ?thesis
    using registry_invD [OF inv] registry_completeD [of c] by (auto simp del: map_of_eq_Some_iff)
qed

theorem registry_exact_witness:
  "let c = foldl (controller_step None) new_controller [Connect None, Message 0 (Register ''a'' ''x'' 4), StreamEnd 0]
   in \<not> live c 0 ''a'' \<and> hm_get (ct_registry c) ''a'' = None"
  using registry_exact [OF refl, of None "[Connect None, Message 0 (Register ''a'' ''x'' 4), StreamEnd 0]"]
  by (simp add: controller_step_def check_auth_def new_controller_def on_message_def on_end_def set_state_def
      hm_insert_def hm_remove_def Let_def)

text \<open>A second worker with the id of a listed one takes its entry, and when the first disconnects the
  second is no longer listed although it is still connected.\<close>

lemma duplicate_id_loses_worker:
  "let c = foldl (controller_step None) new_controller [Connect None, Connect None,
      Message 0 (Register wid a n), Message 1 (Register wid b m), StreamEnd 0]
   in ct_registry c = [] \<and> live c 1 wid"
  by (simp add: controller_step_def check_auth_def new_controller_def on_message_def on_end_def set_state_def
      hm_insert_def hm_remove_def live_def Let_def)

lemma bearer_eq:
  "(case strip_prefix p v of None \<Rightarrow> [] | Some q \<Rightarrow> q) = t \<longleftrightarrow> v = p @ t \<or> t = [] \<and> (\<nexists>q. v = p @ q)"
proof (cases "strip_prefix p v")
  case None
  then have "\<nexists>q. v = p @ q" using strip_prefix_append by fastforce
  with None show ?thesis by auto
next
  case (Some q)
  then have "v = p @ q" by (simp add: strip_prefix_Some)
  with Some show ?thesis by auto
qed

text \<open>The token gate: with a token configured, a connection is accepted exactly when its
  authorization is \<open>Bearer\<close> and that token, and nothing else can change the controller or the
  statistics; an empty configured token also accepts a request with no bearer token at all.\<close>

theorem token_gate:
  "(check_auth (Some t) md \<longleftrightarrow> md = Some (''Bearer '' @ t) \<or> t = [] \<and> (\<nexists>p. md = Some (''Bearer '' @ p)))
   \<and> (\<not> check_auth (Some t) md \<longrightarrow>
       controller_step (Some t) c (Connect md) = c \<and> report_metrics H (Some t) md bs a = None)"
proof (cases md)
  case (Some v)
  have "check_auth (Some t) md \<longleftrightarrow> v = ''Bearer '' @ t \<or> t = [] \<and> (\<nexists>q. v = ''Bearer '' @ q)"
    unfolding Some check_auth_def Let_def option.case by (rule bearer_eq)
  then show ?thesis by (simp add: Some controller_step_def report_metrics_def)
qed (simp add: check_auth_def controller_step_def report_metrics_def Let_def eq_commute)

theorem token_gate_witness:
  "controller_step (Some ''secret'') new_controller (Connect (Some ''Bearer guess'')) = new_controller"
  using token_gate [of "''secret''" "Some ''Bearer guess''" new_controller list_hist "[]" undefined]
  by simp

section \<open>Dispatch reaches every listed worker\<close>

lemma try_send_all:
  assumes "distinct (map (wi_sender \<circ> snd) reg)" "\<forall>p \<in> set reg. wi_sender (snd p) < length ss"
  shows "length (fst (foldl (try_send cmd) (ss, n) reg)) = length ss
    \<and> snd (foldl (try_send cmd) (ss, n) reg) = n + length (filter (\<lambda>p. accepts (ss ! wi_sender (snd p))) reg)
    \<and> (\<forall>i < length ss. fst (foldl (try_send cmd) (ss, n) reg) ! i =
        (if i \<in> wi_sender ` snd ` set reg \<and> accepts (ss ! i)
         then (ss ! i)\<lparr>ss_queue := ss_queue (ss ! i) @ [cmd]\<rparr> else ss ! i))"
  using assms
proof (induction reg arbitrary: ss n)
  case (Cons p reg)
  obtain wid w where p: "p = (wid, w)" by force
  let ?k = "wi_sender w"
  let ?ss = "if accepts (ss ! ?k) then ss[?k := (ss ! ?k)\<lparr>ss_queue := ss_queue (ss ! ?k) @ [cmd]\<rparr>] else ss"
  let ?n = "if accepts (ss ! ?k) then n + 1 else n"
  have other: "?ss ! i = ss ! i" if "i \<noteq> ?k" for i using that by simp
  have k: "?k \<notin> wi_sender ` snd ` set reg" "?k < length ss" "length ?ss = length ss"
    using Cons.prems by (auto simp: p)
  have step: "foldl (try_send cmd) (ss, n) (p # reg) = foldl (try_send cmd) (?ss, ?n) reg"
    by (simp add: p try_send_def)
  have f: "filter (\<lambda>q. accepts (?ss ! wi_sender (snd q))) reg = filter (\<lambda>q. accepts (ss ! wi_sender (snd q))) reg"
  proof (rule filter_cong [OF refl])
    fix q assume "q \<in> set reg"
    then have "wi_sender (snd q) \<noteq> ?k" using k(1) by (metis imageI)
    then show "accepts (?ss ! wi_sender (snd q)) = accepts (ss ! wi_sender (snd q))" by (simp add: other)
  qed
  have ih: "length (fst (foldl (try_send cmd) (?ss, ?n) reg)) = length ?ss
    \<and> snd (foldl (try_send cmd) (?ss, ?n) reg) = ?n + length (filter (\<lambda>p. accepts (?ss ! wi_sender (snd p))) reg)
    \<and> (\<forall>i < length ?ss. fst (foldl (try_send cmd) (?ss, ?n) reg) ! i =
        (if i \<in> wi_sender ` snd ` set reg \<and> accepts (?ss ! i)
         then (?ss ! i)\<lparr>ss_queue := ss_queue (?ss ! i) @ [cmd]\<rparr> else ?ss ! i))"
    by (rule Cons.IH) (use Cons.prems k(3) in auto)
  show ?case
    unfolding step using ih k f by (auto simp: p nth_list_update)
qed simp

text \<open>C14. A dispatch reaches exactly the listed workers that can take a command: in every reachable
  controller, each session that is the sender of a listed worker, still receives and has fewer than
  100 commands waiting gets the command at the end of its queue, no other session changes, the
  answer counts those workers, and an empty registry is refused.\<close>

theorem dispatch_exact:
  assumes "c = foldl (controller_step token) new_controller es" "dispatch_test_to_workers t c = (c', r)"
  shows "ct_registry c' = ct_registry c
    \<and> r = (if ct_registry c = [] then Inl ''No workers connected''
          else Inr (length (filter (\<lambda>p. accepts (ct_sessions c ! wi_sender (snd p))) (ct_registry c))))
    \<and> length (ct_sessions c') = length (ct_sessions c)
    \<and> (\<forall>i < length (ct_sessions c). ct_sessions c' ! i =
        (if i \<in> wi_sender ` snd ` set (ct_registry c) \<and> accepts (ct_sessions c ! i)
         then (ct_sessions c ! i)\<lparr>ss_queue := ss_queue (ct_sessions c ! i) @ [StartTest t]\<rparr>
         else ct_sessions c ! i))"
proof (cases "ct_registry c = []")
  case False
  have inv: "registry_inv c" unfolding assms(1) by (rule cluster.run_inv [OF registry_inv_new])
  then have wf: "hm_wf (ct_registry c)" by (simp add: registry_inv_def)
  have mem: "wi_id w = wid \<and> live c (wi_sender w) wid" if "(wid, w) \<in> set (ct_registry c)" for wid w
    using registry_invD [OF inv, of wid w] that wf by simp
  have "inj_on (wi_sender \<circ> snd) (set (ct_registry c))"
  proof (rule inj_onI)
    fix p q assume pq: "p \<in> set (ct_registry c)" "q \<in> set (ct_registry c)" "(wi_sender \<circ> snd) p = (wi_sender \<circ> snd) q"
    then have "fst p = fst q"
      using mem [of "fst p" "snd p"] mem [of "fst q" "snd q"] by (simp add: live_def)
    then show "p = q" using pq wf by (metis eq_key_imp_eq_value prod.collapse)
  qed
  then have "distinct (map (wi_sender \<circ> snd) (ct_registry c))"
    using wf by (simp add: distinct_map)
  moreover have "\<forall>p \<in> set (ct_registry c). wi_sender (snd p) < length (ct_sessions c)"
    using mem by (force simp: live_def)
  ultimately have "length (fst (foldl (try_send (StartTest t)) (ct_sessions c, 0) (ct_registry c))) = length (ct_sessions c)
    \<and> snd (foldl (try_send (StartTest t)) (ct_sessions c, 0) (ct_registry c)) =
        0 + length (filter (\<lambda>p. accepts (ct_sessions c ! wi_sender (snd p))) (ct_registry c))
    \<and> (\<forall>i < length (ct_sessions c). fst (foldl (try_send (StartTest t)) (ct_sessions c, 0) (ct_registry c)) ! i =
        (if i \<in> wi_sender ` snd ` set (ct_registry c) \<and> accepts (ct_sessions c ! i)
         then (ct_sessions c ! i)\<lparr>ss_queue := ss_queue (ct_sessions c ! i) @ [StartTest t]\<rparr>
         else ct_sessions c ! i))"
    by (rule try_send_all)
  moreover have "c' = c\<lparr>ct_sessions := fst (foldl (try_send (StartTest t)) (ct_sessions c, 0) (ct_registry c))\<rparr>"
    "r = Inr (snd (foldl (try_send (StartTest t)) (ct_sessions c, 0) (ct_registry c)))"
    using assms(2) False by (auto simp: dispatch_test_to_workers_def Let_def case_prod_beta)
  ultimately show ?thesis using False by simp
qed (use assms(2) in \<open>auto simp: dispatch_test_to_workers_def\<close>)

definition a_test :: start_test where
  "a_test = \<lparr>st_script = ''s'', st_config_json = ''{}'', st_assets = [], st_metrics_url = []\<rparr>"

theorem dispatch_exact_witness:
  "let c = foldl (controller_step None) new_controller [Connect None, Message 0 (Register ''a'' ''x'' 4)];
       (c', r) = dispatch_test_to_workers a_test c
   in r = Inr 1 \<and> ss_queue (ct_sessions c' ! 0) = [StartTest a_test]"
proof -
  let ?c = "foldl (controller_step None) new_controller [Connect None, Message 0 (Register ''a'' ''x'' 4)]"
  have c: "?c = \<lparr>ct_registry = [(''a'', \<lparr>wi_id = ''a'', wi_address = ''x'', wi_cpus = 4, wi_sender = 0\<rparr>)],
      ct_sessions = [\<lparr>ss_state = Registered ''a'', ss_queue = [], ss_receiving = True\<rparr>]\<rparr>"
    by (simp add: controller_step_def check_auth_def new_controller_def on_message_def set_state_def hm_insert_def)
  obtain c' r where d: "dispatch_test_to_workers a_test ?c = (c', r)" by (metis surj_pair)
  show ?thesis using dispatch_exact [OF refl d] d unfolding c
    by (simp add: accepts_def channel_capacity_def)
qed

section \<open>Metrics of a distributed run\<close>

definition fits_u64 :: "request_timings \<Rightarrow> bool" where
  "fits_u64 t \<longleftrightarrow> t_duration t < u64_size \<and> t_blocked t < u64_size \<and> t_connecting t < u64_size
     \<and> t_tls_handshaking t < u64_size \<and> t_sending t < u64_size \<and> t_waiting t < u64_size
     \<and> t_receiving t < u64_size"

text \<open>A request metric sent over gRPC is received as that metric without its tags and without the
  reuse flag, provided its durations fit in 64 bits of nanoseconds and its status in 16 bits; no other
  metric can be sent.\<close>

theorem grpc_metric_roundtrip:
  "(\<forall>name t status err tags. fits_u64 t \<and> status < 65536 \<longrightarrow>
      map_option metric_of_proto (internal_metric_to_proto (Request name t status err tags)) =
        Some (Request name (t\<lparr>t_pool_reused := False\<rparr>) status err []))
   \<and> (\<forall>m. \<not> is_Request m \<longrightarrow> internal_metric_to_proto m = None)"
  by (auto simp: fits_u64_def internal_metric_to_proto_def metric_of_proto_def nanos_u64_def split: metric.split)

theorem grpc_metric_roundtrip_witness:
  "map_option metric_of_proto (internal_metric_to_proto (Request ''r'' default_timings 200 None [(''k'', ''v'')])) =
     Some (Request ''r'' default_timings 200 None [])"
proof -
  have "fits_u64 default_timings" by (simp add: fits_u64_def default_timings_def)
  moreover have "default_timings\<lparr>t_pool_reused := False\<rparr> = default_timings" by (simp add: default_timings_def)
  ultimately show ?thesis
    using conjunct1 [OF grpc_metric_roundtrip, rule_format, of default_timings 200 "''r''" None "[(''k'', ''v'')]"]
    by simp
qed

text \<open>The path of a URL.\<close>

definition uri_path :: "string \<Rightarrow> string" where
  "uri_path url = (case strip_prefix ''http://'' url of None \<Rightarrow> url
     | Some rest \<Rightarrow> dropWhile (\<lambda>c. c \<noteq> CHR ''/'') rest)"

text \<open>C39. A dispatched test reports nothing to its controller: the batches of metrics go to the URL the
  controller gave with \<open>/metrics\<close> appended a second time, a path the controller routes for no method,
  and the periodic report that does reach the metrics endpoint is not a batch of metrics and does not
  decode, whatever the report and the decoder.\<close>

theorem cluster_metrics_lost:
  assumes "CHR ''/'' \<notin> set addr"
  shows "uri_path (batch_uri (controller_metrics_url addr)) = ''/metrics/metrics''
    \<and> controller_route meth (uri_path (batch_uri (controller_metrics_url addr))) = None
    \<and> controller_route ''POST'' (uri_path (controller_metrics_url addr)) = Some PostMetrics
    \<and> decode_metric_batch dec (periodic_payload r e n) = None"
proof -
  have d: "dropWhile (\<lambda>c. c \<noteq> CHR ''/'') (addr @ CHR ''/'' # s) = CHR ''/'' # s" for s
    using assms by (induction addr) auto
  have b: "uri_path (batch_uri (controller_metrics_url addr)) = ''/metrics/metrics''"
    using d by (simp add: uri_path_def batch_uri_def controller_metrics_url_def strip_prefix_def starts_with_def)
  have u: "uri_path (controller_metrics_url addr) = ''/metrics''"
    using d by (simp add: uri_path_def controller_metrics_url_def strip_prefix_def starts_with_def)
  have "json_field ''worker_id'' (periodic_payload r e n) = None"
    by (simp add: json_field_def periodic_payload_def)
  then show ?thesis
    unfolding b u by (simp add: controller_route_def decode_metric_batch_def starts_with_def)
qed

theorem cluster_metrics_lost_witness:
  "uri_path (batch_uri (controller_metrics_url ''10.0.0.1:9000'')) = ''/metrics/metrics''"
  using cluster_metrics_lost [of "''10.0.0.1:9000''"] by simp

section \<open>Stopping tests\<close>

text \<open>Events in which a test is started only when none runs.\<close>

fun sequential :: "string \<Rightarrow> worker_state \<Rightarrow> worker_event list \<Rightarrow> bool" where
  "sequential wid s [] = True"
| "sequential wid s (e # es) = ((case e of Command (StartTest _) \<Rightarrow> ws_running s = [] | _ \<Rightarrow> True)
     \<and> sequential wid (worker_step wid s e) es)"

definition one_test :: "worker_state \<Rightarrow> bool" where
  "one_test s \<longleftrightarrow> length (ws_running s) \<le> 1
     \<and> ws_control s = (case ws_running s of [] \<Rightarrow> None | k # _ \<Rightarrow> Some k)
     \<and> length (ws_sent s) + length (ws_running s) = ws_next s"

lemma one_test_step:
  "one_test s \<Longrightarrow> sequential wid s (e # es) \<Longrightarrow> one_test (worker_step wid s e)"
  by (cases "ws_running s")
    (auto simp: one_test_def worker_step_def split: worker_event.splits command.splits option.splits)

lemma one_test_run: "one_test s \<Longrightarrow> sequential wid s es \<Longrightarrow> one_test (foldl (worker_step wid) s es)"
  by (induction es arbitrary: s) (auto dest: one_test_step)

text \<open>A stop reaches the running test: in every run in which tests do not overlap, a stop command is
  delivered to the running test if there is one and to nothing else, and every test that is over was
  reported to the controller once.\<close>

theorem stop_reaches_test:
  assumes "sequential wid worker_start es" "s = foldl (worker_step wid) worker_start es"
  shows "ws_stops (worker_step wid s (Command StopTest)) = ws_stops s @ ws_running s
    \<and> length (ws_running s) \<le> 1 \<and> length (ws_sent s) = ws_next s - length (ws_running s)"
proof -
  have "one_test s"
    using one_test_run [OF _ assms(1)] assms(2) by (simp add: one_test_def worker_start_def)
  then show ?thesis
    by (cases "ws_running s") (auto simp: one_test_def worker_step_def)
qed

theorem stop_reaches_test_witness:
  "ws_stops (worker_step ''w'' (foldl (worker_step ''w'') worker_start
      [Command (StartTest a_test), TestDone 0, Command (StartTest a_test)]) (Command StopTest)) = [1]"
  using stop_reaches_test [OF _ refl, of "''w''" "[Command (StartTest a_test), TestDone 0, Command (StartTest a_test)]"]
  by (simp add: worker_step_def worker_start_def)

text \<open>Overlapping tests cannot be stopped: when one of two running tests ends, it clears the control
  channel of the other, which keeps running and no stop command reaches it any more, however many are
  sent.\<close>

theorem overlapping_test_unstoppable:
  assumes "k \<in> set (ws_running s)" "j \<in> set (ws_running s)" "k \<noteq> j"
  shows "let s' = worker_step wid s (TestDone j); s'' = foldl (worker_step wid) s' (replicate n (Command StopTest))
    in k \<in> set (ws_running s'') \<and> ws_stops s'' = ws_stops s"
proof -
  let ?s = "worker_step wid s (TestDone j)"
  have "foldl (worker_step wid) ?s (replicate n (Command StopTest)) = ?s"
    using assms by (induction n) (simp_all add: worker_step_def)
  then show ?thesis using assms by (simp add: worker_step_def in_set_remove1)
qed

theorem overlapping_test_unstoppable_witness:
  "ws_stops (foldl (worker_step ''w'') worker_start
     [Command (StartTest a_test), Command (StartTest a_test), TestDone 0, Command StopTest]) = []"
  using overlapping_test_unstoppable [of 1 "foldl (worker_step ''w'') worker_start
      [Command (StartTest a_test), Command (StartTest a_test)]" 0 "''w''" 1]
  by (simp add: worker_step_def worker_start_def Let_def)

section \<open>Assets stay inside, directories do not\<close>

definition no_links :: "(fs_effect list \<Rightarrow> component list \<Rightarrow> component list option) \<Rightarrow> bool" where
  "no_links canon \<longleftrightarrow> (\<forall>effs p c. canon effs p = Some c \<longrightarrow> c = p)"

definition inside :: "component list \<Rightarrow> fs_effect \<Rightarrow> bool" where
  "inside cwd e = (case e of MakeDirs _ \<Rightarrow> True
     | WriteFile p _ \<Rightarrow> ParentDir \<notin> set p \<and> take (length cwd) (join_path cwd p) = cwd)"

lemma resolve_Some:
  assumes "no_links canon" "resolve_asset canon r effs = (Some c, effs')"
  shows "c = r \<or> r \<noteq> [] \<and> c = butlast r @ file_name r"
proof (cases "canon effs r")
  case None
  then have p: "r \<noteq> []" "map_option (\<lambda>cp. cp @ file_name r) (canon (effs @ [MakeDirs (butlast r)]) (butlast r)) = Some c"
    using assms(2) by (auto simp: resolve_asset_def parent_path_def Let_def split: if_splits)
  then show ?thesis using assms(1) by (auto simp: no_links_def)
next
  case (Some d)
  then have "d = r" using assms(1) by (simp add: no_links_def)
  with Some assms(2) show ?thesis by (simp add: resolve_asset_def)
qed

lemma save_asset_inside:
  assumes "no_links canon" "list_all (inside cwd) effs"
  shows "list_all (inside cwd) (save_asset canon cwd effs a)"
proof -
  obtain path content where a: "a = (path, content)" by force
  let ?p = "components path" and ?r = "join_path cwd (components path)"
  have "take (length cwd) ?r = cwd"
    if "resolve_asset canon ?r effs = (Some c, effs')" "take (length cwd) c = cwd" for c effs'
    using resolve_Some [OF assms(1) that(1)] that(2) file_name_joins [of ?r "length cwd" cwd] by auto
  moreover have "list_all (inside cwd) effs'" if "resolve_asset canon ?r effs = (x, effs')" for x effs'
    using that assms(2) by (auto simp: resolve_asset_def inside_def Let_def split: option.splits)
  ultimately show ?thesis
    using assms(2) by (auto simp: a save_asset_def Let_def inside_def split: prod.splits option.splits)
qed

text \<open>C40. Files of a dispatched test stay inside the working directory: on a file system without
  symbolic links, whatever paths the assets have, every file written lies under the working directory
  and has no parent component in its path.\<close>

theorem assets_stay_inside:
  assumes "no_links canon"
  shows "list_all (inside cwd) (save_assets canon cwd assets)"
  unfolding save_assets_def
  by (rule foldl_invariant [where P = "list_all (inside cwd)"]) (simp_all add: save_asset_inside assms)

definition existing :: "component list list \<Rightarrow> fs_effect list \<Rightarrow> component list \<Rightarrow> component list option" where
  "existing dirs effs p = (if p \<in> set dirs \<or> MakeDirs p \<in> set effs then Some p else None)"

theorem assets_stay_inside_witness:
  "save_assets (existing [[RootDir], [RootDir, Normal ''w'']]) [RootDir, Normal ''w''] [(''../x'', ''a''), (''/y'', ''b''), (''z'', ''c'')]
    = [MakeDirs [RootDir], MakeDirs [RootDir, Normal ''w''], MakeDirs [], WriteFile [Normal ''z''] ''c'']
   \<and> list_all (inside [RootDir, Normal ''w'']) (save_assets (existing [[RootDir], [RootDir, Normal ''w'']])
       [RootDir, Normal ''w''] [(''../x'', ''a''), (''/y'', ''b''), (''z'', ''c'')])"
proof
  show "save_assets (existing [[RootDir], [RootDir, Normal ''w'']]) [RootDir, Normal ''w''] [(''../x'', ''a''), (''/y'', ''b''), (''z'', ''c'')]
    = [MakeDirs [RootDir], MakeDirs [RootDir, Normal ''w''], MakeDirs [], WriteFile [Normal ''z''] ''c'']"
    by (simp add: save_assets_def save_asset_def components_def name_component_def starts_with_def join_path_def
        resolve_asset_def parent_path_def file_name_def existing_def Let_def)
  show "list_all (inside [RootDir, Normal ''w'']) (save_assets (existing [[RootDir], [RootDir, Normal ''w'']])
       [RootDir, Normal ''w''] [(''../x'', ''a''), (''/y'', ''b''), (''z'', ''c'')])"
    by (rule assets_stay_inside) (simp add: no_links_def existing_def)
qed

text \<open>An asset that is refused may still create directories anywhere: an absolute path whose file
  does not exist has its parent directory created before the check that refuses it.\<close>

theorem refused_asset_makes_directories:
  assumes "components path = RootDir # ds @ [Normal n]" "ParentDir \<notin> set ds" "no_links canon"
    and "canon effs (components path) = None" "take (length cwd) (components path) \<noteq> cwd"
  shows "save_asset canon cwd effs (path, content) = effs @ [MakeDirs (RootDir # ds)]"
proof -
  have "canon e p = None \<or> canon e p = Some p" for e p
    using assms(3) by (cases "canon e p") (auto simp: no_links_def)
  then have "canon (effs @ [MakeDirs (RootDir # ds)]) (RootDir # ds) \<in> {None, Some (RootDir # ds)}"
    by blast
  then show ?thesis
    using assms by (auto simp: save_asset_def join_path_def resolve_asset_def parent_path_def file_name_def Let_def)
qed

theorem refused_asset_makes_directories_witness:
  "save_asset (existing [[RootDir]]) [RootDir, Normal ''w''] [] (''/etc/cron/job'', ''c'')
     = [MakeDirs [RootDir, Normal ''etc'', Normal ''cron'']]"
  using refused_asset_makes_directories [of "''/etc/cron/job''" "[Normal ''etc'', Normal ''cron'']" "''job''" "existing [[RootDir]]" "[]"
      "[RootDir, Normal ''w'']" "''c''"]
  by (simp add: components_def name_component_def starts_with_def no_links_def existing_def)

end
