(* ===== verification/Memory.thy ===== *)
theory Memory
  imports Engine
begin

text \<open>
  Memory estimates, the check before a run, and the monitor thread (\<open>src/engine/memory.rs\<close>),
  with the flags its callbacks set for the control loop. What the operating system reports is
  an argument.
\<close>

record memory_info =
  mi_available :: nat
  mi_total :: nat
  mi_current_rss :: nat

text \<open>The readings of the operating system; a process that cannot be read counts as empty.\<close>

definition memory_current :: "nat \<Rightarrow> nat \<Rightarrow> nat option \<Rightarrow> memory_info" where
  "memory_current available_b total_b rss = \<lparr>mi_available = available_b, mi_total = total_b,
     mi_current_rss = (case rss of None \<Rightarrow> 0 | Some n \<Rightarrow> n)\<rparr>"

definition usage_percent :: "memory_info \<Rightarrow> f64" where
  "usage_percent i = (if mi_total i = 0 then Fin 0
     else f_div (f_of_nat (mi_total i - mi_available i)) (f_of_nat (mi_total i)))"

definition per_worker_bytes :: nat where
  "per_worker_bytes = 12 * 1024"

definition base_overhead_bytes :: nat where
  "base_overhead_bytes = 30 * 1024 * 1024"

definition estimate_max_workers :: "nat \<Rightarrow> nat" where
  "estimate_max_workers available = (if available \<le> base_overhead_bytes then 0
     else (available - base_overhead_bytes) div per_worker_bytes)"

text \<open>The product and the sum are on \<open>usize\<close>.\<close>

definition estimate_memory_for_workers :: "nat \<Rightarrow> nat" where
  "estimate_memory_for_workers n =
     (base_overhead_bytes + n * per_worker_bytes mod u64_size) mod u64_size"

record preflight_result =
  pf_safe :: bool
  pf_estimated_max :: nat
  pf_requested :: nat
  pf_available :: nat
  pf_estimated_needed :: nat

definition preflight_check :: "memory_info \<Rightarrow> nat \<Rightarrow> preflight_result" where
  "preflight_check i requested = (let m = estimate_max_workers (mi_available i) in
     \<lparr>pf_safe = requested \<le> m, pf_estimated_max = m, pf_requested = requested,
      pf_available = mi_available i, pf_estimated_needed = estimate_memory_for_workers requested\<rparr>)"

definition format_bytes :: "nat \<Rightarrow> string" where
  "format_bytes b =
     (if b \<ge> 1024 * 1024 * 1024 then fmt_fixed 1 (f_div (f_of_nat b) (f_of_nat (1024 * 1024 * 1024))) @ '' GB''
      else if b \<ge> 1024 * 1024 then fmt_fixed 1 (f_div (f_of_nat b) (f_of_nat (1024 * 1024))) @ '' MB''
      else if b \<ge> 1024 then fmt_fixed 1 (f_div (f_of_nat b) (f_of_nat 1024)) @ '' KB''
      else show_nat b @ '' B'')"

definition critical_threshold :: f64 where
  "critical_threshold = to_f64 (95 / 100)"

section \<open>The monitor\<close>

text \<open>One check of the monitor thread: its \<open>warned\<close> flag, and the callback it makes.\<close>

datatype alarm = Warning f64 | Critical f64

definition monitor_check :: "bool \<Rightarrow> f64 \<Rightarrow> bool \<times> alarm list" where
  "monitor_check warned usage =
     (if f_le critical_threshold usage then (warned, [Critical usage])
      else if f_le warn_threshold usage \<and> \<not> warned then (True, [Warning usage])
      else if f_lt usage warn_threshold then (False, [])
      else (warned, []))"

text \<open>The thread over the readings taken at each interval, until the stop flag is seen.\<close>

fun monitor_run :: "bool \<Rightarrow> (bool \<times> f64) list \<Rightarrow> alarm list" where
  "monitor_run warned [] = []"
| "monitor_run warned ((halt, usage) # rs) = (if halt then []
     else snd (monitor_check warned usage) @ monitor_run (fst (monitor_check warned usage)) rs)"

text \<open>The callbacks of the engine: each sets one flag.\<close>

definition alarm_flags :: "alarm \<Rightarrow> main_state \<Rightarrow> main_state" where
  "alarm_flags a s = (case a of Warning _ \<Rightarrow> s\<lparr>throttle := True\<rparr> | Critical _ \<Rightarrow> s\<lparr>critical := True\<rparr>)"

section \<open>Properties\<close>

text \<open>The check before a run agrees with the estimate it prints: the requested number of workers is
  reported safe exactly when the estimated memory is available, or when no worker is requested; and
  the estimated maximum is the largest number of workers that fits.\<close>

theorem preflight_agrees:
  assumes "base_overhead_bytes + n * per_worker_bytes < u64_size"
  shows "pf_safe (preflight_check i n) \<longleftrightarrow> pf_estimated_needed (preflight_check i n) \<le> mi_available i \<or> n = 0"
proof -
  have need: "estimate_memory_for_workers n = base_overhead_bytes + n * per_worker_bytes"
    using assms by (simp add: estimate_memory_for_workers_def)
  have fits: "n \<le> (a - base_overhead_bytes) div per_worker_bytes \<longleftrightarrow> n * per_worker_bytes \<le> a - base_overhead_bytes" for a
    by (simp add: less_eq_div_iff_mult_less_eq per_worker_bytes_def)
  show ?thesis
    using fits [of "mi_available i"]
    by (auto simp: preflight_check_def Let_def need estimate_max_workers_def per_worker_bytes_def)
qed

theorem preflight_agrees_witness:
  "pf_safe (preflight_check \<lparr>mi_available = 64 * 1024 * 1024, mi_total = 64 * 1024 * 1024, mi_current_rss = 0\<rparr> 2900)"
  using preflight_agrees [of 2900 "\<lparr>mi_available = 64 * 1024 * 1024, mi_total = 64 * 1024 * 1024, mi_current_rss = 0\<rparr>"]
  by (simp add: base_overhead_bytes_def per_worker_bytes_def preflight_check_def estimate_memory_for_workers_def Let_def)

lemma monitor_critical:
  assumes "list_all (\<lambda>(_, u). f_le critical_threshold u) rs"
  shows "\<forall>a \<in> set (monitor_run warned rs). \<exists>u. a = Critical u"
  using assms by (induction warned rs rule: monitor_run.induct) (auto simp: monitor_check_def)

lemma alarms_critical:
  "\<forall>a \<in> set as. \<exists>u. a = Critical u \<Longrightarrow> throttle (fold alarm_flags as s) = throttle s"
  by (induction as arbitrary: s) (auto simp: alarm_flags_def)

text \<open>Critical memory does not stop new workers: when every reading is at or above the critical
  threshold the monitor only raises the critical flag, which the control loop never reads; the flag
  that stops spawning stays down, so a scaling step spawns up to the target whatever the usage.\<close>

theorem critical_memory_not_throttled:
  assumes "list_all (\<lambda>(_, u). f_le critical_threshold u) rs" "\<not> throttle s"
    and "\<not> m_multi m" "dynamic_target s = Some n" "length (active (pool_of s)) < n"
  shows "\<exists>s'. scale_step m i (fold alarm_flags (monitor_run w rs) s) = Some s' \<and> length (active (pool_of s')) = n"
proof -
  let ?t = "fold alarm_flags (monitor_run w rs) s"
  have keep: "dynamic_target (fold alarm_flags as t) = dynamic_target t \<and> pool_of (fold alarm_flags as t) = pool_of t
      \<and> control (fold alarm_flags as t) = control t" for as t
    by (induction as arbitrary: t) (auto simp: alarm_flags_def split: alarm.split)
  have "\<not> throttle ?t"
    using alarms_critical [OF monitor_critical [OF assms(1)], where s = s] assms(2) by simp
  then show ?thesis
    using assms keep [of "monitor_run w rs" s]
    by (simp add: scale_step_def scale_down_def spawn_def Let_def)
qed

theorem critical_memory_not_throttled_witness:
  "\<exists>s'. scale_step ramp_down (quiet_input 0) (fold alarm_flags (monitor_run False [(False, Fin 1)])
      ((main_start 1)\<lparr>dynamic_target := Some 5\<rparr>)) = Some s' \<and> length (active (pool_of s')) = 5"
proof (rule critical_memory_not_throttled)
  have crit: "critical_threshold = Fin (fl (95 / 100))"
    unfolding critical_threshold_def by (rule fl_below_overflow [of _ 1]) simp_all
  have "fl (95 / 100) \<le> fl 1" by (rule fl_mono) simp
  moreover have "fl 1 = 1" using fl_nat [of 1] by simp
  ultimately have "f_le critical_threshold (Fin 1)"
    unfolding crit f_le_def f_lt.simps f_eq.simps by linarith
  then show "list_all (\<lambda>(_, u). f_le critical_threshold u) [(False, Fin 1)]" by simp
qed (simp_all add: main_start_def ramp_down_def)

end
