(* ===== verification/Generators.thy ===== *)
theory Generators
  imports Text
begin

text \<open>
  The generators of test data (\<open>src/bridge/utils.rs\<close>), the message digests of
  \<open>src/bridge/crypto.rs\<close> and the encoding functions of \<open>src/bridge/encoding.rs\<close>. The random
  source is a state \<open>'g\<close> with \<open>draw g lo hi\<close> (\<open>gen_range(lo..=hi)\<close>) and \<open>alnum g\<close> (one character of
  the \<open>Alphanumeric\<close> distribution); hash functions and base64 are arguments.
\<close>

section \<open>Random values\<close>

type_synonym 'g draw = "'g \<Rightarrow> int \<Rightarrow> int \<Rightarrow> int \<times> 'g"

definition draw_laws :: "'g draw \<Rightarrow> bool" where
  "draw_laws draw \<longleftrightarrow> (\<forall>g lo hi. lo \<le> hi \<longrightarrow> lo \<le> fst (draw g lo hi) \<and> fst (draw g lo hi) \<le> hi)"

definition random_int :: "'g draw \<Rightarrow> int \<Rightarrow> int \<Rightarrow> 'g \<Rightarrow> int \<times> 'g" where
  "random_int draw lo hi g = (if lo \<ge> hi then (lo, g) else draw g lo hi)"

fun random_string :: "('g \<Rightarrow> char \<times> 'g) \<Rightarrow> nat \<Rightarrow> 'g \<Rightarrow> string \<times> 'g" where
  "random_string alnum 0 g = ([], g)"
| "random_string alnum (Suc n) g = (let (c, g) = alnum g; (s, g) = random_string alnum n g in (c # s, g))"

text \<open>An element of a list with its index drawn; \<open>random_item\<close> of an empty array is none.\<close>

definition pick :: "'g draw \<Rightarrow> 'a list \<Rightarrow> 'g \<Rightarrow> 'a \<times> 'g" where
  "pick draw xs g = (let (i, g) = draw g 0 (int (length xs) - 1) in (xs ! nat i, g))"

definition random_item :: "'g draw \<Rightarrow> 'a list \<Rightarrow> 'g \<Rightarrow> 'a option \<times> 'g" where
  "random_item draw xs g = (if xs = [] then (None, g) else let (x, g) = pick draw xs g in (Some x, g))"

definition random_email :: "'g draw \<Rightarrow> ('g \<Rightarrow> char \<times> 'g) \<Rightarrow> 'g \<Rightarrow> string \<times> 'g" where
  "random_email draw alnum g = (let (user, g) = random_string alnum 8 g;
       (domain, g) = pick draw [''test.com'', ''example.com'', ''mail.test'', ''localhost.local''] g
     in (to_lower user @ ''@'' @ domain, g))"

definition fmt_int :: "nat \<Rightarrow> int \<Rightarrow> string" where
  "fmt_int w n = (if n < 0 then ''-'' @ pad_nat (w - 1) (nat (- n)) else pad_nat w (nat n))"

definition random_phone :: "'g draw \<Rightarrow> 'g \<Rightarrow> string \<times> 'g" where
  "random_phone draw g = (let (a, g) = draw g 200 998; (b, g) = draw g 200 998; (c, g) = draw g 1000 9998
     in (''+1-'' @ fmt_int 3 a @ ''-'' @ fmt_int 3 b @ ''-'' @ fmt_int 4 c, g))"

record person =
  pn_first :: string
  pn_last :: string
  pn_full :: string

definition first_names :: "string list" where
  "first_names = [''James'', ''Mary'', ''John'', ''Patricia'', ''Robert'', ''Jennifer'', ''Michael'', ''Linda'',
     ''William'', ''Elizabeth'', ''David'', ''Susan'', ''Richard'', ''Jessica'', ''Joseph'', ''Sarah'']"

definition last_names :: "string list" where
  "last_names = [''Smith'', ''Johnson'', ''Williams'', ''Brown'', ''Jones'', ''Garcia'', ''Miller'', ''Davis'',
     ''Rodriguez'', ''Martinez'', ''Hernandez'', ''Lopez'', ''Gonzalez'', ''Wilson'', ''Anderson'', ''Thomas'']"

definition random_name :: "'g draw \<Rightarrow> 'g \<Rightarrow> person \<times> 'g" where
  "random_name draw g = (let (f, g) = pick draw first_names g; (l, g) = pick draw last_names g
     in (\<lparr>pn_first = f, pn_last = l, pn_full = f @ '' '' @ l\<rparr>, g))"

record address =
  ad_street :: string
  ad_city :: string
  ad_state :: string
  ad_zip :: string
  ad_full :: string

definition street_names :: "string list" where
  "street_names = [''Main'', ''Oak'', ''Maple'', ''Cedar'', ''Elm'', ''Pine'', ''Washington'', ''Lake'', ''Hill'',
     ''Park'', ''Walnut'', ''Sunset'', ''River'', ''Spring'', ''Church'']"

definition street_types :: "string list" where
  "street_types = [''St'', ''Ave'', ''Blvd'', ''Dr'', ''Ln'', ''Rd'', ''Way'', ''Ct'']"

definition cities :: "string list" where
  "cities = [''Springfield'', ''Riverside'', ''Fairview'', ''Franklin'', ''Clinton'', ''Madison'', ''Georgetown'',
     ''Arlington'', ''Salem'', ''Burlington'', ''Greenville'', ''Bristol'', ''Oakland'', ''Manchester'', ''Ashland'']"

definition states :: "(string \<times> string) list" where
  "states = [(''AL'', ''Alabama''), (''AK'', ''Alaska''), (''AZ'', ''Arizona''), (''CA'', ''California''),
     (''CO'', ''Colorado''), (''CT'', ''Connecticut''), (''FL'', ''Florida''), (''GA'', ''Georgia''),
     (''IL'', ''Illinois''), (''IN'', ''Indiana''), (''MA'', ''Massachusetts''), (''MI'', ''Michigan''),
     (''MN'', ''Minnesota''), (''NY'', ''New York''), (''OH'', ''Ohio''), (''OR'', ''Oregon''),
     (''PA'', ''Pennsylvania''), (''TX'', ''Texas''), (''VA'', ''Virginia''), (''WA'', ''Washington'')]"

definition random_address :: "'g draw \<Rightarrow> 'g \<Rightarrow> address \<times> 'g" where
  "random_address draw g = (let (num, g) = draw g 100 9998; (sn, g) = pick draw street_names g;
       (st, g) = pick draw street_types g; (city, g) = pick draw cities g; (state, g) = pick draw states g;
       (z, g) = draw g 10000 99998; zip = fmt_int 5 z; street = fmt_int 0 num @ '' '' @ sn @ '' '' @ st
     in (\<lparr>ad_street = street, ad_city = city, ad_state = fst state, ad_zip = zip,
          ad_full = street @ '', '' @ city @ '', '' @ fst state @ '' '' @ zip\<rparr>, g))"

definition max_day :: "int \<Rightarrow> int \<Rightarrow> int" where
  "max_day year month =
     (if month = 2 then (if year mod 4 = 0 \<and> (year mod 100 \<noteq> 0 \<or> year mod 400 = 0) then 29 else 28)
      else if month \<in> {4, 6, 9, 11} then 30 else 31)"

text \<open>None: \<open>gen_range\<close> panics on an empty range of years.\<close>

definition random_date :: "'g draw \<Rightarrow> int \<Rightarrow> int \<Rightarrow> 'g \<Rightarrow> (string \<times> 'g) option" where
  "random_date draw start_year end_year g = (if end_year < start_year then None else
     (let (year, g) = draw g start_year end_year; (month, g) = draw g 1 12; (day, g) = draw g 1 (max_day year month)
      in Some (fmt_int 4 year @ ''-'' @ fmt_int 2 month @ ''-'' @ fmt_int 2 day, g)))"

section \<open>Sequential ids\<close>

text \<open>\<open>worker_id * 1_000_000_000 + counter\<close> on \<open>u64\<close>, with one counter for the process.\<close>

definition sequential_id :: "nat \<Rightarrow> nat \<Rightarrow> nat \<times> nat" where
  "sequential_id worker_id c = ((worker_id * 1000000000 mod u64_size + c) mod u64_size, (c + 1) mod u64_size)"

fun sequential_ids :: "nat \<Rightarrow> nat list \<Rightarrow> nat list" where
  "sequential_ids c [] = []"
| "sequential_ids c (w # ws) = (let (i, c) = sequential_id w c in i # sequential_ids c ws)"

section \<open>Digests and encodings\<close>

type_synonym byte = "8 word"

definition hex_digit :: "nat \<Rightarrow> char" where
  "hex_digit n = (if n < 10 then char_of (48 + n) else char_of (87 + n))"

definition hex_byte :: "byte \<Rightarrow> string" where
  "hex_byte b = [hex_digit (unat b div 16), hex_digit (unat b mod 16)]"

definition to_hex :: "byte list \<Rightarrow> string" where
  "to_hex bs = concat (map hex_byte bs)"

text \<open>\<open>buf[..n].copy_from_slice(src)\<close> with \<open>n\<close> the length of \<open>src\<close>.\<close>

definition copy_front :: "byte list \<Rightarrow> byte list \<Rightarrow> byte list" where
  "copy_front buf src = src @ drop (length src) buf"

definition hmac :: "(byte list \<Rightarrow> byte list) \<Rightarrow> byte list \<Rightarrow> byte list \<Rightarrow> string" where
  "hmac hash key data = (let key_block = replicate 64 0;
       key_block = (if length key > 64 then copy_front key_block (hash key) else copy_front key_block key);
       i_key_pad = map (\<lambda>b. xor b 0x36) key_block; o_key_pad = map (\<lambda>b. xor b 0x5c) key_block
     in to_hex (hash (o_key_pad @ hash (i_key_pad @ data))))"

record digests =
  md5 :: "byte list \<Rightarrow> byte list"
  sha1 :: "byte list \<Rightarrow> byte list"
  sha256 :: "byte list \<Rightarrow> byte list"

definition bytes_of :: "string \<Rightarrow> byte list" where
  "bytes_of s = concat (map (\<lambda>c. if code c < 128 then [of_nat (code c)]
     else [of_nat (192 + code c div 64), of_nat (128 + code c mod 64)]) s)"

definition crypto_md5 :: "digests \<Rightarrow> string \<Rightarrow> string" where
  "crypto_md5 D data = to_hex (md5 D (bytes_of data))"

definition crypto_sha1 :: "digests \<Rightarrow> string \<Rightarrow> string" where
  "crypto_sha1 D data = to_hex (sha1 D (bytes_of data))"

definition crypto_sha256 :: "digests \<Rightarrow> string \<Rightarrow> string" where
  "crypto_sha256 D data = to_hex (sha256 D (bytes_of data))"

definition hmac_md5 :: "digests \<Rightarrow> byte list \<Rightarrow> byte list \<Rightarrow> string" where
  "hmac_md5 D = hmac (md5 D)"

definition hmac_sha1 :: "digests \<Rightarrow> byte list \<Rightarrow> byte list \<Rightarrow> string" where
  "hmac_sha1 D = hmac (sha1 D)"

definition hmac_sha256 :: "digests \<Rightarrow> byte list \<Rightarrow> byte list \<Rightarrow> string" where
  "hmac_sha256 D = hmac (sha256 D)"

definition crypto_hmac :: "digests \<Rightarrow> string \<Rightarrow> string \<Rightarrow> string \<Rightarrow> string + string" where
  "crypto_hmac D algorithm key data =
     (if algorithm = ''md5'' then Inr (hmac_md5 D (bytes_of key) (bytes_of data))
      else if algorithm = ''sha1'' then Inr (hmac_sha1 D (bytes_of key) (bytes_of data))
      else if algorithm = ''sha256'' then Inr (hmac_sha256 D (bytes_of key) (bytes_of data))
      else Inl ''Unsupported HMAC algorithm (supported: md5, sha1, sha256)'')"

definition b64encode :: "(byte list \<Rightarrow> string) \<Rightarrow> string \<Rightarrow> string" where
  "b64encode encode data = encode (bytes_of data)"

definition b64decode :: "(string \<Rightarrow> byte list option) \<Rightarrow> (byte list \<Rightarrow> string option) \<Rightarrow> string \<Rightarrow> string + string" where
  "b64decode decode from_utf8 data = (case decode data of None \<Rightarrow> Inl ''Base64 decode failed''
     | Some bs \<Rightarrow> (case from_utf8 bs of None \<Rightarrow> Inl ''Invalid UTF-8 after decode'' | Some s \<Rightarrow> Inr s))"

section \<open>Properties\<close>

text \<open>The calendar, written independently.\<close>

definition leap_year :: "int \<Rightarrow> bool" where
  "leap_year y \<longleftrightarrow> (4 dvd y \<and> \<not> 100 dvd y) \<or> 400 dvd y"

definition month_lengths :: "int \<Rightarrow> int list" where
  "month_lengths y = [31, if leap_year y then 29 else 28, 31, 30, 31, 30, 31, 31, 30, 31, 30, 31]"

lemma max_day_calendar: "1 \<le> m \<Longrightarrow> m \<le> 12 \<Longrightarrow> max_day y m = month_lengths y ! nat (m - 1)"
proof -
  assume m: "1 \<le> m" "m \<le> 12"
  have "leap_year y \<longleftrightarrow> y mod 4 = 0 \<and> (y mod 100 \<noteq> 0 \<or> y mod 400 = 0)"
    unfolding leap_year_def by presburger
  moreover from m have "m \<in> {1..12}" by simp
  then have "m \<in> {1, 2, 3, 4, 5, 6, 7, 8, 9, 10, 11, 12}" by (simp add: atLeastAtMost_def) presburger
  ultimately show ?thesis
    by (auto simp: max_day_def month_lengths_def)
qed

text \<open>Random dates exist: \<open>randomDate(a, b)\<close> gives a date of the Gregorian calendar in a year from
  \<open>a\<close> to \<open>b\<close>, and fails exactly when \<open>b\<close> is before \<open>a\<close>.\<close>

theorem random_date_valid:
  assumes "draw_laws draw"
  shows "case random_date draw a b g of None \<Rightarrow> b < a
    | Some (s, _) \<Rightarrow> \<exists>y m d. a \<le> y \<and> y \<le> b \<and> 1 \<le> m \<and> m \<le> 12 \<and> 1 \<le> d \<and> d \<le> month_lengths y ! nat (m - 1)
        \<and> s = fmt_int 4 y @ ''-'' @ fmt_int 2 m @ ''-'' @ fmt_int 2 d"
proof -
  have drawn: "lo \<le> fst (draw g lo hi)" "fst (draw g lo hi) \<le> hi" if "lo \<le> hi" for g lo hi
    using assms that unfolding draw_laws_def by blast+
  show ?thesis
  proof (cases "b < a")
    case False
    obtain y g1 where y: "draw g a b = (y, g1)" by force
    obtain m g2 where m: "draw g1 1 12 = (m, g2)" by force
    obtain d g3 where d: "draw g2 1 (max_day y m) = (d, g3)" by force
    have "a \<le> y" "y \<le> b" "1 \<le> m" "m \<le> 12" using drawn [of a b g] drawn [of 1 12 g1] False y m by auto
    moreover have "1 \<le> d" "d \<le> max_day y m"
      using drawn [of 1 "max_day y m" g2] d by (auto simp: max_day_def)
    moreover have "random_date draw a b g = Some (fmt_int 4 y @ ''-'' @ fmt_int 2 m @ ''-'' @ fmt_int 2 d, g3)"
      using False y m d by (simp add: random_date_def)
    ultimately show ?thesis using max_day_calendar [of m y] by auto
  qed (simp add: random_date_def)
qed

text \<open>A source that always draws the upper end.\<close>

definition highest :: "unit draw" where
  "highest g lo hi = (hi, g)"

theorem random_date_valid_witness:
  "case random_date highest 2023 2024 () of None \<Rightarrow> (2024 :: int) < 2023
    | Some (s, _) \<Rightarrow> \<exists>y m d. 2023 \<le> y \<and> y \<le> 2024 \<and> 1 \<le> m \<and> m \<le> 12 \<and> 1 \<le> d \<and> d \<le> month_lengths y ! nat (m - 1)
        \<and> s = fmt_int 4 y @ ''-'' @ fmt_int 2 m @ ''-'' @ fmt_int 2 d"
  by (rule random_date_valid) (simp add: draw_laws_def highest_def)

text \<open>The years of \<open>randomDate\<close> are not ordered for it, unlike the bounds of \<open>randomInt\<close>.\<close>

lemma reversed_ranges: "random_date draw 2025 2020 g = None" "random_int draw 10 5 g = (10, g)"
  by (simp_all add: random_date_def random_int_def)

lemma sequential_ids_nth:
  assumes "c + length ws \<le> 1000000000" "list_all (\<lambda>w. w < 18446744073) ws"
  shows "length (sequential_ids c ws) = length ws
    \<and> (\<forall>i<length ws. sequential_ids c ws ! i = ws ! i * 1000000000 + (c + i))"
  using assms
proof (induction c ws rule: sequential_ids.induct)
  case (2 c w ws)
  then have "(c + 1) mod u64_size = c + 1" "w * 1000000000 mod u64_size + c < u64_size" "w * 1000000000 < u64_size" by auto
  with 2 show ?case by (auto simp: sequential_id_def nth_Cons split: nat.split)
qed simp

text \<open>Sequential ids are unique among the first \<open>10^9\<close> of a process, for worker numbers up to
  \<open>18446744072\<close>.\<close>

theorem sequential_ids_unique:
  assumes "length ws \<le> 1000000000" "list_all (\<lambda>w. w < 18446744073) ws"
  shows "distinct (sequential_ids 0 ws)"
proof -
  have ids: "length (sequential_ids 0 ws) = length ws"
    "\<And>i. i < length ws \<Longrightarrow> sequential_ids 0 ws ! i = ws ! i * 1000000000 + i"
    using sequential_ids_nth [of 0 ws] assms by simp_all
  have "i = j" if "i < length ws" "j < length ws" "ws ! i * 1000000000 + i = ws ! j * 1000000000 + j" for i j
  proof -
    from that have "(ws ! i * 1000000000 + i) mod 1000000000 = (ws ! j * 1000000000 + j) mod 1000000000" by simp
    moreover have "i < 1000000000" "j < 1000000000" using that assms(1) by simp_all
    ultimately show "i = j" by simp
  qed
  then show ?thesis by (auto simp: distinct_conv_nth ids)
qed

theorem sequential_ids_unique_witness: "distinct (sequential_ids 0 [1, 2, 1])"
  by (rule sequential_ids_unique) simp_all

lemma sequential_ids_general:
  "c + length ws \<le> u64_size \<Longrightarrow> i < length ws \<Longrightarrow>
    sequential_ids c ws ! i = (ws ! i * 1000000000 + (c + i)) mod u64_size"
proof (induction c ws arbitrary: i rule: sequential_ids.induct)
  case (2 c w ws)
  show ?case
  proof (cases i)
    case 0
    then show ?thesis by (simp add: sequential_id_def mod_add_left_eq)
  next
    case (Suc j)
    with 2 have "(c + 1) mod u64_size = c + 1" by auto
    with 2 Suc show ?thesis by (simp add: sequential_id_def)
  qed
qed simp

text \<open>After \<open>10^9\<close> ids they repeat across workers: the id a worker gets is given again to the
  worker before it \<open>10^9\<close> calls later.\<close>

theorem sequential_ids_collide:
  assumes "i + 1000000000 < length ws" "length ws \<le> u64_size" "ws ! i = Suc (ws ! (i + 1000000000))"
  shows "sequential_ids 0 ws ! i = sequential_ids 0 ws ! (i + 1000000000)"
  using sequential_ids_general [of 0 ws i] sequential_ids_general [of 0 ws "i + 1000000000"] assms
  by (simp add: algebra_simps)

theorem sequential_ids_collide_witness:
  "sequential_ids 0 (replicate 1000000000 1 @ [0]) ! 0 = sequential_ids 0 (replicate 1000000000 1 @ [0]) ! (0 + 1000000000)"
  by (rule sequential_ids_collide) (simp_all add: nth_append)

section \<open>HMAC\<close>

text \<open>The three HMAC functions are the HMAC of RFC 2104 with a block of 64 bytes: the key, hashed
  when it is longer than the block, is filled up with zero bytes.\<close>

theorem hmac_rfc2104:
  "hmac hash key data =
     (let k0 = (if length key > 64 then hash key else key); k = k0 @ replicate (64 - length k0) 0
      in to_hex (hash (map (xor 0x5c) k @ hash (map (xor 0x36) k @ data))))"
proof -
  have "copy_front (replicate 64 0) k0 = k0 @ replicate (64 - length k0) 0" for k0
    by (simp add: copy_front_def)
  moreover have "(\<lambda>b :: byte. xor b 0x5c) = xor 0x5c" "(\<lambda>b :: byte. xor b 0x36) = xor 0x36"
    by (simp_all add: fun_eq_iff xor.commute)
  ultimately show ?thesis by (simp add: hmac_def Let_def if_distrib)
qed

text \<open>A key and the key with a zero byte at its end have the same HMAC.\<close>

lemma hmac_zero_padded: "length key < 64 \<Longrightarrow> hmac hash (key @ [0]) data = hmac hash key data"
proof -
  assume "length key < 64"
  then have "64 - length key = Suc (63 - length key)" by simp
  with \<open>length key < 64\<close> show ?thesis by (simp add: hmac_rfc2104 Let_def)
qed

lemma to_hex_length: "length (to_hex bs) = 2 * length bs"
  by (induction bs) (simp_all add: to_hex_def hex_byte_def)

end
