(* ===== verification/Script.thy ===== *)
theory Script
  imports Config Metrics Paths
begin

text \<open>
  What the bridge gives a script besides protocols (\<open>src/bridge/mod.rs\<close>, \<open>group.rs\<close>,
  \<open>check.rs\<close>, \<open>metrics.rs\<close>, \<open>test.rs\<close>): the state of the worker's thread, logging with
  its level and filter, the tables of the console, sleeping, segments, assertions and custom
  metrics. A JavaScript value is a \<open>js\<close>; the script is a tree of the bridge calls it makes.
\<close>

section \<open>Values and the worker's thread\<close>

datatype js = JsUndefined | JsNull | JsBool bool | JsInt int | JsFloat f64 | JsString string
  | JsArray "js list" | JsObject "(string \<times> js) list" | JsOther

definition log_rank :: "log_level \<Rightarrow> nat" where
  "log_rank l = (case l of Debug \<Rightarrow> 0 | Info \<Rightarrow> 1 | Warn \<Rightarrow> 2 | Error \<Rightarrow> 3)"

instantiation log_level :: linorder
begin

definition less_eq_log_level :: "log_level \<Rightarrow> log_level \<Rightarrow> bool" where
  "less_eq_log_level a b = (log_rank a \<le> log_rank b)"

definition less_log_level :: "log_level \<Rightarrow> log_level \<Rightarrow> bool" where
  "less_log_level a b = (log_rank a < log_rank b)"

instance
  by standard (auto simp: less_eq_log_level_def less_log_level_def log_rank_def split: log_level.splits)

end

text \<open>The thread locals, the worker's end of the metrics channel (its receiver may be gone), and
  what is printed while the screen of the TUI is not active.\<close>

record worker_env =
  we_group :: string
  we_scenario :: "string option"
  we_level :: log_level
  we_filter :: "string option"
  we_sleep :: duration
  we_lost :: nat
  we_open :: bool
  we_sent :: "metric list"
  we_tui :: bool
  we_stdout :: "string list"

definition new_env :: worker_env where
  "new_env = \<lparr>we_group = [], we_scenario = None, we_level = Info, we_filter = None, we_sleep = 0,
     we_lost = 0, we_open = True, we_sent = [], we_tui = False, we_stdout = []\<rparr>"

text \<open>\<open>let _ = tx.send(m)\<close>, and \<open>send_metric\<close>, which counts what it cannot send.\<close>

definition send_quietly :: "metric \<Rightarrow> worker_env \<Rightarrow> worker_env" where
  "send_quietly m w = (if we_open w then w\<lparr>we_sent := we_sent w @ [m]\<rparr> else w)"

definition send_metric :: "metric \<Rightarrow> worker_env \<Rightarrow> worker_env" where
  "send_metric m w = (if we_open w then w\<lparr>we_sent := we_sent w @ [m]\<rparr> else w\<lparr>we_lost := we_lost w + 1\<rparr>)"

definition reset_dropped :: "worker_env \<Rightarrow> worker_env" where
  "reset_dropped w = w\<lparr>we_lost := 0\<rparr>"

definition println :: "string \<Rightarrow> worker_env \<Rightarrow> worker_env" where
  "println s w = w\<lparr>we_stdout := we_stdout w @ [s]\<rparr>"

definition unless_tui :: "(worker_env \<Rightarrow> worker_env) \<Rightarrow> worker_env \<Rightarrow> worker_env" where
  "unless_tui f w = (if we_tui w then w else f w)"

definition set_log_level :: "log_level \<Rightarrow> worker_env \<Rightarrow> worker_env" where
  "set_log_level l w = w\<lparr>we_level := l\<rparr>"

definition set_log_filter :: "string \<Rightarrow> worker_env \<Rightarrow> worker_env" where
  "set_log_filter f w = w\<lparr>we_filter := Some f\<rparr>"

definition set_current_scenario :: "string \<Rightarrow> worker_env \<Rightarrow> worker_env" where
  "set_current_scenario s w = w\<lparr>we_scenario := Some s\<rparr>"

definition print :: "string \<Rightarrow> worker_env \<Rightarrow> worker_env" where
  "print msg w = send_metric (Log msg) (unless_tui (println msg) w)"

section \<open>The console\<close>

definition show_int :: "int \<Rightarrow> string" where
  "show_int i = (if i < 0 then ''-'' @ show_nat (nat (- i)) else show_nat (nat i))"

definition format_value :: "js \<Rightarrow> string" where
  "format_value v = (case v of JsUndefined \<Rightarrow> ''undefined'' | JsNull \<Rightarrow> ''null'' | JsString s \<Rightarrow> s
     | JsInt n \<Rightarrow> show_int n | JsFloat x \<Rightarrow> display_f64 x | JsBool b \<Rightarrow> if b then ''true'' else ''false''
     | JsObject _ \<Rightarrow> ''[object]'' | JsArray _ \<Rightarrow> ''[object]'' | JsOther \<Rightarrow> ''[value]'')"

text \<open>A filter \<open>scenario=NAME\<close> drops every line of a worker of another scenario, or of none; any
  other filter drops nothing.\<close>

definition filtered :: "string option \<Rightarrow> string option \<Rightarrow> bool" where
  "filtered filt scenario = (case filt of None \<Rightarrow> False
     | Some f \<Rightarrow> (case strip_prefix ''scenario='' f of None \<Rightarrow> False
         | Some name \<Rightarrow> (case scenario of None \<Rightarrow> True | Some cur \<Rightarrow> cur \<noteq> name)))"

definition level_prefix :: "log_level \<Rightarrow> string" where
  "level_prefix l = (case l of Debug \<Rightarrow> ''[DEBUG]'' | Info \<Rightarrow> [] | Warn \<Rightarrow> ''[WARN]'' | Error \<Rightarrow> ''[ERROR]'')"

definition log_line :: "log_level \<Rightarrow> js list \<Rightarrow> string" where
  "log_line l args = (let msg = join_str '' '' (map format_value args) in
     if level_prefix l = [] then msg else level_prefix l @ '' '' @ msg)"

definition log_with_level :: "log_level \<Rightarrow> js list \<Rightarrow> worker_env \<Rightarrow> worker_env" where
  "log_with_level l args w = (if we_level w \<le> l \<and> \<not> filtered (we_filter w) (we_scenario w)
     then send_metric (Log (log_line l args)) (unless_tui (println (log_line l args)) w) else w)"

text \<open>Tables: the columns are the keys of the first object; widths are byte lengths, padding counts
  characters.\<close>

definition as_object :: "js \<Rightarrow> (string \<times> js) list option" where
  "as_object v = (case v of JsObject fs \<Rightarrow> Some fs
     | JsArray xs \<Rightarrow> Some (zip (map show_nat [0..<length xs]) xs) | _ \<Rightarrow> None)"

definition cell :: "(string \<times> js) list \<Rightarrow> string \<Rightarrow> string" where
  "cell obj h = format_value (case map_of obj h of None \<Rightarrow> JsUndefined | Some v \<Rightarrow> v)"

fun table_rows :: "string list \<Rightarrow> js list \<Rightarrow> string list \<times> string list list" where
  "table_rows hs [] = (hs, [])"
| "table_rows hs (item # rest) = (case as_object item of
     Some obj \<Rightarrow> (let hs = (if hs = [] then map fst obj else hs); (hs', rows) = table_rows hs rest
        in (hs', map (cell obj) hs # rows))
   | None \<Rightarrow> (let (hs', rows) = table_rows hs rest in (hs', [format_value item] # rows)))"

definition widen :: "nat list \<Rightarrow> string list \<Rightarrow> nat list" where
  "widen widths row = map (\<lambda>(i, n). if i < length row then max n (utf8_len (row ! i)) else n)
     (zip [0..<length widths] widths)"

definition column_widths :: "string list \<Rightarrow> string list list \<Rightarrow> nat list" where
  "column_widths hs rows = foldl widen (map utf8_len hs) rows"

definition pad_right :: "nat \<Rightarrow> string \<Rightarrow> string" where
  "pad_right n s = s @ replicate (n - length s) (CHR '' '')"

definition row_line :: "nat list \<Rightarrow> string list \<Rightarrow> string" where
  "row_line widths row = join_str '' | ''
     (map (\<lambda>(i, c). pad_right (if i < length widths then widths ! i else 0) c) (zip [0..<length row] row))"

definition table_lines :: "string list \<Rightarrow> string list list \<Rightarrow> string list" where
  "table_lines hs rows = (let widths = column_widths hs rows in
     (if hs = [] then [] else [row_line widths hs, join_str ''-+-'' (map (\<lambda>n. replicate n (CHR ''-'')) widths)])
     @ map (row_line widths) rows)"

definition format_table :: "js list \<Rightarrow> string" where
  "format_table args = (case args of [] \<Rightarrow> [] | v # _ \<Rightarrow> (case v of
     JsArray items \<Rightarrow> (let (hs, rows) = table_rows [] items in
        if hs = [] \<and> rows = [] then format_value v
        else concat (map (\<lambda>l. l @ [CHR 0x0A]) (table_lines hs rows)))
   | _ \<Rightarrow> format_value v))"

text \<open>\<open>console.table\<close> looks at the level, not at the filter.\<close>

definition console_table :: "js list \<Rightarrow> worker_env \<Rightarrow> worker_env" where
  "console_table args w = (if we_level w \<le> Info
     then send_metric (Log (format_table args)) (unless_tui (println (format_table args)) w) else w)"

datatype console_call = ConsoleLog | ConsoleInfo | ConsoleWarn | ConsoleError | ConsoleDebug | ConsoleTable

definition console :: "console_call \<Rightarrow> js list \<Rightarrow> worker_env \<Rightarrow> worker_env" where
  "console f args = (case f of ConsoleLog \<Rightarrow> log_with_level Info args | ConsoleInfo \<Rightarrow> log_with_level Info args
     | ConsoleWarn \<Rightarrow> log_with_level Warn args | ConsoleError \<Rightarrow> log_with_level Error args
     | ConsoleDebug \<Rightarrow> log_with_level Debug args | ConsoleTable \<Rightarrow> console_table args)"

text \<open>The environment a script sees.\<close>

definition exposed :: "bool \<Rightarrow> (string \<times> string) list \<Rightarrow> (string \<times> string) list" where
  "exposed passthrough vars = filter (\<lambda>(k, _). passthrough \<or> starts_with ''FUSILLADE_'' k \<or> starts_with ''K6_'' k) vars"

section \<open>Segments, sleeping, tests\<close>

definition group_prefix :: "string \<Rightarrow> string" where
  "group_prefix g = (if g = [] then [] else g @ ''::'')"

definition enter_group :: "string \<Rightarrow> string \<Rightarrow> string" where
  "enter_group g name = (if g = [] then name else g @ ''::'' @ name)"

text \<open>The name of a metric of a request: the segments it is made in, then its tag or its URL.\<close>

definition metric_name :: "string \<Rightarrow> string option \<Rightarrow> string \<Rightarrow> string" where
  "metric_name g name_tag url = group_prefix g @ (case name_tag of None \<Rightarrow> url | Some n \<Rightarrow> n)"

text \<open>How a call from the script ends: it returns, it throws a JavaScript error, or it panics and
  the panic goes up through the callers.\<close>

datatype completion = Completed | Thrown string | Unwound

definition sleep_for :: "f64 \<Rightarrow> worker_env \<Rightarrow> worker_env \<times> completion" where
  "sleep_for x w = (case from_secs_f64 x of Panics \<Rightarrow> (w, Unwound)
     | Returns d \<Rightarrow> (w\<lparr>we_sleep := we_sleep w + d\<rparr>, Completed))"

text \<open>\<open>sleepRandom\<close>; \<open>r\<close> is the number drawn from \<open>[0, 1)\<close>.\<close>

definition sleep_random :: "f64 \<Rightarrow> f64 \<Rightarrow> f64 \<Rightarrow> worker_env \<Rightarrow> worker_env \<times> completion" where
  "sleep_random r lo hi w = sleep_for (if f_le hi lo then lo else f_add lo (f_mul r (f_sub hi lo))) w"

definition reset_sleep_tracker :: "worker_env \<Rightarrow> worker_env" where
  "reset_sleep_tracker w = w\<lparr>we_sleep := 0\<rparr>"

text \<open>What a script does, as the tree of the bridge calls it makes. \<open>Emit f\<close> is a call that sends
  the metrics \<open>f g\<close> in the segment \<open>g\<close>. The lines \<open>describe\<close> and \<open>test\<close> print are left out.\<close>

datatype script =
    Emit "string \<Rightarrow> metric list"
  | Say string
  | Tell console_call "js list"
  | Sleep f64
  | Throw string
  | Segment string "script list"
  | Describe string "script list"
  | TestCase string "script list"
  | TryCatch "script list"

fun run_op :: "script \<Rightarrow> worker_env \<Rightarrow> worker_env \<times> completion"
  and run_ops :: "script list \<Rightarrow> worker_env \<Rightarrow> worker_env \<times> completion" where
  "run_op (Emit f) w = (fold send_quietly (f (we_group w)) w, Completed)"
| "run_op (Say msg) w = (print msg w, Completed)"
| "run_op (Tell c args) w = (console c args w, Completed)"
| "run_op (Sleep x) w = sleep_for x w"
| "run_op (Throw e) w = (w, Thrown e)"
| "run_op (Segment name body) w =
     (case run_ops body (w\<lparr>we_group := enter_group (we_group w) name\<rparr>) of
        (w1, Unwound) \<Rightarrow> (w1, Unwound)
      | (w1, c) \<Rightarrow> (w1\<lparr>we_group := we_group w\<rparr>, c))"
| "run_op (Describe name body) w = run_ops body w"
| "run_op (TestCase name body) w = (case run_ops body w of
       (w1, Unwound) \<Rightarrow> (w1, Unwound) | (w1, c) \<Rightarrow> (w1, Completed))"
| "run_op (TryCatch body) w = (case run_ops body w of
       (w1, Thrown e) \<Rightarrow> (w1, Completed) | r \<Rightarrow> r)"
| "run_ops [] w = (w, Completed)"
| "run_ops (s # ss) w = (case run_op s w of (w1, Completed) \<Rightarrow> run_ops ss w1 | r \<Rightarrow> r)"

section \<open>Assertions and custom metrics\<close>

text \<open>What the function of an assertion does with the checked value.\<close>

datatype assertion = Gives js | Fails string | NotCallable

definition judge :: "js \<Rightarrow> bool \<times> string option" where
  "judge v = (case v of JsBool b \<Rightarrow> (b, None) | JsString msg \<Rightarrow> (False, Some msg)
     | _ \<Rightarrow> (v \<noteq> JsNull \<and> v \<noteq> JsUndefined, None))"

fun check_all :: "(string \<times> assertion) list \<Rightarrow> worker_env \<Rightarrow> worker_env \<times> completion" where
  "check_all [] w = (w, Completed)"
| "check_all ((key, a) # rest) w = (case a of
     NotCallable \<Rightarrow> (w, Thrown ''not a function'')
   | Gives v \<Rightarrow> check_all rest (send_quietly (Check key (fst (judge v)) (snd (judge v))) w)
   | Fails e \<Rightarrow> check_all rest (send_quietly (Check key False (Some (''JS error: '' @ e))) w))"

text \<open>The file a failed assertion of a browser test is captured in.\<close>

definition screenshot_base :: "string \<Rightarrow> string \<Rightarrow> string \<Rightarrow> string" where
  "screenshot_base check_name failure_type timestamp =
     ''failure_'' @ map (\<lambda>c. if \<not> is_alnum c \<and> c \<noteq> CHR ''.'' \<and> c \<noteq> CHR ''-'' then CHR ''_'' else c) check_name
     @ ''_'' @ failure_type @ ''_'' @ timestamp"

definition screenshot_file :: "string \<Rightarrow> string \<Rightarrow> string \<Rightarrow> string" where
  "screenshot_file check_name failure_type timestamp =
     ''screenshots/'' @ screenshot_base check_name failure_type timestamp @ ''.png''"

definition histogram_add :: "string \<Rightarrow> f64 \<Rightarrow> tag_map option \<Rightarrow> worker_env \<Rightarrow> worker_env" where
  "histogram_add name v tags = send_quietly (Histogram name v (case tags of None \<Rightarrow> [] | Some t \<Rightarrow> t))"

definition counter_add :: "string \<Rightarrow> f64 \<Rightarrow> tag_map option \<Rightarrow> worker_env \<Rightarrow> worker_env" where
  "counter_add name v tags = send_quietly (Counter name v (case tags of None \<Rightarrow> [] | Some t \<Rightarrow> t))"

definition gauge_set :: "string \<Rightarrow> f64 \<Rightarrow> tag_map option \<Rightarrow> worker_env \<Rightarrow> worker_env" where
  "gauge_set name v tags = send_quietly (Gauge name v (case tags of None \<Rightarrow> [] | Some t \<Rightarrow> t))"

definition rate_add :: "string \<Rightarrow> bool \<Rightarrow> tag_map option \<Rightarrow> worker_env \<Rightarrow> worker_env" where
  "rate_add name b tags = send_quietly (Rate name b (case tags of None \<Rightarrow> [] | Some t \<Rightarrow> t))"

text \<open>\<open>expect(v).toBeTruthy()\<close>, \<open>toBe\<close> and \<open>toEqual\<close>; strict equality and
  \<open>JSON.stringify\<close> are the engine's.\<close>

definition truthy :: "js \<Rightarrow> bool" where
  "truthy v = (case v of JsNull \<Rightarrow> False | JsUndefined \<Rightarrow> False | JsBool b \<Rightarrow> b | JsInt n \<Rightarrow> n \<noteq> 0
     | JsFloat x \<Rightarrow> \<not> f_eq x (Fin 0) \<and> x \<noteq> NaN | JsString s \<Rightarrow> s \<noteq> [] | _ \<Rightarrow> True)"

definition to_be_truthy :: "js \<Rightarrow> string option" where
  "to_be_truthy v = (if truthy v then None else Some ''AssertionError: Expected value to be truthy'')"

definition to_be :: "(js \<Rightarrow> js \<Rightarrow> bool) \<Rightarrow> js \<Rightarrow> js \<Rightarrow> string option" where
  "to_be strict_eq actual expected = (if strict_eq actual expected then None
     else Some ''AssertionError: Expected values to be strictly equal'')"

text \<open>\<open>stringify\<close> gives no string for \<open>undefined\<close>, and the conversion of its result throws.\<close>

definition to_equal :: "(js \<Rightarrow> string option) \<Rightarrow> js \<Rightarrow> js \<Rightarrow> string option" where
  "to_equal stringify actual expected = (case stringify actual of None \<Rightarrow> Some ''conversion error''
     | Some s1 \<Rightarrow> (case stringify expected of None \<Rightarrow> Some ''conversion error''
         | Some s2 \<Rightarrow> if s1 = s2 then None
             else Some (''AssertionError: Expected '' @ s1 @ '' to equal '' @ s2)))"

section \<open>Segments are lexically scoped\<close>

text \<open>The same script with the enclosing segments as an argument instead of a mutable group: the
  metrics it sends and how it ends.\<close>

fun scoped :: "worker_env \<Rightarrow> string list \<Rightarrow> script \<Rightarrow> metric list \<times> completion"
  and scoped_list :: "worker_env \<Rightarrow> string list \<Rightarrow> script list \<Rightarrow> metric list \<times> completion" where
  "scoped w path (Emit f) = (f (join_str ''::'' path), Completed)"
| "scoped w path (Say msg) = ([Log msg], Completed)"
| "scoped w path (Tell c args) = (we_sent (console c args (w\<lparr>we_sent := []\<rparr>)), Completed)"
| "scoped w path (Sleep x) = ([], if from_secs_f64 x = Panics then Unwound else Completed)"
| "scoped w path (Throw e) = ([], Thrown e)"
| "scoped w path (Segment name body) = scoped_list w (path @ [name]) body"
| "scoped w path (Describe name body) = scoped_list w path body"
| "scoped w path (TestCase name body) = (case scoped_list w path body of
     (ms, Unwound) \<Rightarrow> (ms, Unwound) | (ms, c) \<Rightarrow> (ms, Completed))"
| "scoped w path (TryCatch body) = (case scoped_list w path body of
     (ms, Thrown e) \<Rightarrow> (ms, Completed) | r \<Rightarrow> r)"
| "scoped_list w path [] = ([], Completed)"
| "scoped_list w path (s # ss) = (case scoped w path s of
     (ms, Completed) \<Rightarrow> (let (ms', c) = scoped_list w path ss in (ms @ ms', c)) | r \<Rightarrow> r)"

text \<open>Every segment has a name.\<close>

fun named :: "script \<Rightarrow> bool" where
  "named (Segment name body) = (name \<noteq> [] \<and> list_all named body)"
| "named (Describe name body) = list_all named body"
| "named (TestCase name body) = list_all named body"
| "named (TryCatch body) = list_all named body"
| "named s = True"

text \<open>What a run leaves as it was.\<close>

definition same_thread :: "worker_env \<Rightarrow> worker_env \<Rightarrow> bool" where
  "same_thread w v \<longleftrightarrow> we_open w \<and> we_open v \<and> we_level v = we_level w \<and> we_filter v = we_filter w
     \<and> we_scenario v = we_scenario w"

lemma send_all_open: "we_open w \<Longrightarrow> fold send_quietly ms w = w\<lparr>we_sent := we_sent w @ ms\<rparr>"
  by (induction ms arbitrary: w) (simp_all add: send_quietly_def)

lemma screen_only [simp]:
  "we_sent (unless_tui (println s) w) = we_sent w" "we_open (unless_tui (println s) w) = we_open w"
  "we_level (unless_tui (println s) w) = we_level w" "we_filter (unless_tui (println s) w) = we_filter w"
  "we_scenario (unless_tui (println s) w) = we_scenario w" "we_group (unless_tui (println s) w) = we_group w"
  by (simp_all add: unless_tui_def println_def)

lemma send_metric_open: "we_open w \<Longrightarrow> send_metric m w = w\<lparr>we_sent := we_sent w @ [m]\<rparr>"
  by (simp add: send_metric_def)

lemma log_open:
  assumes "same_thread w v"
  shows "we_sent (log_with_level l args v) = we_sent v @ we_sent (log_with_level l args (w\<lparr>we_sent := []\<rparr>))
    \<and> same_thread w (log_with_level l args v) \<and> we_group (log_with_level l args v) = we_group v"
  using assms by (simp add: log_with_level_def send_metric_open same_thread_def)

lemma console_open:
  assumes "same_thread w v"
  shows "we_sent (console c args v) = we_sent v @ we_sent (console c args (w\<lparr>we_sent := []\<rparr>))
    \<and> same_thread w (console c args v) \<and> we_group (console c args v) = we_group v"
proof (cases "c = ConsoleTable")
  case True
  with assms show ?thesis by (simp add: console_def console_table_def send_metric_open same_thread_def)
next
  case False
  with log_open [OF assms] show ?thesis by (cases c) (simp_all add: console_def)
qed

lemma print_open:
  "same_thread w v \<Longrightarrow> we_sent (print msg v) = we_sent v @ [Log msg] \<and> same_thread w (print msg v) \<and> we_group (print msg v) = we_group v"
  by (simp add: print_def send_metric_open same_thread_def)

lemma join_segment:
  "list_all (\<lambda>n. n \<noteq> []) path \<Longrightarrow> enter_group (join_str ''::'' path) name = join_str ''::'' (path @ [name])"
  by (cases "path = []") (simp_all add: enter_group_def join_snoc join_nonempty)

lemma run_scoped:
  "named s \<Longrightarrow> same_thread w v \<Longrightarrow> list_all (\<lambda>n. n \<noteq> []) path \<Longrightarrow> we_group v = join_str ''::'' path \<Longrightarrow>
    run_op s v = (v', c) \<Longrightarrow>
    \<exists>ms. scoped w path s = (ms, c) \<and> we_sent v' = we_sent v @ ms
    \<and> same_thread w v' \<and> (c \<noteq> Unwound \<longrightarrow> we_group v' = we_group v)"
  and run_list_scoped:
  "list_all named ss \<Longrightarrow> same_thread w v \<Longrightarrow> list_all (\<lambda>n. n \<noteq> []) path \<Longrightarrow> we_group v = join_str ''::'' path \<Longrightarrow>
    run_ops ss v = (v', c) \<Longrightarrow>
    \<exists>ms. scoped_list w path ss = (ms, c) \<and> we_sent v' = we_sent v @ ms
    \<and> same_thread w v' \<and> (c \<noteq> Unwound \<longrightarrow> we_group v' = we_group v)"
proof (induction s v and ss v arbitrary: path v' c and path v' c rule: run_op_run_ops.induct)
  case (1 f v)
  then show ?case by (auto simp: send_all_open same_thread_def)
next
  case (2 msg v)
  then show ?case using print_open [of w v msg] by auto
next
  case (3 d args v)
  then show ?case using console_open [of w v d args] by auto
next
  case (4 x v)
  then show ?case by (auto simp: sleep_for_def same_thread_def split: outcome.splits)
next
  case (5 e v)
  then show ?case by auto
next
  case (6 name body v)
  let ?v = "v\<lparr>we_group := enter_group (we_group v) name\<rparr>"
  obtain v1 c1 where r: "run_ops body ?v = (v1, c1)" by force
  have "same_thread w ?v" "we_group ?v = join_str ''::'' (path @ [name])"
    using 6(3-5) by (simp_all add: same_thread_def join_segment)
  then obtain ms where "scoped_list w (path @ [name]) body = (ms, c1)" "we_sent v1 = we_sent v @ ms" "same_thread w v1"
    using 6(1) [of "path @ [name]" v1 c1] 6(2,4) r by auto
  with 6(6) r show ?case by (cases c1) (auto simp: same_thread_def)
next
  case (7 name body v)
  then show ?case by auto
next
  case (8 name body v)
  obtain v1 c1 where r: "run_ops body v = (v1, c1)" by force
  with 8(1) [of path v1 c1] 8(2-5) obtain ms where "scoped_list w path body = (ms, c1)"
      "we_sent v1 = we_sent v @ ms" "same_thread w v1" "c1 \<noteq> Unwound \<longrightarrow> we_group v1 = we_group v" by auto
  with 8(6) r show ?case by (cases c1) auto
next
  case (9 body v)
  obtain v1 c1 where r: "run_ops body v = (v1, c1)" by force
  with 9(1) [of path v1 c1] 9(2-5) obtain ms where "scoped_list w path body = (ms, c1)"
      "we_sent v1 = we_sent v @ ms" "same_thread w v1" "c1 \<noteq> Unwound \<longrightarrow> we_group v1 = we_group v" by auto
  with 9(6) r show ?case by (cases c1) auto
next
  case (10 v)
  then show ?case by auto
next
  case (11 s ss v)
  obtain v1 c1 where r: "run_op s v = (v1, c1)" by force
  from 11(1) [OF _ 11(4-6) r] 11(3) obtain ms where first: "scoped w path s = (ms, c1)"
      "we_sent v1 = we_sent v @ ms" "same_thread w v1" "c1 \<noteq> Unwound \<longrightarrow> we_group v1 = we_group v" by auto
  show ?case
  proof (cases "c1 = Completed")
    case True
    then obtain ms' where "scoped_list w path ss = (ms', c)" "we_sent v' = we_sent v1 @ ms'" "same_thread w v'"
        "c \<noteq> Unwound \<longrightarrow> we_group v' = we_group v1"
      using 11(2) [OF r [symmetric]] 11(3,5-7) r first by auto
    with first True show ?thesis by simp
  next
    case False
    with 11(7) r first show ?thesis by (cases c1) auto
  qed
qed


definition checkout :: "script list" where
  "checkout = [Segment ''shop'' [TryCatch [Segment ''pay'' [Emit (\<lambda>g. [Log (metric_name g None ''/pay'')]), Throw ''declined'']],
     Emit (\<lambda>g. [Log (metric_name g None ''/cart'')])]]"


text \<open>A panic leaks its segment: a negative sleep inside a segment panics, and the group of the
  thread stays the inner one for every worker that runs on the thread afterwards.\<close>

theorem panic_leaks_segment:
  assumes "q < 0"
  shows "run_op (Segment name [Sleep (Fin q)]) w = (w\<lparr>we_group := enter_group (we_group w) name\<rparr>, Unwound)"
  using assms by (simp add: sleep_for_def from_secs_f64_def)

theorem panic_leaks_segment_witness:
  "we_group (fst (run_op (Segment ''pay'' [Sleep (Fin (- 1))]) new_env)) = ''pay''"
  using panic_leaks_segment [of "- 1" "''pay''" new_env] by (simp add: new_env_def enter_group_def)

section \<open>Assertions are counted\<close>

definition assertion_metric :: "string \<times> assertion \<Rightarrow> metric" where
  "assertion_metric = (\<lambda>(key, a). case a of Gives v \<Rightarrow> Check key (fst (judge v)) (snd (judge v))
     | Fails e \<Rightarrow> Check key False (Some (''JS error: '' @ e)) | NotCallable \<Rightarrow> Check key False None)"

definition passes :: "assertion \<Rightarrow> bool" where
  "passes a = (case a of Gives v \<Rightarrow> fst (judge v) | _ \<Rightarrow> False)"

lemma check_all_open:
  "we_open w \<Longrightarrow> check_all as w =
     (w\<lparr>we_sent := we_sent w @ map assertion_metric (takeWhile (\<lambda>p. snd p \<noteq> NotCallable) as)\<rparr>,
      if \<exists>p\<in>set as. snd p = NotCallable then Thrown ''not a function'' else Completed)"
  by (induction as w rule: check_all.induct)
    (simp_all add: send_quietly_def assertion_metric_def split: assertion.split)

lemma assertions_added:
  "list_all (\<lambda>p. snd p \<noteq> NotCallable) as \<Longrightarrow>
   hm_or (0, 0) (checks (foldl (aggregator_add H) a (map assertion_metric as))) k =
     (fst (hm_or (0, 0) (checks a) k) + length (filter (\<lambda>p. fst p = k) as),
      snd (hm_or (0, 0) (checks a) k) + length (filter (\<lambda>p. fst p = k \<and> passes (snd p)) as))"
proof (induction as arbitrary: a)
  case (Cons p as)
  obtain key c where p: "p = (key, c)" by force
  with Cons.prems have "aggregator_add H a (assertion_metric p) =
      a\<lparr>checks := hm_entry key (0, 0) (bump_pair (passes c)) (checks a)\<rparr>"
    by (auto simp: assertion_metric_def passes_def split: assertion.split)
  with Cons.IH [of "a\<lparr>checks := hm_entry key (0, 0) (bump_pair (passes c)) (checks a)\<rparr>"] Cons.prems p
  show ?case by (auto simp: hmap bump_pair_def split: prod.split)
qed simp

text \<open>Assertions are counted: of one call of \<open>check\<close>, the assertions before the first value that is
  not a function reach the aggregator, each once, and count as passed exactly when they give \<open>true\<close>
  or a value that is no string, boolean, null or undefined; an assertion that throws counts as
  failed.\<close>

theorem assertions_counted:
  assumes "we_open w" "check_all as w = (w', c)"
  shows "hm_or (0, 0) (checks (foldl (aggregator_add H) (aggregator_new H) (drop (length (we_sent w)) (we_sent w')))) k =
     (let called = takeWhile (\<lambda>p. snd p \<noteq> NotCallable) as in
       (length (filter (\<lambda>p. fst p = k) called), length (filter (\<lambda>p. fst p = k \<and> passes (snd p)) called)))"
proof -
  let ?called = "takeWhile (\<lambda>p. snd p \<noteq> NotCallable) as"
  have "list_all (\<lambda>p. snd p \<noteq> NotCallable) ?called"
    by (auto simp: list_all_iff dest: set_takeWhileD)
  from assertions_added [OF this, of H "aggregator_new H" k] show ?thesis
    using assms check_all_open [OF assms(1), of as] by (auto simp: aggregator_new_def hmap Let_def)
qed

theorem assertions_counted_witness:
  "hm_or (0, 0) (checks (foldl (aggregator_add list_hist) (aggregator_new list_hist)
     (we_sent (fst (check_all [(''ok'', Gives (JsBool True)), (''ok'', Gives (JsInt 0)), (''ok'', Gives JsNull), (''no'', NotCallable)] new_env))))) ''ok''
   = (3, 2)"
  using assertions_counted [of new_env "[(''ok'', Gives (JsBool True)), (''ok'', Gives (JsInt 0)), (''ok'', Gives JsNull), (''no'', NotCallable)]"
      "fst (check_all [(''ok'', Gives (JsBool True)), (''ok'', Gives (JsInt 0)), (''ok'', Gives JsNull), (''no'', NotCallable)] new_env)"
      "snd (check_all [(''ok'', Gives (JsBool True)), (''ok'', Gives (JsInt 0)), (''ok'', Gives JsNull), (''no'', NotCallable)] new_env)"
      list_hist "''ok''"]
  by (simp add: new_env_def passes_def judge_def Let_def)

text \<open>An assertion that gives zero passes, though \<open>expect(0).toBeTruthy()\<close> fails.\<close>

lemma zero_passes: "passes (Gives (JsInt 0))" "\<not> truthy (JsInt 0)"
  by (simp_all add: passes_def judge_def truthy_def)

section \<open>Screenshots stay in their directory\<close>

lemma split_slash_part: "CHR ''/'' \<notin> set xs \<Longrightarrow> split_slash acc (xs @ CHR ''/'' # ys) = (acc @ xs) # split_slash [] ys"
  by (induction xs arbitrary: acc) auto

lemma split_slash_whole: "CHR ''/'' \<notin> set xs \<Longrightarrow> split_slash acc xs = [acc @ xs]"
  by (induction xs arbitrary: acc) auto

text \<open>A screenshot of a failed assertion is a file of the directory \<open>screenshots\<close>, whatever the
  name of the assertion.\<close>

theorem screenshot_inside:
  assumes "CHR ''/'' \<notin> set failure_type" "CHR ''/'' \<notin> set timestamp"
  shows "components (screenshot_file check_name failure_type timestamp) =
    [Normal ''screenshots'', Normal (screenshot_base check_name failure_type timestamp @ ''.png'')]"
proof -
  have "CHR ''/'' \<notin> set (screenshot_base check_name failure_type timestamp @ ''.png'')"
    using assms by (auto simp: screenshot_base_def is_alnum_def is_digit_def)
  then have "split_slash [] (screenshot_file check_name failure_type timestamp) =
      [''screenshots'', screenshot_base check_name failure_type timestamp @ ''.png'']"
    using split_slash_part [of "''screenshots''" "[]" "screenshot_base check_name failure_type timestamp @ ''.png''"]
      split_slash_whole [of "screenshot_base check_name failure_type timestamp @ ''.png''" "[]"]
    by (simp add: screenshot_file_def)
  moreover have "\<exists>t. screenshot_base check_name failure_type timestamp = CHR ''f'' # t"
    by (simp add: screenshot_base_def)
  moreover have "\<not> starts_with ''/'' (screenshot_file check_name failure_type timestamp)"
    by (simp add: starts_with_def screenshot_file_def)
  ultimately show ?thesis by (auto simp: components_def name_component_def)
qed

theorem screenshot_inside_witness:
  "components (screenshot_file ''../status is 200'' ''js_error'' ''20250101_000000'') =
    [Normal ''screenshots'', Normal ''failure_.._status_is_200_js_error_20250101_000000.png'']"
proof -
  have "CHR ''/'' \<notin> set ''js_error''" "CHR ''/'' \<notin> set ''20250101_000000''" by simp_all
  from screenshot_inside [OF this, of "''../status is 200''"] show ?thesis
    by (simp add: screenshot_base_def is_alnum_def is_digit_def)
qed

section \<open>Tables are aligned\<close>

lemma widen_length [simp]: "length (widen ws row) = length ws"
  by (simp add: widen_def)

lemma widen_nth: "i < length ws \<Longrightarrow> i < length row \<Longrightarrow> widen ws row ! i = max (ws ! i) (utf8_len (row ! i))"
  by (simp add: widen_def)

lemma widens_length [simp]: "length (foldl widen ws rows) = length ws"
  by (induction rows arbitrary: ws) simp_all

lemma widens_mono:
  "list_all (\<lambda>r. length r = length ws) rows \<Longrightarrow> i < length ws \<Longrightarrow> ws ! i \<le> foldl widen ws rows ! i"
proof (induction rows arbitrary: ws)
  case (Cons r rows)
  then have "ws ! i \<le> widen ws r ! i" by (simp add: widen_nth)
  also have "\<dots> \<le> foldl widen (widen ws r) rows ! i" using Cons by simp
  finally show ?case by simp
qed simp

lemma widens_cover:
  "list_all (\<lambda>r. length r = length ws) rows \<Longrightarrow> i < length ws \<Longrightarrow> r \<in> set rows \<Longrightarrow>
    utf8_len (r ! i) \<le> foldl widen ws rows ! i"
proof (induction rows arbitrary: ws)
  case (Cons r' rows)
  show ?case
  proof (cases "r = r'")
    case True
    then have "utf8_len (r ! i) \<le> widen ws r' ! i" using Cons.prems by (simp add: widen_nth)
    also have "\<dots> \<le> foldl widen (widen ws r') rows ! i" using Cons.prems by (intro widens_mono) simp_all
    finally show ?thesis by simp
  qed (use Cons in simp)
qed simp

text \<open>Equal widths, joined by separators of three characters.\<close>

lemma length_join3:
  "length sep = 3 \<Longrightarrow> list_all2 (\<lambda>n s. length s = n) ns ss \<Longrightarrow> length (join_str sep ss) = sum_list ns + 3 * (length ns - 1)"
proof (induction sep ss arbitrary: ns rule: join_str.induct)
  case (3 sep s t ss)
  then obtain m ns' where ns: "ns = m # ns'" "length s = m" "list_all2 (\<lambda>n s. length s = n) ns' (t # ss)"
    by (cases ns) auto
  moreover obtain m' ns'' where "ns' = m' # ns''" using ns(3) by (cases ns') auto
  ultimately show ?case using "3.IH" [of ns'] "3.prems"(1) by simp
qed (auto simp: list_all2_Cons2)

lemma pad_right_length: "length s \<le> n \<Longrightarrow> length (pad_right n s) = n"
  by (simp add: pad_right_def)

lemma row_line_length:
  assumes "length row = length ws" "\<forall>i<length ws. length (row ! i) \<le> ws ! i"
  shows "length (row_line ws row) = sum_list ws + 3 * (length ws - 1)"
  unfolding row_line_def using assms
  by (intro length_join3) (auto simp: list_all2_conv_all_nth pad_right_length)

lemma table_rows_objects:
  "list_all (\<lambda>v. \<exists>fs. v = JsObject fs) items \<Longrightarrow> hs \<noteq> [] \<Longrightarrow>
    table_rows hs items = (hs, map (\<lambda>v. map (cell (the (as_object v))) hs) items)"
  by (induction hs items rule: table_rows.induct) (auto simp: as_object_def)

lemma ascii_length: "list_all (\<lambda>c. code c < 128) s \<Longrightarrow> utf8_len s = length s"
  by (induction s) simp_all

definition ascii :: "string \<Rightarrow> bool" where
  "ascii s = list_all (\<lambda>c. code c < 128) s"

lemma ascii_utf8_len: "ascii s \<Longrightarrow> utf8_len s = length s"
  by (simp add: ascii_def ascii_length)

lemma table_lines_length:
  assumes rows: "list_all (\<lambda>r. length r = length hs \<and> list_all ascii r) rows" and hs: "list_all ascii hs"
    and "l \<in> set (table_lines hs rows)"
  shows "length l = sum_list (column_widths hs rows) + 3 * (length hs - 1)"
proof -
  let ?ws = "column_widths hs rows"
  have wl: "length ?ws = length hs" by (simp add: column_widths_def)
  have len: "list_all (\<lambda>r. length r = length (map utf8_len hs)) rows"
    using rows by (auto simp: list_all_iff)
  have "length (r ! i) \<le> ?ws ! i" if "r \<in> set rows" "i < length hs" for r i
    using widens_cover [OF len, of i r] that rows ascii_utf8_len [of "r ! i"]
    by (auto simp: column_widths_def list_all_iff)
  moreover have "length (hs ! i) \<le> ?ws ! i" if "i < length hs" for i
    using widens_mono [OF len, of i] that hs ascii_utf8_len [of "hs ! i"]
    by (auto simp: column_widths_def list_all_iff)
  moreover have "length (join_str ''-+-'' (map (\<lambda>n. replicate n (CHR ''-'')) ?ws)) = sum_list ?ws + 3 * (length ?ws - 1)"
    by (rule length_join3) (simp_all add: list_all2_conv_all_nth)
  ultimately show ?thesis
    using assms(3) row_line_length [of hs ?ws] row_line_length [of _ ?ws] wl rows
    by (auto simp: table_lines_def Let_def list_all_iff split: if_splits)
qed

text \<open>Tables are aligned: for an array of objects whose keys and printed cells are ASCII, every line
  that \<open>console.table\<close> prints (header, rule and rows) has the same length.\<close>

theorem table_aligned:
  assumes "list_all (\<lambda>v. \<exists>fs. v = JsObject fs) items" "items = JsObject ((h, x) # fs) # rest"
    and "list_all ascii (map fst ((h, x) # fs))"
    and "list_all (\<lambda>v. list_all (\<lambda>k. ascii (cell (the (as_object v)) k)) (map fst ((h, x) # fs))) items"
  shows "\<exists>n ls. format_table [JsArray items] = concat (map (\<lambda>l. l @ [CHR 0x0A]) ls)
    \<and> length ls = length items + 2 \<and> (\<forall>l \<in> set ls. length l = n)"
proof -
  define hs where "hs = map fst ((h, x) # fs)"
  let ?rows = "map (\<lambda>v. map (cell (the (as_object v))) hs) items"
  have "hs \<noteq> []" by (simp add: hs_def)
  with table_rows_objects [of rest hs] assms(1,2) have rows: "table_rows [] items = (hs, ?rows)"
    by (simp add: as_object_def hs_def)
  have "list_all (\<lambda>r. length r = length hs \<and> list_all ascii r) ?rows"
    using assms(4) unfolding hs_def [symmetric] by (auto simp: list_all_iff)
  from table_lines_length [OF this] assms(3)
  have "\<forall>l \<in> set (table_lines hs ?rows). length l = sum_list (column_widths hs ?rows) + 3 * (length hs - 1)"
    unfolding hs_def [symmetric] by blast
  moreover have "format_table [JsArray items] = concat (map (\<lambda>l. l @ [CHR 0x0A]) (table_lines hs ?rows))"
    using \<open>hs \<noteq> []\<close> by (simp add: format_table_def rows)
  moreover have "length (table_lines hs ?rows) = length items + 2"
    using \<open>hs \<noteq> []\<close> by (simp add: table_lines_def Let_def)
  ultimately show ?thesis by blast
qed

definition two_rows :: "js list" where
  "two_rows = [JsObject [(''name'', JsString ''a''), (''id'', JsString ''7'')], JsObject [(''name'', JsString ''long'')]]"

theorem table_aligned_witness:
  "\<exists>n ls. format_table [JsArray two_rows] = concat (map (\<lambda>l. l @ [CHR 0x0A]) ls)
     \<and> length ls = length two_rows + 2 \<and> list_all (\<lambda>l. length l = n) ls"
proof -
  have "list_all (\<lambda>v. \<exists>fs. v = JsObject fs) two_rows" by (simp add: two_rows_def)
  moreover have "list_all ascii (map fst ((''name'', JsString ''a'') # [(''id'', JsString ''7'')]))"
    by (simp add: ascii_def)
  moreover have "list_all (\<lambda>v. list_all (\<lambda>k. ascii (cell (the (as_object v)) k))
      (map fst ((''name'', JsString ''a'') # [(''id'', JsString ''7'')]))) two_rows"
    by (simp add: two_rows_def ascii_def cell_def as_object_def format_value_def)
  ultimately show ?thesis
    using table_aligned [OF _ two_rows_def] by (simp add: list_all_iff)
qed

end
