(* ===== verification/Http.thy ===== *)
theory Http
  imports Script Durations
begin

text \<open>
  The HTTP bridge: the native functions of \<open>src/bridge/http_sync.rs\<close> (redirects, cookies, metrics
  of both transports) and the client of \<open>src/engine/http_client.rs\<close> behind \<open>io_bridge.rs\<close>. The
  network, the clock, URLs and the cookie store are the record \<open>web\<close>; the requests put on the wire
  are recorded with the status of their answer.
\<close>

section \<open>Status texts and error categories\<close>

definition status_texts :: "(nat \<times> string) list" where
  "status_texts = [(200, ''OK''), (201, ''Created''), (204, ''No Content''), (301, ''Moved Permanently''),
     (302, ''Found''), (304, ''Not Modified''), (400, ''Bad Request''), (401, ''Unauthorized''), (403, ''Forbidden''),
     (404, ''Not Found''), (405, ''Method Not Allowed''), (408, ''Request Timeout''), (429, ''Too Many Requests''),
     (500, ''Internal Server Error''), (502, ''Bad Gateway''), (503, ''Service Unavailable''),
     (504, ''Gateway Timeout''), (0, ''Network Error'')]"

definition status_text_for_code :: "nat \<Rightarrow> string" where
  "status_text_for_code status = (case map_of status_texts status of None \<Rightarrow> [] | Some t \<Rightarrow> t)"

definition categorize_error :: "string \<Rightarrow> string \<times> string" where
  "categorize_error err = (let lower = to_lower err in
     if contains_str ''timed out'' lower \<or> contains_str ''timeout'' lower then (''TIMEOUT'', ''ETIMEDOUT'')
     else if contains_str ''dns'' lower \<or> contains_str ''resolve'' lower \<or> contains_str ''getaddrinfo'' lower
       then (''DNS'', ''ENOTFOUND'')
     else if contains_str ''certificate'' lower \<or> contains_str ''ssl'' lower \<or> contains_str ''tls'' lower
       then (''TLS'', ''ECERT'')
     else if contains_str ''connection refused'' lower then (''CONNECT'', ''ECONNREFUSED'')
     else if contains_str ''reset'' lower then (''RESET'', ''ECONNRESET'')
     else if contains_str ''broken pipe'' lower then (''RESET'', ''EPIPE'')
     else (''NETWORK'', ''ENETWORK''))"

section \<open>Options of a request\<close>

text \<open>The fields of the options object, each as the typed \<open>get\<close> of the code reads it: none when it is
  missing or has another type.\<close>

record request_options =
  ro_name :: "string option"
  ro_tags :: "tag_map option"
  ro_headers :: "(string, string) hmap option"
  ro_timeout_text :: "string option"
  ro_timeout_ms :: "f64 option"
  ro_follow :: "bool option"
  ro_max :: "nat option"

definition max_redirects_of :: "nat \<Rightarrow> request_options option \<Rightarrow> nat" where
  "max_redirects_of default_max opts = (case opts of None \<Rightarrow> default_max
     | Some r \<Rightarrow> if ro_follow r = Some False then 0
         else (case ro_max r of Some n \<Rightarrow> n | None \<Rightarrow> default_max))"

text \<open>None is a panic of the parser of durations; \<open>Some None\<close> no timeout.\<close>

definition timeout_of :: "request_options option \<Rightarrow> duration option outcome" where
  "timeout_of opts = (case opts of None \<Rightarrow> Returns None
     | Some r \<Rightarrow> (case ro_timeout_text r of Some raw \<Rightarrow> parse_duration_str raw
         | None \<Rightarrow> (case ro_timeout_ms r of
             Some ms \<Rightarrow> Returns (if f_lt (Fin 0) ms then Some (as_u64 ms * millis) else None)
           | None \<Rightarrow> Returns None)))"

definition headers_of :: "request_options option \<Rightarrow> (string, string) hmap" where
  "headers_of opts = (case opts of None \<Rightarrow> [] | Some r \<Rightarrow> (case ro_headers r of None \<Rightarrow> [] | Some h \<Rightarrow> h))"

definition tags_of :: "request_options option \<Rightarrow> tag_map" where
  "tags_of opts = (case opts of None \<Rightarrow> [] | Some r \<Rightarrow> (case ro_tags r of None \<Rightarrow> [] | Some t \<Rightarrow> t))"

definition name_of :: "request_options option \<Rightarrow> string option" where
  "name_of opts = (case opts of None \<Rightarrow> None | Some r \<Rightarrow> ro_name r)"

definition default_content_type :: "(string, string) hmap \<Rightarrow> (string, string) hmap" where
  "default_content_type h = (if list_ex (\<lambda>(k, _). eq_ignore_ascii_case k ''content-type'') h then h
     else hm_insert ''Content-Type'' ''application/json'' h)"

text \<open>The approximate size of a request on the wire.\<close>

definition headers_size :: "(string \<times> string) list \<Rightarrow> nat" where
  "headers_size h = sum_list (map (\<lambda>(k, v). utf8_len k + 2 + utf8_len v + 2) h)"

definition estimate_request_size :: "string \<Rightarrow> string \<Rightarrow> (string \<times> string) list \<Rightarrow> nat \<Rightarrow> nat" where
  "estimate_request_size meth url h body_len = body_len + (utf8_len meth + 1 + utf8_len url + 11) + headers_size h + 2"

section \<open>The outside world\<close>

record http_request =
  rq_method :: string
  rq_url :: string
  rq_headers :: "(string, string) hmap"
  rq_body :: "string option"

text \<open>A response of ureq: its names of headers and the value it gives for a name; the body is read
  separately; \<open>wb_host\<close> is the host and port of a URL, none when it does not parse. A response of hyper: the header fields in order (none: not printable) and what the
  client measured; \<open>Refused\<close> is also the answer to a request that cannot be built.\<close>

record ureq_response =
  ur_status :: nat
  ur_names :: "string list"
  ur_header :: "string \<Rightarrow> string option"

record hyper_exchange =
  hx_status :: nat
  hx_headers :: "(string \<times> string option) list"
  hx_body :: string
  hx_to_headers :: duration
  hx_receiving :: duration
  hx_tcp :: duration
  hx_connector :: duration

datatype bridge_answer = Answered hyper_exchange | Refused string | TimedOut | Closed

record ('net, 'jar) web =
  wb_send :: "'net \<Rightarrow> http_request \<Rightarrow> duration option \<Rightarrow> 'net \<times> (string + ureq_response)"
  wb_bridge :: "'net \<Rightarrow> http_request \<Rightarrow> duration \<Rightarrow> 'net \<times> bridge_answer"
  wb_read :: "'net \<Rightarrow> ureq_response \<Rightarrow> 'net \<times> string option"
  wb_now :: "'net \<Rightarrow> duration"
  wb_join :: "string \<Rightarrow> string \<Rightarrow> string option"
  wb_host :: "string \<Rightarrow> string option"
  wb_matches :: "'jar \<Rightarrow> string \<Rightarrow> (string \<times> string) list"
  wb_store :: "'jar \<Rightarrow> string \<Rightarrow> string list \<Rightarrow> 'jar"

text \<open>What a worker keeps between requests: the network, its cookie jar, the hosts it has seen, its
  thread; \<open>hs_wire\<close> is the history of requests with the status of the answer (none: no answer).\<close>

record ('net, 'jar) http_state =
  hs_net :: 'net
  hs_jar :: 'jar
  hs_seen :: "string list"
  hs_env :: worker_env
  hs_wire :: "(http_request \<times> nat option) list"

record sync_response =
  sr_status :: nat
  sr_status_text :: string
  sr_body :: string
  sr_headers :: "(string, string) hmap"
  sr_timings :: request_timings
  sr_proto :: string
  sr_set_cookie :: "string list"
  sr_error :: "string option"
  sr_error_code :: "string option"

section \<open>Cookies, redirects, pool use\<close>

definition cookie_line :: "(string \<times> string) list \<Rightarrow> string" where
  "cookie_line cs = join_str ''; '' (map (\<lambda>(n, v). n @ ''='' @ v) cs)"

text \<open>The first header that is \<open>Cookie\<close> in some casing is extended; otherwise one is added.\<close>

fun extend_cookie :: "string \<Rightarrow> (string, string) hmap \<Rightarrow> (string, string) hmap option" where
  "extend_cookie c [] = None"
| "extend_cookie c ((k, v) # h) = (if eq_ignore_ascii_case k ''cookie'' then Some ((k, v @ ''; '' @ c) # h)
     else map_option (\<lambda>h. (k, v) # h) (extend_cookie c h))"

definition apply_jar_cookies :: "('net, 'jar) web \<Rightarrow> 'jar \<Rightarrow> string \<Rightarrow> (string, string) hmap \<Rightarrow> (string, string) hmap" where
  "apply_jar_cookies W jar url h = (if wb_host W url = None \<or> wb_matches W jar url = [] then h
     else let c = cookie_line (wb_matches W jar url) in
       case extend_cookie c h of Some h' \<Rightarrow> h' | None \<Rightarrow> hm_insert ''Cookie'' c h)"

definition store_response_cookies :: "('net, 'jar) web \<Rightarrow> string \<Rightarrow> string list \<Rightarrow> 'jar \<Rightarrow> 'jar" where
  "store_response_cookies W url cookies jar =
     (if cookies = [] \<or> wb_host W url = None then jar else wb_store W jar url cookies)"

definition redirect_target :: "('net, 'jar) web \<Rightarrow> nat \<Rightarrow> string option \<Rightarrow> string \<Rightarrow> (string \<times> bool) option" where
  "redirect_target W status location current =
     (if status \<notin> {301, 302, 303, 307, 308} then None
      else case location of None \<Rightarrow> None | Some loc \<Rightarrow> (case wb_join W current loc of None \<Rightarrow> None
        | Some next \<Rightarrow> Some (next, status \<in> {301, 302, 303})))"

definition find_location :: "(string, string) hmap \<Rightarrow> string option" where
  "find_location h = map_option snd (find (\<lambda>(k, _). eq_ignore_ascii_case k ''location'') h)"

definition content_header :: "string \<Rightarrow> bool" where
  "content_header k = (eq_ignore_ascii_case k ''content-type'' \<or> eq_ignore_ascii_case k ''content-length'')"

text \<open>The request of the next hop, before cookies, if the response redirects.\<close>

definition next_hop :: "('net, 'jar) web \<Rightarrow> nat \<Rightarrow> (string, string) hmap \<Rightarrow> http_request \<Rightarrow> http_request option" where
  "next_hop W status resp_headers r = (case redirect_target W status (find_location resp_headers) (rq_url r) of
     None \<Rightarrow> None
   | Some (next, collapse_to_get) \<Rightarrow> Some
       (if collapse_to_get \<and> rq_method r \<noteq> ''GET'' \<and> rq_method r \<noteq> ''HEAD''
        then r\<lparr>rq_method := ''GET'', rq_body := None, rq_url := next,
               rq_headers := filter (\<lambda>(k, _). \<not> content_header k) (rq_headers r)\<rparr>
        else r\<lparr>rq_url := next\<rparr>))"

definition pool_reuse_heuristic :: "('net, 'jar) web \<Rightarrow> string \<Rightarrow> string list \<Rightarrow> bool \<times> string list" where
  "pool_reuse_heuristic W url seen = (case wb_host W url of None \<Rightarrow> (False, seen)
     | Some key \<Rightarrow> if key \<in> set seen then (True, seen) else (False, key # seen))"

section \<open>One request over ureq\<close>

record call =
  ca_request :: http_request
  ca_timeout :: "duration option"
  ca_max :: nat
  ca_sink :: bool
  ca_name :: "string option"
  ca_tags :: tag_map

text \<open>The headers and the cookies the code reads out of a response.\<close>

definition ureq_headers :: "ureq_response \<Rightarrow> (string, string) hmap" where
  "ureq_headers u = fold (\<lambda>n h. case ur_header u n of None \<Rightarrow> h | Some v \<Rightarrow> hm_insert n v h) (ur_names u) []"

definition ureq_cookies :: "ureq_response \<Rightarrow> string list" where
  "ureq_cookies u = concat (map (\<lambda>n. case ur_header u n of None \<Rightarrow> []
     | Some v \<Rightarrow> if to_lower n = ''set-cookie'' then [v] else []) (ur_names u))"

definition send_request_metric :: "call \<Rightarrow> request_timings \<Rightarrow> nat \<Rightarrow> string option \<Rightarrow>
    ('net, 'jar) http_state \<Rightarrow> ('net, 'jar) http_state" where
  "send_request_metric c t status err s = s\<lparr>hs_env := send_quietly
     (Request (metric_name (we_group (hs_env s)) (ca_name c) (rq_url (ca_request c))) t status err (ca_tags c)) (hs_env s)\<rparr>"

definition failed_response :: "string \<Rightarrow> request_timings \<Rightarrow> sync_response" where
  "failed_response err t = \<lparr>sr_status = 0, sr_status_text = status_text_for_code 0, sr_body = err, sr_headers = [],
     sr_timings = t, sr_proto = ''h1'', sr_set_cookie = [], sr_error = Some (fst (categorize_error err)),
     sr_error_code = Some (snd (categorize_error err))\<rparr>"

text \<open>The request of one hop with the cookies of the jar, and putting it on the wire.\<close>

definition hop_request :: "('net, 'jar) web \<Rightarrow> ('net, 'jar) http_state \<Rightarrow> http_request \<Rightarrow> http_request" where
  "hop_request W s r = r\<lparr>rq_headers := apply_jar_cookies W (hs_jar s) (rq_url r) (rq_headers r)\<rparr>"

definition exchange :: "('net, 'jar) web \<Rightarrow> call \<Rightarrow> http_request \<Rightarrow> ('net, 'jar) http_state \<Rightarrow>
    ('net, 'jar) http_state \<times> (string + ureq_response)" where
  "exchange W c r s = (let sent = hop_request W s r; (net, answer) = wb_send W (hs_net s) sent (ca_timeout c)
     in (s\<lparr>hs_net := net, hs_wire := hs_wire s @ [(sent, case answer of Inl _ \<Rightarrow> None | Inr u \<Rightarrow> Some (ur_status u))]\<rparr>,
         answer))"

text \<open>The end of the loop: the last response, or the error of the transport.\<close>

definition ureq_done :: "('net, 'jar) web \<Rightarrow> call \<Rightarrow> duration \<Rightarrow> duration \<Rightarrow> http_request \<Rightarrow> ureq_response \<Rightarrow>
    ('net, 'jar) http_state \<Rightarrow> ('net, 'jar) http_state \<times> sync_response" where
  "ureq_done W c start waiting r u s = (let body_start = wb_now W (hs_net s); (net, text) = wb_read W (hs_net s) u;
       text = (case text of None \<Rightarrow> [] | Some t \<Rightarrow> t); headers = ureq_headers u;
       (reused, seen) = pool_reuse_heuristic W (rq_url r) (hs_seen s);
       t = default_timings\<lparr>t_duration := wb_now W net - start, t_waiting := waiting,
         t_receiving := wb_now W net - body_start,
         t_request_size := estimate_request_size (rq_method (ca_request c)) (rq_url (ca_request c))
           (rq_headers (ca_request c)) (case rq_body (ca_request c) of None \<Rightarrow> 0 | Some b \<Rightarrow> utf8_len b),
         t_response_size := utf8_len text + 15 + headers_size headers + 2, t_pool_reused := reused\<rparr>
     in (send_request_metric c t (ur_status u) None (s\<lparr>hs_net := net, hs_seen := seen\<rparr>),
         \<lparr>sr_status = ur_status u, sr_status_text = status_text_for_code (ur_status u),
          sr_body = (if ca_sink c then [] else text), sr_headers = headers, sr_timings = t, sr_proto = ''h1'',
          sr_set_cookie = ureq_cookies u, sr_error = None, sr_error_code = None\<rparr>))"

definition ureq_failed :: "('net, 'jar) web \<Rightarrow> call \<Rightarrow> duration \<Rightarrow> string \<Rightarrow>
    ('net, 'jar) http_state \<Rightarrow> ('net, 'jar) http_state \<times> sync_response" where
  "ureq_failed W c start err s = (let t = default_timings\<lparr>t_duration := wb_now W (hs_net s) - start,
         t_request_size := estimate_request_size (rq_method (ca_request c)) (rq_url (ca_request c))
           (rq_headers (ca_request c)) (case rq_body (ca_request c) of None \<Rightarrow> 0 | Some b \<Rightarrow> utf8_len b)\<rparr>
     in (send_request_metric c t 0 (Some err) s, failed_response err t))"

function ureq_loop :: "('net, 'jar) web \<Rightarrow> call \<Rightarrow> duration \<Rightarrow> nat \<Rightarrow> http_request \<Rightarrow> ('net, 'jar) http_state \<Rightarrow>
    ('net, 'jar) http_state \<times> sync_response" where
  "ureq_loop W c start hops r s = (let hop_start = wb_now W (hs_net s); (s, answer) = exchange W c r s;
       waiting = wb_now W (hs_net s) - hop_start in
     case answer of Inl err \<Rightarrow> ureq_failed W c start err s
     | Inr u \<Rightarrow> (let s = s\<lparr>hs_jar := store_response_cookies W (rq_url r) (ureq_cookies u) (hs_jar s)\<rparr> in
         if hops < ca_max c
         then (case next_hop W (ur_status u) (ureq_headers u) r of
             Some r' \<Rightarrow> ureq_loop W c start (hops + 1) r' (s\<lparr>hs_net := fst (wb_read W (hs_net s) u)\<rparr>)
           | None \<Rightarrow> ureq_done W c start waiting r u s)
         else ureq_done W c start waiting r u s))"
  by pat_completeness auto
termination by (relation "measure (\<lambda>(W, c, start, hops, r, s). ca_max c - hops)") auto

declare ureq_loop.simps [simp del]

definition execute_ureq_request :: "('net, 'jar) web \<Rightarrow> call \<Rightarrow> ('net, 'jar) http_state \<Rightarrow>
    ('net, 'jar) http_state \<times> sync_response" where
  "execute_ureq_request W c s = ureq_loop W c (wb_now W (hs_net s)) 0 (ca_request c) s"

section \<open>One request over the bridge\<close>

text \<open>\<open>HttpClient::request\<close>: the timings from what was measured. \<open>hx_tcp\<close> is the time of the TCP
  connector, \<open>hx_connector\<close> that of the TLS connector around it; both zero on a pooled connection.\<close>

definition hyper_size :: "(string \<times> string option) list \<Rightarrow> nat" where
  "hyper_size h = sum_list (map (\<lambda>(k, v). utf8_len k + 2 + (case v of None \<Rightarrow> 0 | Some v \<Rightarrow> utf8_len v) + 2) h)"

definition client_timings :: "http_request \<Rightarrow> hyper_exchange \<Rightarrow> request_timings" where
  "client_timings r x = (let connecting = hx_tcp x; tls = hx_connector x - connecting; connection = connecting + tls;
       sending = 100000; waiting = hx_to_headers x - connection - sending
     in \<lparr>t_blocked = 0, t_connecting = connecting, t_tls_handshaking = tls, t_sending = sending, t_waiting = waiting,
         t_receiving = hx_receiving x, t_duration = connection + sending + waiting + hx_receiving x,
         t_response_size = utf8_len (hx_body x) + 15 + hyper_size (hx_headers x) + 2,
         t_request_size = estimate_request_size (rq_method r) (rq_url r) (rq_headers r)
           (case rq_body r of None \<Rightarrow> 0 | Some b \<Rightarrow> utf8_len b),
         t_pool_reused = (connection = 0)\<rparr>)"

definition bridge_request :: "('net, 'jar) web \<Rightarrow> http_request \<Rightarrow> duration \<Rightarrow> 'net \<Rightarrow>
    'net \<times> (string + hyper_exchange \<times> request_timings)" where
  "bridge_request W r timeout net = (case wb_bridge W net r timeout of
     (net, Answered x) \<Rightarrow> (net, Inr (x, client_timings r x))
   | (net, Refused e) \<Rightarrow> (net, Inl e)
   | (net, TimedOut) \<Rightarrow> (net, Inl ''Request timeout'')
   | (net, Closed) \<Rightarrow> (net, Inl ''Response channel closed''))"

definition hyper_headers :: "hyper_exchange \<Rightarrow> (string, string) hmap" where
  "hyper_headers x = fold (\<lambda>(n, v) h. hm_insert n (case v of None \<Rightarrow> [] | Some v \<Rightarrow> v) h) (hx_headers x) []"

definition hyper_cookies :: "hyper_exchange \<Rightarrow> string list" where
  "hyper_cookies x = map (\<lambda>(n, v). case v of None \<Rightarrow> [] | Some v \<Rightarrow> v)
     (filter (\<lambda>(n, v). to_lower n = ''set-cookie'') (hx_headers x))"

definition hyper_response_to_sync :: "bool \<Rightarrow> hyper_exchange \<Rightarrow> request_timings \<Rightarrow> sync_response" where
  "hyper_response_to_sync sink x t = \<lparr>sr_status = hx_status x, sr_status_text = status_text_for_code (hx_status x),
     sr_body = (if sink then [] else hx_body x), sr_headers = hyper_headers x, sr_timings = t, sr_proto = ''h2'',
     sr_set_cookie = hyper_cookies x, sr_error = None, sr_error_code = None\<rparr>"

definition bridge_exchange :: "('net, 'jar) web \<Rightarrow> call \<Rightarrow> http_request \<Rightarrow> ('net, 'jar) http_state \<Rightarrow>
    ('net, 'jar) http_state \<times> (string + hyper_exchange \<times> request_timings)" where
  "bridge_exchange W c r s = (let sent = hop_request W s r;
       (net, answer) = bridge_request W sent (case ca_timeout c of None \<Rightarrow> 60 * secs | Some t \<Rightarrow> t) (hs_net s)
     in (s\<lparr>hs_net := net, hs_wire := hs_wire s @ [(sent, case answer of Inl _ \<Rightarrow> None | Inr (x, _) \<Rightarrow> Some (hx_status x))]\<rparr>,
         answer))"

definition bridge_done :: "('net, 'jar) web \<Rightarrow> call \<Rightarrow> duration \<Rightarrow> sync_response \<Rightarrow>
    ('net, 'jar) http_state \<Rightarrow> ('net, 'jar) http_state \<times> sync_response" where
  "bridge_done W c start resp s = (let t = (sr_timings resp)\<lparr>t_duration := wb_now W (hs_net s) - start\<rparr>
     in (send_request_metric c t (sr_status resp) None s, resp\<lparr>sr_timings := t\<rparr>))"

definition bridge_failed :: "('net, 'jar) web \<Rightarrow> call \<Rightarrow> duration \<Rightarrow> string \<Rightarrow>
    ('net, 'jar) http_state \<Rightarrow> ('net, 'jar) http_state \<times> sync_response" where
  "bridge_failed W c start err s = (let t = default_timings\<lparr>t_duration := wb_now W (hs_net s) - start\<rparr>
     in (send_request_metric c t 0 (Some err) s, failed_response err t))"

function bridge_loop :: "('net, 'jar) web \<Rightarrow> call \<Rightarrow> duration \<Rightarrow> nat \<Rightarrow> http_request \<Rightarrow> ('net, 'jar) http_state \<Rightarrow>
    ('net, 'jar) http_state \<times> sync_response" where
  "bridge_loop W c start hops r s = (let (s, answer) = bridge_exchange W c r s in
     case answer of Inl err \<Rightarrow> bridge_failed W c start err s
     | Inr (x, t) \<Rightarrow> (let resp = hyper_response_to_sync (ca_sink c) x t;
           s = s\<lparr>hs_jar := store_response_cookies W (rq_url r) (sr_set_cookie resp) (hs_jar s)\<rparr> in
         if hops < ca_max c
         then (case next_hop W (sr_status resp) (sr_headers resp) r of
             Some r' \<Rightarrow> bridge_loop W c start (hops + 1) r' s
           | None \<Rightarrow> bridge_done W c start resp s)
         else bridge_done W c start resp s))"
  by pat_completeness auto
termination by (relation "measure (\<lambda>(W, c, start, hops, r, s). ca_max c - hops)") auto

declare bridge_loop.simps [simp del]

definition run_bridge_request :: "('net, 'jar) web \<Rightarrow> call \<Rightarrow> ('net, 'jar) http_state \<Rightarrow>
    ('net, 'jar) http_state \<times> sync_response" where
  "run_bridge_request W c s = bridge_loop W c (wb_now W (hs_net s)) 0 (ca_request c) s"

text \<open>Which transport a worker uses is fixed when its functions are registered.\<close>

definition perform :: "('net, 'jar) web \<Rightarrow> bool \<Rightarrow> call \<Rightarrow> ('net, 'jar) http_state \<Rightarrow>
    ('net, 'jar) http_state \<times> sync_response" where
  "perform W bridged c s = (if bridged then run_bridge_request W c s else execute_ureq_request W c s)"

section \<open>What every transport does\<close>

definition cookie_header :: "string \<Rightarrow> bool" where
  "cookie_header k = eq_ignore_ascii_case k ''cookie''"

text \<open>The request as the loop holds it and as it is sent differ in their cookies only.\<close>

definition sent_as :: "http_request \<Rightarrow> http_request \<Rightarrow> bool" where
  "sent_as r q \<longleftrightarrow> rq_method q = rq_method r \<and> rq_url q = rq_url r \<and> rq_body q = rq_body r
     \<and> filter (\<lambda>(k, _). \<not> cookie_header k) (rq_headers q) = filter (\<lambda>(k, _). \<not> cookie_header k) (rq_headers r)"

lemma extend_cookie_others:
  "extend_cookie c h = Some h' \<Longrightarrow> filter (\<lambda>(k, _). \<not> cookie_header k) h' = filter (\<lambda>(k, _). \<not> cookie_header k) h"
  by (induction c h arbitrary: h' rule: extend_cookie.induct) (auto simp: cookie_header_def split: if_splits)

lemma insert_filtered: "\<not> P k \<Longrightarrow> filter (\<lambda>(k, _). P k) (hm_insert k v h) = filter (\<lambda>(k, _). P k) h"
  by (induction h) (auto simp: hm_insert_def)

lemma hop_request_sent: "sent_as r (hop_request W s r)"
proof -
  have "\<not> \<not> cookie_header ''Cookie''" by code_simp
  then show ?thesis
    using insert_filtered [of "\<lambda>k. \<not> cookie_header k" "''Cookie''"]
    by (auto simp: sent_as_def hop_request_def apply_jar_cookies_def Let_def extend_cookie_others split: option.split)
qed

text \<open>A trail of requests: each is sent as the loop holds it, and all but the last were answered by a
  redirect.\<close>

fun trail :: "('net, 'jar) web \<Rightarrow> http_request \<Rightarrow> (http_request \<times> nat option) list \<Rightarrow> bool" where
  "trail W r [] = False"
| "trail W r [(q, st)] = sent_as r q"
| "trail W r ((q, st) # e # es) = (sent_as r q
     \<and> (\<exists>n h r'. st = Some n \<and> next_hop W n h r = Some r' \<and> trail W r' (e # es)))"

definition answered_status :: "nat option \<Rightarrow> nat" where
  "answered_status st = (case st of None \<Rightarrow> 0 | Some n \<Rightarrow> n)"

text \<open>One metric is sent, under the name of the original request, with an error exactly when there was
  no answer.\<close>

definition one_metric :: "call \<Rightarrow> nat option \<Rightarrow> worker_env \<Rightarrow> worker_env \<Rightarrow> bool" where
  "one_metric c st e e' \<longleftrightarrow> (\<exists>t err. (err = None \<longleftrightarrow> st \<noteq> None) \<and> e' = send_quietly
     (Request (metric_name (we_group e) (ca_name c) (rq_url (ca_request c))) t (answered_status st) err (ca_tags c)) e)"

text \<open>A transport: one attempt puts one request on the wire; a redirecting answer below the limit leads
  to the next; any other ends the call with its one metric.\<close>

locale transport =
  fixes W :: "('net, 'jar) web" and c :: call
    and attempt :: "http_request \<Rightarrow> ('net, 'jar) http_state \<Rightarrow> ('net, 'jar) http_state \<times> 'a"
    and status_of :: "'a \<Rightarrow> nat option"
    and hop :: "'a \<Rightarrow> http_request \<Rightarrow> http_request option"
    and resume :: "'a \<Rightarrow> ('net, 'jar) http_state \<Rightarrow> ('net, 'jar) http_state"
    and finish :: "http_request \<Rightarrow> 'a \<Rightarrow> ('net, 'jar) http_state \<Rightarrow> ('net, 'jar) http_state \<times> sync_response"
    and loop :: "nat \<Rightarrow> http_request \<Rightarrow> ('net, 'jar) http_state \<Rightarrow> ('net, 'jar) http_state \<times> sync_response"
  assumes loop_eq: "loop hops r s = (case attempt r s of (s1, a) \<Rightarrow>
      (case (if hops < ca_max c then hop a r else None) of Some r' \<Rightarrow> loop (hops + 1) r' (resume a s1)
       | None \<Rightarrow> finish r a s1))"
    and attempt_wire: "attempt r s = (s1, a) \<Longrightarrow>
      hs_wire s1 = hs_wire s @ [(hop_request W s r, status_of a)] \<and> hs_env s1 = hs_env s"
    and resume_keeps: "hs_wire (resume a s) = hs_wire s \<and> hs_env (resume a s) = hs_env s"
    and hop_redirects: "hop a r = Some r' \<Longrightarrow> \<exists>n h. status_of a = Some n \<and> next_hop W n h r = Some r'"
    and finish_metric: "finish r a s = (s1, resp) \<Longrightarrow> hs_wire s1 = hs_wire s
      \<and> sr_status resp = answered_status (status_of a) \<and> one_metric c (status_of a) (hs_env s) (hs_env s1)"
begin

lemma loop_trail:
  "loop hops r s = (s1, resp) \<Longrightarrow> \<exists>es. hs_wire s1 = hs_wire s @ es \<and> trail W r es
     \<and> length es \<le> ca_max c - hops + 1
     \<and> sr_status resp = answered_status (snd (last es)) \<and> one_metric c (snd (last es)) (hs_env s) (hs_env s1)"
proof (induction "ca_max c - hops" arbitrary: hops r s rule: less_induct)
  case less
  obtain s2 a where at: "attempt r s = (s2, a)" by force
  note wire = attempt_wire [OF at] resume_keeps [of a s2]
  show ?case
  proof (cases "if hops < ca_max c then hop a r else None")
    case None
    then have "finish r a s2 = (s1, resp)" using less.prems at loop_eq [of hops r s] by simp
    from finish_metric [OF this] wire hop_request_sent [of r W s] show ?thesis
      by (intro exI [of _ "[(hop_request W s r, status_of a)]"]) auto
  next
    case (Some r')
    then have hops: "hops < ca_max c" and red: "hop a r = Some r'" by (auto split: if_splits)
    have "loop (hops + 1) r' (resume a s2) = (s1, resp)"
      using less.prems at loop_eq [of hops r s] Some by simp
    then have "\<exists>es. hs_wire s1 = hs_wire s @ (hop_request W s r, status_of a) # es \<and> trail W r' es
        \<and> length es \<le> ca_max c - (hops + 1) + 1
        \<and> sr_status resp = answered_status (snd (last es)) \<and> one_metric c (snd (last es)) (hs_env s) (hs_env s1)"
      using less.hyps [of "hops + 1" r' "resume a s2"] hops wire by simp
    then obtain es where es: "hs_wire s1 = hs_wire s @ (hop_request W s r, status_of a) # es"
      "trail W r' es" "length es \<le> ca_max c - (hops + 1) + 1"
      "sr_status resp = answered_status (snd (last es))" "one_metric c (snd (last es)) (hs_env s) (hs_env s1)"
      by blast
    obtain e es' where ee: "es = e # es'" using es(2) by (cases es) auto
    have "trail W r ((hop_request W s r, status_of a) # es)"
      using hop_redirects [OF red] hop_request_sent [of r W s] es(2) ee by auto
    with es ee hops show ?thesis
      by (intro exI [of _ "(hop_request W s r, status_of a) # es"]) auto
  qed
qed

end

text \<open>Both transports.\<close>

lemma sends_one:
  "one_metric c (Some n) (hs_env s) (hs_env (send_request_metric c t n None s))"
  "one_metric c None (hs_env s) (hs_env (send_request_metric c t 0 (Some e) s))"
  unfolding one_metric_def send_request_metric_def answered_status_def by auto

lemma send_request_metric_wire [simp]: "hs_wire (send_request_metric c t n err s) = hs_wire s"
  by (simp add: send_request_metric_def)

lemma ureq_done_ends:
  "ureq_done W c start waiting r u s = (s1, resp) \<Longrightarrow> hs_wire s1 = hs_wire s
    \<and> sr_status resp = ur_status u \<and> one_metric c (Some (ur_status u)) (hs_env s) (hs_env s1)"
  using sends_one(1) [where s = "s\<lparr>hs_net := net, hs_seen := seen\<rparr>" for net seen]
  by (auto simp: ureq_done_def Let_def split: prod.splits)

lemma failed_ends:
  "ureq_failed W c start e s = (s1, resp) \<Longrightarrow> hs_wire s1 = hs_wire s \<and> sr_status resp = 0 \<and> one_metric c None (hs_env s) (hs_env s1)"
  "bridge_failed W c start e s = (s1, resp) \<Longrightarrow> hs_wire s1 = hs_wire s \<and> sr_status resp = 0 \<and> one_metric c None (hs_env s) (hs_env s1)"
  using sends_one(2) [where s = s]
  by (auto simp: ureq_failed_def bridge_failed_def failed_response_def Let_def)

lemma bridge_done_ends:
  "bridge_done W c start x s = (s1, resp) \<Longrightarrow> hs_wire s1 = hs_wire s
    \<and> sr_status resp = sr_status x \<and> one_metric c (Some (sr_status x)) (hs_env s) (hs_env s1)"
  using sends_one(1) [where s = s] by (auto simp: bridge_done_def Let_def)

definition ureq_attempt :: "('net, 'jar) web \<Rightarrow> call \<Rightarrow> http_request \<Rightarrow> ('net, 'jar) http_state \<Rightarrow>
    ('net, 'jar) http_state \<times> duration \<times> (string + ureq_response)" where
  "ureq_attempt W c r s = (let (s1, answer) = exchange W c r s in
     ((case answer of Inl _ \<Rightarrow> s1
       | Inr u \<Rightarrow> s1\<lparr>hs_jar := store_response_cookies W (rq_url r) (ureq_cookies u) (hs_jar s1)\<rparr>),
      wb_now W (hs_net s1) - wb_now W (hs_net s), answer))"

interpretation ureq: transport W c "ureq_attempt W c"
    "\<lambda>(waiting, answer). case answer of Inl _ \<Rightarrow> None | Inr u \<Rightarrow> Some (ur_status u)"
    "\<lambda>(waiting, answer) r. case answer of Inl _ \<Rightarrow> None | Inr u \<Rightarrow> next_hop W (ur_status u) (ureq_headers u) r"
    "\<lambda>(waiting, answer) s. case answer of Inl _ \<Rightarrow> s | Inr u \<Rightarrow> s\<lparr>hs_net := fst (wb_read W (hs_net s) u)\<rparr>"
    "\<lambda>r (waiting, answer) s. case answer of Inl e \<Rightarrow> ureq_failed W c start e s | Inr u \<Rightarrow> ureq_done W c start waiting r u s"
    "ureq_loop W c start"
proof (unfold_locales, goal_cases)
  case (1 hops r s)
  show ?case
    by (subst ureq_loop.simps)
      (auto simp: ureq_attempt_def Let_def split: prod.split sum.split option.split)
next
  case (2 r s s1 a)
  then show ?case by (auto simp: ureq_attempt_def exchange_def Let_def split: prod.splits sum.splits)
next
  case (3 a s)
  then show ?case by (auto split: prod.split sum.split)
next
  case (4 a r r')
  then show ?case by (auto split: prod.splits sum.splits)
next
  case (5 r a s s1 resp)
  then show ?case
    by (auto simp: answered_status_def dest!: ureq_done_ends failed_ends split: prod.splits sum.splits)
qed

definition bridge_attempt :: "('net, 'jar) web \<Rightarrow> call \<Rightarrow> http_request \<Rightarrow> ('net, 'jar) http_state \<Rightarrow>
    ('net, 'jar) http_state \<times> (string + sync_response)" where
  "bridge_attempt W c r s = (case bridge_exchange W c r s of (s1, Inl e) \<Rightarrow> (s1, Inl e)
     | (s1, Inr (x, t)) \<Rightarrow> (let resp = hyper_response_to_sync (ca_sink c) x t in
         (s1\<lparr>hs_jar := store_response_cookies W (rq_url r) (sr_set_cookie resp) (hs_jar s1)\<rparr>, Inr resp)))"

interpretation bridge: transport W c "bridge_attempt W c"
    "\<lambda>answer. case answer of Inl _ \<Rightarrow> None | Inr resp \<Rightarrow> Some (sr_status resp)"
    "\<lambda>answer r. case answer of Inl _ \<Rightarrow> None | Inr resp \<Rightarrow> next_hop W (sr_status resp) (sr_headers resp) r"
    "\<lambda>answer s. s"
    "\<lambda>r answer s. case answer of Inl e \<Rightarrow> bridge_failed W c start e s | Inr resp \<Rightarrow> bridge_done W c start resp s"
    "bridge_loop W c start"
proof (unfold_locales, goal_cases)
  case (1 hops r s)
  show ?case
    by (subst bridge_loop.simps)
      (auto simp: bridge_attempt_def Let_def split: prod.split sum.split option.split)
next
  case (2 r s s1 a)
  then show ?case
    by (auto simp: bridge_attempt_def bridge_exchange_def hyper_response_to_sync_def Let_def split: prod.splits sum.splits)
next
  case (4 a r r')
  then show ?case by (auto split: sum.splits)
next
  case (5 r a s s1 resp)
  then show ?case
    by (auto simp: answered_status_def dest!: bridge_done_ends failed_ends split: sum.splits)
qed simp_all

lemma perform_trail:
  "perform W bridged c s = (s1, resp) \<Longrightarrow> \<exists>es. hs_wire s1 = hs_wire s @ es \<and> trail W (ca_request c) es
     \<and> length es \<le> ca_max c + 1
     \<and> sr_status resp = answered_status (snd (last es)) \<and> one_metric c (snd (last es)) (hs_env s) (hs_env s1)"
  using ureq.loop_trail [of W c "wb_now W (hs_net s)" 0 "ca_request c" s s1 resp]
    bridge.loop_trail [of W c "wb_now W (hs_net s)" 0 "ca_request c" s s1 resp]
  by (auto simp: perform_def run_bridge_request_def execute_ureq_request_def split: if_splits)

section \<open>Properties\<close>

text \<open>C6. A call ends within its redirect limit and counts once: it puts at least one and at most
  \<open>maxRedirects + 1\<close> requests on the wire, returns the status of the last answer (0 when there was
  none), and sends exactly one metric, named after the original request, with that status.\<close>

theorem redirects_bounded:
  "case perform W bridged c s of (s1, resp) \<Rightarrow> \<exists>es. hs_wire s1 = hs_wire s @ es \<and> 1 \<le> length es \<and> length es \<le> ca_max c + 1
     \<and> sr_status resp = answered_status (snd (last es)) \<and> one_metric c (snd (last es)) (hs_env s) (hs_env s1)"
proof -
  obtain s1 resp where p: "perform W bridged c s = (s1, resp)" by force
  from perform_trail [OF p] obtain es where "hs_wire s1 = hs_wire s @ es" "trail W (ca_request c) es"
      "length es \<le> ca_max c + 1" "sr_status resp = answered_status (snd (last es))"
      "one_metric c (snd (last es)) (hs_env s) (hs_env s1)" by blast
  moreover from this(2) have "1 \<le> length es" by (cases es) auto
  ultimately show ?thesis using p by auto
qed

lemma trail_nth:
  "trail W r es \<Longrightarrow> Suc i < length es \<Longrightarrow> \<exists>n h r1 r2. sent_as r1 (fst (es ! i)) \<and> snd (es ! i) = Some n
     \<and> next_hop W n h r1 = Some r2 \<and> sent_as r2 (fst (es ! Suc i))"
proof (induction W r es arbitrary: i rule: trail.induct)
  case (3 W r q st e es)
  then obtain n h r' where hop: "sent_as r q" "st = Some n" "next_hop W n h r = Some r'" "trail W r' (e # es)" by auto
  have first: "sent_as r' (fst e)" using hop(4) by (cases es) (auto split: prod.splits, (cases e, auto)+)
  show ?case
  proof (cases i)
    case 0
    with hop first show ?thesis by auto
  next
    case (Suc j)
    with "3.IH" [OF hop(4), of j] "3.prems"(2) show ?thesis by simp
  qed
qed simp_all

text \<open>Redirects keep or drop the body as HTTP wants: on the wire of a call, every request but the last
  was answered by a redirect; after 301, 302 and 303 a request that is neither GET nor HEAD becomes a
  GET without body, and in all other cases method and body are kept.\<close>

theorem redirect_methods:
  assumes "perform W bridged c s = (s1, resp)" "hs_wire s1 = hs_wire s @ es" "Suc i < length es"
  shows "\<exists>n. snd (es ! i) = Some n \<and> n \<in> {301, 302, 303, 307, 308}
    \<and> (let q = fst (es ! i); q' = fst (es ! Suc i) in
        if n \<in> {301, 302, 303} \<and> rq_method q \<noteq> ''GET'' \<and> rq_method q \<noteq> ''HEAD''
        then rq_method q' = ''GET'' \<and> rq_body q' = None else rq_method q' = rq_method q \<and> rq_body q' = rq_body q)"
proof -
  have "trail W (ca_request c) es" using perform_trail [OF assms(1)] assms(2) by auto
  from trail_nth [OF this assms(3)] obtain n h r1 r2 where "sent_as r1 (fst (es ! i))" "snd (es ! i) = Some n"
      "next_hop W n h r1 = Some r2" "sent_as r2 (fst (es ! Suc i))" by blast
  then show ?thesis
    by (auto simp: next_hop_def redirect_target_def sent_as_def Let_def split: option.splits if_splits)
qed

lemma next_hop_keeps:
  "next_hop W n h r = Some r' \<Longrightarrow> filter (\<lambda>(k, _). \<not> content_header k) (rq_headers r')
     = filter (\<lambda>(k, _). \<not> content_header k) (rq_headers r)"
  by (auto simp: next_hop_def split: option.splits if_splits)

lemma get_filter: "P k \<Longrightarrow> hm_get (filter (\<lambda>(k, _). P k) h) k = hm_get h k"
  by (induction h) auto

lemma same_filter_get:
  "filter (\<lambda>(k, _). P k) h' = filter (\<lambda>(k, _). P k) h \<Longrightarrow> P k \<Longrightarrow> hm_get h' k = hm_get h k"
  using get_filter [of P k h] get_filter [of P k h'] by simp

lemma sent_as_get: "sent_as r q \<Longrightarrow> \<not> cookie_header k \<Longrightarrow> hm_get (rq_headers q) k = hm_get (rq_headers r) k"
  by (rule same_filter_get [of "\<lambda>k. \<not> cookie_header k"]) (simp_all add: sent_as_def)

lemma next_hop_get: "next_hop W n h r = Some r' \<Longrightarrow> \<not> content_header k \<Longrightarrow> hm_get (rq_headers r') k = hm_get (rq_headers r) k"
  by (rule same_filter_get [of "\<lambda>k. \<not> content_header k"]) (simp_all add: next_hop_keeps)

lemma trail_get:
  "trail W r es \<Longrightarrow> \<not> cookie_header k \<Longrightarrow> \<not> content_header k \<Longrightarrow> e \<in> set es \<Longrightarrow>
    hm_get (rq_headers (fst e)) k = hm_get (rq_headers r) k"
proof (induction W r es rule: trail.induct)
  case (2 W r q st)
  then show ?case by (auto simp: sent_as_get simp del: map_of_eq_Some_iff)
next
  case (3 W r q st e' es)
  then obtain n h r' where hop: "sent_as r q" "next_hop W n h r = Some r'" "trail W r' (e' # es)" by auto
  with "3.IH" [OF hop(3)] "3.prems" next_hop_get [OF hop(2), of k] sent_as_get [OF hop(1), of k]
  show ?case by auto
qed simp

text \<open>Credentials follow every redirect: each request of a call carries the script's
  \<open>Authorization\<close> header unchanged, on whatever host the redirects lead to.\<close>

theorem credentials_follow_redirects:
  assumes "perform W bridged c s = (s1, resp)" "hs_wire s1 = hs_wire s @ es" "(q, st) \<in> set es"
  shows "hm_get (rq_headers q) ''Authorization'' = hm_get (rq_headers (ca_request c)) ''Authorization''"
proof -
  have "\<not> cookie_header ''Authorization''" "\<not> content_header ''Authorization''" by code_simp+
  moreover have "trail W (ca_request c) es" using perform_trail [OF assms(1)] assms(2) by auto
  ultimately show ?thesis using trail_get [OF _ _ _ assms(3)] by fastforce
qed

text \<open>One cookie per response: ureq gives one value per header name, so of several
  \<open>Set-Cookie\<close> headers the worker's jar receives the first one only (as often as there are headers).\<close>

theorem second_cookie_lost:
  assumes "list_all (\<lambda>n. to_lower n = n) (ur_names u)"
  shows "ureq_cookies u = (case ur_header u ''set-cookie'' of None \<Rightarrow> []
    | Some v \<Rightarrow> replicate (length (filter (\<lambda>n. n = ''set-cookie'') (ur_names u))) v)"
  using assms
proof -
  have "concat (map (\<lambda>n. case ur_header u n of None \<Rightarrow> [] | Some v \<Rightarrow> if to_lower n = ''set-cookie'' then [v] else []) ns)
     = (case ur_header u ''set-cookie'' of None \<Rightarrow> []
        | Some v \<Rightarrow> replicate (length (filter (\<lambda>n. n = ''set-cookie'') ns)) v)"
    if "list_all (\<lambda>n. to_lower n = n) ns" for ns
    using that by (induction ns) (auto split: option.split)
  with assms show ?thesis by (simp add: ureq_cookies_def)
qed

text \<open>The timings of a request over the bridge add up: the duration is the sum of its parts, never
  less than the measured time, and equal to it exactly when the headers took at least the connection
  and the 100 microseconds assumed for sending; the connection counts as reused exactly when neither
  connector took time.\<close>

theorem client_timings_add_up:
  "let t = client_timings r x; measured = hx_to_headers x + hx_receiving x in
     t_duration t = t_connecting t + t_tls_handshaking t + t_sending t + t_waiting t + t_receiving t
     \<and> measured \<le> t_duration t
     \<and> (t_duration t = measured) = (max (hx_tcp x) (hx_connector x) + 100000 \<le> hx_to_headers x)
     \<and> t_pool_reused t = (hx_tcp x = 0 \<and> hx_connector x = 0)"
  by (auto simp: client_timings_def Let_def)

text \<open>A web that plays a list of answers, without cookies, on which URLs are absolute.\<close>

definition playback :: "((string + ureq_response) list, unit) web" where
  "playback = \<lparr>wb_send = (\<lambda>net r t. case net of [] \<Rightarrow> ([], Inl ''Connection refused'') | a # rest \<Rightarrow> (rest, a)),
     wb_bridge = (\<lambda>net r t. (net, Refused ''no bridge'')), wb_read = (\<lambda>net u. (net, Some [])), wb_now = (\<lambda>_. 0),
     wb_join = (\<lambda>_ loc. Some loc), wb_host = Some, wb_matches = (\<lambda>_ _. []), wb_store = (\<lambda>jar _ _. jar)\<rparr>"

definition moved :: "nat \<Rightarrow> string \<Rightarrow> ureq_response" where
  "moved n loc = \<lparr>ur_status = n, ur_names = [''location''], ur_header = [''location'' \<mapsto> loc]\<rparr>"

definition login_call :: call where
  "login_call = \<lparr>ca_request = \<lparr>rq_method = ''POST'', rq_url = ''http://a/login'',
       rq_headers = [(''Authorization'', ''secret''), (''Content-Type'', ''application/json'')], rq_body = Some ''{}''\<rparr>,
     ca_timeout = None, ca_max = 10, ca_sink = False, ca_name = None, ca_tags = []\<rparr>"

definition two_answers :: "((string + ureq_response) list, unit) http_state" where
  "two_answers = \<lparr>hs_net = [Inr (moved 302 ''http://b/''), Inr \<lparr>ur_status = 200, ur_names = [], ur_header = (\<lambda>_. None)\<rparr>],
     hs_jar = (), hs_seen = [], hs_env = new_env, hs_wire = []\<rparr>"

lemma login_call_simps [simp]:
  "rq_method (ca_request login_call) = ''POST''"
  "rq_headers (ca_request login_call) = [(''Authorization'', ''secret''), (''Content-Type'', ''application/json'')]"
  "hs_wire two_answers = []"
  by (simp_all add: login_call_def two_answers_def)

lemma login_wire: "hs_wire (fst (perform playback False login_call two_answers)) =
    [(ca_request login_call, Some 302),
     (\<lparr>rq_method = ''GET'', rq_url = ''http://b/'', rq_headers = [(''Authorization'', ''secret'')], rq_body = None\<rparr>, Some 200)]"
proof -
  have names: "\<not> content_header ''Authorization''" "content_header ''Content-Type''"
    "eq_ignore_ascii_case ''location'' ''location''"
    by code_simp+
  show ?thesis
    by (simp add: perform_def execute_ureq_request_def ureq_loop.simps exchange_def hop_request_def apply_jar_cookies_def
        playback_def login_call_def two_answers_def moved_def ureq_headers_def ureq_cookies_def next_hop_def redirect_target_def
        find_location_def names store_response_cookies_def ureq_done_def pool_reuse_heuristic_def Let_def hm_insert_def)
qed

theorem redirect_methods_witness:
  "\<exists>n. n \<in> {301, 302, 303, 307, 308} \<and> snd (hs_wire (fst (perform playback False login_call two_answers)) ! 0) = Some n
    \<and> rq_method (fst (hs_wire (fst (perform playback False login_call two_answers)) ! 1)) = ''GET''"
proof -
  have "perform playback False login_call two_answers =
      (fst (perform playback False login_call two_answers), snd (perform playback False login_call two_answers))" by simp
  from redirect_methods [OF this, of "hs_wire (fst (perform playback False login_call two_answers))" 0]
  show ?thesis by (simp add: login_wire Let_def)
qed

theorem credentials_follow_redirects_witness:
  "hm_get (rq_headers (fst (hs_wire (fst (perform playback False login_call two_answers)) ! 1))) ''Authorization'' = Some ''secret''
   \<and> rq_url (fst (hs_wire (fst (perform playback False login_call two_answers)) ! 1)) = ''http://b/''"
proof -
  have p: "perform playback False login_call two_answers =
      (fst (perform playback False login_call two_answers), snd (perform playback False login_call two_answers))" by simp
  have m: "(\<lparr>rq_method = ''GET'', rq_url = ''http://b/'', rq_headers = [(''Authorization'', ''secret'')], rq_body = None\<rparr>, Some 200)
      \<in> set (hs_wire (fst (perform playback False login_call two_answers)))"
    unfolding login_wire by simp
  from credentials_follow_redirects [OF p _ m] show ?thesis by (simp add: login_wire)
qed

theorem second_cookie_lost_witness:
  "ureq_cookies \<lparr>ur_status = 200, ur_names = [''set-cookie'', ''set-cookie''], ur_header = [''set-cookie'' \<mapsto> ''a=1'']\<rparr> = [''a=1'', ''a=1'']"
proof -
  have "list_all (\<lambda>n. to_lower n = n) [''set-cookie'', ''set-cookie'']" by code_simp
  then show ?thesis
    using second_cookie_lost [of "\<lparr>ur_status = 200, ur_names = [''set-cookie'', ''set-cookie''], ur_header = [''set-cookie'' \<mapsto> ''a=1'']\<rparr>"]
    by (simp add: numeral_2_eq_2)
qed

end
