(* ===== verification/HttpScript.thy ===== *)
theory HttpScript
  imports Http
begin

text \<open>
  What a script calls: the native functions registered by \<open>register_sync_http\<close> and the JavaScript
  layer over them (\<open>src/bridge/http_sync.rs\<close>): default options, hooks, file uploads, retries,
  batches, multipart forms, URL encoding and the helpers of a response. A JavaScript object is a
  map of \<open>js\<close> values; how the engine converts a value for a native function is the record
  \<open>conversions\<close>, functions of the script are HOL functions.
\<close>

section \<open>The native functions\<close>

record conversions =
  cv_string :: "js \<Rightarrow> string option"
  cv_strings :: "js \<Rightarrow> (string, string) hmap option"
  cv_bool :: "js \<Rightarrow> bool option"
  cv_u32 :: "js \<Rightarrow> nat option"
  cv_f64 :: "js \<Rightarrow> f64 option"

text \<open>A missing field is \<open>undefined\<close>.\<close>

definition field :: "(string, js) hmap \<Rightarrow> string \<Rightarrow> js" where
  "field obj k = (case hm_get obj k of None \<Rightarrow> JsUndefined | Some v \<Rightarrow> v)"

definition options_of :: "conversions \<Rightarrow> (string, js) hmap \<Rightarrow> request_options" where
  "options_of V obj = \<lparr>ro_name = cv_string V (field obj ''name''), ro_tags = cv_strings V (field obj ''tags''),
     ro_headers = cv_strings V (field obj ''headers''), ro_timeout_text = cv_string V (field obj ''timeout''),
     ro_timeout_ms = cv_f64 V (field obj ''timeout''), ro_follow = cv_bool V (field obj ''followRedirects''),
     ro_max = cv_u32 V (field obj ''maxRedirects'')\<rparr>"

text \<open>What a worker's functions are registered with: the transport, the sink mode, the process-wide
  redirect limit.\<close>

record http_setup =
  su_bridged :: bool
  su_sink :: bool
  su_max :: nat

text \<open>A result of a call from the script: how it failed, or its value.\<close>

type_synonym ('net, 'jar, 'a) result = "('net, 'jar) http_state \<times> (completion + 'a)"

definition native_call :: "('net, 'jar) web \<Rightarrow> http_setup \<Rightarrow> string \<Rightarrow> string \<Rightarrow> string option \<Rightarrow>
    (string, string) hmap \<Rightarrow> request_options \<Rightarrow> ('net, 'jar) http_state \<Rightarrow> ('net, 'jar, sync_response) result" where
  "native_call W su meth url body headers ro s = (case timeout_of (Some ro) of Panics \<Rightarrow> (s, Inl Unwound)
     | Returns timeout \<Rightarrow> (let (s1, resp) = perform W (su_bridged su)
           \<lparr>ca_request = \<lparr>rq_method = meth, rq_url = url, rq_headers = headers, rq_body = body\<rparr>,
            ca_timeout = timeout, ca_max = max_redirects_of (su_max su) (Some ro), ca_sink = su_sink su,
            ca_name = name_of (Some ro), ca_tags = tags_of (Some ro)\<rparr> s in (s1, Inr resp)))"

definition native_get where
  "native_get W su url ro = native_call W su ''GET'' url None (headers_of (Some ro)) ro"

definition native_post where
  "native_post W su url body ro = native_call W su ''POST'' url (Some body) (default_content_type (headers_of (Some ro))) ro"

definition native_put where
  "native_put W su url body ro = native_call W su ''PUT'' url (Some body) (default_content_type (headers_of (Some ro))) ro"

definition native_del where
  "native_del W su url ro = native_call W su ''DELETE'' url None (headers_of (Some ro)) ro"

definition native_patch where
  "native_patch W su url body ro = native_call W su ''PATCH'' url (Some body) (default_content_type (headers_of (Some ro))) ro"

definition native_head where
  "native_head W su url ro = native_call W su ''HEAD'' url None (headers_of (Some ro)) ro"

definition native_options where
  "native_options W su url ro = native_call W su ''OPTIONS'' url None (headers_of (Some ro)) ro"

definition upper_char :: "char \<Rightarrow> char" where
  "upper_char c = (if 97 \<le> code c \<and> code c \<le> 122 then char_of (code c - 32) else c)"

text \<open>Methods are ASCII.\<close>

definition to_upper :: "string \<Rightarrow> string" where
  "to_upper s = map upper_char s"

definition native_request where
  "native_request W su meth url body ro = native_call W su (to_upper meth) url body (headers_of (Some ro)) ro"

section \<open>Multipart forms and file markers\<close>

record form_field =
  ff_name :: string
  ff_value :: string

record form_data =
  fd_fields :: "form_field list"
  fd_boundary :: string

record file_part =
  fp_filename :: string
  fp_type :: string
  fp_content :: string

abbreviation crlf :: string where "crlf \<equiv> [CHR 0x0D, CHR 0x0A]"

definition fd_append :: "string \<Rightarrow> string \<Rightarrow> form_data \<Rightarrow> form_data" where
  "fd_append name v fd = fd\<lparr>fd_fields := fd_fields fd @ [\<lparr>ff_name = name, ff_value = v\<rparr>]\<rparr>"

text \<open>\<open>marker\<close> parses the JSON of a file marker, none when it is no marker.\<close>

definition file_marker :: "(string \<Rightarrow> file_part option) \<Rightarrow> js \<Rightarrow> file_part option" where
  "file_marker marker v = (case v of JsString s \<Rightarrow> if contains_str ''__fusillade_file'' s then marker s else None
     | _ \<Rightarrow> None)"

definition form_part :: "(string \<Rightarrow> file_part option) \<Rightarrow> string \<Rightarrow> form_field \<Rightarrow> string" where
  "form_part marker boundary f = ''--'' @ boundary @ crlf @ (case file_marker marker (JsString (ff_value f)) of
     Some p \<Rightarrow> ''Content-Disposition: form-data; name='' @ [CHR 0x22] @ ff_name f @ [CHR 0x22] @ ''; filename='' @ [CHR 0x22]
        @ fp_filename p @ [CHR 0x22] @ crlf @ ''Content-Type: '' @ fp_type p @ crlf @ crlf @ fp_content p
   | None \<Rightarrow> ''Content-Disposition: form-data; name='' @ [CHR 0x22] @ ff_name f @ [CHR 0x22] @ crlf @ crlf @ ff_value f)
   @ crlf"

definition form_body :: "(string \<Rightarrow> file_part option) \<Rightarrow> form_data \<Rightarrow> string" where
  "form_body marker fd = concat (map (form_part marker (fd_boundary fd)) (fd_fields fd))
     @ ''--'' @ fd_boundary fd @ ''--'' @ crlf"

definition form_content_type :: "form_data \<Rightarrow> string" where
  "form_content_type fd = ''multipart/form-data; boundary='' @ fd_boundary fd"

section \<open>URL encoding\<close>

text \<open>\<open>encodeURIComponent\<close>: every byte of the UTF-8 form but letters, digits and \<open>-_.!~*'()\<close>.\<close>

definition unreserved :: "char \<Rightarrow> bool" where
  "unreserved c = (code c < 128 \<and> is_alnum c \<or> c \<in> set ''-_.!~*()'' \<or> code c = 39)"

definition hex_upper :: "nat \<Rightarrow> char" where
  "hex_upper n = (if n < 10 then char_of (48 + n) else char_of (55 + n))"

definition percent :: "nat \<Rightarrow> string" where
  "percent b = [CHR ''%'', hex_upper (b div 16), hex_upper (b mod 16)]"

definition encode_char :: "char \<Rightarrow> string" where
  "encode_char c = (if unreserved c then [c] else if code c < 128 then percent (code c)
     else percent (192 + code c div 64) @ percent (128 + code c mod 64))"

definition encode_uri :: "string \<Rightarrow> string" where
  "encode_uri s = concat (map encode_char s)"

text \<open>The properties of an object in order, their values as strings.\<close>

definition form_encode :: "(string, string) hmap \<Rightarrow> string" where
  "form_encode obj = join_str ''&'' (map (\<lambda>(k, v). encode_uri k @ ''='' @ encode_uri v) obj)"

definition http_url :: "string \<Rightarrow> (string, string) hmap option \<Rightarrow> string" where
  "http_url base params = (case params of None \<Rightarrow> base | Some obj \<Rightarrow> if obj = [] then base
     else base @ (if CHR ''?'' \<in> set base then ''&'' else ''?'') @ form_encode obj)"

definition basic_auth :: "(string \<Rightarrow> string) \<Rightarrow> string \<Rightarrow> string \<Rightarrow> string" where
  "basic_auth b64 username password = ''Basic '' @ b64 (username @ '':'' @ password)"

definition bearer_token :: "string \<Rightarrow> string" where
  "bearer_token token = ''Bearer '' @ token"

section \<open>Defaults, hooks, retries\<close>

text \<open>The request a hook sees and may change. A hook that throws keeps what it changed so far; the
  error is logged.\<close>

record js_request =
  jr_method :: string
  jr_url :: string
  jr_body :: js
  jr_headers :: "(string, js) hmap"

record wrapper =
  wr_headers :: "(string, js) hmap option"
  wr_timeout :: js
  wr_before :: "(js_request \<Rightarrow> js_request \<times> string option) list"
  wr_after :: "(sync_response \<Rightarrow> sync_response \<times> string option) list"

definition set_defaults :: "(string, js) hmap \<Rightarrow> wrapper \<Rightarrow> wrapper" where
  "set_defaults opts w = w\<lparr>
     wr_timeout := (if ''timeout'' \<in> hm_keys opts then field opts ''timeout'' else wr_timeout w),
     wr_headers := (if ''headers'' \<in> hm_keys opts
        then (case field opts ''headers'' of JsObject h \<Rightarrow> Some h | _ \<Rightarrow> None) else wr_headers w)\<rparr>"

definition js_fields :: "js \<Rightarrow> (string, js) hmap" where
  "js_fields v = (case v of JsObject h \<Rightarrow> h | _ \<Rightarrow> [])"

definition merge_field :: "string \<times> js \<Rightarrow> (string, js) hmap \<Rightarrow> (string, js) hmap" where
  "merge_field = (\<lambda>(k, v) merged.
     if k = ''headers'' \<and> (\<exists>h. hm_get merged ''headers'' = Some (JsObject h))
     then hm_insert ''headers'' (JsObject (fold (\<lambda>(hk, hv). hm_insert hk hv) (js_fields v) (js_fields (field merged ''headers'')))) merged
     else hm_insert k v merged)"

definition merge_defaults :: "wrapper \<Rightarrow> (string, js) hmap \<Rightarrow> (string, js) hmap" where
  "merge_defaults w opts = fold merge_field opts
     ((case wr_headers w of None \<Rightarrow> [] | Some h \<Rightarrow> [(''headers'', JsObject h)])
      @ (if wr_timeout w = JsUndefined then [] else [(''timeout'', wr_timeout w)]))"

definition run_before :: "wrapper \<Rightarrow> js_request \<Rightarrow> worker_env \<Rightarrow> js_request \<times> worker_env" where
  "run_before w req env = foldl (\<lambda>(req, env) h. case h req of (req, None) \<Rightarrow> (req, env)
     | (req, Some e) \<Rightarrow> (req, console ConsoleError [JsString ''[Hook] beforeRequest error:'', JsString e] env))
     (req, env) (wr_before w)"

definition run_after :: "wrapper \<Rightarrow> sync_response \<Rightarrow> worker_env \<Rightarrow> sync_response \<times> worker_env" where
  "run_after w res env = foldl (\<lambda>(res, env) h. case h res of (res, None) \<Rightarrow> (res, env)
     | (res, Some e) \<Rightarrow> (res, console ConsoleError [JsString ''[Hook] afterResponse error:'', JsString e] env))
     (res, env) (wr_after w)"

text \<open>\<open>callNative\<close>: the arguments are converted for the native function; a body that is no string
  throws. Only the methods with a body, and DELETE with one, pass it on.\<close>

definition conversion_error :: completion where
  "conversion_error = Thrown ''Error converting from js into type string''"

definition is_nullish :: "js \<Rightarrow> bool" where
  "is_nullish v = (v = JsUndefined \<or> v = JsNull)"

definition with_text :: "conversions \<Rightarrow> js \<Rightarrow> (string \<Rightarrow> ('net, 'jar) http_state \<Rightarrow> ('net, 'jar, 'a) result) \<Rightarrow>
    ('net, 'jar) http_state \<Rightarrow> ('net, 'jar, 'a) result" where
  "with_text V body f s = (if is_nullish body then f [] s
     else case cv_string V body of None \<Rightarrow> (s, Inl conversion_error) | Some b \<Rightarrow> f b s)"

definition with_optional_text :: "conversions \<Rightarrow> js \<Rightarrow> (string option \<Rightarrow> ('net, 'jar) http_state \<Rightarrow> ('net, 'jar, 'a) result) \<Rightarrow>
    ('net, 'jar) http_state \<Rightarrow> ('net, 'jar, 'a) result" where
  "with_optional_text V body f s = (if is_nullish body then f None s
     else case cv_string V body of None \<Rightarrow> (s, Inl conversion_error) | Some b \<Rightarrow> f (Some b) s)"

definition call_native :: "('net, 'jar) web \<Rightarrow> conversions \<Rightarrow> http_setup \<Rightarrow> string \<Rightarrow> string \<Rightarrow> js \<Rightarrow> (string, js) hmap \<Rightarrow>
    ('net, 'jar) http_state \<Rightarrow> ('net, 'jar, sync_response) result" where
  "call_native W V su meth url body opts = (let ro = options_of V opts in
     if meth = ''GET'' then native_get W su url ro
     else if meth = ''POST'' then with_text V body (\<lambda>b. native_post W su url b ro)
     else if meth = ''PUT'' then with_text V body (\<lambda>b. native_put W su url b ro)
     else if meth = ''PATCH'' then with_text V body (\<lambda>b. native_patch W su url b ro)
     else if meth = ''DELETE'' then (if is_nullish body then native_del W su url ro
       else with_optional_text V body (\<lambda>b. native_request W su ''DELETE'' url b ro))
     else if meth = ''HEAD'' then native_head W su url ro
     else if meth = ''OPTIONS'' then native_options W su url ro
     else with_optional_text V body (\<lambda>b. native_request W su meth url b ro))"

text \<open>The functions an options object may carry.\<close>

record retry_functions =
  rf_retry_on :: "(sync_response \<Rightarrow> bool) option"
  rf_delay :: "(nat \<Rightarrow> f64) option"

text \<open>A number of JavaScript.\<close>

definition js_number :: "js \<Rightarrow> f64 option" where
  "js_number v = (case v of JsInt n \<Rightarrow> Some (to_f64 (of_int n)) | JsFloat x \<Rightarrow> Some x | _ \<Rightarrow> None)"

definition retry_limit :: "(string, js) hmap \<Rightarrow> f64" where
  "retry_limit opts = (case js_number (field opts ''retry'') of None \<Rightarrow> Fin 0 | Some x \<Rightarrow> x)"

definition should_retry :: "retry_functions \<Rightarrow> sync_response \<Rightarrow> bool" where
  "should_retry F res = (case rf_retry_on F of Some p \<Rightarrow> p res | None \<Rightarrow> sr_status res = 0)"

definition retry_delay :: "retry_functions \<Rightarrow> (string, js) hmap \<Rightarrow> nat \<Rightarrow> f64" where
  "retry_delay F opts attempt = (case rf_delay F of Some f \<Rightarrow> f attempt
     | None \<Rightarrow> f_mul (case js_number (field opts ''retryDelay'') of None \<Rightarrow> Fin 100 | Some x \<Rightarrow> x)
         (f_of_nat (min (2 ^ (attempt - 1)) 32)))"

definition sleep_before_retry :: "f64 \<Rightarrow> ('net, 'jar) http_state \<Rightarrow> ('net, 'jar) http_state \<times> completion" where
  "sleep_before_retry delay s = (if f_lt (Fin 0) delay
     then (case sleep_for (f_div delay (Fin 1000)) (hs_env s) of (env, c) \<Rightarrow> (s\<lparr>hs_env := env\<rparr>, c))
     else (s, Completed))"

text \<open>The loop: none when it does not end (a limit of \<open>Infinity\<close> that is always retried).\<close>

partial_function (option) retry_loop :: "(('net, 'jar) http_state \<Rightarrow> ('net, 'jar, sync_response) result) \<Rightarrow>
    retry_functions \<Rightarrow> (string, js) hmap \<Rightarrow> f64 \<Rightarrow> nat \<Rightarrow> ('net, 'jar) http_state \<Rightarrow> sync_response \<Rightarrow>
    ('net, 'jar, sync_response) result option" where
  "retry_loop again F opts limit attempt s res =
     (if \<not> (f_le (f_of_nat attempt) limit \<and> should_retry F res) then Some (s, Inr res)
      else case sleep_before_retry (retry_delay F opts attempt) s of
        (s, Completed) \<Rightarrow> (case again s of (s, Inl e) \<Rightarrow> Some (s, Inl e)
          | (s, Inr res) \<Rightarrow> retry_loop again F opts limit (attempt + 1) s res)
      | (s, e) \<Rightarrow> Some (s, Inl e))"

text \<open>\<open>dispatch\<close>. \<open>boundary\<close> is the random boundary of an upload. The result comes with the headers
  object of the caller's options as the call leaves it: without default headers it is the same
  object as the request's.\<close>

record upload =
  up_marker :: "string \<Rightarrow> file_part option"
  up_boundary :: string

definition upload_request :: "upload \<Rightarrow> js_request \<Rightarrow> js_request" where
  "upload_request U req = (case file_marker (up_marker U) (jr_body req) of None \<Rightarrow> req
     | Some p \<Rightarrow> (let fd = fd_append ''file'' (case jr_body req of JsString b \<Rightarrow> b | _ \<Rightarrow> [])
           \<lparr>fd_fields = [], fd_boundary = up_boundary U\<rparr>
         in req\<lparr>jr_body := JsString (form_body (up_marker U) fd),
                jr_headers := hm_insert ''Content-Type'' (JsString (form_content_type fd)) (jr_headers req)\<rparr>))"

definition prepared :: "upload \<Rightarrow> wrapper \<Rightarrow> string option \<Rightarrow> string \<Rightarrow> js \<Rightarrow> (string, js) hmap \<Rightarrow> worker_env \<Rightarrow>
    js_request \<times> worker_env" where
  "prepared U w meth url body opts env = (let merged = merge_defaults w opts;
       (req, env) = run_before w \<lparr>jr_method = to_upper (case meth of None \<Rightarrow> ''GET'' | Some m \<Rightarrow> if m = [] then ''GET'' else m),
         jr_url = url, jr_body = body, jr_headers = js_fields (field merged ''headers'')\<rparr> env
     in (upload_request U req, env))"

definition dispatch :: "('net, 'jar) web \<Rightarrow> conversions \<Rightarrow> http_setup \<Rightarrow> upload \<Rightarrow> retry_functions \<Rightarrow> wrapper \<Rightarrow>
    string option \<Rightarrow> string \<Rightarrow> js \<Rightarrow> (string, js) hmap \<Rightarrow> ('net, 'jar) http_state \<Rightarrow> ('net, 'jar, sync_response) result option" where
  "dispatch W V su U F w meth url body opts s = (let (req, env) = prepared U w meth url body opts (hs_env s);
       merged = hm_insert ''headers'' (JsObject (jr_headers req)) (merge_defaults w opts);
       again = call_native W V su (jr_method req) (jr_url req) (jr_body req) merged
     in case again (s\<lparr>hs_env := env\<rparr>) of (s, Inl e) \<Rightarrow> Some (s, Inl e)
       | (s, Inr res) \<Rightarrow> (case retry_loop again F merged (retry_limit merged) 1 s res of None \<Rightarrow> None
           | Some (s, Inl e) \<Rightarrow> Some (s, Inl e)
           | Some (s, Inr res) \<Rightarrow> (let (res, env) = run_after w res (hs_env s) in Some (s\<lparr>hs_env := env\<rparr>, Inr res))))"

definition caller_headers :: "upload \<Rightarrow> wrapper \<Rightarrow> string option \<Rightarrow> string \<Rightarrow> js \<Rightarrow> (string, js) hmap \<Rightarrow> worker_env \<Rightarrow>
    (string, js) hmap" where
  "caller_headers U w meth url body opts env = (case wr_headers w of Some _ \<Rightarrow> js_fields (field opts ''headers'')
     | None \<Rightarrow> jr_headers (fst (prepared U w meth url body opts env)))"

text \<open>\<open>http.batch\<close> without its progress callback, whose errors are swallowed: one call after the other
  until one fails.\<close>

record batch_request =
  br_method :: "string option"
  br_url :: string
  br_body :: js
  br_options :: "(string, js) hmap"
  br_functions :: retry_functions

fun http_batch :: "('net, 'jar) web \<Rightarrow> conversions \<Rightarrow> http_setup \<Rightarrow> upload \<Rightarrow> wrapper \<Rightarrow> batch_request list \<Rightarrow>
    ('net, 'jar) http_state \<Rightarrow> ('net, 'jar, sync_response list) result option" where
  "http_batch W V su U w [] s = Some (s, Inr [])"
| "http_batch W V su U w (r # rs) s =
     (case dispatch W V su U (br_functions r) w (br_method r) (br_url r) (br_body r) (br_options r) s of
        None \<Rightarrow> None | Some (s, Inl e) \<Rightarrow> Some (s, Inl e)
      | Some (s, Inr res) \<Rightarrow> (case http_batch W V su U w rs s of None \<Rightarrow> None | Some (s, Inl e) \<Rightarrow> Some (s, Inl e)
          | Some (s, Inr ress) \<Rightarrow> Some (s, Inr (res # ress))))"

section \<open>Helpers of a response\<close>

definition has_header :: "string \<Rightarrow> string option \<Rightarrow> (string, string) hmap \<Rightarrow> bool" where
  "has_header name v h = (case hm_get h name of
     Some x \<Rightarrow> (case v of None \<Rightarrow> True | Some v \<Rightarrow> x = v)
   | None \<Rightarrow> (case find (\<lambda>(k, _). to_lower k = to_lower name) h of
       Some (_, x) \<Rightarrow> (case v of None \<Rightarrow> True | Some v \<Rightarrow> x = v) | None \<Rightarrow> False))"

definition is_json :: "(string, string) hmap \<Rightarrow> bool" where
  "is_json h = (let ct = (case hm_get h ''content-type'' of Some (c # cs) \<Rightarrow> Some (c # cs)
       | _ \<Rightarrow> hm_get h ''Content-Type'') in
     case ct of None \<Rightarrow> False | Some ct \<Rightarrow> contains_str ''application/json'' ct)"

text \<open>\<open>typeof\<close> of a value of JSON, and the check of a schema; \<open>parse\<close> is \<open>JSON.parse\<close>.\<close>

definition type_name :: "js \<Rightarrow> string" where
  "type_name v = (case v of JsUndefined \<Rightarrow> ''undefined'' | JsNull \<Rightarrow> ''object'' | JsBool _ \<Rightarrow> ''boolean''
     | JsInt _ \<Rightarrow> ''number'' | JsFloat _ \<Rightarrow> ''number'' | JsString _ \<Rightarrow> ''string'' | JsArray _ \<Rightarrow> ''object''
     | JsObject _ \<Rightarrow> ''object'' | JsOther \<Rightarrow> ''function'')"

definition matches_type :: "js \<Rightarrow> string \<Rightarrow> bool" where
  "matches_type v expected = (if v = JsUndefined then False
     else if expected = ''array'' then (\<exists>xs. v = JsArray xs)
     else if expected = ''object'' then (\<exists>fs. v = JsObject fs)
     else type_name v = expected)"

definition property :: "js \<Rightarrow> string \<Rightarrow> js" where
  "property v k = (case as_object v of None \<Rightarrow> JsUndefined | Some fs \<Rightarrow> field fs k)"

definition matches_schema :: "(string \<Rightarrow> js option) \<Rightarrow> (string, string) hmap \<Rightarrow> string \<Rightarrow> bool" where
  "matches_schema parse schema body = (case parse body of None \<Rightarrow> False
     | Some v \<Rightarrow> (case as_object v of None \<Rightarrow> False
         | Some _ \<Rightarrow> list_all (\<lambda>(k, expected). matches_type (property v k) expected) schema))"

text \<open>The object a script gets. \<open>parse\<close> reads a \<open>Set-Cookie\<close> line: the cookie's name and its object.
  The phases of the connection are constants here, whatever was measured.\<close>

definition timings_object :: "request_timings \<Rightarrow> js" where
  "timings_object t = JsObject [(''duration'', JsFloat (f_mul (as_secs_f64 (t_duration t)) (Fin 1000))),
     (''blocked'', JsFloat (Fin 0)), (''connecting'', JsFloat (Fin 0)), (''tls_handshaking'', JsFloat (Fin 0)),
     (''sending'', JsFloat (Fin 0)), (''waiting'', JsFloat (f_mul (as_secs_f64 (t_waiting t)) (Fin 1000))),
     (''receiving'', JsFloat (f_mul (as_secs_f64 (t_receiving t)) (Fin 1000)))]"

definition cookies_object :: "(string \<Rightarrow> (string \<times> js) option) \<Rightarrow> string list \<Rightarrow> js" where
  "cookies_object parse ls = JsObject (fold (\<lambda>l obj. case parse l of None \<Rightarrow> obj
     | Some (name, c) \<Rightarrow> hm_insert name c obj) ls [])"

definition response_object :: "(string \<Rightarrow> (string \<times> js) option) \<Rightarrow> sync_response \<Rightarrow> (string, js) hmap" where
  "response_object parse r = [(''status'', JsInt (int (sr_status r))), (''status_text'', JsString (sr_status_text r)),
     (''statusText'', JsString (sr_status_text r)), (''proto'', JsString (sr_proto r)), (''body'', JsString (sr_body r)),
     (''headers'', JsObject (map (\<lambda>(k, v). (k, JsString v)) (sr_headers r))), (''timings'', timings_object (sr_timings r)),
     (''cookies'', cookies_object parse (sr_set_cookie r))]
     @ (case sr_error r of None \<Rightarrow> [] | Some e \<Rightarrow> [(''error'', JsString e)])
     @ (case sr_error_code r of None \<Rightarrow> [] | Some e \<Rightarrow> [(''errorCode'', JsString e)])"

section \<open>A call of the script ends\<close>

lemma perform_wire:
  "perform W bridged c s = (s1, resp) \<Longrightarrow> length (hs_wire s1) \<le> length (hs_wire s) + (ca_max c + 1)"
  using perform_trail by fastforce

lemma native_wire:
  "native_call W su meth url body h ro s = (s1, r) \<Longrightarrow>
    length (hs_wire s1) \<le> length (hs_wire s) + (max_redirects_of (su_max su) (Some ro) + 1)"
  using perform_wire by (fastforce simp: native_call_def Let_def split: outcome.splits prod.splits)

lemmas native_defs = native_get_def native_post_def native_put_def native_del_def native_patch_def native_head_def
  native_options_def native_request_def

lemma call_native_wire:
  "call_native W V su meth url body opts s = (s1, r) \<Longrightarrow>
    length (hs_wire s1) \<le> length (hs_wire s) + (max_redirects_of (su_max su) (Some (options_of V opts)) + 1)"
  by (auto simp: call_native_def with_text_def with_optional_text_def native_defs Let_def dest!: native_wire
      split: if_splits option.splits)

lemma sleep_wire: "sleep_before_retry delay s = (s1, c) \<Longrightarrow> hs_wire s1 = hs_wire s"
  by (auto simp: sleep_before_retry_def split: prod.splits if_splits)

text \<open>At most \<open>n + 1 - attempt\<close> further calls, each of at most \<open>m\<close> requests.\<close>

lemma retry_loop_ends:
  assumes again: "\<And>s s1 r. again s = (s1, r) \<Longrightarrow> length (hs_wire s1) \<le> length (hs_wire s) + m"
    and limit: "\<not> f_le (f_of_nat (Suc n)) limit"
  shows "attempt \<le> Suc n \<Longrightarrow> \<exists>s1 r. retry_loop again F opts limit attempt s res = Some (s1, r)
    \<and> length (hs_wire s1) \<le> length (hs_wire s) + (Suc n - attempt) * m"
proof (induction "Suc n - attempt" arbitrary: attempt s res)
  case 0
  then have "attempt = Suc n" by simp
  with limit show ?case by (simp add: retry_loop.simps)
next
  case (Suc k)
  show ?case
  proof (cases "f_le (f_of_nat attempt) limit \<and> should_retry F res")
    case True
    obtain s2 c where sl: "sleep_before_retry (retry_delay F opts attempt) s = (s2, c)" by force
    obtain s3 r where ag: "again s2 = (s3, r)" by force
    have wire: "hs_wire s2 = hs_wire s" "length (hs_wire s3) \<le> length (hs_wire s) + m"
      using sleep_wire [OF sl] again [OF ag] by auto
    have mult: "(Suc n - attempt) * m = m + (Suc n - (attempt + 1)) * m"
      using Suc.hyps(2) by (metis Suc_eq_plus1 Suc_diff_Suc diff_Suc_Suc mult_Suc zero_less_Suc zero_less_diff)
    show ?thesis
    proof (cases "c = Completed \<and> (\<exists>res. r = Inr res)")
      case True
      then obtain res' where r: "r = Inr res'" "c = Completed" by auto
      have "\<exists>s1 r. retry_loop again F opts limit (attempt + 1) s3 res' = Some (s1, r)
          \<and> length (hs_wire s1) \<le> length (hs_wire s3) + (Suc n - (attempt + 1)) * m"
        using Suc.hyps(1) [of "attempt + 1" s3 res'] Suc.hyps(2) by simp
      with \<open>f_le _ _ \<and> _\<close> sl ag r wire mult show ?thesis
        by (subst retry_loop.simps) auto
    next
      case False
      with \<open>f_le _ _ \<and> _\<close> sl ag wire mult show ?thesis
        by (subst retry_loop.simps) (cases c; cases r; auto)
    qed
  qed (simp add: retry_loop.simps)
qed

lemma retry_limit_insert: "retry_limit (hm_insert ''headers'' v opts) = retry_limit opts"
  by (simp add: retry_limit_def field_def hmap)


definition plain_conversions :: conversions where
  "plain_conversions = \<lparr>cv_string = (\<lambda>v. case v of JsString s \<Rightarrow> Some s | _ \<Rightarrow> None), cv_strings = (\<lambda>_. None),
     cv_bool = (\<lambda>v. case v of JsBool b \<Rightarrow> Some b | _ \<Rightarrow> None),
     cv_u32 = (\<lambda>v. case v of JsInt n \<Rightarrow> if 0 \<le> n then Some (nat n) else None | _ \<Rightarrow> None), cv_f64 = js_number\<rparr>"

definition no_wrapper :: wrapper where
  "no_wrapper = \<lparr>wr_headers = None, wr_timeout = JsUndefined, wr_before = [], wr_after = []\<rparr>"

definition no_functions :: retry_functions where
  "no_functions = \<lparr>rf_retry_on = None, rf_delay = None\<rparr>"

definition no_upload :: upload where
  "no_upload = \<lparr>up_marker = (\<lambda>_. None), up_boundary = ''b''\<rparr>"

definition plain_setup :: http_setup where
  "plain_setup = \<lparr>su_bridged = False, su_sink = False, su_max = 10\<rparr>"


section \<open>Form encoding is decodable\<close>

text \<open>The decoder of \<open>application/x-www-form-urlencoded\<close> (without \<open>+\<close>): percent escapes to bytes, bytes
  to characters.\<close>

definition unhex :: "char \<Rightarrow> nat" where
  "unhex c = (if code c < 58 then code c - 48 else code c - 55)"

fun unescape :: "string \<Rightarrow> nat list" where
  "unescape [] = []"
| "unescape (c # s) = (if c = CHR ''%'' then (case s of a # b # t \<Rightarrow> (unhex a * 16 + unhex b) # unescape t | _ \<Rightarrow> [])
     else code c # unescape s)"

fun from_bytes :: "nat list \<Rightarrow> string" where
  "from_bytes [] = []"
| "from_bytes (b # bs) = (if b < 128 then char_of b # from_bytes bs
     else case bs of [] \<Rightarrow> [] | b' # bs' \<Rightarrow> char_of ((b - 192) * 64 + (b' - 128)) # from_bytes bs')"

definition decode_uri :: "string \<Rightarrow> string" where
  "decode_uri s = from_bytes (unescape s)"

fun split_at :: "char \<Rightarrow> string \<Rightarrow> string \<Rightarrow> string list" where
  "split_at d acc [] = [acc]"
| "split_at d acc (c # s) = (if c = d then acc # split_at d [] s else split_at d (acc @ [c]) s)"

definition form_decode :: "string \<Rightarrow> (string \<times> string) option list" where
  "form_decode s = map (\<lambda>p. map_option (\<lambda>(k, v). (decode_uri k, decode_uri v)) (split_once (CHR ''='') p)) (split_at (CHR ''&'') [] s)"

lemma code_of_small: "n < 256 \<Longrightarrow> code (char_of n) = n"
  by simp

lemma unhex_hex: "n < 16 \<Longrightarrow> unhex (hex_upper n) = n"
  by (simp add: unhex_def hex_upper_def)

lemma unescape_percent: "b < 256 \<Longrightarrow> unescape (percent b @ s) = b # unescape s"
  by (simp add: percent_def unhex_hex)

lemma percent_free: "b < 256 \<Longrightarrow> d \<in> {CHR ''&'', CHR ''=''} \<Longrightarrow> d \<notin> set (percent b)"
proof -
  assume b: "b < 256" and d: "d \<in> {CHR ''&'', CHR ''=''}"
  have hex: "d \<noteq> hex_upper n" if "n < 16" for n
  proof
    assume eq: "d = hex_upper n"
    have "code d = (if n < 10 then 48 + n else 55 + n)" using that unfolding eq hex_upper_def by simp
    moreover have "code d = 38 \<or> code d = 61" using d by auto
    ultimately show False using that by (auto split: if_splits)
  qed
  show ?thesis using d hex [of "b div 16"] hex [of "b mod 16"] b by (auto simp: percent_def)
qed

lemma utf8_bytes: "192 + code c div 64 < 256" "128 + code c mod 64 < 256"
proof -
  have "code c < 4 * 64" by simp
  then have "code c div 64 < 4" by (rule less_mult_imp_div_less)
  moreover have "code c mod 64 < 64" by simp
  ultimately show "192 + code c div 64 < 256" "128 + code c mod 64 < 256" by linarith+
qed

lemma encode_char_decodes: "from_bytes (unescape (encode_char c @ s)) = c # from_bytes (unescape s)"
proof -
  consider "unreserved c" | "\<not> unreserved c" "code c < 128" | "\<not> unreserved c" "128 \<le> code c" by linarith
  then show ?thesis
  proof cases
    case 1
    then have "code c < 128" "c \<noteq> CHR ''%''" by (auto simp: unreserved_def is_alnum_def is_digit_def)
    with 1 show ?thesis by (simp add: encode_char_def)
  next
    case 2
    then show ?thesis by (simp add: encode_char_def unescape_percent)
  next
    case 3
    have "(192 + code c div 64 - 192) * 64 + (128 + code c mod 64 - 128) = code c" by simp
    with utf8_bytes [of c] 3 show ?thesis by (simp add: encode_char_def unescape_percent)
  qed
qed

lemma encode_uri_decodes: "decode_uri (encode_uri s) = s"
  by (induction s) (simp_all add: decode_uri_def encode_uri_def encode_char_decodes)

lemma encode_char_free:
  assumes d: "d \<in> {CHR ''&'', CHR ''=''}"
  shows "d \<notin> set (encode_char c)"
proof -
  have "code c < 256" by simp
  with percent_free [OF _ d] utf8_bytes [of c] have "d \<notin> set (percent (code c))"
      "d \<notin> set (percent (192 + code c div 64))" "d \<notin> set (percent (128 + code c mod 64))" by blast+
  moreover have "\<not> unreserved d" using d by (auto simp: unreserved_def is_alnum_def is_digit_def)
  ultimately show ?thesis by (auto simp: encode_char_def)
qed

lemma encode_uri_free: "d \<in> {CHR ''&'', CHR ''=''} \<Longrightarrow> d \<notin> set (encode_uri s)"
  using encode_char_free by (simp add: encode_uri_def)

lemma split_at_part: "d \<notin> set xs \<Longrightarrow> split_at d acc (xs @ d # ys) = (acc @ xs) # split_at d [] ys"
  by (induction xs arbitrary: acc) auto

lemma split_at_whole: "d \<notin> set xs \<Longrightarrow> split_at d acc xs = [acc @ xs]"
  by (induction xs arbitrary: acc) auto

lemma split_at_join:
  "list_all (\<lambda>p. d \<notin> set p) ps \<Longrightarrow> ps \<noteq> [] \<Longrightarrow> split_at d [] (join_str [d] ps) = ps"
  by (induction "[d]" ps rule: join_str.induct) (auto simp: split_at_part split_at_whole)

text \<open>A form survives its encoding: whatever the names and values of \<open>formEncode\<close> contain, splitting
  its result at \<open>&\<close> and \<open>=\<close> and undoing the percent escapes gives the same pairs back in order.\<close>

theorem form_roundtrip:
  assumes "obj \<noteq> []"
  shows "form_decode (form_encode obj) = map Some obj"
proof -
  have free: "CHR ''&'' \<notin> set (encode_uri k @ ''='' @ encode_uri v)" "CHR ''='' \<notin> set (encode_uri k)" for k v
    using encode_uri_free [of "CHR ''&''"] encode_uri_free [of "CHR ''=''"] by auto
  have "split_at (CHR ''&'') [] (form_encode obj) = map (\<lambda>(k, v). encode_uri k @ ''='' @ encode_uri v) obj"
    unfolding form_encode_def using assms free(1) by (intro split_at_join) (auto simp: list_all_iff)
  moreover have "map_option (\<lambda>(k, v). (decode_uri k, decode_uri v)) (split_once (CHR ''='') ((\<lambda>(k, v). encode_uri k @ ''='' @ encode_uri v) p))
      = Some p" for p
    using free(2) [of "fst p"] split_once_append [of "CHR ''=''" "encode_uri (fst p)" "encode_uri (snd p)"]
    by (cases p) (simp add: encode_uri_decodes)
  ultimately show ?thesis unfolding form_decode_def map_map comp_def by (simp only: map_map comp_def)
qed

theorem form_roundtrip_witness: "form_decode (form_encode [(''q'', ''a&b=c d'')]) = [Some (''q'', ''a&b=c d'')]"
  using form_roundtrip [of "[(''q'', ''a&b=c d'')]"] by simp

section \<open>An upload changes its caller's options\<close>

text \<open>An upload changes the options of later calls: without default headers, a call whose body is a
  file marker leaves its own multipart content type, with the boundary of that upload, in the headers
  object the script passed in.\<close>

theorem upload_changes_options:
  assumes "wr_headers w = None" "wr_before w = []" "file_marker (up_marker U) body = Some part"
  shows "hm_get (caller_headers U w meth url body opts env) ''Content-Type'' =
    Some (JsString (''multipart/form-data; boundary='' @ up_boundary U))"
  using assms
  by (simp add: caller_headers_def prepared_def run_before_def upload_request_def Let_def hmap form_content_type_def
      fd_append_def del: map_of_eq_Some_iff)

theorem upload_changes_options_witness:
  "hm_get (caller_headers (no_upload\<lparr>up_marker := (\<lambda>_. Some \<lparr>fp_filename = ''f'', fp_type = ''t'', fp_content = ''c''\<rparr>)\<rparr>) no_wrapper
     (Some ''POST'') ''http://a/'' (JsString ''__fusillade_file'') [(''headers'', JsObject [])] new_env) ''Content-Type''
   = Some (JsString ''multipart/form-data; boundary=b'')"
proof -
  have "contains_str ''__fusillade_file'' ''__fusillade_file''" by code_simp
  then show ?thesis
    using upload_changes_options [of no_wrapper "no_upload\<lparr>up_marker := (\<lambda>_. Some \<lparr>fp_filename = ''f'', fp_type = ''t'', fp_content = ''c''\<rparr>)\<rparr>"
        "JsString ''__fusillade_file''" "\<lparr>fp_filename = ''f'', fp_type = ''t'', fp_content = ''c''\<rparr>" "Some ''POST''" "''http://a/''"
        "[(''headers'', JsObject [])]" new_env]
    by (simp add: no_wrapper_def no_upload_def file_marker_def)
qed

text \<open>A body is not sent with GET, HEAD and OPTIONS: those natives take none.\<close>

lemma body_dropped:
  "meth \<in> {''GET'', ''HEAD'', ''OPTIONS''} \<Longrightarrow> call_native W V su meth url body opts s = call_native W V su meth url JsUndefined opts s"
  by (auto simp: call_native_def)

end
