(* ===== verification/WebSocket.thy ===== *)
theory WebSocket
  imports Script Generators
begin

text \<open>
  WebSockets (\<open>src/bridge/ws.rs\<close>): connecting, sending, receiving and closing, and the reconnection
  with exponential backoff. The socket is the tungstenite crate's: connecting, reading and writing
  are arguments, with the state of the network and the clock they move. An operation returns the new
  state, the metrics it hands to the metrics channel, and its result or the error it throws.
\<close>

section \<open>Metrics of a protocol call\<close>

datatype js_error = Exception | ThrownValue string | FromJs string string

definition make_metric :: "string \<Rightarrow> duration \<Rightarrow> string option \<Rightarrow> metric" where
  "make_metric name elapsed error = Request name (default_timings\<lparr>t_duration := elapsed, t_waiting := elapsed\<rparr>)
     (if error = None then 200 else 0) error []"

text \<open>What every metric of a protocol call is: it is a request, it waits for all of its duration, it
  has no tags, and its status is 200 without an error and 0 with one.\<close>

definition honest :: "metric \<Rightarrow> bool" where
  "honest m = (is_Request m \<and> request_tags m = [] \<and> t_waiting (request_time m) = t_duration (request_time m)
     \<and> request_status m = (if request_error m = None then 200 else 0))"

lemma honest_make_metric [simp]: "honest (make_metric name d e)"
  by (simp add: honest_def make_metric_def)

lemma make_metric_parts [simp]:
  "request_name (make_metric name d e) = name" "request_error (make_metric name d e) = e"
  by (simp_all add: make_metric_def)

section \<open>State\<close>

datatype ws_message = TextMsg string | BinaryMsg "byte list" | CloseMsg | ControlMsg

record ('n, 's) sockets =
  sk_now :: "'n \<Rightarrow> duration"
  sk_sleep :: "duration \<Rightarrow> 'n \<Rightarrow> 'n"
  sk_connect :: "string \<Rightarrow> 'n \<Rightarrow> 'n \<times> (string + 's)"
  sk_send :: "ws_message \<Rightarrow> 's \<Rightarrow> 'n \<Rightarrow> 'n \<times> 's \<times> string option"
  sk_read :: "'s \<Rightarrow> 'n \<Rightarrow> 'n \<times> 's \<times> (string + ws_message)"
  sk_close :: "'s \<Rightarrow> 'n \<Rightarrow> 'n"
  sk_decode :: "string \<Rightarrow> string + byte list"
  sk_encode :: "byte list \<Rightarrow> string"

record ('n, 's) web_socket =
  so_net :: 'n
  so_inner :: "'s option"
  so_url :: string
  so_reconnect :: bool
  so_max_retries :: nat

type_synonym ('n, 's, 'a) ws_result = "('n, 's) web_socket \<times> metric list \<times> 'a"

definition since :: "('n, 's) sockets \<Rightarrow> duration \<Rightarrow> 'n \<Rightarrow> duration" where
  "since K start net = sk_now K net - start"

section \<open>Reconnecting\<close>

text \<open>\<open>2u64.pow(attempt)\<close> and the product wrap in a release build.\<close>

definition backoff_delay :: "nat \<Rightarrow> duration" where
  "backoff_delay attempt = unat ((100 :: u64) * 2 ^ attempt) * millis"

fun reconnect_loop :: "('n, 's) sockets \<Rightarrow> nat list \<Rightarrow> ('n, 's) web_socket \<Rightarrow> ('n, 's, bool) ws_result" where
  "reconnect_loop K [] s = (s, [], False)"
| "reconnect_loop K (attempt # rest) s =
     (let net = sk_sleep K (backoff_delay attempt) (so_net s); start = sk_now K net;
          (net, answer) = sk_connect K (so_url s) net
      in case answer of
           Inr socket \<Rightarrow> (s\<lparr>so_net := net, so_inner := Some socket\<rparr>,
             [make_metric ''ws::reconnect'' (since K start net) None], True)
         | Inl e \<Rightarrow> (let m = make_metric ''ws::reconnect'' (since K start net)
               (Some (''WebSocket reconnect attempt '' @ show_nat (attempt + 1) @ ''/''
                  @ show_nat (so_max_retries s) @ '' failed: '' @ e));
               (s, ms, ok) = reconnect_loop K rest (s\<lparr>so_net := net\<rparr>)
             in (s, m # ms, ok)))"

definition attempt_reconnect :: "('n, 's) sockets \<Rightarrow> ('n, 's) web_socket \<Rightarrow> ('n, 's, bool) ws_result" where
  "attempt_reconnect K s = reconnect_loop K [0..<so_max_retries s] s"

text \<open>The opening of \<open>send\<close> and \<open>recv\<close>: without a socket, and with the option, reconnect first.\<close>

definition ensure_connected :: "('n, 's) sockets \<Rightarrow> ('n, 's) web_socket \<Rightarrow> ('n, 's, bool) ws_result" where
  "ensure_connected K s =
     (if so_inner s = None \<and> so_reconnect s then attempt_reconnect K s else (s, [], True))"

section \<open>Operations\<close>

definition ws_write :: "('n, 's) sockets \<Rightarrow> string \<Rightarrow> string \<Rightarrow> duration \<Rightarrow> ws_message \<Rightarrow> ('n, 's) web_socket
    \<Rightarrow> ('n, 's, js_error + js) ws_result" where
  "ws_write K name failure start msg s = (case so_inner s of
     Some ws \<Rightarrow> (let (net, ws, err) = sk_send K msg ws (so_net s); s = s\<lparr>so_net := net, so_inner := Some ws\<rparr>
       in case err of
            None \<Rightarrow> (s, [make_metric name (since K start net) None], Inr JsUndefined)
          | Some e \<Rightarrow> (s, [make_metric name (since K start net) (Some (failure @ e))], Inl Exception))
   | None \<Rightarrow> (s, [make_metric name (since K start (so_net s)) (Some ''WebSocket not connected'')], Inl Exception))"

definition ws_send :: "('n, 's) sockets \<Rightarrow> string \<Rightarrow> ('n, 's) web_socket \<Rightarrow> ('n, 's, js_error + js) ws_result" where
  "ws_send K msg s = (let start = sk_now K (so_net s); (s, rs, ok) = ensure_connected K s in
     if ok then (let (s, ms, r) = ws_write K ''ws::send'' ''WS Send Error: '' start (TextMsg msg) s in (s, rs @ ms, r))
     else (s, rs @ [make_metric ''ws::send'' (since K start (so_net s))
        (Some ''WebSocket not connected, reconnect failed'')], Inl Exception))"

definition ws_send_binary :: "('n, 's) sockets \<Rightarrow> string \<Rightarrow> ('n, 's) web_socket \<Rightarrow> ('n, 's, js_error + js) ws_result" where
  "ws_send_binary K data s = (let start = sk_now K (so_net s) in
     case sk_decode K data of
       Inl e \<Rightarrow> (s, [make_metric ''ws::sendBinary'' (since K start (so_net s)) (Some (''Base64 decode error: '' @ e))], Inl Exception)
     | Inr bytes \<Rightarrow> ws_write K ''ws::sendBinary'' ''WS SendBinary Error: '' start (BinaryMsg bytes) s)"

definition message_value :: "('n, 's) sockets \<Rightarrow> ws_message \<Rightarrow> js" where
  "message_value K m = (case m of TextMsg s \<Rightarrow> JsString s
     | BinaryMsg b \<Rightarrow> JsObject [(''type'', JsString ''binary''), (''data'', JsString (sk_encode K b))]
     | CloseMsg \<Rightarrow> JsNull | ControlMsg \<Rightarrow> JsUndefined)"

definition ws_read :: "('n, 's) sockets \<Rightarrow> duration \<Rightarrow> ('n, 's) web_socket \<Rightarrow> ('n, 's, js_error + js) ws_result" where
  "ws_read K start s = (case so_inner s of
     None \<Rightarrow> (s, [], Inr JsNull)
   | Some ws \<Rightarrow> (let (net, ws, answer) = sk_read K ws (so_net s); s = s\<lparr>so_net := net, so_inner := Some ws\<rparr>
       in case answer of
            Inr m \<Rightarrow> (if m = CloseMsg then s\<lparr>so_inner := None\<rparr> else s,
              [make_metric ''ws::recv'' (since K start net) None], Inr (message_value K m))
          | Inl e \<Rightarrow> (s, [make_metric ''ws::recv'' (since K start net) (Some (''WS Recv Error: '' @ e))], Inl Exception)))"

definition ws_recv :: "('n, 's) sockets \<Rightarrow> ('n, 's) web_socket \<Rightarrow> ('n, 's, js_error + js) ws_result" where
  "ws_recv K s = (let start = sk_now K (so_net s); (s, rs, ok) = ensure_connected K s in
     if ok then (let (s, ms, r) = ws_read K start s in (s, rs @ ms, r))
     else (s, rs @ [make_metric ''ws::recv'' (since K start (so_net s))
        (Some ''WebSocket not connected, reconnect failed'')], Inr JsNull))"

definition ws_close :: "('n, 's) sockets \<Rightarrow> ('n, 's) web_socket \<Rightarrow> ('n, 's, js_error + js) ws_result" where
  "ws_close K s = (case so_inner s of None \<Rightarrow> (s, [], Inr JsUndefined)
     | Some ws \<Rightarrow> (s\<lparr>so_net := sk_close K ws (so_net s), so_inner := None\<rparr>, [], Inr JsUndefined))"

definition is_connected :: "('n, 's) web_socket \<Rightarrow> bool" where
  "is_connected s = (so_inner s \<noteq> None)"

text \<open>\<open>ws.connect\<close>: the options that convert, and whether the metrics channel was registered.\<close>

record ws_options =
  wo_reconnect :: "bool option"
  wo_max_retries :: "nat option"

definition ws_connect :: "('n, 's) sockets \<Rightarrow> bool \<Rightarrow> string \<Rightarrow> ws_options option \<Rightarrow> 'n
    \<Rightarrow> 'n \<times> metric list \<times> (js_error + ('n, 's) web_socket)" where
  "ws_connect K has_tx url options net =
     (let start = sk_now K net;
          reconnect = (case options of None \<Rightarrow> False | Some o1 \<Rightarrow> (case wo_reconnect o1 of None \<Rightarrow> False | Some b \<Rightarrow> b));
          retries = (case options of None \<Rightarrow> 3 | Some o1 \<Rightarrow> (case wo_max_retries o1 of None \<Rightarrow> 3 | Some n \<Rightarrow> n));
          (net, answer) = sk_connect K url net; d = since K start net in
      case answer of
        Inr socket \<Rightarrow>
          (if has_tx then (net, [make_metric ''ws::connect'' d None],
             Inr \<lparr>so_net = net, so_inner = Some socket, so_url = url, so_reconnect = reconnect, so_max_retries = retries\<rparr>)
           else (net, [], Inl (FromJs ''WebSocket metric sender not configured (internal error)'' ''StateError'')))
      | Inl e \<Rightarrow> (let msg = ''WebSocket connection failed: '' @ e in
          (net, if has_tx then [make_metric ''ws::connect'' d (Some msg)] else [], Inl (ThrownValue msg))))"

text \<open>The calls of a script on one socket.\<close>

datatype ws_call = WsSend string | WsSendBinary string | WsRecv | WsClose

definition ws_step :: "('n, 's) sockets \<Rightarrow> ('n, 's) web_socket \<Rightarrow> ws_call \<Rightarrow> ('n, 's) web_socket \<times> metric list" where
  "ws_step K s c = (case c of
      WsSend msg \<Rightarrow> (let (s, ms, _) = ws_send K msg s in (s, ms))
    | WsSendBinary data \<Rightarrow> (let (s, ms, _) = ws_send_binary K data s in (s, ms))
    | WsRecv \<Rightarrow> (let (s, ms, _) = ws_recv K s in (s, ms))
    | WsClose \<Rightarrow> (let (s, ms, _) = ws_close K s in (s, ms)))"

section \<open>Lemmas\<close>

definition reconnects :: "metric \<Rightarrow> bool" where
  "reconnects m = (honest m \<and> request_name m = ''ws::reconnect'')"

lemma reconnect_loop_result:
  "reconnect_loop K as s = (s', ms, ok) \<Longrightarrow> list_all reconnects ms \<and> length ms \<le> length as
     \<and> so_url s' = so_url s \<and> so_reconnect s' = so_reconnect s \<and> so_max_retries s' = so_max_retries s
     \<and> (if ok then so_inner s' \<noteq> None else so_inner s' = so_inner s)"
proof (induction as arbitrary: s ms s' ok)
  case (Cons a as)
  obtain net answer where cn: "sk_connect K (so_url s) (sk_sleep K (backoff_delay a) (so_net s)) = (net, answer)"
    by fastforce
  show ?case
  proof (cases answer)
    case (Inl e)
    obtain s1 ms1 ok1 where r: "reconnect_loop K as (s\<lparr>so_net := net\<rparr>) = (s1, ms1, ok1)" by (metis prod_cases3)
    show ?thesis using Cons.IH [OF r] Cons.prems by (auto simp: Let_def cn Inl r reconnects_def)
  next
    case (Inr sock)
    then show ?thesis using Cons.prems by (auto simp: Let_def cn reconnects_def)
  qed
qed simp

lemma ensure_connected_result:
  assumes "ensure_connected K s = (s', rs, ok)"
  shows "list_all reconnects rs" "length rs \<le> so_max_retries s"
    "rs = [] \<or> so_inner s = None \<and> so_reconnect s"
    "so_inner s \<noteq> None \<Longrightarrow> s' = s \<and> rs = [] \<and> ok"
    "so_url s' = so_url s" "so_reconnect s' = so_reconnect s" "so_max_retries s' = so_max_retries s"
  using assms reconnect_loop_result [of K "[0..<so_max_retries s]" s s' rs ok]
  by (auto simp: ensure_connected_def attempt_reconnect_def split: if_splits)

lemma write_reported:
  "ws_write K name failure start msg s = (s', ms, r) \<Longrightarrow>
     \<exists>m. ms = [m] \<and> honest m \<and> request_name m = name \<and> (request_error m = None \<longleftrightarrow> (\<exists>v. r = Inr v))
     \<and> (so_inner s' = None \<longleftrightarrow> so_inner s = None)"
  by (auto simp: ws_write_def Let_def split: option.splits prod.splits)

lemma read_reported:
  "ws_read K start s = (s', ms, r) \<Longrightarrow> list_all honest ms \<and> list_all (\<lambda>m. request_name m = ''ws::recv'') ms"
  by (auto simp: ws_read_def Let_def split: option.splits prod.splits sum.splits)

lemma reconnects_honest: "list_all reconnects rs \<Longrightarrow> list_all honest rs"
  by (auto simp: list_all_iff reconnects_def)

lemma ws_step_honest: "list_all honest (snd (ws_step K s c))"
proof (cases c)
  case (WsSend msg)
  obtain s1 rs ok where e: "ensure_connected K s = (s1, rs, ok)" by (cases "ensure_connected K s") auto
  obtain s2 ms r where w: "ws_write K ''ws::send'' ''WS Send Error: '' (sk_now K (so_net s)) (TextMsg msg) s1 = (s2, ms, r)"
    by (metis prod_cases3)
  show ?thesis using reconnects_honest [OF ensure_connected_result(1) [OF e]] write_reported [OF w] WsSend e w
    by (auto simp: ws_step_def ws_send_def Let_def)
next
  case (WsSendBinary data)
  then show ?thesis by (auto simp: ws_step_def ws_send_binary_def Let_def dest!: write_reported split: sum.splits prod.splits)
next
  case WsRecv
  obtain s1 rs ok where e: "ensure_connected K s = (s1, rs, ok)" by (cases "ensure_connected K s") auto
  obtain s2 ms r where w: "ws_read K (sk_now K (so_net s)) s1 = (s2, ms, r)" by (metis prod_cases3)
  show ?thesis using reconnects_honest [OF ensure_connected_result(1) [OF e]] read_reported [OF w] WsRecv e w
    by (auto simp: ws_step_def ws_recv_def Let_def)
qed (simp add: ws_step_def ws_close_def split: option.splits)

interpretation wsm: output_machine "ws_step K" "\<lambda>s. True" honest for K :: "('n, 's) sockets"
  by unfold_locales (simp_all add: ws_step_honest)

lemma backoff_exact: "n < 58 \<Longrightarrow> backoff_delay n = 100 * 2 ^ n * millis"
proof -
  assume "n < 58"
  then have "(100 :: nat) * 2 ^ n \<le> 100 * 2 ^ 57" by (intro mult_left_mono power_increasing) auto
  then have "(100 :: nat) * 2 ^ n < 2 ^ 64" by simp
  moreover have "(100 :: u64) * 2 ^ n = of_nat (100 * 2 ^ n)" by simp
  ultimately show ?thesis by (simp only: backoff_delay_def unat_of_nat) simp
qed

text \<open>All the attempts of a failed reconnection with \<open>n\<close> retries sleep \<open>100 * (2^n - 1)\<close> ms together.\<close>

lemma backoff_total: "n \<le> 58 \<Longrightarrow> sum_list (map backoff_delay [0..<n]) = 100 * (2 ^ n - 1) * millis"
proof (induction n)
  case (Suc n)
  then have "sum_list (map backoff_delay [0..<Suc n]) = (100 * (2 ^ n - 1) + 100 * 2 ^ n) * millis"
    by (simp add: backoff_exact add_mult_distrib)
  also have "(100::nat) * (2 ^ n - 1) + 100 * 2 ^ n = 100 * (2 ^ Suc n - 1)"
    using one_le_power [of "2::nat" n] by (simp add: diff_mult_distrib2)
  finally show ?case .
qed simp

section \<open>Properties\<close>

text \<open>Every \<open>send\<close> on a socket reports itself: after the reconnection attempts it makes (at most
  \<open>max_retries\<close>, each with its own metric, and none unless the socket is gone and the option is on)
  it emits exactly one \<open>ws::send\<close> metric, which carries an error exactly when the call throws.\<close>

theorem send_reported:
  "case ws_send K msg s of (s', ms, r) \<Rightarrow> \<exists>rs m. ms = rs @ [m] \<and> list_all reconnects rs
     \<and> length rs \<le> so_max_retries s \<and> (rs = [] \<or> so_inner s = None \<and> so_reconnect s)
     \<and> honest m \<and> request_name m = ''ws::send'' \<and> (request_error m = None \<longleftrightarrow> (\<exists>v. r = Inr v))"
proof -
  obtain s1 rs ok where e: "ensure_connected K s = (s1, rs, ok)" by (cases "ensure_connected K s") auto
  obtain s2 ms r where w: "ws_write K ''ws::send'' ''WS Send Error: '' (sk_now K (so_net s)) (TextMsg msg) s1 = (s2, ms, r)"
    by (metis prod_cases3)
  show ?thesis using ensure_connected_result(1-3) [OF e] write_reported [OF w] e w by (auto simp: ws_send_def Let_def)
qed

lemma step_keeps_socket:
  assumes "so_inner s \<noteq> None" "c \<noteq> WsClose" "\<And>sk net. snd (snd (sk_read K sk net)) \<noteq> Inr CloseMsg"
  shows "so_inner (fst (ws_step K s c)) \<noteq> None \<and> list_all (\<lambda>m. request_name m \<noteq> ''ws::reconnect'') (snd (ws_step K s c))"
proof -
  obtain ws where ws: "so_inner s = Some ws" using assms(1) by auto
  have e: "ensure_connected K s = (s, [], True)" by (simp add: ensure_connected_def ws)
  show ?thesis
    using assms(2) assms(3) [of ws "so_net s"]
    by (cases c) (auto simp: ws_step_def ws_send_def ws_send_binary_def ws_recv_def e ws_write_def ws_read_def ws Let_def
      split: sum.splits prod.splits option.splits)
qed

text \<open>C31. The \<open>reconnect\<close> option does not help after an I/O error: whatever the reads and writes
  return, short of a close frame, and for any calls other than \<open>close()\<close>, the socket is kept and no
  reconnection is ever attempted.\<close>

theorem broken_socket_kept:
  assumes "\<And>sk net. snd (snd (sk_read K sk net)) \<noteq> Inr CloseMsg"
    and "is_connected s" "WsClose \<notin> set cs"
  shows "is_connected (fst (run_out (ws_step K) s cs))
    \<and> list_all (\<lambda>m. request_name m \<noteq> ''ws::reconnect'') (snd (run_out (ws_step K) s cs))
    \<and> list_all honest (snd (run_out (ws_step K) s cs))"
proof -
  have "so_inner s \<noteq> None \<Longrightarrow> WsClose \<notin> set cs \<Longrightarrow> so_inner (fst (run_out (ws_step K) s cs)) \<noteq> None
    \<and> list_all (\<lambda>m. request_name m \<noteq> ''ws::reconnect'') (snd (run_out (ws_step K) s cs))"
  proof (induction cs arbitrary: s)
    case (Cons c cs)
    then show ?case using step_keeps_socket [of s c K] assms(1) by (auto simp: case_prod_beta)
  qed simp
  then show ?thesis using assms(2,3) wsm.run_good [where K = K and s = s and es = cs] by (simp add: is_connected_def)
qed

definition reset_peer :: "(nat, unit) sockets" where
  "reset_peer = \<lparr>sk_now = (\<lambda>n. n), sk_sleep = (\<lambda>d n. n + d), sk_connect = (\<lambda>u n. (n, Inr ())),
     sk_send = (\<lambda>m s n. (n + 1, s, Some ''reset'')), sk_read = (\<lambda>s n. (n + 1, s, Inl ''reset'')), sk_close = (\<lambda>s n. n),
     sk_decode = (\<lambda>s. Inr []), sk_encode = (\<lambda>b. [])\<rparr>"

theorem broken_socket_kept_witness:
  "let s = \<lparr>so_net = 0, so_inner = Some (), so_url = [], so_reconnect = True, so_max_retries = 3\<rparr>;
       ms = snd (run_out (ws_step reset_peer) s [WsSend ''a'', WsSend ''b''])
   in map request_error ms = [Some ''WS Send Error: reset'', Some ''WS Send Error: reset'']
     \<and> list_all (\<lambda>m. request_name m \<noteq> ''ws::reconnect'') ms"
proof -
  let ?s = "\<lparr>so_net = 0, so_inner = Some (), so_url = [], so_reconnect = True, so_max_retries = 3\<rparr> :: (nat, unit) web_socket"
  have "\<And>sk net. snd (snd (sk_read reset_peer sk net)) \<noteq> Inr CloseMsg" by (simp add: reset_peer_def)
  moreover have "map request_error (snd (run_out (ws_step reset_peer) ?s [WsSend ''a'', WsSend ''b''])) =
      [Some ''WS Send Error: reset'', Some ''WS Send Error: reset'']" by code_simp
  ultimately show ?thesis
    using broken_socket_kept [of reset_peer ?s "[WsSend ''a'', WsSend ''b'']"]
    unfolding Let_def by (simp add: is_connected_def)
qed

end
