(* ===== verification/Brokers.thy ===== *)
theory Brokers
  imports WebSocket
begin

text \<open>
  Message brokers: the MQTT client (\<open>src/bridge/mqtt.rs\<close>) and the AMQP client
  (\<open>src/bridge/amqp.rs\<close>). Each has a background thread that polls the broker and hands messages
  to the script over a bounded channel. A step of a thread is an event of its own, so a list of
  calls and steps is an interleaving. The clients of the two crates (rumqttc, lapin) are
  arguments; so is the channel (crossbeam), with the laws its documentation gives.
\<close>

section \<open>The channel\<close>

text \<open>A bounded channel seen from both ends: \<open>cn_send\<close> hands a message over; when the channel is full
  the message stays with the blocked sender until a \<open>cn_recv\<close> makes room, and \<open>cn_free\<close> says that
  no sender is blocked. \<open>cn_backlog\<close> is what was sent and not yet received.\<close>

record ('m, 'q) channel =
  cn_bounded :: "nat \<Rightarrow> 'q"
  cn_send :: "'m \<Rightarrow> 'q \<Rightarrow> 'q"
  cn_free :: "'q \<Rightarrow> bool"
  cn_recv :: "'q \<Rightarrow> ('m \<times> 'q) option"
  cn_drop :: "'q \<Rightarrow> 'q"
  cn_open :: "'q \<Rightarrow> bool"
  cn_capacity :: "'q \<Rightarrow> nat"
  cn_backlog :: "'q \<Rightarrow> 'm list"

definition channel_laws :: "('m, 'q) channel \<Rightarrow> bool" where
  "channel_laws C \<longleftrightarrow>
     (\<forall>n. cn_open C (cn_bounded C n) \<and> cn_backlog C (cn_bounded C n) = [] \<and> cn_capacity C (cn_bounded C n) = n)
   \<and> (\<forall>q. cn_open C q \<longrightarrow> cn_free C q = (length (cn_backlog C q) \<le> cn_capacity C q))
   \<and> (\<forall>q m. cn_open C q \<and> cn_free C q \<longrightarrow> cn_backlog C (cn_send C m q) = cn_backlog C q @ [m]
        \<and> cn_open C (cn_send C m q) \<and> cn_capacity C (cn_send C m q) = cn_capacity C q)
   \<and> (\<forall>q. cn_open C q \<longrightarrow> (case cn_recv C q of None \<Rightarrow> cn_backlog C q = []
        | Some (m, q') \<Rightarrow> cn_backlog C q = m # cn_backlog C q' \<and> cn_open C q' \<and> cn_capacity C q' = cn_capacity C q))
   \<and> (\<forall>q. \<not> cn_open C (cn_drop C q) \<and> cn_free C (cn_drop C q))
   \<and> (\<forall>q m. \<not> cn_open C q \<longrightarrow> cn_send C m q = q)"

definition queue_channel :: "('m, 'm list \<times> nat \<times> bool) channel" where
  "queue_channel = \<lparr>cn_bounded = (\<lambda>n. ([], n, True)),
     cn_send = (\<lambda>m (q, n, op). if op then (q @ [m], n, op) else (q, n, op)),
     cn_free = (\<lambda>(q, n, op). \<not> op \<or> length q \<le> n),
     cn_recv = (\<lambda>(q, n, op). case q of [] \<Rightarrow> None | m # q' \<Rightarrow> Some (m, (q', n, op))),
     cn_drop = (\<lambda>(q, n, op). ([], n, False)), cn_open = (\<lambda>(q, n, op). op),
     cn_capacity = (\<lambda>(q, n, op). n), cn_backlog = (\<lambda>(q, n, op). q)\<rparr>"

lemma queue_channel_laws: "channel_laws queue_channel"
  by (auto simp: channel_laws_def queue_channel_def split: list.splits)

text \<open>A polling thread: its end of the channel, and whether it has ended.\<close>

record 'q poller =
  po_chan :: 'q
  po_done :: bool

definition runnable :: "('m, 'q) channel \<Rightarrow> 'q poller \<Rightarrow> bool" where
  "runnable C p = (\<not> po_done p \<and> cn_free C (po_chan p))"

definition hang_up :: "('m, 'q) channel \<Rightarrow> nat option \<Rightarrow> 'q poller list \<Rightarrow> 'q poller list" where
  "hang_up C rx ps = (case rx of None \<Rightarrow> ps
     | Some i \<Rightarrow> ps[i := (ps ! i)\<lparr>po_chan := cn_drop C (po_chan (ps ! i))\<rparr>])"

definition reported :: "bool \<Rightarrow> metric \<Rightarrow> metric list" where
  "reported has_tx m = (if has_tx then [m] else [])"

definition state_error :: "string \<Rightarrow> js_error + js" where
  "state_error what = Inl (FromJs what ''StateError'')"

definition network_error :: "string \<Rightarrow> js_error + js" where
  "network_error what = Inl (FromJs what ''NetworkError'')"

definition recv_value :: "js \<Rightarrow> js \<Rightarrow> js_error + js" where
  "recv_value value reason = Inr (JsObject [(''value'', value), (''reason'', reason)])"

section \<open>MQTT\<close>

datatype qos = AtMostOnce | AtLeastOnce | ExactlyOnce

definition map_qos :: "nat option \<Rightarrow> qos" where
  "map_qos q = (case q of None \<Rightarrow> AtLeastOnce
     | Some n \<Rightarrow> if n = 0 then AtMostOnce else if n = 2 then ExactlyOnce else AtLeastOnce)"

definition qos_number :: "qos \<Rightarrow> nat" where
  "qos_number q = (case q of AtMostOnce \<Rightarrow> 0 | AtLeastOnce \<Rightarrow> 1 | ExactlyOnce \<Rightarrow> 2)"

record mqtt_message =
  mm_topic :: string
  mm_payload :: "byte list"
  mm_qos :: nat

datatype mqtt_reading = IncomingPublish string "byte list" qos | OtherEvent | ConnectionError | PollTimeout | PollClosed

record 'c mqtt_crate =
  mc_new :: "string \<Rightarrow> string \<Rightarrow> nat \<Rightarrow> 'c"
  mc_subscribe :: "string \<Rightarrow> qos \<Rightarrow> 'c \<Rightarrow> 'c \<times> string option"
  mc_unsubscribe :: "string \<Rightarrow> 'c \<Rightarrow> 'c \<times> string option"
  mc_publish :: "string \<Rightarrow> qos \<Rightarrow> bool \<Rightarrow> string \<Rightarrow> 'c \<Rightarrow> 'c \<times> string option"
  mc_lossy :: "byte list \<Rightarrow> string"

text \<open>The client: \<open>mq_pollers\<close> are all threads it ever started, \<open>mq_rx\<close> and \<open>mq_handle\<close> say which of
  them it holds the receiver and the handle of; all threads share \<open>mq_running\<close>.\<close>

record ('c, 'q) mqtt =
  mq_client :: "'c option"
  mq_rx :: "nat option"
  mq_running :: bool
  mq_handle :: "nat option"
  mq_pollers :: "'q poller list"

definition mqtt_new :: "('c, 'q) mqtt" where
  "mqtt_new = \<lparr>mq_client = None, mq_rx = None, mq_running = False, mq_handle = None, mq_pollers = []\<rparr>"

text \<open>One turn of the background thread's loop.\<close>

definition mqtt_poll :: "('m, 'q) channel \<Rightarrow> (string \<Rightarrow> byte list \<Rightarrow> nat \<Rightarrow> 'm) \<Rightarrow> bool \<Rightarrow> mqtt_reading \<Rightarrow> 'q poller \<Rightarrow> 'q poller" where
  "mqtt_poll C mk running r p = (if \<not> running then p\<lparr>po_done := True\<rparr>
     else case r of
       IncomingPublish topic payload q \<Rightarrow> p\<lparr>po_chan := cn_send C (mk topic payload (qos_number q)) (po_chan p)\<rparr>
     | OtherEvent \<Rightarrow> p | ConnectionError \<Rightarrow> p | PollTimeout \<Rightarrow> p
     | PollClosed \<Rightarrow> p\<lparr>po_done := True\<rparr>)"

abbreviation message :: "string \<Rightarrow> byte list \<Rightarrow> nat \<Rightarrow> mqtt_message" where
  "message t b n \<equiv> \<lparr>mm_topic = t, mm_payload = b, mm_qos = n\<rparr>"

type_synonym 'a called = "'a \<times> metric list \<times> (js_error + js)"

definition mqtt_connect :: "'c mqtt_crate \<Rightarrow> (mqtt_message, 'q) channel \<Rightarrow> bool \<Rightarrow> duration \<Rightarrow> string \<Rightarrow> nat \<Rightarrow> string
    \<Rightarrow> ('c, 'q) mqtt \<Rightarrow> ('c, 'q) mqtt called" where
  "mqtt_connect L C tx d host port client_id s =
     (s\<lparr>mq_running := True, mq_client := Some (mc_new L client_id host port),
        mq_rx := Some (length (mq_pollers s)), mq_handle := Some (length (mq_pollers s)),
        mq_pollers := hang_up C (mq_rx s) (mq_pollers s) @ [\<lparr>po_chan = cn_bounded C 1000, po_done = False\<rparr>]\<rparr>,
      reported tx (make_metric ''mqtt::connect'' d None), Inr JsUndefined)"

definition mqtt_request :: "bool \<Rightarrow> duration \<Rightarrow> string \<Rightarrow> string \<Rightarrow> ('c \<Rightarrow> 'c \<times> string option) \<Rightarrow> ('c, 'q) mqtt \<Rightarrow> ('c, 'q) mqtt called" where
  "mqtt_request tx d name failure act s = (case mq_client s of
     None \<Rightarrow> (s, [], state_error ''MQTT Client not connected'')
   | Some c \<Rightarrow> (let (c, err) = act c; s = s\<lparr>mq_client := Some c\<rparr> in
       case err of None \<Rightarrow> (s, reported tx (make_metric name d None), Inr JsUndefined)
       | Some e \<Rightarrow> (s, reported tx (make_metric name d (Some (failure @ '': '' @ e))), network_error failure)))"

definition mqtt_subscribe :: "'c mqtt_crate \<Rightarrow> bool \<Rightarrow> duration \<Rightarrow> string \<Rightarrow> nat option \<Rightarrow> ('c, 'q) mqtt \<Rightarrow> ('c, 'q) mqtt called" where
  "mqtt_subscribe L tx d topic q =
     mqtt_request tx d ''mqtt::subscribe'' ''MQTT Subscribe failed'' (mc_subscribe L topic (map_qos q))"

definition mqtt_unsubscribe :: "'c mqtt_crate \<Rightarrow> bool \<Rightarrow> duration \<Rightarrow> string \<Rightarrow> ('c, 'q) mqtt \<Rightarrow> ('c, 'q) mqtt called" where
  "mqtt_unsubscribe L tx d topic =
     mqtt_request tx d ''mqtt::unsubscribe'' ''MQTT Unsubscribe failed'' (mc_unsubscribe L topic)"

definition mqtt_publish :: "'c mqtt_crate \<Rightarrow> bool \<Rightarrow> duration \<Rightarrow> string \<Rightarrow> string \<Rightarrow> nat option \<Rightarrow> bool option \<Rightarrow> ('c, 'q) mqtt \<Rightarrow> ('c, 'q) mqtt called" where
  "mqtt_publish L tx d topic payload q retain =
     mqtt_request tx d ''mqtt::publish'' ''MQTT Publish failed''
       (mc_publish L topic (map_qos q) (retain = Some True) payload)"

definition message_object :: "'c mqtt_crate \<Rightarrow> mqtt_message \<Rightarrow> js" where
  "message_object L m = JsObject [(''topic'', JsString (mm_topic m)), (''payload'', JsString (mc_lossy L (mm_payload m))),
     (''qos'', JsInt (int (mm_qos m)))]"

text \<open>\<open>recv\<close>, at the moment its wait is over: a message, or an empty channel whose sender is alive
  (the timeout) or gone.\<close>

definition mqtt_recv :: "'c mqtt_crate \<Rightarrow> (mqtt_message, 'q) channel \<Rightarrow> bool \<Rightarrow> duration \<Rightarrow> ('c, 'q) mqtt \<Rightarrow> ('c, 'q) mqtt called" where
  "mqtt_recv L C tx d s = (case mq_rx s of
     None \<Rightarrow> (s, [], recv_value JsNull (JsString ''not_connected''))
   | Some i \<Rightarrow> (let p = mq_pollers s ! i in case cn_recv C (po_chan p) of
       Some (m, q) \<Rightarrow> (s\<lparr>mq_pollers := (mq_pollers s)[i := p\<lparr>po_chan := q\<rparr>]\<rparr>,
         reported tx (make_metric ''mqtt::recv'' d None), recv_value (message_object L m) JsNull)
     | None \<Rightarrow> (s, [], recv_value JsNull (JsString (if po_done p then ''closed'' else ''timeout'')))))"

definition mqtt_close :: "(mqtt_message, 'q) channel \<Rightarrow> ('c, 'q) mqtt \<Rightarrow> ('c, 'q) mqtt called" where
  "mqtt_close C s = (s\<lparr>mq_running := False, mq_handle := None, mq_client := None, mq_rx := None,
     mq_pollers := hang_up C (mq_rx s) (mq_pollers s)\<rparr>, [], Inr JsUndefined)"

text \<open>The events of a run: calls with the time they take, and turns of the threads.\<close>

datatype mqtt_event = MqConnect string nat string | MqSubscribe string "nat option" | MqUnsubscribe string
  | MqPublish string string "nat option" "bool option" | MqRecv | MqClose | MqTurn nat mqtt_reading

definition mqtt_turn :: "(mqtt_message, 'q) channel \<Rightarrow> nat \<Rightarrow> mqtt_reading \<Rightarrow> ('c, 'q) mqtt \<Rightarrow> ('c, 'q) mqtt" where
  "mqtt_turn C i r s = (if i < length (mq_pollers s) \<and> runnable C (mq_pollers s ! i)
     then s\<lparr>mq_pollers := (mq_pollers s)[i := mqtt_poll C message (mq_running s) r (mq_pollers s ! i)]\<rparr> else s)"

definition mqtt_step :: "'c mqtt_crate \<Rightarrow> (mqtt_message, 'q) channel \<Rightarrow> bool \<Rightarrow> ('c, 'q) mqtt
    \<Rightarrow> duration \<times> mqtt_event \<Rightarrow> ('c, 'q) mqtt called" where
  "mqtt_step L C tx s ev = (let d = fst ev in case snd ev of
      MqConnect h p c \<Rightarrow> mqtt_connect L C tx d h p c s
    | MqSubscribe t q \<Rightarrow> mqtt_subscribe L tx d t q s
    | MqUnsubscribe t \<Rightarrow> mqtt_unsubscribe L tx d t s
    | MqPublish t b q r \<Rightarrow> mqtt_publish L tx d t b q r s
    | MqRecv \<Rightarrow> mqtt_recv L C tx d s
    | MqClose \<Rightarrow> mqtt_close C s
    | MqTurn i r \<Rightarrow> (mqtt_turn C i r s, [], Inr JsUndefined))"

section \<open>AMQP\<close>

record amqp_message =
  am_body :: "byte list"
  am_tag :: nat

datatype amqp_reading = Delivery "byte list" nat | DeliveryError | ConsumerClosed | NoDelivery

datatype exchange_kind = Direct | Fanout | Topic | Headers | Custom string

text \<open>The options of a declaration, as the keys of the script's object that are booleans.\<close>

record declare_options =
  do_durable :: bool
  do_auto_delete :: bool
  do_exclusive :: bool

record script_options =
  op_durable :: "bool option"
  op_auto_delete :: "bool option"
  op_exclusive :: "bool option"

record ('n, 'k, 'ch) amqp_crate =
  ac_connect :: "string \<Rightarrow> 'n \<Rightarrow> 'n \<times> (string + 'k)"
  ac_create_channel :: "'k \<Rightarrow> 'n \<Rightarrow> 'n \<times> (string + 'ch)"
  ac_queue_declare :: "string \<Rightarrow> declare_options \<Rightarrow> 'ch \<Rightarrow> 'n \<Rightarrow> 'n \<times> string option"
  ac_exchange_declare :: "string \<Rightarrow> exchange_kind \<Rightarrow> declare_options \<Rightarrow> 'ch \<Rightarrow> 'n \<Rightarrow> 'n \<times> string option"
  ac_queue_bind :: "string \<Rightarrow> string \<Rightarrow> string \<Rightarrow> 'ch \<Rightarrow> 'n \<Rightarrow> 'n \<times> string option"
  ac_consume :: "string \<Rightarrow> string \<Rightarrow> bool \<Rightarrow> 'ch \<Rightarrow> 'n \<Rightarrow> 'n \<times> string option"
  ac_ack :: "nat \<Rightarrow> 'ch \<Rightarrow> 'n \<Rightarrow> 'n \<times> string option"
  ac_nack :: "nat \<Rightarrow> bool \<Rightarrow> bool \<Rightarrow> 'ch \<Rightarrow> 'n \<Rightarrow> 'n \<times> string option"
  ac_publish :: "string \<Rightarrow> string \<Rightarrow> string \<Rightarrow> 'ch \<Rightarrow> 'n \<Rightarrow> 'n \<times> string option"
  ac_lossy :: "byte list \<Rightarrow> string"

record ('n, 'k, 'ch, 'q) amqp =
  aq_net :: 'n
  aq_connection :: "'k option"
  aq_channel :: "'ch option"
  aq_rx :: "nat option"
  aq_running :: bool
  aq_handle :: "nat option"
  aq_pollers :: "'q poller list"

definition amqp_new :: "bool \<Rightarrow> 'n \<Rightarrow> js_error + ('n, 'k, 'ch, 'q) amqp" where
  "amqp_new runtime_ok net = (if \<not> runtime_ok then Inl (FromJs ''Failed to create AMQP runtime'' ''RuntimeError'')
     else Inr \<lparr>aq_net = net, aq_connection = None, aq_channel = None, aq_rx = None, aq_running = False,
       aq_handle = None, aq_pollers = []\<rparr>)"

definition amqp_connect :: "('n, 'k, 'ch) amqp_crate \<Rightarrow> bool \<Rightarrow> duration \<Rightarrow> string
    \<Rightarrow> ('n, 'k, 'ch, 'q) amqp \<Rightarrow> ('n, 'k, 'ch, 'q) amqp called" where
  "amqp_connect L tx d url s =
     (let (net, answer) = ac_connect L url (aq_net s); s = s\<lparr>aq_net := net\<rparr> in case answer of
        Inl e \<Rightarrow> (s, reported tx (make_metric ''amqp::connect'' d (Some (''AMQP Connect failed: '' @ e))),
          network_error ''AMQP Connect failed'')
      | Inr conn \<Rightarrow> (let (net, answer) = ac_create_channel L conn (aq_net s); s = s\<lparr>aq_net := net\<rparr> in case answer of
          Inl e \<Rightarrow> (s, reported tx (make_metric ''amqp::connect'' d (Some (''AMQP Channel creation failed: '' @ e))),
            network_error ''AMQP Channel creation failed'')
        | Inr ch \<Rightarrow> (s\<lparr>aq_connection := Some conn, aq_channel := Some ch\<rparr>,
            reported tx (make_metric ''amqp::connect'' d None), Inr JsUndefined)))"

definition with_channel :: "('n, 'k, 'ch, 'q) amqp \<Rightarrow> ('ch \<Rightarrow> ('n, 'k, 'ch, 'q) amqp called) \<Rightarrow> ('n, 'k, 'ch, 'q) amqp called" where
  "with_channel s f = (case aq_channel s of
     None \<Rightarrow> (s, [], state_error ''AMQP Client not connected'') | Some ch \<Rightarrow> f ch)"

definition no_options :: declare_options where
  "no_options = \<lparr>do_durable = False, do_auto_delete = False, do_exclusive = False\<rparr>"

text \<open>One turn of the consumer's loop: unlike MQTT's, it ends when nobody receives.\<close>

definition amqp_poll :: "(amqp_message, 'q) channel \<Rightarrow> bool \<Rightarrow> amqp_reading \<Rightarrow> 'q poller \<Rightarrow> 'q poller" where
  "amqp_poll C running r p = (if \<not> running then p\<lparr>po_done := True\<rparr>
     else case r of
       Delivery body tag \<Rightarrow> if \<not> cn_open C (po_chan p) then p\<lparr>po_done := True\<rparr>
         else p\<lparr>po_chan := cn_send C \<lparr>am_body = body, am_tag = tag\<rparr> (po_chan p)\<rparr>
     | DeliveryError \<Rightarrow> p | NoDelivery \<Rightarrow> p
     | ConsumerClosed \<Rightarrow> p\<lparr>po_done := True\<rparr>)"

text \<open>Dropping the receiver also releases a sender blocked on a full channel, which then ends.\<close>

definition amqp_hang_up :: "(amqp_message, 'q) channel \<Rightarrow> nat option \<Rightarrow> 'q poller list \<Rightarrow> 'q poller list" where
  "amqp_hang_up C rx ps = (case rx of None \<Rightarrow> ps
     | Some i \<Rightarrow> ps[i := (ps ! i)\<lparr>po_chan := cn_drop C (po_chan (ps ! i)),
         po_done := po_done (ps ! i) \<or> \<not> cn_free C (po_chan (ps ! i))\<rparr>])"

definition amqp_subscribe :: "('n, 'k, 'ch) amqp_crate \<Rightarrow> (amqp_message, 'q) channel \<Rightarrow> bool \<Rightarrow> duration \<Rightarrow> string
    \<Rightarrow> ('n, 'k, 'ch, 'q) amqp \<Rightarrow> ('n, 'k, 'ch, 'q) amqp called" where
  "amqp_subscribe L C tx d queue s = with_channel s (\<lambda>ch.
     let (net, err) = ac_queue_declare L queue no_options ch (aq_net s); s = s\<lparr>aq_net := net\<rparr> in
     if err \<noteq> None then (s, [], network_error ''AMQP Queue declare failed'')
     else let (net, err) = ac_consume L queue ''fusillade-consumer'' False ch (aq_net s); s = s\<lparr>aq_net := net\<rparr> in
     if err \<noteq> None then (s, [], network_error ''AMQP Consume failed'')
     else (s\<lparr>aq_running := True, aq_rx := Some (length (aq_pollers s)), aq_handle := Some (length (aq_pollers s)),
             aq_pollers := amqp_hang_up C (aq_rx s) (aq_pollers s) @ [\<lparr>po_chan = cn_bounded C 1000, po_done = False\<rparr>]\<rparr>,
           reported tx (make_metric ''amqp::subscribe'' d None), Inr JsUndefined))"

definition amqp_recv :: "('n, 'k, 'ch) amqp_crate \<Rightarrow> (amqp_message, 'q) channel \<Rightarrow> bool \<Rightarrow> duration
    \<Rightarrow> ('n, 'k, 'ch, 'q) amqp \<Rightarrow> ('n, 'k, 'ch, 'q) amqp called" where
  "amqp_recv L C tx d s = (case aq_rx s of
     None \<Rightarrow> (s, [], recv_value JsNull (JsString ''not_connected''))
   | Some i \<Rightarrow> (let p = aq_pollers s ! i in case cn_recv C (po_chan p) of
       Some (m, q) \<Rightarrow> (s\<lparr>aq_pollers := (aq_pollers s)[i := p\<lparr>po_chan := q\<rparr>]\<rparr>,
         reported tx (make_metric ''amqp::recv'' d None),
         recv_value (JsObject [(''body'', JsString (ac_lossy L (am_body m))), (''deliveryTag'', JsInt (int (am_tag m)))]) JsNull)
     | None \<Rightarrow> (s, [], recv_value JsNull (JsString (if po_done p then ''closed'' else ''timeout'')))))"

definition amqp_ack :: "('n, 'k, 'ch) amqp_crate \<Rightarrow> nat \<Rightarrow> ('n, 'k, 'ch, 'q) amqp \<Rightarrow> ('n, 'k, 'ch, 'q) amqp called" where
  "amqp_ack L tag s = with_channel s (\<lambda>ch. let (net, err) = ac_ack L tag ch (aq_net s); s = s\<lparr>aq_net := net\<rparr> in
     (s, [], if err \<noteq> None then network_error ''AMQP Ack failed'' else Inr JsUndefined))"

definition amqp_nack :: "('n, 'k, 'ch) amqp_crate \<Rightarrow> nat \<Rightarrow> bool \<Rightarrow> ('n, 'k, 'ch, 'q) amqp \<Rightarrow> ('n, 'k, 'ch, 'q) amqp called" where
  "amqp_nack L tag requeue s = with_channel s (\<lambda>ch.
     let (net, err) = ac_nack L tag False requeue ch (aq_net s); s = s\<lparr>aq_net := net\<rparr> in
     (s, [], if err \<noteq> None then network_error ''AMQP Nack failed'' else Inr JsUndefined))"

text \<open>The four calls that report their outcome.\<close>

definition channel_call :: "bool \<Rightarrow> duration \<Rightarrow> string \<Rightarrow> string \<Rightarrow> ('ch \<Rightarrow> 'n \<Rightarrow> 'n \<times> string option)
    \<Rightarrow> ('n, 'k, 'ch, 'q) amqp \<Rightarrow> ('n, 'k, 'ch, 'q) amqp called" where
  "channel_call tx d name failure act s = with_channel s (\<lambda>ch. let (net, err) = act ch (aq_net s); s = s\<lparr>aq_net := net\<rparr> in
     case err of None \<Rightarrow> (s, reported tx (make_metric name d None), Inr JsUndefined)
     | Some e \<Rightarrow> (s, reported tx (make_metric name d (Some (failure @ '': '' @ e))), network_error failure))"

definition amqp_publish :: "('n, 'k, 'ch) amqp_crate \<Rightarrow> bool \<Rightarrow> duration \<Rightarrow> string \<Rightarrow> string \<Rightarrow> string
    \<Rightarrow> ('n, 'k, 'ch, 'q) amqp \<Rightarrow> ('n, 'k, 'ch, 'q) amqp called" where
  "amqp_publish L tx d exchange routing_key payload =
     channel_call tx d ''amqp::publish'' ''AMQP Publish failed'' (ac_publish L exchange routing_key payload)"

definition kind_of_exchange :: "string \<Rightarrow> exchange_kind" where
  "kind_of_exchange t = (if t = ''direct'' then Direct else if t = ''fanout'' then Fanout
     else if t = ''topic'' then Topic else if t = ''headers'' then Headers else Custom t)"

definition or_default :: "bool option \<Rightarrow> bool" where
  "or_default b = (b = Some True)"

definition exchange_options :: "script_options option \<Rightarrow> declare_options" where
  "exchange_options opts = (case opts of None \<Rightarrow> no_options
     | Some o1 \<Rightarrow> no_options\<lparr>do_durable := or_default (op_durable o1), do_auto_delete := or_default (op_auto_delete o1)\<rparr>)"

definition queue_options :: "script_options option \<Rightarrow> declare_options" where
  "queue_options opts = (case opts of None \<Rightarrow> no_options
     | Some o1 \<Rightarrow> \<lparr>do_durable = or_default (op_durable o1), do_auto_delete = or_default (op_auto_delete o1),
         do_exclusive = or_default (op_exclusive o1)\<rparr>)"

definition declare_exchange :: "('n, 'k, 'ch) amqp_crate \<Rightarrow> bool \<Rightarrow> duration \<Rightarrow> string \<Rightarrow> string \<Rightarrow> script_options option
    \<Rightarrow> ('n, 'k, 'ch, 'q) amqp \<Rightarrow> ('n, 'k, 'ch, 'q) amqp called" where
  "declare_exchange L tx d name ty opts = channel_call tx d ''amqp::declareExchange'' ''AMQP Exchange declare failed''
     (ac_exchange_declare L name (kind_of_exchange ty) (exchange_options opts))"

definition declare_queue :: "('n, 'k, 'ch) amqp_crate \<Rightarrow> bool \<Rightarrow> duration \<Rightarrow> string \<Rightarrow> script_options option
    \<Rightarrow> ('n, 'k, 'ch, 'q) amqp \<Rightarrow> ('n, 'k, 'ch, 'q) amqp called" where
  "declare_queue L tx d name opts = channel_call tx d ''amqp::declareQueue'' ''AMQP Queue declare failed''
     (ac_queue_declare L name (queue_options opts))"

definition bind_queue :: "('n, 'k, 'ch) amqp_crate \<Rightarrow> bool \<Rightarrow> duration \<Rightarrow> string \<Rightarrow> string \<Rightarrow> string
    \<Rightarrow> ('n, 'k, 'ch, 'q) amqp \<Rightarrow> ('n, 'k, 'ch, 'q) amqp called" where
  "bind_queue L tx d queue exchange routing_key = channel_call tx d ''amqp::bindQueue'' ''AMQP Queue bind failed''
     (ac_queue_bind L queue exchange routing_key)"

definition amqp_close :: "(amqp_message, 'q) channel \<Rightarrow> ('n, 'k, 'ch, 'q) amqp \<Rightarrow> ('n, 'k, 'ch, 'q) amqp called" where
  "amqp_close C s = (s\<lparr>aq_running := False, aq_handle := None, aq_connection := None, aq_channel := None, aq_rx := None,
     aq_pollers := amqp_hang_up C (aq_rx s) (aq_pollers s)\<rparr>, [], Inr JsUndefined)"

datatype amqp_event = AqConnect string | AqSubscribe string | AqRecv | AqAck nat | AqNack nat bool
  | AqPublish string string string | AqDeclareExchange string string "script_options option"
  | AqDeclareQueue string "script_options option" | AqBindQueue string string string | AqClose | AqTurn nat amqp_reading

definition amqp_turn :: "(amqp_message, 'q) channel \<Rightarrow> nat \<Rightarrow> amqp_reading \<Rightarrow> ('n, 'k, 'ch, 'q) amqp \<Rightarrow> ('n, 'k, 'ch, 'q) amqp" where
  "amqp_turn C i r s = (if i < length (aq_pollers s) \<and> runnable C (aq_pollers s ! i)
     then s\<lparr>aq_pollers := (aq_pollers s)[i := amqp_poll C (aq_running s) r (aq_pollers s ! i)]\<rparr> else s)"

definition amqp_step :: "('n, 'k, 'ch) amqp_crate \<Rightarrow> (amqp_message, 'q) channel \<Rightarrow> bool \<Rightarrow> ('n, 'k, 'ch, 'q) amqp
    \<Rightarrow> duration \<times> amqp_event \<Rightarrow> ('n, 'k, 'ch, 'q) amqp called" where
  "amqp_step L C tx s ev = (let d = fst ev in case snd ev of
      AqConnect u \<Rightarrow> amqp_connect L tx d u s
    | AqSubscribe q \<Rightarrow> amqp_subscribe L C tx d q s
    | AqRecv \<Rightarrow> amqp_recv L C tx d s
    | AqAck t \<Rightarrow> amqp_ack L t s
    | AqNack t rq \<Rightarrow> amqp_nack L t rq s
    | AqPublish e k b \<Rightarrow> amqp_publish L tx d e k b s
    | AqDeclareExchange n ty op \<Rightarrow> declare_exchange L tx d n ty op s
    | AqDeclareQueue n op \<Rightarrow> declare_queue L tx d n op s
    | AqBindQueue q e k \<Rightarrow> bind_queue L tx d q e k s
    | AqClose \<Rightarrow> amqp_close C s
    | AqTurn i r \<Rightarrow> (amqp_turn C i r s, [], Inr JsUndefined))"

section \<open>Every call reports itself\<close>

text \<open>What a step may report: nothing, or one metric that agrees with the call's result.\<close>

definition consistent :: "metric list \<Rightarrow> js_error + js \<Rightarrow> bool" where
  "consistent ms r = (case ms of [] \<Rightarrow> True
     | [m] \<Rightarrow> honest m \<and> (request_error m = None \<longleftrightarrow> \<not> isl r) | _ \<Rightarrow> False)"

lemma consistent_simps [simp]:
  "consistent [] r" "consistent (reported tx (make_metric n d None)) (Inr v)"
  "consistent (reported tx (make_metric n d (Some e))) (network_error w)"
  by (simp_all add: consistent_def reported_def network_error_def recv_value_def)

lemma consistent_honest: "consistent ms r \<Longrightarrow> list_all honest ms"
  by (simp add: consistent_def split: list.splits)

lemma mqtt_request_consistent: "consistent (fst (snd (mqtt_request tx d n f act s))) (snd (snd (mqtt_request tx d n f act s)))"
  by (simp add: mqtt_request_def Let_def split: option.splits prod.splits)

lemma mqtt_step_consistent:
  "consistent (fst (snd (mqtt_step L C tx s ev))) (snd (snd (mqtt_step L C tx s ev)))"
proof (cases "snd ev")
  case MqRecv
  then show ?thesis
    by (simp add: mqtt_step_def mqtt_recv_def recv_value_def Let_def split: option.splits prod.splits)
qed (simp_all add: mqtt_step_def mqtt_request_consistent mqtt_subscribe_def mqtt_unsubscribe_def mqtt_publish_def
  mqtt_connect_def mqtt_close_def)

lemma channel_call_consistent: "consistent (fst (snd (channel_call tx d n f act s))) (snd (snd (channel_call tx d n f act s)))"
  by (simp add: channel_call_def with_channel_def Let_def split: option.splits prod.splits)

lemma amqp_step_consistent:
  "consistent (fst (snd (amqp_step L C tx s ev))) (snd (snd (amqp_step L C tx s ev)))"
proof (cases "snd ev")
  case (AqConnect u)
  then show ?thesis by (simp add: amqp_step_def amqp_connect_def Let_def split: prod.splits sum.splits)
next
  case (AqSubscribe q)
  then show ?thesis by (simp add: amqp_step_def amqp_subscribe_def with_channel_def Let_def split: option.splits prod.splits)
next
  case AqRecv
  then show ?thesis
    by (simp add: amqp_step_def amqp_recv_def recv_value_def Let_def split: option.splits prod.splits)
next
  case (AqAck t)
  then show ?thesis by (simp add: amqp_step_def amqp_ack_def with_channel_def Let_def split: option.splits prod.splits)
next
  case (AqNack t rq)
  then show ?thesis by (simp add: amqp_step_def amqp_nack_def with_channel_def Let_def split: option.splits prod.splits)
qed (simp_all add: amqp_step_def channel_call_consistent amqp_publish_def declare_exchange_def declare_queue_def
  bind_queue_def amqp_close_def)

definition mqtt_machine :: "'c mqtt_crate \<Rightarrow> (mqtt_message, 'q) channel \<Rightarrow> bool \<Rightarrow> ('c, 'q) mqtt
    \<Rightarrow> duration \<times> mqtt_event \<Rightarrow> ('c, 'q) mqtt \<times> metric list" where
  "mqtt_machine L C tx s ev = (case mqtt_step L C tx s ev of (s', ms, r) \<Rightarrow> (s', ms))"

definition amqp_machine :: "('n, 'k, 'ch) amqp_crate \<Rightarrow> (amqp_message, 'q) channel \<Rightarrow> bool \<Rightarrow> ('n, 'k, 'ch, 'q) amqp
    \<Rightarrow> duration \<times> amqp_event \<Rightarrow> ('n, 'k, 'ch, 'q) amqp \<times> metric list" where
  "amqp_machine L C tx s ev = (case amqp_step L C tx s ev of (s', ms, r) \<Rightarrow> (s', ms))"

interpretation mqttm: output_machine "mqtt_machine L C tx" "\<lambda>s. True" honest
  for L :: "'c mqtt_crate" and C :: "(mqtt_message, 'q) channel" and tx
  using consistent_honest [OF mqtt_step_consistent]
  by unfold_locales (simp_all add: mqtt_machine_def case_prod_beta)

interpretation amqpm: output_machine "amqp_machine L C tx" "\<lambda>s. True" honest
  for L :: "('n, 'k, 'ch) amqp_crate" and C :: "(amqp_message, 'q) channel" and tx
  using consistent_honest [OF amqp_step_consistent]
  by unfold_locales (simp_all add: amqp_machine_def case_prod_beta)

text \<open>In any interleaving of calls and turns of the polling threads, from any state, every metric
  the MQTT and AMQP clients send is a well-formed request: 200 exactly without an error.\<close>

theorem broker_metrics_honest:
  "list_all honest (snd (run_out (mqtt_machine L C tx) s es))
   \<and> list_all honest (snd (run_out (amqp_machine L' C' tx) s' es'))"
  using mqttm.run_good [where s = s and es = es and L = L and C = C and tx = tx]
    amqpm.run_good [where s = s' and es = es' and L = L' and C = C' and tx = tx] by simp

section \<open>Messages arrive once and in order\<close>

text \<open>The message a turn takes in from the broker on thread \<open>i\<close>, and the one \<open>recv\<close> hands to the script.\<close>

definition taken_in :: "(mqtt_message, 'q) channel \<Rightarrow> nat \<Rightarrow> ('c, 'q) mqtt \<Rightarrow> mqtt_event \<Rightarrow> mqtt_message list" where
  "taken_in C i s ev = (case ev of
      MqTurn j (IncomingPublish t b q) \<Rightarrow>
        if j = i \<and> i < length (mq_pollers s) \<and> runnable C (mq_pollers s ! i) \<and> mq_running s
        then [message t b (qos_number q)] else []
    | _ \<Rightarrow> [])"

definition handed_over :: "(mqtt_message, 'q) channel \<Rightarrow> ('c, 'q) mqtt \<Rightarrow> mqtt_event \<Rightarrow> mqtt_message list" where
  "handed_over C s ev = (case (ev, mq_rx s) of
      (MqRecv, Some i) \<Rightarrow> (case cn_recv C (po_chan (mq_pollers s ! i)) of None \<Rightarrow> [] | Some (m, q) \<Rightarrow> [m])
    | _ \<Rightarrow> [])"

fun mqtt_traffic :: "'c mqtt_crate \<Rightarrow> (mqtt_message, 'q) channel \<Rightarrow> bool \<Rightarrow> nat \<Rightarrow> ('c, 'q) mqtt
    \<Rightarrow> (duration \<times> mqtt_event) list \<Rightarrow> ('c, 'q) mqtt \<times> mqtt_message list \<times> mqtt_message list" where
  "mqtt_traffic L C tx i s [] = (s, [], [])"
| "mqtt_traffic L C tx i s (ev # evs) =
     (let s1 = fst (mqtt_step L C tx s ev); (s2, taken, handed) = mqtt_traffic L C tx i s1 evs
      in (s2, taken_in C i s (snd ev) @ taken, handed_over C s (snd ev) @ handed))"

definition backlog :: "(mqtt_message, 'q) channel \<Rightarrow> nat \<Rightarrow> ('c, 'q) mqtt \<Rightarrow> mqtt_message list" where
  "backlog C i s = cn_backlog C (po_chan (mq_pollers s ! i))"

definition listening :: "(mqtt_message, 'q) channel \<Rightarrow> nat \<Rightarrow> ('c, 'q) mqtt \<Rightarrow> bool" where
  "listening C i s = (mq_rx s = Some i \<and> i < length (mq_pollers s) \<and> cn_open C (po_chan (mq_pollers s ! i))
     \<and> cn_capacity C (po_chan (mq_pollers s ! i)) = 1000 \<and> length (backlog C i s) \<le> 1001)"

definition reopens :: "mqtt_event \<Rightarrow> bool" where
  "reopens ev = (case ev of MqConnect _ _ _ \<Rightarrow> True | MqClose \<Rightarrow> True | _ \<Rightarrow> False)"

lemma channel_facts:
  assumes "channel_laws C" "cn_open C q"
  shows "cn_free C q = (length (cn_backlog C q) \<le> cn_capacity C q)"
    "cn_free C q \<Longrightarrow> cn_backlog C (cn_send C m q) = cn_backlog C q @ [m] \<and> cn_open C (cn_send C m q)
       \<and> cn_capacity C (cn_send C m q) = cn_capacity C q"
    "cn_recv C q = Some (m, q') \<Longrightarrow> cn_backlog C q = m # cn_backlog C q' \<and> cn_open C q' \<and> cn_capacity C q' = cn_capacity C q"
    "cn_recv C q = None \<Longrightarrow> cn_backlog C q = []"
  using assms unfolding channel_laws_def by (blast, blast, force, force)

lemma request_keeps [simp]:
  "mq_rx (fst (mqtt_request tx d n f act s)) = mq_rx s"
  "mq_pollers (fst (mqtt_request tx d n f act s)) = mq_pollers s"
  "mq_running (fst (mqtt_request tx d n f act s)) = mq_running s"
  by (simp_all add: mqtt_request_def Let_def split: option.splits prod.splits)

lemma turn_in_order:
  assumes "channel_laws C" "listening C i s"
  shows "listening C i (mqtt_turn C j r s) \<and> backlog C i (mqtt_turn C j r s) = backlog C i s @ taken_in C i s (MqTurn j r)"
proof (cases "j = i \<and> runnable C (mq_pollers s ! i)")
  case True
  then have "length (backlog C i s) \<le> 1000"
    using assms channel_facts(1) [of C "po_chan (mq_pollers s ! i)"] by (simp add: listening_def runnable_def backlog_def)
  then show ?thesis
    using True assms channel_facts(2) [of C "po_chan (mq_pollers s ! i)"]
    by (auto simp: listening_def mqtt_turn_def mqtt_poll_def taken_in_def runnable_def backlog_def split: mqtt_reading.splits)
next
  case False
  then show ?thesis
    using assms(2) by (auto simp: listening_def mqtt_turn_def taken_in_def backlog_def nth_list_update split: mqtt_reading.splits)
qed

lemma recv_in_order:
  assumes "channel_laws C" "listening C i s" "mqtt_recv L C tx d s = (s', ms, r)"
  shows "listening C i s' \<and> handed_over C s MqRecv @ backlog C i s' = backlog C i s"
  using assms channel_facts(3,4) [of C "po_chan (mq_pollers s ! i)"]
  by (auto simp: listening_def mqtt_recv_def handed_over_def backlog_def Let_def split: option.splits prod.splits)

lemma step_in_order:
  assumes "channel_laws C" "listening C i s" "\<not> reopens (snd ev)"
  shows "listening C i (fst (mqtt_step L C tx s ev))
    \<and> handed_over C s (snd ev) @ backlog C i (fst (mqtt_step L C tx s ev)) = backlog C i s @ taken_in C i s (snd ev)"
proof (cases "snd ev")
  case MqRecv
  then show ?thesis
    using recv_in_order [OF assms(1,2), of L tx "fst ev"] by (auto simp: mqtt_step_def taken_in_def) (metis prod.collapse)+
next
  case (MqTurn j r)
  then show ?thesis using turn_in_order [OF assms(1,2), of j r] by (simp add: mqtt_step_def handed_over_def)
qed (use assms in \<open>auto simp: listening_def backlog_def handed_over_def taken_in_def reopens_def mqtt_step_def
  mqtt_subscribe_def mqtt_unsubscribe_def mqtt_publish_def\<close>)

text \<open>C12. From a successful \<open>connect\<close> on, and until the next \<open>connect\<close> or \<open>close\<close>, messages reach the
  script once and in order, in every interleaving with the polling threads: what \<open>recv\<close> returned,
  followed by what is still waiting, is exactly what thread \<open>i\<close> took in; at most 1001 messages
  wait.\<close>

theorem mqtt_delivers_in_order:
  assumes "channel_laws C" "list_all (\<lambda>ev. \<not> reopens (snd ev)) evs"
    and "s = fst (mqtt_connect L C tx d host port client_id before)"
    and "mqtt_traffic L C tx (length (mq_pollers before)) s evs = (s', taken, handed)"
  shows "handed @ backlog C (length (mq_pollers before)) s' = taken \<and> length (backlog C (length (mq_pollers before)) s') \<le> 1001"
proof -
  let ?i = "length (mq_pollers before)"
  have run: "listening C ?i s \<Longrightarrow> mqtt_traffic L C tx ?i s evs = (s', taken, handed) \<Longrightarrow>
      listening C ?i s' \<and> handed @ backlog C ?i s' = backlog C ?i s @ taken" for s
    using assms(2)
  proof (induction evs arbitrary: s taken handed)
    case (Cons ev evs)
    obtain taken1 handed1 where t: "mqtt_traffic L C tx ?i (fst (mqtt_step L C tx s ev)) evs = (s', taken1, handed1)"
      using Cons.prems(2) by (auto simp: Let_def split: prod.splits)
    show ?case
      using Cons.IH [OF _ t] Cons.prems step_in_order [OF assms(1) Cons.prems(1), of ev L tx] t by auto
  qed simp
  have len: "length (hang_up C (mq_rx before) (mq_pollers before)) = ?i" by (simp add: hang_up_def split: option.splits)
  then have "mq_pollers s ! ?i = \<lparr>po_chan = cn_bounded C 1000, po_done = False\<rparr>" "length (mq_pollers s) = Suc ?i"
    "mq_rx s = Some ?i"
    using nth_append_length [of "hang_up C (mq_rx before) (mq_pollers before)"] unfolding assms(3) by (simp_all add: mqtt_connect_def len)
  moreover from this have "listening C ?i s" "backlog C ?i s = []"
    using assms(1) by (simp_all add: listening_def backlog_def channel_laws_def)
  ultimately show ?thesis using run [OF _ assms(4)] by (simp add: listening_def)
qed

text \<open>A broker for the examples: everything succeeds.\<close>

definition easy_mqtt :: "unit mqtt_crate" where
  "easy_mqtt = \<lparr>mc_new = (\<lambda>_ _ _. ()), mc_subscribe = (\<lambda>_ _ c. (c, None)), mc_unsubscribe = (\<lambda>_ c. (c, None)),
     mc_publish = (\<lambda>_ _ _ _ c. (c, None)), mc_lossy = (\<lambda>b. map (char_of \<circ> unat) b)\<rparr>"

abbreviation publish_of :: "nat \<Rightarrow> duration \<times> mqtt_event" where
  "publish_of n \<equiv> (0, MqTurn 0 (IncomingPublish ''t'' [of_nat n] ExactlyOnce))"

theorem mqtt_delivers_in_order_witness:
  "let s = fst (mqtt_connect easy_mqtt queue_channel True 5 ''h'' 1883 ''c'' mqtt_new);
       (s', taken, handed) = mqtt_traffic easy_mqtt queue_channel True 0 s
          [publish_of 1, publish_of 2, (3, MqRecv), publish_of 3]
   in handed = [message ''t'' [1] 2] \<and> backlog queue_channel 0 s' = [message ''t'' [2] 2, message ''t'' [3] 2]
     \<and> handed @ backlog queue_channel 0 s' = taken"
proof -
  let ?s = "fst (mqtt_connect easy_mqtt queue_channel True 5 ''h'' 1883 ''c'' mqtt_new)"
  let ?evs = "[publish_of 1, publish_of 2, (3, MqRecv), publish_of 3]"
  obtain s' taken handed where t: "mqtt_traffic easy_mqtt queue_channel True 0 ?s ?evs = (s', taken, handed)"
    by (metis prod_cases3)
  have "handed = [message ''t'' [1] 2] \<and> backlog queue_channel 0 s' = [message ''t'' [2] 2, message ''t'' [3] 2]"
    using t by (auto simp: mqtt_connect_def mqtt_new_def mqtt_step_def mqtt_turn_def mqtt_poll_def mqtt_recv_def
      queue_channel_def runnable_def taken_in_def handed_over_def backlog_def hang_up_def qos_number_def Let_def)
  moreover have "handed @ backlog queue_channel 0 s' = taken"
    using mqtt_delivers_in_order [where C = queue_channel and evs = ?evs and before = mqtt_new and L = easy_mqtt
      and tx = True and d = 5 and host = "''h''" and port = 1883 and client_id = "''c''", OF queue_channel_laws _ refl] t
    by (simp add: mqtt_new_def reopens_def)
  ultimately show ?thesis unfolding Let_def t by simp
qed

section \<open>Threads end, or are orphaned\<close>

text \<open>Only the receiver the client holds keeps a thread's channel open.\<close>

definition one_receiver :: "(mqtt_message, 'q) channel \<Rightarrow> ('c, 'q) mqtt \<Rightarrow> bool" where
  "one_receiver C s = (list_all (\<lambda>i. cn_open C (po_chan (mq_pollers s ! i)) = (mq_rx s = Some i)
       \<and> (\<not> cn_open C (po_chan (mq_pollers s ! i)) \<longrightarrow> cn_free C (po_chan (mq_pollers s ! i)))) [0..<length (mq_pollers s)]
     \<and> (case mq_rx s of None \<Rightarrow> True | Some i \<Rightarrow> i < length (mq_pollers s)))"

lemma one_receiver_iff:
  "one_receiver C s \<longleftrightarrow> (\<forall>i < length (mq_pollers s). cn_open C (po_chan (mq_pollers s ! i)) = (mq_rx s = Some i)
      \<and> (\<not> cn_open C (po_chan (mq_pollers s ! i)) \<longrightarrow> cn_free C (po_chan (mq_pollers s ! i))))
    \<and> (\<forall>i. mq_rx s = Some i \<longrightarrow> i < length (mq_pollers s))"
  by (auto simp: one_receiver_def list_all_iff split: option.splits)

lemma channel_ends:
  assumes "channel_laws C"
  shows "cn_open C (cn_bounded C n)" "\<not> cn_open C (cn_drop C q)" "cn_free C (cn_drop C q)"
    "\<not> cn_open C q \<Longrightarrow> cn_send C m q = q"
  using assms unfolding channel_laws_def by blast+

lemma length_hang_up [simp]: "length (hang_up C rx ps) = length ps"
  by (simp add: hang_up_def split: option.splits)

lemma hang_up_nth:
  "i < length ps \<Longrightarrow> hang_up C rx ps ! i = (if rx = Some i then (ps ! i)\<lparr>po_chan := cn_drop C (po_chan (ps ! i))\<rparr> else ps ! i)"
  by (auto simp: hang_up_def split: option.splits)

lemma turn_one_receiver:
  "channel_laws C \<Longrightarrow> one_receiver C s \<Longrightarrow> one_receiver C (mqtt_turn C j r s)"
  using channel_facts(2) [of C "po_chan (mq_pollers s ! j)"] channel_ends(4) [of C "po_chan (mq_pollers s ! j)"]
  by (cases "cn_open C (po_chan (mq_pollers s ! j))")
    (auto simp: one_receiver_iff mqtt_turn_def mqtt_poll_def runnable_def nth_list_update split: mqtt_reading.splits)

lemma step_one_receiver:
  assumes "channel_laws C" "one_receiver C s"
  shows "one_receiver C (fst (mqtt_step L C tx s ev))"
proof (cases "snd ev")
  case MqRecv
  then show ?thesis
    using assms(2) channel_facts(3) [OF assms(1), of "po_chan (mq_pollers s ! the (mq_rx s))"]
    by (auto simp: mqtt_step_def mqtt_recv_def one_receiver_iff nth_list_update Let_def split: option.splits)
next
  case (MqConnect h p c)
  then show ?thesis
    using assms(2) channel_ends [OF assms(1)]
    by (auto simp: mqtt_step_def mqtt_connect_def one_receiver_iff nth_append hang_up_nth less_Suc_eq)
next
  case MqClose
  then show ?thesis
    using assms(2) channel_ends [OF assms(1)] by (auto simp: mqtt_step_def mqtt_close_def one_receiver_iff hang_up_nth)
next
  case (MqTurn j r)
  then show ?thesis using turn_one_receiver [OF assms] by (simp add: mqtt_step_def)
qed (use assms(2) in \<open>auto simp: mqtt_step_def mqtt_subscribe_def mqtt_unsubscribe_def mqtt_publish_def one_receiver_iff\<close>)

lemma run_one_receiver:
  "channel_laws C \<Longrightarrow> one_receiver C s \<Longrightarrow> one_receiver C (foldl (\<lambda>s ev. fst (mqtt_step L C tx s ev)) s evs)"
  by (induction evs arbitrary: s) (auto intro: step_one_receiver)

text \<open>C30. After \<open>close\<close>, at the end of any run from a new client, every thread the client ever started
  that has not ended can run and ends at its next turn, even one that was blocked on a full channel or
  that an earlier \<open>connect\<close> had abandoned.\<close>

theorem closed_threads_end:
  assumes "channel_laws C" "s = fst (mqtt_close C (foldl (\<lambda>s ev. fst (mqtt_step L C tx s ev)) mqtt_new evs))"
    and "i < length (mq_pollers s)"
  shows "po_done (mq_pollers (mqtt_turn C i r s) ! i)"
proof -
  let ?s = "foldl (\<lambda>s ev. fst (mqtt_step L C tx s ev)) mqtt_new evs"
  have "one_receiver C ?s" by (rule run_one_receiver [OF assms(1)]) (simp add: one_receiver_iff mqtt_new_def)
  then have "cn_free C (po_chan (mq_pollers s ! i))"
    using assms(3) channel_ends [OF assms(1)] unfolding assms(2) by (auto simp: mqtt_close_def one_receiver_iff hang_up_nth)
  then show ?thesis
    using assms(3) unfolding assms(2) by (simp add: mqtt_turn_def mqtt_poll_def mqtt_close_def runnable_def)
qed

text \<open>A second \<open>connect\<close> without \<open>close\<close> leaves the first thread running on a channel nobody reads:
  it goes on polling whatever the broker sends, short of a closed connection, and every message it
  takes in is lost.\<close>

theorem second_connect_orphans:
  assumes "channel_laws C" "mq_rx s = Some i" "i < length (mq_pollers s)" "\<not> po_done (mq_pollers s ! i)" "r \<noteq> PollClosed"
    and "s' = fst (mqtt_connect L C tx d host port client_id s)"
  shows "\<not> po_done (mq_pollers (mqtt_turn C i r s') ! i) \<and> mq_rx (mqtt_turn C i r s') \<noteq> Some i
    \<and> po_chan (mq_pollers (mqtt_turn C i r s') ! i) = cn_drop C (po_chan (mq_pollers s ! i))"
  using assms(2-5) channel_ends [OF assms(1)] unfolding assms(6)
  by (auto simp: mqtt_turn_def mqtt_poll_def mqtt_connect_def runnable_def hang_up_nth nth_append split: mqtt_reading.splits)

theorem second_connect_orphans_witness:
  "let s = fst (mqtt_connect easy_mqtt queue_channel True 0 ''h'' 1883 ''c'' mqtt_new);
       s' = fst (mqtt_connect easy_mqtt queue_channel True 0 ''h'' 1883 ''c'' s);
       s'' = mqtt_turn queue_channel 0 (IncomingPublish ''t'' [1] AtMostOnce) s'
   in \<not> po_done (mq_pollers s'' ! 0) \<and> mq_rx s'' = Some 1 \<and> backlog queue_channel 0 s'' = []"
proof -
  let ?s = "fst (mqtt_connect easy_mqtt queue_channel True 0 ''h'' 1883 ''c'' mqtt_new)"
  let ?s' = "fst (mqtt_connect easy_mqtt queue_channel True 0 ''h'' 1883 ''c'' ?s)"
  have "mq_rx ?s = Some 0" "0 < length (mq_pollers ?s)" "\<not> po_done (mq_pollers ?s ! 0)"
    by (simp_all add: mqtt_connect_def mqtt_new_def hang_up_def)
  note o1 = second_connect_orphans [OF queue_channel_laws this, of "IncomingPublish ''t'' [1] AtMostOnce" ?s'
    easy_mqtt True 0 "''h''" 1883 "''c''"]
  have "mq_rx (mqtt_turn queue_channel 0 (IncomingPublish ''t'' [1] AtMostOnce) ?s') = Some 1"
    by (simp add: mqtt_connect_def mqtt_new_def hang_up_def mqtt_turn_def)
  then show ?thesis unfolding Let_def using o1 by (simp add: backlog_def queue_channel_def case_prod_beta)
qed

theorem closed_threads_end_witness:
  "let s = fst (mqtt_close queue_channel (foldl (\<lambda>s ev. fst (mqtt_step easy_mqtt queue_channel True s ev)) mqtt_new
         [(0, MqConnect ''h'' 1883 ''c''), (0, MqConnect ''h'' 1883 ''c'')]))
   in po_done (mq_pollers (mqtt_turn queue_channel 0 PollTimeout s) ! 0)"
proof -
  let ?s = "fst (mqtt_close queue_channel (foldl (\<lambda>s ev. fst (mqtt_step easy_mqtt queue_channel True s ev)) mqtt_new
         [(0, MqConnect ''h'' 1883 ''c''), (0, MqConnect ''h'' 1883 ''c'')]))"
  have "0 < length (mq_pollers ?s)" by (simp add: mqtt_close_def mqtt_step_def mqtt_connect_def mqtt_new_def)
  then show ?thesis unfolding Let_def by (rule closed_threads_end [OF queue_channel_laws refl])
qed

end
