(* ===== verification/Grpc.thy ===== *)
theory Grpc
  imports Brokers Converters
begin

text \<open>
  gRPC calls (\<open>src/bridge/grpc.rs\<close>): the conversion of a script's object to a message of the
  loaded descriptors, the names of methods, the client and its unary call, and the three kinds of
  streams. The descriptors (prost-reflect) are finite lookups, the transport (tonic) and the
  JSON functions of the JavaScript engine are arguments; the polling threads are those of
  \<open>Brokers\<close>.
\<close>

section \<open>Descriptors and values\<close>

datatype kind = Double | Float | Int32 | Int64 | Uint32 | Uint64 | BoolKind | StringKind | BytesKind
  | EnumKind string | MessageKind string

text \<open>\<open>Sint32\<close> and \<open>Sfixed32\<close> are treated as \<open>Int32\<close> by the code, and so on: a kind stands for its class.\<close>

record field =
  fd_list :: bool
  fd_map :: bool
  fd_kind :: kind

record descriptors =
  de_fields :: "string \<Rightarrow> (string \<times> field) list"
  de_enum :: "string \<Rightarrow> (string \<times> 32 word) list"
  de_base64 :: "string \<Rightarrow> byte list option"

datatype map_key = KeyString string | KeyI32 "32 word" | KeyI64 "64 word" | KeyU32 "32 word" | KeyU64 "64 word" | KeyBool bool

datatype prost_value = PF64 f64 | PF32 f64 | PI32 "32 word" | PI64 "64 word" | PU32 "32 word" | PU64 "64 word"
  | PBool bool | PString string | PBytes "byte list" | PEnum "32 word" | PList "prost_value list"
  | PMap "(map_key \<times> prost_value) list" | PMessage string "(string \<times> prost_value) list"

type_synonym 'a conversion = "js_error + 'a"

definition type_error :: "string \<Rightarrow> 'a conversion" where
  "type_error what = Inl (FromJs what ''TypeError'')"

section \<open>Numbers\<close>

text \<open>\<open>f as f32\<close> is a rounding to 24 bits.\<close>

definition round_f32 :: "rat \<Rightarrow> rat" where
  "round_f32 q = (let e = max (binexp q - 23) (- 149) in of_int (round_half_even (q / 2 powi e)) * 2 powi e)"

definition as_f32 :: "f64 \<Rightarrow> f64" where
  "as_f32 x = (case x of Fin q \<Rightarrow> (let r = (if q = 0 then 0 else if q > 0 then round_f32 q else - round_f32 (- q))
       in if 2 ^ 128 \<le> r then Inf False else if r \<le> - (2 ^ 128) then Inf True else Fin r)
     | y \<Rightarrow> y)"

section \<open>From JSON to a message\<close>

definition or_type_error :: "string \<Rightarrow> 'a option \<Rightarrow> 'a conversion" where
  "or_type_error what r = (case r of None \<Rightarrow> type_error what | Some v \<Rightarrow> Inr v)"

fun collect :: "('a \<Rightarrow> 'e + 'b) \<Rightarrow> 'a list \<Rightarrow> 'e + 'b list" where
  "collect f [] = Inr []"
| "collect f (x # xs) = (case f x of Inl e \<Rightarrow> Inl e
     | Inr y \<Rightarrow> (case collect f xs of Inl e \<Rightarrow> Inl e | Inr ys \<Rightarrow> Inr (y # ys)))"

lemma collect_cong [fundef_cong]:
  "xs = ys \<Longrightarrow> (\<And>x. x \<in> set ys \<Longrightarrow> f x = g x) \<Longrightarrow> collect f xs = collect g ys"
  by (induction xs arbitrary: ys) (auto split: sum.splits)

text \<open>\<open>json_scalar_to_prost\<close>, with the conversion of nested messages as an argument.\<close>

definition scalar_with :: "(string \<Rightarrow> json \<Rightarrow> (string \<times> prost_value) list conversion) \<Rightarrow> descriptors \<Rightarrow> json \<Rightarrow> kind
    \<Rightarrow> prost_value conversion" where
  "scalar_with nested D j k = (case k of
      Double \<Rightarrow> or_type_error ''Expected double'' (map_option PF64 (json_as_f64 j))
    | Float \<Rightarrow> or_type_error ''Expected float'' (map_option (\<lambda>f. PF32 (as_f32 f)) (json_as_f64 j))
    | Int32 \<Rightarrow> or_type_error ''Expected int32'' (map_option (\<lambda>i. PI32 (word_of_int i)) (json_as_i64 j))
    | Int64 \<Rightarrow> or_type_error ''Expected int64'' (map_option (\<lambda>i. PI64 (word_of_int i)) (json_as_i64 j))
    | Uint32 \<Rightarrow> or_type_error ''Expected uint32'' (map_option (\<lambda>i. PU32 (word_of_int i)) (json_as_u64 j))
    | Uint64 \<Rightarrow> or_type_error ''Expected uint64'' (map_option (\<lambda>i. PU64 (word_of_int i)) (json_as_u64 j))
    | BoolKind \<Rightarrow> (case j of JBool b \<Rightarrow> Inr (PBool b) | _ \<Rightarrow> type_error ''Expected bool'')
    | StringKind \<Rightarrow> (case j of JStr s \<Rightarrow> Inr (PString s) | _ \<Rightarrow> type_error ''Expected string'')
    | BytesKind \<Rightarrow> (case j of JStr s \<Rightarrow> or_type_error ''Invalid base64 encoding'' (map_option PBytes (de_base64 D s))
        | _ \<Rightarrow> type_error ''Expected base64 string for bytes'')
    | EnumKind e \<Rightarrow> (case j of JStr s \<Rightarrow> or_type_error ''Unknown enum value'' (map_option PEnum (map_of (de_enum D e) s))
        | _ \<Rightarrow> or_type_error ''Expected enum string or number'' (map_option (\<lambda>i. PEnum (word_of_int i)) (json_as_i64 j)))
    | MessageKind m \<Rightarrow> map_sum id (PMessage m) (nested m j))"

definition map_key_of :: "prost_value \<Rightarrow> map_key option" where
  "map_key_of v = (case v of PString s \<Rightarrow> Some (KeyString s) | PI32 i \<Rightarrow> Some (KeyI32 i) | PI64 i \<Rightarrow> Some (KeyI64 i)
     | PU32 i \<Rightarrow> Some (KeyU32 i) | PU64 i \<Rightarrow> Some (KeyU64 i) | PBool b \<Rightarrow> Some (KeyBool b) | _ \<Rightarrow> None)"

definition put_entry :: "(map_key \<times> prost_value) list \<Rightarrow> prost_value \<times> prost_value \<Rightarrow> (map_key \<times> prost_value) list" where
  "put_entry m kv = (case map_key_of (fst kv) of None \<Rightarrow> m | Some k \<Rightarrow> hm_insert k (snd kv) m)"

text \<open>\<open>json_val_to_prost\<close>: the key of an entry is converted from a JSON string, whatever its kind.\<close>

definition value_with :: "(string \<Rightarrow> json \<Rightarrow> (string \<times> prost_value) list conversion) \<Rightarrow> descriptors \<Rightarrow> field \<Rightarrow> json
    \<Rightarrow> prost_value conversion" where
  "value_with nested D f j =
     (if fd_list f then (case j of
        JArr xs \<Rightarrow> map_sum id PList (collect (\<lambda>x. scalar_with nested D x (fd_kind f)) xs)
      | _ \<Rightarrow> type_error ''Expected array for repeated field'')
      else if fd_map f then (case j of
        JObj kvs \<Rightarrow> (case fd_kind f of
            MessageKind entry \<Rightarrow> (case (map_of (de_fields D entry) ''key'', map_of (de_fields D entry) ''value'') of
                (Some key_field, Some value_field) \<Rightarrow>
                  map_sum id (\<lambda>es. PMap (foldl put_entry [] es)) (collect (\<lambda>kv.
                    case scalar_with (\<lambda>m j. type_error ''Expected JSON object for message'') D (JStr (fst kv)) (fd_kind key_field)
                    of Inl e \<Rightarrow> Inl e | Inr kp \<Rightarrow> map_sum id (Pair kp) (scalar_with nested D (snd kv) (fd_kind value_field))) kvs)
              | _ \<Rightarrow> type_error ''Invalid map entry'')
          | _ \<Rightarrow> type_error ''Invalid map field type'')
      | _ \<Rightarrow> type_error ''Expected object for map field'')
      else scalar_with nested D j (fd_kind f))"

lemma scalar_with_cong [fundef_cong]:
  "D = D' \<Longrightarrow> j = j' \<Longrightarrow> k = k' \<Longrightarrow> (\<And>m. n1 m j' = n2 m j') \<Longrightarrow> scalar_with n1 D j k = scalar_with n2 D' j' k'"
  by (simp add: scalar_with_def split: kind.splits)

lemma json_smaller:
  "j \<in> set js \<Longrightarrow> size j < size (JArr js)" "(k, j) \<in> set kvs \<Longrightarrow> size j < size (JObj kvs)"
  using size_list_estimation' [of j js "size j" size] size_list_estimation' [of "(k, j)" kvs "size j" "size_prod (\<lambda>_. 0) size"]
  by auto

lemma value_with_cong [fundef_cong]:
  assumes "D = D'" "f = f'" "j = j'" "\<And>m x. size x \<le> size j' \<Longrightarrow> n1 m x = n2 m x"
  shows "value_with n1 D f j = value_with n2 D' f' j'"
proof -
  have "\<And>m x xs. j' = JArr xs \<Longrightarrow> x \<in> set xs \<Longrightarrow> n1 m x = n2 m x"
    using assms(4) json_smaller(1) by (metis less_imp_le)
  moreover have "\<And>m k x kvs. j' = JObj kvs \<Longrightarrow> (k, x) \<in> set kvs \<Longrightarrow> n1 m x = n2 m x"
    using assms(4) json_smaller(2) by (metis less_imp_le)
  ultimately show ?thesis
    using assms(4) [of j'] unfolding assms(1-3) value_with_def
    by (auto split: json.splits kind.splits option.splits intro!: collect_cong scalar_with_cong arg_cong2 [where f = "map_sum id"]
      split: sum.splits)
qed

text \<open>\<open>json_to_dynamic_message\<close>: keys without a field are skipped.\<close>

definition set_field :: "(string \<times> prost_value) list \<Rightarrow> string \<times> prost_value option \<Rightarrow> (string \<times> prost_value) list" where
  "set_field m kv = (case snd kv of None \<Rightarrow> m | Some v \<Rightarrow> hm_insert (fst kv) v m)"

function json_to_dynamic_message :: "descriptors \<Rightarrow> string \<Rightarrow> json \<Rightarrow> (string \<times> prost_value) list conversion" where
  "json_to_dynamic_message D n j = (case j of
     JObj kvs \<Rightarrow> map_sum id (foldl set_field [])
        (collect (\<lambda>kv. case map_of (de_fields D n) (fst kv) of
             None \<Rightarrow> Inr (fst kv, None)
           | Some f \<Rightarrow> map_sum id (\<lambda>v. (fst kv, Some v)) (value_with (json_to_dynamic_message D) D f (snd kv))) kvs)
   | _ \<Rightarrow> type_error ''Expected JSON object for message'')"
  by auto
termination
  by (relation "measure (\<lambda>(D, n, j). size j)") (auto dest!: json_smaller(2))

declare json_to_dynamic_message.simps [simp del]

definition json_val_to_prost :: "descriptors \<Rightarrow> field \<Rightarrow> json \<Rightarrow> prost_value conversion" where
  "json_val_to_prost D = value_with (json_to_dynamic_message D) D"

definition json_scalar_to_prost :: "descriptors \<Rightarrow> json \<Rightarrow> kind \<Rightarrow> prost_value conversion" where
  "json_scalar_to_prost D = scalar_with (json_to_dynamic_message D) D"

section \<open>Methods, codec, JavaScript values\<close>

definition rsplit_once :: "char \<Rightarrow> string \<Rightarrow> (string \<times> string) option" where
  "rsplit_once c s = map_option (\<lambda>(k, v). (rev v, rev k)) (split_once c (rev s))"

definition parse_method_name :: "string \<Rightarrow> (string \<times> string) conversion" where
  "parse_method_name name = (let clean = dropWhile (\<lambda>c. c = CHR ''/'') name in
     case rsplit_once (CHR ''/'') clean of Some v \<Rightarrow> Inr v
   | None \<Rightarrow> (case rsplit_once (CHR ''.'') clean of Some v \<Rightarrow> Inr v
       | None \<Rightarrow> Inl (FromJs ''Invalid method format'' ''FormatError'')))"

record rpc_method =
  rm_name :: string
  rm_input :: string
  rm_output :: string

record pool =
  dp_types :: descriptors
  dp_services :: "(string \<times> rpc_method list) list"

definition get_method :: "pool option \<Rightarrow> string \<Rightarrow> (rpc_method \<times> string \<times> string) conversion" where
  "get_method p name = (case p of None \<Rightarrow> Inl (FromJs ''Proto not loaded'' ''StateError'')
   | Some pool \<Rightarrow> (case parse_method_name name of Inl e \<Rightarrow> Inl e
     | Inr (service, short) \<Rightarrow> (case map_of (dp_services pool) service of
         None \<Rightarrow> Inl (FromJs ''Service not found'' ''NotFoundError'')
       | Some ms \<Rightarrow> (case find (\<lambda>m. rm_name m = short) ms of
           None \<Rightarrow> Inl (FromJs ''Method not found'' ''NotFoundError'')
         | Some m \<Rightarrow> Inr (m, service, short)))))"

text \<open>\<open>js_to_json\<close>, over \<open>JSON.stringify\<close> and the JSON parser.\<close>

definition js_to_json :: "(js \<Rightarrow> js_error + string) \<Rightarrow> (string \<Rightarrow> json option) \<Rightarrow> js \<Rightarrow> json conversion" where
  "js_to_json stringify from_str v = (if as_object v = None then type_error ''Request body must be object''
     else case stringify v of Inl e \<Rightarrow> Inl e
       | Inr s \<Rightarrow> (case from_str s of None \<Rightarrow> Inl (FromJs ''JsonError'' ''ValueError'') | Some j \<Rightarrow> Inr j))"

text \<open>The decoder: an empty payload is no message at all.\<close>

definition decode_message :: "(byte list \<Rightarrow> string + (string \<times> prost_value) list) \<Rightarrow> byte list
    \<Rightarrow> string + (string \<times> prost_value) list option" where
  "decode_message merge buf = (if buf = [] then Inr None else map_sum id Some (merge buf))"

section \<open>The client\<close>

datatype load_failure = CompileFailed | DescriptorFailed

type_synonym dynamic_message = "(string \<times> prost_value) list"

record ('n, 'c) grpc_crates =
  gc_load :: "string list \<Rightarrow> string list \<Rightarrow> load_failure + pool"
  gc_endpoint :: "string \<Rightarrow> string option"
  gc_connect :: "string \<Rightarrow> 'n \<Rightarrow> 'n \<times> (string + 'c)"
  gc_uri_path :: "string \<Rightarrow> string option"
  gc_path_ok :: "string \<Rightarrow> bool"
  gc_unary :: "'c \<Rightarrow> string \<Rightarrow> rpc_method \<Rightarrow> dynamic_message \<Rightarrow> 'n \<Rightarrow> 'n \<times> (string + dynamic_message)"
  gc_open :: "'c \<Rightarrow> string \<Rightarrow> rpc_method \<Rightarrow> dynamic_message \<Rightarrow> 'n \<Rightarrow> 'n \<times> string option"
  gc_stringify :: "js \<Rightarrow> js_error + string"
  gc_from_str :: "string \<Rightarrow> json option"
  gc_to_js :: "dynamic_message \<Rightarrow> js_error + js"

record ('n, 'c) grpc_client =
  gr_net :: 'n
  gr_pool :: "pool option"
  gr_channel :: "'c option"

definition grpc_new :: "bool \<Rightarrow> 'n \<Rightarrow> js_error + ('n, 'c) grpc_client" where
  "grpc_new runtime_ok net = (if \<not> runtime_ok then Inl (FromJs ''Failed to create gRPC runtime'' ''RuntimeError'')
     else Inr \<lparr>gr_net = net, gr_pool = None, gr_channel = None\<rparr>)"

definition grpc_load :: "('n, 'c) grpc_crates \<Rightarrow> string list \<Rightarrow> string list \<Rightarrow> ('n, 'c) grpc_client
    \<Rightarrow> ('n, 'c) grpc_client \<times> (js_error + js)" where
  "grpc_load L files includes s = (case gc_load L files includes of
     Inl CompileFailed \<Rightarrow> (s, Inl (FromJs ''ProtoCompileError'' ''GrpcError''))
   | Inl DescriptorFailed \<Rightarrow> (s, Inl (FromJs ''DescriptorError'' ''GrpcError''))
   | Inr p \<Rightarrow> (s\<lparr>gr_pool := Some p\<rparr>, Inr JsUndefined))"

definition grpc_connect :: "('n, 'c) grpc_crates \<Rightarrow> bool \<Rightarrow> duration \<Rightarrow> string \<Rightarrow> ('n, 'c) grpc_client
    \<Rightarrow> ('n, 'c) grpc_client called" where
  "grpc_connect L tx d url s = (case gc_endpoint L url of
     Some e \<Rightarrow> (s, reported tx (make_metric ''grpc::connect'' d (Some (''Endpoint error: '' @ e))), Inl (FromJs ''UrlError'' ''GrpcError''))
   | None \<Rightarrow> (let (net, answer) = gc_connect L url (gr_net s); s = s\<lparr>gr_net := net\<rparr> in case answer of
       Inl e \<Rightarrow> (s, reported tx (make_metric ''grpc::connect'' d (Some (''Connect error: '' @ e))), Inl (FromJs ''ConnectError'' ''GrpcError''))
     | Inr c \<Rightarrow> (s\<lparr>gr_channel := Some c\<rparr>, reported tx (make_metric ''grpc::connect'' d None), Inr JsUndefined)))"

text \<open>What \<open>invoke\<close>, \<open>serverStream\<close>, \<open>clientStream\<close> and \<open>bidiStream\<close> do before the transport: the
  method, the message (for the two that have one), the channel, the path.\<close>

definition request_message :: "('n, 'c) grpc_crates \<Rightarrow> pool option \<Rightarrow> rpc_method \<Rightarrow> js \<Rightarrow> dynamic_message conversion" where
  "request_message L p m v = (case js_to_json (gc_stringify L) (gc_from_str L) v of Inl e \<Rightarrow> Inl e
     | Inr j \<Rightarrow> (case p of None \<Rightarrow> Inl (FromJs ''Proto not loaded'' ''StateError'')
         | Some p \<Rightarrow> json_to_dynamic_message (dp_types p) (rm_input m) j))"

definition method_path :: "('n, 'c) grpc_crates \<Rightarrow> string \<Rightarrow> string \<Rightarrow> string conversion" where
  "method_path L service short = (case gc_uri_path L (''/'' @ service @ ''/'' @ short) of
     None \<Rightarrow> Inl (FromJs ''Invalid URI path'' ''PathError'')
   | Some p \<Rightarrow> if gc_path_ok L p then Inr p else Inl (FromJs ''Invalid PathAndQuery'' ''PathError''))"

definition prepare :: "('n, 'c) grpc_crates \<Rightarrow> string \<Rightarrow> js option \<Rightarrow> ('n, 'c) grpc_client
    \<Rightarrow> ('c \<times> string \<times> rpc_method \<times> dynamic_message) conversion" where
  "prepare L name request s = (case get_method (gr_pool s) name of Inl e \<Rightarrow> Inl e
   | Inr (m, service, short) \<Rightarrow>
      (case (case request of None \<Rightarrow> Inr [] | Some v \<Rightarrow> request_message L (gr_pool s) m v) of Inl e \<Rightarrow> Inl e
       | Inr msg \<Rightarrow> (case gr_channel s of None \<Rightarrow> Inl (FromJs ''Not connected'' ''StateError'')
         | Some c \<Rightarrow> (case method_path L service short of Inl e \<Rightarrow> Inl e | Inr p \<Rightarrow> Inr (c, p, m, msg)))))"

definition grpc_invoke :: "('n, 'c) grpc_crates \<Rightarrow> bool \<Rightarrow> duration \<Rightarrow> string \<Rightarrow> js \<Rightarrow> ('n, 'c) grpc_client
    \<Rightarrow> ('n, 'c) grpc_client called" where
  "grpc_invoke L tx d name request s = (case prepare L name (Some request) s of Inl e \<Rightarrow> (s, [], Inl e)
   | Inr (c, p, m, msg) \<Rightarrow> (let (net, answer) = gc_unary L c p m msg (gr_net s); s = s\<lparr>gr_net := net\<rparr> in case answer of
       Inl e \<Rightarrow> (s, reported tx (make_metric (''grpc::invoke/'' @ name) d (Some (''gRPC error: '' @ e))),
         Inl (FromJs ''GrpcError'' ''NetworkError''))
     | Inr reply \<Rightarrow> (s, reported tx (make_metric (''grpc::invoke/'' @ name) d None), gc_to_js L reply)))"

section \<open>Streams\<close>

datatype stream_reading = StreamMessage dynamic_message | StreamError | StreamEnd | StreamQuiet

record 'q message_stream =
  ms_rx :: bool
  ms_running :: bool
  ms_poller :: "'q poller"

definition stream_poll :: "(dynamic_message, 'q) channel \<Rightarrow> bool \<Rightarrow> stream_reading \<Rightarrow> 'q poller \<Rightarrow> 'q poller" where
  "stream_poll C running r p = (if \<not> running then p\<lparr>po_done := True\<rparr>
     else case r of
       StreamMessage m \<Rightarrow> if \<not> cn_open C (po_chan p) then p\<lparr>po_done := True\<rparr> else p\<lparr>po_chan := cn_send C m (po_chan p)\<rparr>
     | StreamQuiet \<Rightarrow> p
     | StreamError \<Rightarrow> p\<lparr>po_done := True\<rparr> | StreamEnd \<Rightarrow> p\<lparr>po_done := True\<rparr>)"

definition new_stream :: "(dynamic_message, 'q) channel \<Rightarrow> 'q message_stream" where
  "new_stream C = \<lparr>ms_rx = True, ms_running = True, ms_poller = \<lparr>po_chan = cn_bounded C 1000, po_done = False\<rparr>\<rparr>"

definition server_stream :: "('n, 'c) grpc_crates \<Rightarrow> (dynamic_message, 'q) channel \<Rightarrow> string \<Rightarrow> js \<Rightarrow> ('n, 'c) grpc_client
    \<Rightarrow> ('n, 'c) grpc_client \<times> (js_error + 'q message_stream)" where
  "server_stream L C name request s = (case prepare L name (Some request) s of Inl e \<Rightarrow> (s, Inl e)
   | Inr (c, p, m, msg) \<Rightarrow> (let (net, err) = gc_open L c p m msg (gr_net s); s = s\<lparr>gr_net := net\<rparr> in
       if err \<noteq> None then (s, Inl (FromJs ''GrpcError'' ''NetworkError'')) else (s, Inr (new_stream C))))"

definition stream_recv :: "(dynamic_message \<Rightarrow> js_error + js) \<Rightarrow> (dynamic_message, 'q) channel \<Rightarrow> 'q message_stream
    \<Rightarrow> 'q message_stream \<times> (js_error + js)" where
  "stream_recv to_js C st = (if \<not> ms_rx st then (st, recv_value js.JsNull (JsString ''not_connected''))
     else case cn_recv C (po_chan (ms_poller st)) of
       Some (m, q) \<Rightarrow> (st\<lparr>ms_poller := (ms_poller st)\<lparr>po_chan := q\<rparr>\<rparr>,
         case to_js m of Inl e \<Rightarrow> Inl e | Inr v \<Rightarrow> recv_value v js.JsNull)
     | None \<Rightarrow> (st, recv_value js.JsNull (JsString (if po_done (ms_poller st) then ''closed'' else ''timeout''))))"

definition stream_close :: "(dynamic_message, 'q) channel \<Rightarrow> 'q message_stream \<Rightarrow> 'q message_stream" where
  "stream_close C st = (if \<not> ms_rx st then st\<lparr>ms_running := False\<rparr>
     else st\<lparr>ms_running := False, ms_rx := False,
       ms_poller := (ms_poller st)\<lparr>po_chan := cn_drop C (po_chan (ms_poller st)),
         po_done := po_done (ms_poller st) \<or> \<not> cn_free C (po_chan (ms_poller st))\<rparr>\<rparr>)"

text \<open>The sending side: the messages handed to the call, and whether the sender is still held.\<close>

record request_stream =
  rs_open :: bool
  rs_sent :: "dynamic_message list"

definition stream_send :: "('n, 'c) grpc_crates \<Rightarrow> descriptors \<Rightarrow> string \<Rightarrow> bool \<Rightarrow> js \<Rightarrow> request_stream
    \<Rightarrow> request_stream \<times> (js_error + js)" where
  "stream_send L D input receiver_alive v st =
     (if \<not> rs_open st then (st, Inl (FromJs ''Stream already closed'' ''StateError''))
      else case js_to_json (gc_stringify L) (gc_from_str L) v of Inl e \<Rightarrow> (st, Inl e)
      | Inr j \<Rightarrow> (case json_to_dynamic_message D input j of Inl e \<Rightarrow> (st, Inl e)
        | Inr m \<Rightarrow> if receiver_alive then (st\<lparr>rs_sent := rs_sent st @ [m]\<rparr>, Inr JsUndefined)
            else (st, Inl (FromJs ''Stream send failed'' ''NetworkError''))))"

record client_stream =
  cs_requests :: request_stream
  cs_response :: bool

definition open_client_stream :: "('n, 'c) grpc_crates \<Rightarrow> string \<Rightarrow> ('n, 'c) grpc_client \<Rightarrow> js_error + client_stream" where
  "open_client_stream L name s = map_sum id
     (\<lambda>_. \<lparr>cs_requests = \<lparr>rs_open = True, rs_sent = []\<rparr>, cs_response = True\<rparr>) (prepare L name None s)"

text \<open>\<open>closeAndRecv\<close>: the answer of the call, or nothing when its thread died.\<close>

definition close_and_recv :: "(dynamic_message \<Rightarrow> js_error + js) \<Rightarrow> (string + dynamic_message) option \<Rightarrow> client_stream
    \<Rightarrow> client_stream \<times> (js_error + js)" where
  "close_and_recv to_js answer st =
     (st\<lparr>cs_requests := (cs_requests st)\<lparr>rs_open := False\<rparr>, cs_response := False\<rparr>,
      if \<not> cs_response st then Inl (FromJs ''Already received response'' ''StateError'')
      else case answer of None \<Rightarrow> Inl (FromJs ''Response channel closed'' ''NetworkError'')
        | Some (Inl e) \<Rightarrow> Inl (FromJs ''GrpcError'' ''NetworkError'')
        | Some (Inr m) \<Rightarrow> to_js m)"

record 'q bidi_stream =
  bi_requests :: request_stream
  bi_replies :: "'q message_stream"

definition open_bidi_stream :: "('n, 'c) grpc_crates \<Rightarrow> (dynamic_message, 'q) channel \<Rightarrow> string \<Rightarrow> ('n, 'c) grpc_client
    \<Rightarrow> js_error + 'q bidi_stream" where
  "open_bidi_stream L C name s = map_sum id
     (\<lambda>_. \<lparr>bi_requests = \<lparr>rs_open = True, rs_sent = []\<rparr>, bi_replies = new_stream C\<rparr>) (prepare L name None s)"

text \<open>A turn of the thread of a bidirectional stream; it also ends when the call cannot be made.\<close>

definition bidi_poll :: "(dynamic_message, 'q) channel \<Rightarrow> bool \<Rightarrow> bool \<Rightarrow> stream_reading \<Rightarrow> 'q poller \<Rightarrow> 'q poller" where
  "bidi_poll C call_ok running r p = (if \<not> call_ok then p\<lparr>po_done := True\<rparr> else stream_poll C running r p)"

definition bidi_close :: "(dynamic_message, 'q) channel \<Rightarrow> 'q bidi_stream \<Rightarrow> 'q bidi_stream" where
  "bidi_close C st = st\<lparr>bi_requests := (bi_requests st)\<lparr>rs_open := False\<rparr>, bi_replies := stream_close C (bi_replies st)\<rparr>"

definition bidi_send :: "('n, 'c) grpc_crates \<Rightarrow> descriptors \<Rightarrow> string \<Rightarrow> bool \<Rightarrow> js \<Rightarrow> 'q bidi_stream
    \<Rightarrow> 'q bidi_stream \<times> (js_error + js)" where
  "bidi_send L D input receiver_alive v st = (case stream_send L D input receiver_alive v (bi_requests st) of
     (rq, r) \<Rightarrow> (st\<lparr>bi_requests := rq\<rparr>, r))"

definition bidi_recv :: "(dynamic_message \<Rightarrow> js_error + js) \<Rightarrow> (dynamic_message, 'q) channel \<Rightarrow> 'q bidi_stream
    \<Rightarrow> 'q bidi_stream \<times> (js_error + js)" where
  "bidi_recv to_js C st = (case stream_recv to_js C (bi_replies st) of (rp, r) \<Rightarrow> (st\<lparr>bi_replies := rp\<rparr>, r))"

text \<open>Collecting the object of a stream closes it, with a shorter wait for its thread.\<close>

definition drop_server_stream :: "(dynamic_message, 'q) channel \<Rightarrow> 'q message_stream \<Rightarrow> 'q message_stream" where
  "drop_server_stream C st = stream_close C st"

definition drop_bidi_stream :: "(dynamic_message, 'q) channel \<Rightarrow> 'q bidi_stream \<Rightarrow> 'q bidi_stream" where
  "drop_bidi_stream C st = bidi_close C st"

section \<open>Conversions are well-typed\<close>

text \<open>What \<open>DynamicMessage::set_field\<close> requires of a value for a field (it panics otherwise).\<close>

definition valid_key :: "kind \<Rightarrow> map_key \<Rightarrow> bool" where
  "valid_key k v = (case v of KeyString _ \<Rightarrow> k = StringKind | KeyI32 _ \<Rightarrow> k = Int32 | KeyI64 _ \<Rightarrow> k = Int64
     | KeyU32 _ \<Rightarrow> k = Uint32 | KeyU64 _ \<Rightarrow> k = Uint64 | KeyBool _ \<Rightarrow> k = BoolKind)"

fun valid_kind :: "descriptors \<Rightarrow> kind \<Rightarrow> prost_value \<Rightarrow> bool" and valid_field :: "descriptors \<Rightarrow> field \<Rightarrow> prost_value \<Rightarrow> bool" where
  "valid_kind D k (PF64 _) = (k = Double)"
| "valid_kind D k (PF32 _) = (k = Float)"
| "valid_kind D k (PI32 _) = (k = Int32)"
| "valid_kind D k (PI64 _) = (k = Int64)"
| "valid_kind D k (PU32 _) = (k = Uint32)"
| "valid_kind D k (PU64 _) = (k = Uint64)"
| "valid_kind D k (PBool _) = (k = BoolKind)"
| "valid_kind D k (PString _) = (k = StringKind)"
| "valid_kind D k (PBytes _) = (k = BytesKind)"
| "valid_kind D k (PEnum _) = (case k of EnumKind e \<Rightarrow> True | _ \<Rightarrow> False)"
| "valid_kind D k (PList _) = False"
| "valid_kind D k (PMap _) = False"
| "valid_kind D k (PMessage m fs) = (k = MessageKind m \<and> list_all (\<lambda>nv. case map_of (de_fields D m) (fst nv) of
       None \<Rightarrow> False | Some f \<Rightarrow> valid_field D f (snd nv)) fs)"
| "valid_field D f (PList vs) = (fd_list f \<and> list_all (valid_kind D (fd_kind f)) vs)"
| "valid_field D f (PMap es) = (\<not> fd_list f \<and> fd_map f \<and> (case fd_kind f of
       MessageKind e \<Rightarrow> (case (map_of (de_fields D e) ''key'', map_of (de_fields D e) ''value'') of
           (Some kf, Some vf) \<Rightarrow> list_all (\<lambda>kv. valid_key (fd_kind kf) (fst kv) \<and> valid_kind D (fd_kind vf) (snd kv)) es
         | _ \<Rightarrow> False)
     | _ \<Rightarrow> False))"
| "valid_field D f v = (\<not> fd_list f \<and> \<not> fd_map f \<and> valid_kind D (fd_kind f) v)"

lemma collect_all:
  "collect f xs = Inr ys \<Longrightarrow> (\<And>x y. x \<in> set xs \<Longrightarrow> f x = Inr y \<Longrightarrow> P y) \<Longrightarrow> list_all P ys"
proof (induction xs arbitrary: ys)
  case (Cons x xs)
  obtain z zs where "f x = Inr z" "collect f xs = Inr zs" "ys = z # zs" using Cons.prems(1) by (auto split: sum.splits)
  moreover from this have "P z" "list_all P zs" using Cons.IH Cons.prems(2) by (metis list.set_intros)+
  ultimately show ?case by simp
qed simp

lemma map_sum_Inr: "map_sum id g r = Inr y \<longleftrightarrow> (\<exists>x. r = Inr x \<and> y = g x)"
  by (cases r) auto

lemma or_type_error_Inr: "or_type_error w r = Inr v \<longleftrightarrow> r = Some v"
  by (simp add: or_type_error_def type_error_def split: option.splits)

lemma leaf_valid:
  assumes "scalar_with nested D j k = Inr v" "\<And>m fs. k = MessageKind m \<Longrightarrow> nested m j = Inr fs \<Longrightarrow> valid_kind D k (PMessage m fs)"
  shows "valid_kind D k v"
  using assms by (auto simp: scalar_with_def or_type_error_Inr map_sum_Inr type_error_def split: kind.splits json.splits)

lemma valid_scalar_field: "valid_kind D (fd_kind f) v \<Longrightarrow> \<not> fd_list f \<Longrightarrow> \<not> fd_map f \<Longrightarrow> valid_field D f v"
  by (cases v) simp_all

lemma key_valid: "valid_kind D k v \<Longrightarrow> map_key_of v = Some mk \<Longrightarrow> valid_key k mk"
  by (auto simp: map_key_of_def valid_key_def split: prost_value.splits)

lemma list_all_insert: "list_all P m \<Longrightarrow> P (k, v) \<Longrightarrow> list_all P (hm_insert k v m)"
  by (fastforce simp: list_all_iff dest: subsetD [OF set_insert_subset])

lemma entries_valid:
  assumes "list_all P m" "list_all (\<lambda>kv. \<forall>mk. map_key_of (fst kv) = Some mk \<longrightarrow> P (mk, snd kv)) es"
  shows "list_all P (foldl put_entry m es)"
  using assms by (induction es arbitrary: m) (auto simp: put_entry_def split: option.splits intro!: list_all_insert)

lemma value_valid:
  assumes "value_with nested D f j = Inr v"
    and "\<And>m x fs. size x \<le> size j \<Longrightarrow> nested m x = Inr fs \<Longrightarrow> valid_kind D (MessageKind m) (PMessage m fs)"
  shows "valid_field D f v"
proof -
  consider (l) xs vs where "fd_list f" "j = JArr xs" "collect (\<lambda>x. scalar_with nested D x (fd_kind f)) xs = Inr vs" "v = PList vs"
    | (m) kvs es e kf vf where "\<not> fd_list f" "fd_map f" "j = JObj kvs" "fd_kind f = MessageKind e"
        "map_of (de_fields D e) ''key'' = Some kf" "map_of (de_fields D e) ''value'' = Some vf"
        "collect (\<lambda>kv. case scalar_with (\<lambda>m j. type_error ''Expected JSON object for message'') D (JStr (fst kv)) (fd_kind kf)
           of Inl e \<Rightarrow> Inl e | Inr kp \<Rightarrow> map_sum id (Pair kp) (scalar_with nested D (snd kv) (fd_kind vf))) kvs = Inr es"
        "v = PMap (foldl put_entry [] es)"
    | (s) "\<not> fd_list f" "\<not> fd_map f" "scalar_with nested D j (fd_kind f) = Inr v"
    using assms(1) unfolding value_with_def type_error_def
    by (auto simp: map_sum_Inr split: if_splits json.splits kind.splits option.splits)
  then show ?thesis
  proof cases
    case l
    have "valid_kind D (fd_kind f) y" if "x \<in> set xs" "scalar_with nested D x (fd_kind f) = Inr y" for x y
      using leaf_valid [OF that(2)] assms(2) [of x] json_smaller(1) [OF that(1)] l(2) by (auto dest: less_imp_le)
    then have "list_all (valid_kind D (fd_kind f)) vs"
      by (rule collect_all [OF l(3)])
    with l show ?thesis by simp
  next
    case m
    have "valid_kind D (fd_kind kf) (fst y) \<and> valid_kind D (fd_kind vf) (snd y)"
      if kv: "kv \<in> set kvs" "(case scalar_with (\<lambda>m j. type_error ''Expected JSON object for message'') D (JStr (fst kv)) (fd_kind kf)
         of Inl e \<Rightarrow> Inl e | Inr kp \<Rightarrow> map_sum id (Pair kp) (scalar_with nested D (snd kv) (fd_kind vf))) = Inr y" for kv y
    proof -
      have "size (snd kv) \<le> size j" using json_smaller(2) [of "fst kv" "snd kv" kvs] kv(1) m(3) by simp
      with kv(2) show ?thesis
        using leaf_valid [of "\<lambda>m j. type_error ''Expected JSON object for message''" D "JStr (fst kv)" "fd_kind kf"]
          leaf_valid [of nested D "snd kv" "fd_kind vf"] assms(2) [of "snd kv"]
        by (auto simp: map_sum_Inr type_error_def split: sum.splits)
    qed
    then have es: "list_all (\<lambda>y. valid_kind D (fd_kind kf) (fst y) \<and> valid_kind D (fd_kind vf) (snd y)) es"
      by (rule collect_all [OF m(7)])
    have "list_all (\<lambda>kv. valid_key (fd_kind kf) (fst kv) \<and> valid_kind D (fd_kind vf) (snd kv)) (foldl put_entry [] es)"
      by (rule entries_valid) (use es key_valid in \<open>fastforce simp: list_all_iff\<close>)+
    with m show ?thesis by simp
  next
    case s
    with assms(2) [of j] show ?thesis by (intro valid_scalar_field leaf_valid [OF s(3)]) auto
  qed
qed

text \<open>C9. Converting a script's object never makes \<open>set_field\<close> panic: a message that
  \<open>json_to_dynamic_message\<close> returns has, at every depth, only fields of its descriptor, each with a
  value of the field's kind, cardinality and key type.\<close>

theorem conversion_typed:
  "json_to_dynamic_message D n j = Inr fs \<Longrightarrow> valid_kind D (MessageKind n) (PMessage n fs)"
proof (induction "size j" arbitrary: n j fs rule: less_induct)
  case less
  let ?F = "\<lambda>kv. case map_of (de_fields D n) (fst kv) of None \<Rightarrow> Inr (fst kv, None)
     | Some f \<Rightarrow> map_sum id (\<lambda>v. (fst kv, Some v)) (value_with (json_to_dynamic_message D) D f (snd kv))"
  let ?P = "\<lambda>nv. case map_of (de_fields D n) (fst nv) of None \<Rightarrow> False | Some f \<Rightarrow> valid_field D f (snd nv)"
  obtain kvs es where j: "j = JObj kvs" and es: "collect ?F kvs = Inr es" and fs: "fs = foldl set_field [] es"
    using less.prems unfolding json_to_dynamic_message.simps [of D n j] type_error_def
    by (auto simp: map_sum_Inr split: json.splits)
  have "(\<forall>v. snd y = Some v \<longrightarrow> ?P (fst y, v))" if kv: "kv \<in> set kvs" "?F kv = Inr y" for kv y
  proof -
    have small: "size (snd kv) < size j" using json_smaller(2) [of "fst kv" "snd kv" kvs] kv(1) j by simp
    have "valid_field D f v" if "value_with (json_to_dynamic_message D) D f (snd kv) = Inr v" for f v
      by (rule value_valid [OF that], rule less.hyps) (use small in simp_all)
    then show ?thesis using kv(2) by (auto simp: map_sum_Inr split: option.splits)
  qed
  then have "list_all (\<lambda>y. \<forall>v. snd y = Some v \<longrightarrow> ?P (fst y, v)) es"
    by (rule collect_all [OF es])
  then have "list_all ?P m \<Longrightarrow> list_all ?P (foldl set_field m es)" for m
  proof (induction es arbitrary: m)
    case (Cons y ys)
    then show ?case using list_all_insert [where P = ?P and m = m and k = "fst y"] by (auto simp: set_field_def split: option.splits)
  qed simp
  from this [of "[]"] show ?case by (simp add: fs)
qed

text \<open>Descriptors for the examples: a recursive message with a list, a map and an \<open>int32\<close>.\<close>

definition tree_types :: descriptors where
  "tree_types = \<lparr>de_fields = (\<lambda>n. if n = ''Tree'' then
       [(''id'', \<lparr>fd_list = False, fd_map = False, fd_kind = Int32\<rparr>),
        (''kids'', \<lparr>fd_list = True, fd_map = False, fd_kind = MessageKind ''Tree''\<rparr>),
        (''tags'', \<lparr>fd_list = False, fd_map = True, fd_kind = MessageKind ''Entry''\<rparr>)]
     else if n = ''Entry'' then [(''key'', \<lparr>fd_list = False, fd_map = False, fd_kind = Int64\<rparr>),
        (''value'', \<lparr>fd_list = False, fd_map = False, fd_kind = StringKind\<rparr>)] else []),
     de_enum = (\<lambda>_. []), de_base64 = (\<lambda>_. None)\<rparr>"

lemma tree_conversion:
  "json_to_dynamic_message tree_types ''Tree'' (JObj [(''id'', JInt 2147483648), (''nope'', JNull),
       (''kids'', JArr [JObj [(''id'', JInt 7)]])]) =
     Inr [(''id'', PI32 (word_of_int 2147483648)), (''kids'', PList [PMessage ''Tree'' [(''id'', PI32 (word_of_int 7))]])]"
  by (simp add: json_to_dynamic_message.simps value_with_def scalar_with_def tree_types_def json_as_i64_def
      or_type_error_def set_field_def hm_insert_def)

theorem conversion_typed_witness:
  "valid_kind tree_types (MessageKind ''Tree'')
     (PMessage ''Tree'' [(''id'', PI32 (word_of_int 2147483648)), (''kids'', PList [PMessage ''Tree'' [(''id'', PI32 (word_of_int 7))]])])"
  by (rule conversion_typed [OF tree_conversion])

text \<open>A map whose keys are not strings cannot be sent: the keys of a JSON object are strings, so
  every non-empty object is refused for it, and every 32-bit field takes any 64-bit number, keeping
  its low 32 bits.\<close>

theorem map_keys_refused:
  assumes "\<not> fd_list f" "fd_map f" "fd_kind f = MessageKind e"
    and "map_of (de_fields D e) ''key'' = Some kf" "map_of (de_fields D e) ''value'' = Some vf"
    and "fd_kind kf \<in> {Int32, Int64, Uint32, Uint64, BoolKind}"
  shows "json_val_to_prost D f (JObj (kv # kvs)) = Inl (FromJs ((case fd_kind kf of
      Int32 \<Rightarrow> ''Expected int32'' | Int64 \<Rightarrow> ''Expected int64'' | Uint32 \<Rightarrow> ''Expected uint32''
    | Uint64 \<Rightarrow> ''Expected uint64'' | _ \<Rightarrow> ''Expected bool'')) ''TypeError'')"
  using assms by (auto simp: json_val_to_prost_def value_with_def scalar_with_def or_type_error_def type_error_def
    json_as_i64_def json_as_u64_def)

theorem map_keys_refused_witness:
  "json_val_to_prost tree_types \<lparr>fd_list = False, fd_map = True, fd_kind = MessageKind ''Entry''\<rparr>
     (JObj [(''1'', JStr ''one'')]) = Inl (FromJs ''Expected int64'' ''TypeError'')"
  using map_keys_refused [of "\<lparr>fd_list = False, fd_map = True, fd_kind = MessageKind ''Entry''\<rparr>" "''Entry''" tree_types
      "\<lparr>fd_list = False, fd_map = False, fd_kind = Int64\<rparr>" "\<lparr>fd_list = False, fd_map = False, fd_kind = StringKind\<rparr>"
      "(''1'', JStr ''one'')" "[]"]
  by (simp add: tree_types_def)

lemma int32_wraps:
  "- (2 ^ 63) \<le> i \<Longrightarrow> i < 2 ^ 63 \<Longrightarrow> json_scalar_to_prost D (JInt i) Int32 = Inr (PI32 (word_of_int (i mod 2 ^ 32)))"
  by (simp add: json_scalar_to_prost_def scalar_with_def json_as_i64_def or_type_error_def
      word_of_int_eq_iff take_bit_eq_mod)

section \<open>Names of methods\<close>

lemma rsplit_once_append: "c \<notin> set v \<Longrightarrow> rsplit_once c (k @ c # v) = Some (k, v)"
  using split_once_append [of c "rev v" "rev k"] by (simp add: rsplit_once_def)

lemma rsplit_once_None: "c \<notin> set s \<Longrightarrow> rsplit_once c s = None"
  using split_once_None [of c "rev s"] by (simp add: rsplit_once_def)

text \<open>A method can be written as a path, with or without the leading slash, or with dots: all name
  the same service and method, and the path of the request is the first form again.\<close>

theorem method_names_agree:
  assumes "CHR ''/'' \<notin> set service" "CHR ''/'' \<notin> set short" "CHR ''.'' \<notin> set short" "service \<noteq> []"
  shows "parse_method_name (''/'' @ service @ ''/'' @ short) = Inr (service, short)
    \<and> parse_method_name (service @ ''/'' @ short) = Inr (service, short)
    \<and> parse_method_name (service @ ''.'' @ short) = Inr (service, short)"
proof -
  have d: "dropWhile (\<lambda>c. c = CHR ''/'') (service @ c # t) = service @ c # t" for c t
    using assms(1,4) by (cases service) auto
  have "CHR ''/'' \<notin> set (service @ CHR ''.'' # short)" using assms by auto
  then show ?thesis
    using d [of "CHR ''/''" short] d [of "CHR ''.''" short] rsplit_once_append [OF assms(2), of service]
      rsplit_once_append [OF assms(3), of service] by (simp add: parse_method_name_def rsplit_once_None)
qed

theorem method_names_agree_witness:
  "parse_method_name ''/pkg.Svc/Get'' = Inr (''pkg.Svc'', ''Get'') \<and> parse_method_name ''pkg.Svc.Get'' = Inr (''pkg.Svc'', ''Get'')"
  using method_names_agree [of "''pkg.Svc''" "''Get''"] by simp

section \<open>What is reported\<close>

text \<open>A unary call reports itself exactly when it reached the transport: one metric named after
  the method, with an error exactly when the call failed; an object that does not convert, an unknown
  method or a missing connection throws without a metric and without touching the network.\<close>

theorem invoke_reported:
  "case grpc_invoke L True d name request s of (s', ms, r) \<Rightarrow>
     (case prepare L name (Some request) s of
        Inl e \<Rightarrow> s' = s \<and> ms = [] \<and> r = Inl e
      | Inr (c, p, m, msg) \<Rightarrow>
          (\<exists>mt. ms = [mt] \<and> honest mt \<and> request_name mt = ''grpc::invoke/'' @ name
            \<and> (request_error mt = None \<longleftrightarrow> \<not> isl (snd (gc_unary L c p m msg (gr_net s))))
            \<and> gr_pool s' = gr_pool s \<and> gr_channel s' = gr_channel s))"
  by (auto simp: grpc_invoke_def reported_def Let_def split: sum.splits prod.splits)

text \<open>A reply whose fields all have their default values is encoded by no bytes, and the decoder
  takes it for no message.\<close>

lemma default_reply_lost: "decode_message merge [] = Inr None"
  by (simp add: decode_message_def)

text \<open>After \<open>close\<close>, the thread of a server stream or of a bidirectional stream can run and ends at
  its next turn, even when it was blocked on a full channel; from then on \<open>recv\<close> says that the
  stream is not connected and sending says that it is closed.\<close>

theorem closed_stream_ends:
  assumes "channel_laws C" "ms_rx (bi_replies st)"
  shows "ms_rx (bi_replies (bidi_close C st)) = False \<and> runnable C (ms_poller (bi_replies (bidi_close C st))) = (\<not> po_done (ms_poller (bi_replies (bidi_close C st))))
    \<and> po_done (bidi_poll C ok (ms_running (bi_replies (bidi_close C st))) r (ms_poller (bi_replies (bidi_close C st))))
    \<and> snd (stream_recv to_js C (bi_replies (bidi_close C st))) = recv_value js.JsNull (JsString ''not_connected'')
    \<and> snd (stream_send L D input alive v (bi_requests (bidi_close C st))) = Inl (FromJs ''Stream already closed'' ''StateError'')"
  using assms(2) channel_ends(3) [OF assms(1)]
  by (simp add: bidi_close_def stream_close_def runnable_def bidi_poll_def stream_poll_def stream_recv_def stream_send_def)

theorem closed_stream_ends_witness:
  "let st = \<lparr>bi_requests = \<lparr>rs_open = True, rs_sent = []\<rparr>, bi_replies = new_stream queue_channel\<rparr>
   in po_done (bidi_poll queue_channel True (ms_running (bi_replies (bidi_close queue_channel st))) StreamQuiet
        (ms_poller (bi_replies (bidi_close queue_channel st))))"
proof -
  let ?st = "\<lparr>bi_requests = \<lparr>rs_open = True, rs_sent = []\<rparr>, bi_replies = new_stream queue_channel\<rparr>"
  have "ms_rx (bi_replies ?st)" by (simp add: new_stream_def)
  note c = closed_stream_ends [OF queue_channel_laws this, of True StreamQuiet]
  show ?thesis unfolding Let_def by (rule conjunct1 [OF conjunct2 [OF conjunct2 [OF c]]])
qed

end
