(* ===== verification/Browser.thy ===== *)
theory Browser
  imports WebSocket Converters
begin

text \<open>
  The browser bridge (\<open>src/bridge/browser.rs\<close>): the pages a script drives, the scripts it builds for
  them with escaped literals, the metrics of each call, and the polling of \<open>waitForResponse\<close>. The
  browser is the headless_chrome crate's: what its calls do and answer are arguments.
\<close>

section \<open>Escaping\<close>

definition escape_js_char :: "char \<Rightarrow> string" where
  "escape_js_char c = (if c = CHR 0x5C then [CHR 0x5C, CHR 0x5C] else if c = CHR 0x27 then [CHR 0x5C, CHR 0x27]
     else if c = CHR 0x22 then [CHR 0x5C, CHR 0x22] else if c = CHR 0x60 then [CHR 0x5C, CHR 0x60]
     else if c = CHR 0x0A then [CHR 0x5C, CHR ''n''] else if c = CHR 0x0D then [CHR 0x5C, CHR ''r'']
     else if c = CHR 0x09 then [CHR 0x5C, CHR ''t''] else if c = CHR 0x00 then [CHR 0x5C, CHR ''0''] else [c])"

definition escape_js_string :: "string \<Rightarrow> string" where
  "escape_js_string s = concat (map escape_js_char s)"

section \<open>The tab\<close>

record ('n, 'e) tab =
  tb_now :: "'n \<Rightarrow> duration"
  tb_sleep :: "duration \<Rightarrow> 'n \<Rightarrow> 'n"
  tb_navigate :: "string \<Rightarrow> 'n \<Rightarrow> 'n \<times> string option"
  tb_navigated :: "'n \<Rightarrow> 'n \<times> string option"
  tb_find :: "string \<Rightarrow> 'n \<Rightarrow> 'n \<times> (string + 'e)"
  tb_wait_for :: "string \<Rightarrow> 'n \<Rightarrow> 'n \<times> (string + 'e)"
  tb_click :: "'e \<Rightarrow> 'n \<Rightarrow> 'n \<times> string option"
  tb_type :: "string \<Rightarrow> 'e \<Rightarrow> 'n \<Rightarrow> 'n \<times> string option"
  tb_eval :: "string \<Rightarrow> 'n \<Rightarrow> 'n \<times> (string + json option)"
  tb_eval_by_value :: "string \<Rightarrow> 'n \<Rightarrow> 'n \<times> (string + json option)"
  tb_content :: "'n \<Rightarrow> 'n \<times> (string + string)"
  tb_screenshot :: "'n \<Rightarrow> 'n \<times> (string + byte list)"
  tb_url :: "'n \<Rightarrow> string"
  tb_close :: "'n \<Rightarrow> 'n"

type_synonym ('n, 'a) page_result = "'n \<times> metric list \<times> (js_error + 'a)"

definition page_metric :: "('n, 'e) tab \<Rightarrow> bool \<Rightarrow> string \<Rightarrow> duration \<Rightarrow> 'n \<Rightarrow> string option \<Rightarrow> metric list" where
  "page_metric T tx name start n err = (if tx then [make_metric name (tb_now T n - start) err] else [])"

text \<open>The recurring shape of a call: on an error, the metric carries the message and it is thrown.\<close>

definition page_fail :: "('n, 'e) tab \<Rightarrow> bool \<Rightarrow> string \<Rightarrow> duration \<Rightarrow> 'n \<Rightarrow> string \<Rightarrow> ('n, 'a) page_result" where
  "page_fail T tx name start n msg = (n, page_metric T tx name start n (Some msg), Inl (ThrownValue msg))"

definition page_done :: "('n, 'e) tab \<Rightarrow> bool \<Rightarrow> string \<Rightarrow> duration \<Rightarrow> 'n \<Rightarrow> 'a \<Rightarrow> ('n, 'a) page_result" where
  "page_done T tx name start n v = (n, page_metric T tx name start n None, Inr v)"

text \<open>\<open>JSON.parse\<close> of a serialized value; no value is \<open>null\<close>.\<close>

fun js_of_json :: "json \<Rightarrow> js" where
  "js_of_json JNull = js.JsNull"
| "js_of_json (JBool b) = JsBool b"
| "js_of_json (JNum x) = JsFloat x"
| "js_of_json (JInt i) = JsInt i"
| "js_of_json (JStr s) = JsString s"
| "js_of_json (JArr xs) = JsArray (map js_of_json xs)"
| "js_of_json (JObj kvs) = JsObject (map (\<lambda>kv. (fst kv, js_of_json (snd kv))) kvs)"

definition js_of_value :: "json option \<Rightarrow> js" where
  "js_of_value v = (case v of None \<Rightarrow> js.JsNull | Some j \<Rightarrow> js_of_json j)"

section \<open>Calls of a page\<close>

definition page_goto :: "('n, 'e) tab \<Rightarrow> bool \<Rightarrow> string \<Rightarrow> 'n \<Rightarrow> ('n, js) page_result" where
  "page_goto T tx url n = (let start = tb_now T n; (n, err) = tb_navigate T url n in
     case err of Some e \<Rightarrow> (n, page_metric T tx ''browser::goto'' start n (Some ''Navigation failed''),
         Inl (ThrownValue (''Navigation failed: '' @ e)))
     | None \<Rightarrow> (let (n, err) = tb_navigated T n in case err of
         Some e \<Rightarrow> (n, page_metric T tx ''browser::goto'' start n (Some ''Navigation failed''),
           Inl (ThrownValue (''Wait failed: '' @ e)))
       | None \<Rightarrow> page_done T tx ''browser::goto'' start n JsUndefined))"

definition page_content :: "('n, 'e) tab \<Rightarrow> 'n \<Rightarrow> ('n, js) page_result" where
  "page_content T n = (let (n, r) = tb_content T n in
     (n, [], case r of Inl e \<Rightarrow> Inl (ThrownValue (''Failed to get content: '' @ e)) | Inr s \<Rightarrow> Inr (JsString s)))"

text \<open>Find an element, then act on it.\<close>

definition with_element :: "('n, 'e) tab \<Rightarrow> bool \<Rightarrow> string \<Rightarrow> duration \<Rightarrow> string \<Rightarrow> string \<Rightarrow> ('e \<Rightarrow> 'n \<Rightarrow> 'n \<times> string option)
    \<Rightarrow> 'n \<Rightarrow> ('n, js) page_result" where
  "with_element T tx name start selector failure act n = (let (n, r) = tb_find T selector n in
     case r of Inl e \<Rightarrow> page_fail T tx name start n (''Element not found: '' @ e)
     | Inr el \<Rightarrow> (let (n, err) = act el n in
         case err of Some e \<Rightarrow> page_fail T tx name start n (failure @ e)
         | None \<Rightarrow> page_done T tx name start n JsUndefined))"

definition page_click :: "('n, 'e) tab \<Rightarrow> bool \<Rightarrow> string \<Rightarrow> 'n \<Rightarrow> ('n, js) page_result" where
  "page_click T tx selector n = with_element T tx ''browser::click'' (tb_now T n) selector ''Click failed: '' (tb_click T) n"

definition page_type :: "('n, 'e) tab \<Rightarrow> bool \<Rightarrow> string \<Rightarrow> string \<Rightarrow> 'n \<Rightarrow> ('n, js) page_result" where
  "page_type T tx selector t n = with_element T tx ''browser::type'' (tb_now T n) selector ''Type failed: '' (tb_type T t) n"

definition page_evaluate :: "('n, 'e) tab \<Rightarrow> string \<Rightarrow> 'n \<Rightarrow> ('n, js) page_result" where
  "page_evaluate T script n = (let (n, r) = tb_eval_by_value T script n in
     (n, [], case r of Inl e \<Rightarrow> Inl (ThrownValue (''Evaluation failed: '' @ e)) | Inr v \<Rightarrow> Inr (js_of_value v)))"

definition page_title :: "('n, 'e) tab \<Rightarrow> 'n \<Rightarrow> ('n, js) page_result" where
  "page_title T = page_evaluate T ''document.title''"

definition page_screenshot :: "('n, 'e) tab \<Rightarrow> 'n \<Rightarrow> ('n, byte list) page_result" where
  "page_screenshot T n = (let (n, r) = tb_screenshot T n in
     (n, [], case r of Inl e \<Rightarrow> Inl (ThrownValue (''Screenshot failed: '' @ e)) | Inr b \<Rightarrow> Inr b))"

text \<open>Run a script; its value is dropped or parsed.\<close>

definition run_script :: "('n, 'e) tab \<Rightarrow> bool \<Rightarrow> string \<Rightarrow> string \<Rightarrow> (json option \<Rightarrow> js) \<Rightarrow> string \<Rightarrow> 'n \<Rightarrow> ('n, js) page_result" where
  "run_script T tx name failure value script n = (let start = tb_now T n; (n, r) = tb_eval T script n in
     case r of Inl e \<Rightarrow> page_fail T tx name start n (failure @ e) | Inr v \<Rightarrow> page_done T tx name start n (value v))"

definition clear_script :: "string \<Rightarrow> string" where
  "clear_script selector = ''(() => { const el = document.querySelector('' @ [CHR 0x27] @ escape_js_string selector @ [CHR 0x27]
     @ ''); if (el) { el.value = '' @ [CHR 0x27, CHR 0x27] @ ''; el.dispatchEvent(new Event('' @ [CHR 0x27] @ ''input'' @ [CHR 0x27]
     @ '', {bubbles: true})); } })()''"

definition page_fill :: "('n, 'e) tab \<Rightarrow> bool \<Rightarrow> string \<Rightarrow> string \<Rightarrow> 'n \<Rightarrow> ('n, js) page_result" where
  "page_fill T tx selector t n = (let start = tb_now T n; (n, r) = tb_eval T (clear_script selector) n in
     case r of Inl e \<Rightarrow> page_fail T tx ''browser::fill'' start n (''Failed to clear element: '' @ e)
     | Inr v \<Rightarrow> with_element T tx ''browser::fill'' start selector ''Fill failed: '' (tb_type T t) n)"

definition wait_for_selector :: "('n, 'e) tab \<Rightarrow> bool \<Rightarrow> string \<Rightarrow> 'n \<Rightarrow> ('n, js) page_result" where
  "wait_for_selector T tx selector n = (let start = tb_now T n; (n, r) = tb_wait_for T selector n in
     case r of Inl e \<Rightarrow> page_fail T tx ''browser::waitForSelector'' start n (''Element not found: '' @ e)
     | Inr el \<Rightarrow> page_done T tx ''browser::waitForSelector'' start n JsUndefined)"

definition wait_for_navigation :: "('n, 'e) tab \<Rightarrow> bool \<Rightarrow> 'n \<Rightarrow> ('n, js) page_result" where
  "wait_for_navigation T tx n = (let start = tb_now T n; (n, err) = tb_navigated T n in
     case err of Some e \<Rightarrow> page_fail T tx ''browser::waitForNavigation'' start n (''Navigation wait failed: '' @ e)
     | None \<Rightarrow> page_done T tx ''browser::waitForNavigation'' start n JsUndefined)"

definition wait_for_timeout :: "('n, 'e) tab \<Rightarrow> f64 \<Rightarrow> 'n \<Rightarrow> ('n, js) page_result" where
  "wait_for_timeout T ms n = (tb_sleep T (as_u64 ms * millis) n, [], Inr JsUndefined)"

definition content_script :: "string \<Rightarrow> string" where
  "content_script html = ''(() => { document.open(); document.write('' @ [CHR 0x60] @ escape_js_string html @ [CHR 0x60]
     @ ''); document.close(); })()''"

definition set_content :: "('n, 'e) tab \<Rightarrow> bool \<Rightarrow> string \<Rightarrow> 'n \<Rightarrow> ('n, js) page_result" where
  "set_content T tx html = run_script T tx ''browser::setContent'' ''setContent failed: '' (\<lambda>_. JsUndefined) (content_script html)"

definition focus_script :: "string \<Rightarrow> string" where
  "focus_script selector = ''(() => { const el = document.querySelector('' @ [CHR 0x27] @ escape_js_string selector @ [CHR 0x27]
     @ ''); if (el) el.focus(); else throw new Error('' @ [CHR 0x27] @ ''Element not found'' @ [CHR 0x27] @ ''); })()''"

definition page_focus :: "('n, 'e) tab \<Rightarrow> bool \<Rightarrow> string \<Rightarrow> 'n \<Rightarrow> ('n, js) page_result" where
  "page_focus T tx selector = run_script T tx ''browser::focus'' ''Focus failed: '' (\<lambda>_. JsUndefined) (focus_script selector)"

definition quoted :: "string \<Rightarrow> string" where
  "quoted v = CHR 0x27 # escape_js_string v @ [CHR 0x27]"

text \<open>The script of \<open>select\<close>, up to the white space at the start of its lines.\<close>

definition select_script :: "string \<Rightarrow> string list \<Rightarrow> string" where
  "select_script selector values = join_str [CHR 0x0A] [''(() => {'',
     ''const el = document.querySelector('' @ quoted selector @ '');'',
     ''if (!el) throw new Error('' @ quoted ''Element not found'' @ '');'',
     ''const vals = ['' @ join_str '','' (map quoted values) @ ''];'',
     ''Array.from(el.options).forEach(o => { o.selected = vals.includes(o.value); });'',
     ''el.dispatchEvent(new Event('' @ quoted ''change'' @ '', {bubbles: true}));'',
     ''})()'']"

definition page_select :: "('n, 'e) tab \<Rightarrow> bool \<Rightarrow> string \<Rightarrow> string list \<Rightarrow> 'n \<Rightarrow> ('n, js) page_result" where
  "page_select T tx selector values =
     run_script T tx ''browser::select'' ''Select failed: '' (\<lambda>_. JsUndefined) (select_script selector values)"

definition cookies_script :: string where
  "cookies_script = join_str [CHR 0x0A] [''document.cookie.split('' @ quoted ''; '' @ '').filter(Boolean).map(c => {'',
     ''const [name, ...rest] = c.split('' @ quoted ''='' @ '');'',
     ''return { name, value: rest.join('' @ quoted ''='' @ '') };'', ''})'']"

definition get_cookies :: "('n, 'e) tab \<Rightarrow> bool \<Rightarrow> 'n \<Rightarrow> ('n, js) page_result" where
  "get_cookies T tx = run_script T tx ''browser::getCookies'' ''getCookies failed: '' js_of_value cookies_script"

record cookie =
  ck_name :: string
  ck_value :: string
  ck_domain :: "string option"
  ck_path :: "string option"
  ck_secure :: "bool option"
  ck_max_age :: "int option"

definition optional_part :: "string \<Rightarrow> string option \<Rightarrow> string" where
  "optional_part key v = (case v of None \<Rightarrow> [] | Some s \<Rightarrow> key @ s)"

definition cookie_string :: "cookie \<Rightarrow> string" where
  "cookie_string c = ck_name c @ ''='' @ ck_value c @ optional_part ''; domain='' (ck_domain c)
     @ optional_part ''; path='' (ck_path c) @ (if ck_secure c = Some True then ''; secure'' else [])
     @ optional_part ''; max-age='' (map_option show_int (ck_max_age c))"

text \<open>A cookie whose name or value is not a string is refused by the conversion, before any metric.\<close>

definition set_cookie :: "('n, 'e) tab \<Rightarrow> bool \<Rightarrow> js_error + cookie \<Rightarrow> 'n \<Rightarrow> ('n, js) page_result" where
  "set_cookie T tx c n = (case c of Inl e \<Rightarrow> (n, [], Inl e)
   | Inr c \<Rightarrow> run_script T tx ''browser::setCookie'' ''setCookie failed: '' (\<lambda>_. JsUndefined)
       (''document.cookie = '' @ quoted (cookie_string c)) n)"

definition delete_cookie :: "('n, 'e) tab \<Rightarrow> bool \<Rightarrow> string \<Rightarrow> 'n \<Rightarrow> ('n, js) page_result" where
  "delete_cookie T tx name = run_script T tx ''browser::deleteCookie'' ''deleteCookie failed: '' (\<lambda>_. JsUndefined)
     (''document.cookie = '' @ [CHR 0x27] @ escape_js_string name
       @ ''=; expires=Thu, 01 Jan 1970 00:00:01 GMT; path=/'' @ [CHR 0x27])"

definition query_all :: "('n, 'e) tab \<Rightarrow> bool \<Rightarrow> string \<Rightarrow> 'n \<Rightarrow> ('n, js) page_result" where
  "query_all T tx selector = run_script T tx ''browser::queryAll'' ''queryAll failed: '' js_of_value
     (''Array.from(document.querySelectorAll('' @ quoted selector
       @ '')).map(el => ({ tag: el.tagName.toLowerCase(), text: el.textContent || '' @ [CHR 0x27, CHR 0x27]
       @ '', id: el.id || '' @ [CHR 0x27, CHR 0x27] @ '', className: el.className || '' @ [CHR 0x27, CHR 0x27] @ '' }))'')"

section \<open>Waiting for a response\<close>

definition response_script :: "string \<Rightarrow> string" where
  "response_script pat = ''(() => { const entries = performance.getEntriesByType('' @ quoted ''resource''
     @ '').filter(e => e.name.includes('' @ quoted pat
     @ '')); if (entries.length > 0) { const e = entries[entries.length - 1]; return { name: e.name, duration: e.duration, startTime: e.startTime, transferSize: e.transferSize || 0 }; } return null; })()''"

partial_function (option) response_loop :: "('n, 'e) tab \<Rightarrow> bool \<Rightarrow> string \<Rightarrow> duration \<Rightarrow> duration \<Rightarrow> 'n \<Rightarrow> ('n, js) page_result option" where
  "response_loop T tx pat start timeout n =
     (if timeout < tb_now T n - start then
        Some (page_fail T tx ''browser::waitForResponse'' start n
          (''waitForResponse timed out after '' @ show_nat (timeout div millis) @ ''ms waiting for '' @ [CHR 0x27] @ pat @ [CHR 0x27]))
      else case tb_eval T (response_script pat) n of (n1, r) \<Rightarrow>
        (case r of Inr (Some v) \<Rightarrow> if v \<noteq> JNull then Some (page_done T tx ''browser::waitForResponse'' start n1 (js_of_json v))
             else response_loop T tx pat start timeout (tb_sleep T (100 * millis) n1)
         | _ \<Rightarrow> response_loop T tx pat start timeout (tb_sleep T (100 * millis) n1)))"

definition wait_for_response :: "('n, 'e) tab \<Rightarrow> bool \<Rightarrow> string \<Rightarrow> f64 option \<Rightarrow> 'n \<Rightarrow> ('n, js) page_result option" where
  "wait_for_response T tx pat timeout_ms n = response_loop T tx pat (tb_now T n)
     (as_u64 (case timeout_ms of None \<Rightarrow> Fin 30000 | Some t \<Rightarrow> t) * millis) n"

section \<open>Browser and pages\<close>

text \<open>The page that screenshots of failures use: the number of the tab opened last, until it is closed.\<close>

definition new_page :: "string + nat \<Rightarrow> nat option \<Rightarrow> nat option \<times> (js_error + nat)" where
  "new_page opened current = (case opened of Inl e \<Rightarrow> (current, Inl (ThrownValue (''Failed to create tab: '' @ e)))
     | Inr t \<Rightarrow> (Some t, Inr t))"

definition close_page :: "nat \<Rightarrow> nat option \<Rightarrow> nat option" where
  "close_page t current = (if current = Some t then None else current)"

definition close_browser :: "nat option \<Rightarrow> nat option" where
  "close_browser current = None"

text \<open>The launch options from the environment: the binary and whether the sandbox stays on.\<close>

definition launch_options :: "string option \<Rightarrow> string option \<Rightarrow> string option \<times> bool" where
  "launch_options chrome_path no_sandbox = (case chrome_path of None \<Rightarrow> None | Some p \<Rightarrow> if p = [] then None else Some p,
     \<not> (case no_sandbox of None \<Rightarrow> False | Some v \<Rightarrow> v = ''1'' \<or> eq_ignore_ascii_case v ''true''))"

section \<open>Literals of JavaScript\<close>

text \<open>The rest of a string literal (or of a template without substitutions) after its opening quote,
  by the grammar of the language: the characters it denotes and what follows it; none where it is
  not terminated or is not a plain literal.\<close>

definition js_escape :: "char \<Rightarrow> char option" where
  "js_escape c = (if c = CHR ''n'' then Some (CHR 0x0A) else if c = CHR ''r'' then Some (CHR 0x0D)
     else if c = CHR ''t'' then Some (CHR 0x09) else if c \<in> {CHR 0x5C, CHR 0x27, CHR 0x22, CHR 0x60} then Some c else None)"

fun js_literal :: "char \<Rightarrow> string \<Rightarrow> (string \<times> string) option" where
  "js_literal q [] = None"
| "js_literal q (c # s) = (if c = q then Some ([], s)
     else if c = CHR 0x5C then (case s of [] \<Rightarrow> None
       | d # t \<Rightarrow> if d = CHR ''0'' then (if t \<noteq> [] \<and> is_digit (hd t) then None
             else map_option (\<lambda>(v, r). (CHR 0x00 # v, r)) (js_literal q t))
           else (case js_escape d of None \<Rightarrow> None | Some e \<Rightarrow> map_option (\<lambda>(v, r). (e # v, r)) (js_literal q t)))
     else if c = CHR 0x0A \<or> c = CHR 0x0D then None
     else if q = CHR 0x60 \<and> c = CHR ''$'' \<and> s \<noteq> [] \<and> hd s = CHR ''{'' then None
     else map_option (\<lambda>(v, r). (c # v, r)) (js_literal q s))"

text \<open>Strings whose escape is a plain literal: no digit follows a NUL, and in a template no brace
  follows a dollar.\<close>

fun plain_in :: "char \<Rightarrow> string \<Rightarrow> bool" where
  "plain_in q (c # d # s) = (\<not> (c = CHR 0x00 \<and> is_digit d) \<and> \<not> (q = CHR 0x60 \<and> c = CHR ''$'' \<and> d = CHR ''{'') \<and> plain_in q (d # s))"
| "plain_in q s = True"

lemma escape_head:
  "escape_js_char c = [c] \<or> (\<exists>d. escape_js_char c = [CHR 0x5C, d])"
  by (auto simp: escape_js_char_def)

lemma escape_tail:
  assumes "q \<in> {CHR 0x27, CHR 0x22, CHR 0x60}" "plain_in q (c # s)"
  shows "c = CHR 0x00 \<Longrightarrow> \<not> is_digit (hd (escape_js_string s @ q # rest))"
    "q = CHR 0x60 \<Longrightarrow> c = CHR ''$'' \<Longrightarrow> hd (escape_js_string s @ q # rest) \<noteq> CHR ''{''"
  using assms escape_head [of "hd s"]
  by (cases s; auto simp: escape_js_string_def is_digit_def)+



text \<open>The markup given to \<open>setContent\<close> is put in a template, and \<open>${\<close> is not escaped: it starts a
  substitution, so the page runs what follows it instead of showing it.\<close>

theorem template_substitution:
  "js_literal (CHR 0x60) (escape_js_string (s @ ''${'' @ t) @ CHR 0x60 # rest) = None"
proof (induction s)
  case Nil
  then show ?case by (simp add: escape_js_string_def escape_js_char_def)
next
  case (Cons c s)
  have "escape_js_string ((c # s) @ ''${'' @ t) @ CHR 0x60 # rest =
      escape_js_char c @ escape_js_string (s @ ''${'' @ t) @ CHR 0x60 # rest"
    by (simp add: escape_js_string_def)
  then show ?case using Cons by (auto simp: escape_js_char_def js_escape_def)
qed

section \<open>Waiting ends\<close>

text \<open>C35. \<open>waitForResponse\<close> always returns, with the sleeps as its only progress: for a clock that
  evaluation does not turn back and that a sleep advances by its length. When no evaluation yields
  a value (which is what \<open>Tab::evaluate\<close> gives for an object, as the comment in \<open>evaluate\<close> says), it
  throws the timeout after reporting one failed request.\<close>

theorem wait_for_response_ends:
  assumes "\<And>d n. tb_now T n + d \<le> tb_now T (tb_sleep T d n)" "\<And>sc n. tb_now T n \<le> tb_now T (fst (tb_eval T sc n))"
  shows "wait_for_response T tx pat timeout_ms n \<noteq> None
    \<and> ((\<exists>n v. snd (tb_eval T (response_script pat) n) = Inr (Some v) \<and> v \<noteq> JNull)
       \<or> (\<exists>n' m. wait_for_response T True pat timeout_ms n = Some (n', [m], Inl (ThrownValue (the (request_error m))))
            \<and> honest m \<and> request_name m = ''browser::waitForResponse'' \<and> request_error m \<noteq> None))"
proof -
  let ?answered = "\<exists>n v. snd (tb_eval T (response_script pat) n) = Inr (Some v) \<and> v \<noteq> JNull"
  have "response_loop T tx pat start timeout n \<noteq> None
      \<and> (?answered \<or> (\<exists>n' m. response_loop T True pat start timeout n = Some (n', [m], Inl (ThrownValue (the (request_error m))))
            \<and> honest m \<and> request_name m = ''browser::waitForResponse'' \<and> request_error m \<noteq> None))" for start timeout tx n
  proof (induction "Suc (start + timeout) - tb_now T n" arbitrary: n rule: less_induct)
    case less
    obtain n1 r where e: "tb_eval T (response_script pat) n = (n1, r)" by force
    show ?case
    proof (cases "timeout < tb_now T n - start")
      case True
      then show ?thesis by (simp add: response_loop.simps page_fail_def page_metric_def)
    next
      case False
      let ?n = "tb_sleep T (100 * millis) n1"
      have "tb_now T n + 100 * millis \<le> tb_now T ?n"
        using assms(1) [of n1 "100 * millis"] assms(2) [of n "response_script pat"] e by simp
      then have "Suc (start + timeout) - tb_now T ?n < Suc (start + timeout) - tb_now T n"
        using False by (simp add: millis_def)
      note ih = less [OF this]
      show ?thesis
      proof (cases "\<exists>v. r = Inr (Some v) \<and> v \<noteq> JNull")
        case True
        then have ?answered using e by (intro exI [of _ n]) auto
        then show ?thesis using True False e by (auto simp: response_loop.simps [of T tx pat start timeout n] page_done_def)
      next
        case again: False
        then have "response_loop T b pat start timeout n = response_loop T b pat start timeout ?n" for b
          using False e by (auto simp: response_loop.simps [of T b pat start timeout n] split: sum.splits option.splits)
        then show ?thesis using ih by simp
      qed
    qed
  qed
  then show ?thesis by (simp add: wait_for_response_def)
qed

definition blank_tab :: "(nat, unit) tab" where
  "blank_tab = \<lparr>tb_now = (\<lambda>n. n), tb_sleep = (\<lambda>d n. n + d), tb_navigate = (\<lambda>u n. (n, None)), tb_navigated = (\<lambda>n. (n, None)),
     tb_find = (\<lambda>s n. (n, Inr ())), tb_wait_for = (\<lambda>s n. (n, Inr ())), tb_click = (\<lambda>e n. (n, None)), tb_type = (\<lambda>t e n. (n, None)),
     tb_eval = (\<lambda>s n. (n + 1, Inr None)), tb_eval_by_value = (\<lambda>s n. (n + 1, Inr None)), tb_content = (\<lambda>n. (n, Inr [])),
     tb_screenshot = (\<lambda>n. (n, Inr [])), tb_url = (\<lambda>n. []), tb_close = (\<lambda>n. n)\<rparr>"

theorem wait_for_response_ends_witness:
  "\<exists>n m. wait_for_response blank_tab True ''/api'' None 0 = Some (n, [m], Inl (ThrownValue (the (request_error m))))"
proof -
  have "\<And>d n. tb_now blank_tab n + d \<le> tb_now blank_tab (tb_sleep blank_tab d n)"
    "\<And>sc n. tb_now blank_tab n \<le> tb_now blank_tab (fst (tb_eval blank_tab sc n))" by (simp_all add: blank_tab_def)
  note w = wait_for_response_ends [OF this, where pat = "''/api''" and timeout_ms = None and n = 0]
  have "\<not> (\<exists>n v. snd (tb_eval blank_tab (response_script ''/api'') n) = Inr (Some v) \<and> v \<noteq> JNull)" by (simp add: blank_tab_def)
  then show ?thesis using w by blast
qed

section \<open>What is reported\<close>

text \<open>What a call reports agrees with what it returns: nothing, or one metric that has an error
  exactly when the call throws.\<close>

definition page_consistent :: "('n, 'a) page_result \<Rightarrow> bool" where
  "page_consistent r = (case fst (snd r) of [] \<Rightarrow> True
     | [m] \<Rightarrow> honest m \<and> (request_error m = None \<longleftrightarrow> \<not> isl (snd (snd r))) | _ \<Rightarrow> False)"

lemma page_consistent_simps [simp]:
  "page_consistent (page_fail T tx name start n msg)" "page_consistent (page_done T tx name start n v)"
  "page_consistent (n, [], r)" "page_consistent (n, page_metric T tx name start n (Some e), Inl w)"
  by (simp_all add: page_consistent_def page_fail_def page_done_def page_metric_def)

lemma page_calls_consistent [simp]:
  "page_consistent (with_element T tx name start sel failure act n)" "page_consistent (run_script T tx name failure value script n)"
  by (simp_all add: with_element_def run_script_def Let_def split: prod.splits sum.splits option.splits)

text \<open>Every call of a page reports itself consistently: at most one metric, well formed, with an
  error exactly when the call throws.\<close>

theorem page_calls_reported:
  "page_consistent (page_goto T tx url n) \<and> page_consistent (page_click T tx sel n) \<and> page_consistent (page_type T tx sel t n)
   \<and> page_consistent (page_fill T tx sel t n) \<and> page_consistent (wait_for_selector T tx sel n)
   \<and> page_consistent (wait_for_navigation T tx n) \<and> page_consistent (set_content T tx html n)
   \<and> page_consistent (page_focus T tx sel n) \<and> page_consistent (page_select T tx sel vs n)
   \<and> page_consistent (get_cookies T tx n) \<and> page_consistent (set_cookie T tx c n)
   \<and> page_consistent (delete_cookie T tx name n) \<and> page_consistent (query_all T tx sel n)"
  by (simp add: page_goto_def page_click_def page_type_def page_fill_def wait_for_selector_def wait_for_navigation_def
      set_content_def page_focus_def page_select_def get_cookies_def set_cookie_def delete_cookie_def query_all_def Let_def
      split: prod.splits sum.splits option.splits)

end
