(* ===== verification/HtmlReport.thy ===== *)
theory HtmlReport
  imports Exporters
begin

text \<open>
  The HTML report of a run (\<open>src/stats/html.rs\<close>): \<open>generate_html\<close> section by section with the
  markup of the source, its escaping, its number formats and the order of its rows. The local
  time is the argument \<open>now\<close>; an unsigned subtraction below zero wraps, as in a release build.
\<close>

section \<open>Numbers and names\<close>

definition html_number :: "nat \<Rightarrow> string" where
  "html_number n =
     (if n \<ge> 1000000 then fmt_fixed 1 (f_div (f_of_nat n) (Fin 1000000)) @ ''M''
      else if n \<ge> 1000 then fmt_fixed 1 (f_div (f_of_nat n) (Fin 1000)) @ ''K''
      else show_nat n)"

definition html_bytes :: "nat \<Rightarrow> string" where
  "html_bytes n =
     (if n \<ge> 1073741824 then fmt_fixed 2 (f_div (f_of_nat n) (Fin 1073741824)) @ '' GB''
      else if n \<ge> 1048576 then fmt_fixed 2 (f_div (f_of_nat n) (Fin 1048576)) @ '' MB''
      else if n \<ge> 1024 then fmt_fixed 2 (f_div (f_of_nat n) (Fin 1024)) @ '' KB''
      else show_nat n @ '' B'')"

definition escape_html :: "string \<Rightarrow> string" where
  "escape_html s = replace_char (CHR 0x27) ''&#39;'' (replace_char (CHR 0x22) ''&quot;''
     (replace_char (CHR ''>'') ''&gt;'' (replace_char (CHR ''<'') ''&lt;'' (replace_char (CHR ''&'') ''&amp;'' s))))"

definition truncate_endpoint :: "string \<Rightarrow> nat \<Rightarrow> string" where
  "truncate_endpoint s max_len =
     (if length s \<le> max_len then s else take (max_len - 3) s @ ''...'')"

text \<open>The groups that are not endpoints: the iteration metrics of the engine.\<close>

definition internal_group :: "string \<Rightarrow> bool" where
  "internal_group name = (ends_with ''iteration'' name \<or> ends_with ''iteration_total'' name
     \<or> name = ''iteration'' \<or> name = ''iteration_total'')"

definition percentage :: "nat \<Rightarrow> nat \<Rightarrow> f64" where
  "percentage part whole = (if whole > 0 then f_mul (f_div (f_of_nat part) (f_of_nat whole)) (Fin 100) else Fin 0)"

definition f_min :: "f64 \<Rightarrow> f64 \<Rightarrow> f64" where
  "f_min a b = (if a = NaN then b else if b = NaN then a else if f_lt b a then b else a)"

section \<open>The page\<close>

definition empty_page :: string where
  "empty_page = ''<!DOCTYPE html>
<html><head><title>Fusillade Report</title></head>
<body style=\"font-family: system-ui, sans-serif; max-width: 800px; margin: 0 auto; padding: 20px;\">
<h1>Fusillade Load Test Report</h1>
<p>No requests were made during this test.</p>
</body></html>''"

definition page_head :: string where
  "page_head = ''<!DOCTYPE html>
<html>
<head>
    <meta charset=\"UTF-8\">
    <title>Fusillade Load Test Report</title>
    <style>
        * { box-sizing: border-box; }
        body {
            font-family: system-ui, -apple-system, sans-serif;
            max-width: 1200px;
            margin: 0 auto;
            padding: 20px;
            background: #f5f5f5;
            color: #333;
        }
        h1 { color: #1a1a2e; border-bottom: 3px solid #e94560; padding-bottom: 10px; }
        h2 { color: #16213e; margin-top: 30px; }
        .summary-grid {
            display: grid;
            grid-template-columns: repeat(auto-fit, minmax(200px, 1fr));
            gap: 15px;
            margin: 20px 0;
        }
        .stat-card {
            background: white;
            border-radius: 8px;
            padding: 20px;
            box-shadow: 0 2px 4px rgba(0,0,0,0.1);
        }
        .stat-card .label { color: #666; font-size: 14px; margin-bottom: 5px; }
        .stat-card .value { font-size: 28px; font-weight: bold; color: #1a1a2e; }
        .stat-card .unit { font-size: 14px; color: #888; }
        .stat-card.success .value { color: #28a745; }
        .stat-card.warning .value { color: #ffc107; }
        .stat-card.error .value { color: #dc3545; }
        table {
            width: 100%;
            border-collapse: collapse;
            background: white;
            border-radius: 8px;
            overflow: hidden;
            box-shadow: 0 2px 4px rgba(0,0,0,0.1);
            margin: 15px 0;
        }
        th, td { padding: 12px 15px; text-align: left; border-bottom: 1px solid #eee; }
        th { background: #1a1a2e; color: white; font-weight: 500; }
        tr:hover { background: #f8f9fa; }
        .bar-container { width: 100px; height: 8px; background: #eee; border-radius: 4px; display: inline-block; }
        .bar { height: 100%; background: #e94560; border-radius: 4px; }
        .error-bar .bar { background: #dc3545; }
        .success-rate { color: #28a745; font-weight: bold; }
        .timestamp { color: #888; font-size: 14px; }
        .section { margin: 30px 0; }
        code { background: #f0f0f0; padding: 2px 6px; border-radius: 3px; font-size: 13px; }
        .badge { display: inline-block; padding: 3px 8px; border-radius: 4px; font-size: 12px; font-weight: 500; }
        .badge-success { background: #d4edda; color: #155724; }
        .badge-error { background: #f8d7da; color: #721c24; }
        .badge-info { background: #cce5ff; color: #004085; }
    </style>
</head>
<body>
    <h1>Fusillade Load Test Report</h1>
    <p class=\"timestamp\">Generated: ''"

definition html_success_rate :: "report_stats \<Rightarrow> f64" where
  "html_success_rate r = (let error_count = sum_list (map snd (rep_errors r)) in
     percentage ((rep_total_requests r + (u64_size - error_count mod u64_size)) mod u64_size) (rep_total_requests r))"

definition success_class :: "f64 \<Rightarrow> string" where
  "success_class rate = (if f_le (Fin 99) rate then ''success'' else if f_le (Fin 95) rate then ''warning'' else ''error'')"

definition html_rps :: "report_stats \<Rightarrow> f64" where
  "html_rps r = (if rep_total_duration_ms r > 0
     then f_mul (f_div (f_of_nat (rep_total_requests r)) (f_of_nat (rep_total_duration_ms r))) (Fin 1000) else Fin 0)"

definition summary_section :: "report_stats \<Rightarrow> string" where
  "summary_section r = (let success_rate = html_success_rate r in
     ''
    <h2>Summary</h2>
    <div class=\"summary-grid\">''
     @ ''
        <div class=\"stat-card\">
            <div class=\"label\">Total Requests</div>
            <div class=\"value\">'' @ html_number (rep_total_requests r) @ ''</div>
        </div>''
     @ ''
        <div class=\"stat-card '' @ success_class success_rate @ ''\">
            <div class=\"label\">Success Rate</div>
            <div class=\"value\">'' @ fmt_fixed 1 success_rate @ ''%</div>
        </div>''
     @ ''
        <div class=\"stat-card\">
            <div class=\"label\">Avg Latency</div>
            <div class=\"value\">'' @ fmt_fixed 1 (rep_avg_latency_ms r) @ ''<span class=\"unit\">ms</span></div>
        </div>''
     @ ''
        <div class=\"stat-card\">
            <div class=\"label\">P95 Latency</div>
            <div class=\"value\">'' @ fmt_fixed 1 (rep_p95_latency_ms r) @ ''<span class=\"unit\">ms</span></div>
        </div>''
     @ ''
        <div class=\"stat-card\">
            <div class=\"label\">P99 Latency</div>
            <div class=\"value\">'' @ fmt_fixed 1 (rep_p99_latency_ms r) @ ''<span class=\"unit\">ms</span></div>
        </div>''
     @ ''
        <div class=\"stat-card\">
            <div class=\"label\">Throughput</div>
            <div class=\"value\">'' @ fmt_fixed 1 (html_rps r) @ ''<span class=\"unit\">req/s</span></div>
        </div>''
     @ ''</div>
'')"

definition latency_section :: "report_stats \<Rightarrow> string" where
  "latency_section r = ''
    <div class=\"section\">
        <h2>Latency Distribution</h2>
        <table>
            <tr>
                <th>Metric</th>
                <th>Value</th>
            </tr>''
     @ ''
            <tr><td>Minimum</td><td>'' @ show_nat (rep_min_latency_ms r) @ '' ms</td></tr>
            <tr><td>Average</td><td>'' @ fmt_fixed 2 (rep_avg_latency_ms r) @ '' ms</td></tr>
            <tr><td>P50 (Median)</td><td>'' @ fmt_fixed 2 (rep_p50_latency_ms r) @ '' ms</td></tr>
            <tr><td>P90</td><td>'' @ fmt_fixed 2 (rep_p90_latency_ms r) @ '' ms</td></tr>
            <tr><td>P95</td><td>'' @ fmt_fixed 2 (rep_p95_latency_ms r) @ '' ms</td></tr>
            <tr><td>P99</td><td>'' @ fmt_fixed 2 (rep_p99_latency_ms r) @ '' ms</td></tr>
            <tr><td>Maximum</td><td>'' @ show_nat (rep_max_latency_ms r) @ '' ms</td></tr>''
     @ ''</table></div>
''"

definition badge_class :: "nat \<Rightarrow> string" where
  "badge_class status = (if 200 \<le> status \<and> status < 300 then ''badge-success''
     else if 400 \<le> status then ''badge-error'' else ''badge-info'')"

definition status_row :: "nat \<Rightarrow> nat \<times> nat \<Rightarrow> string" where
  "status_row whole = (\<lambda>(status, n). let pct = percentage n whole in
     ''
            <tr>
                <td><span class=\"badge '' @ badge_class status @ ''\">'' @ show_nat status @ ''</span></td>
                <td>'' @ html_number n @ ''</td>
                <td>'' @ fmt_fixed 1 pct @ ''%</td>
                <td><div class=\"bar-container\"><div class=\"bar\" style=\"width: '' @ display_f64 (f_min pct (Fin 100)) @ ''%\"></div></div></td>
            </tr>'')"

definition status_section :: "report_stats \<Rightarrow> string" where
  "status_section r = (if rep_status_codes r = [] then [] else
     ''
    <div class=\"section\">
        <h2>Status Codes</h2>
        <table>
            <tr>
                <th>Code</th>
                <th>Count</th>
                <th>Percentage</th>
                <th>Distribution</th>
            </tr>''
     @ concat (map (status_row (rep_total_requests r)) (sort_key fst (rep_status_codes r)))
     @ ''</table></div>
'')"

definition html_endpoint_row :: "string \<times> request_report \<Rightarrow> string" where
  "html_endpoint_row = (\<lambda>(name, req).
     ''
            <tr>
                <td><code>'' @ escape_html (truncate_endpoint name 60) @ ''</code></td>
                <td>'' @ html_number (rr_total_requests req) @ ''</td>
                <td>'' @ fmt_fixed 1 (rr_avg_latency_ms req) @ ''</td>
                <td>'' @ fmt_fixed 1 (rr_p95_latency_ms req) @ ''</td>
                <td>'' @ show_nat (rr_min_latency_ms req) @ ''</td>
                <td>'' @ show_nat (rr_max_latency_ms req) @ ''</td>
                <td class=\"'' @ (if rr_error_count req > 0 then ''error-bar'' else []) @ ''\">'' @ show_nat (rr_error_count req) @ '' ('' @ fmt_fixed 1 (percentage (rr_error_count req) (rr_total_requests req)) @ ''%)</td>
            </tr>'')"

definition real_endpoints :: "report_stats \<Rightarrow> (string \<times> request_report) list" where
  "real_endpoints r = sort_key (\<lambda>g. - int (rr_total_requests (snd g)))
     (filter (\<lambda>g. \<not> internal_group (fst g)) (rep_grouped_requests r))"

definition endpoint_section :: "report_stats \<Rightarrow> string" where
  "endpoint_section r = (if real_endpoints r = [] then [] else
     ''
    <div class=\"section\">
        <h2>Endpoints</h2>
        <table>
            <tr>
                <th>Endpoint</th>
                <th>Requests</th>
                <th>Avg (ms)</th>
                <th>P95 (ms)</th>
                <th>Min (ms)</th>
                <th>Max (ms)</th>
                <th>Errors</th>
            </tr>''
     @ concat (map html_endpoint_row (real_endpoints r))
     @ ''</table></div>
'')"

definition error_row :: "string \<times> nat \<Rightarrow> string" where
  "error_row = (\<lambda>(err, n).
     ''
            <tr>
                <td><code>'' @ escape_html err @ ''</code></td>
                <td>'' @ html_number n @ ''</td>
            </tr>'')"

definition error_section :: "report_stats \<Rightarrow> string" where
  "error_section r = (if rep_errors r = [] then [] else
     ''
    <div class=\"section\">
        <h2>Errors</h2>
        <table>
            <tr>
                <th>Error</th>
                <th>Count</th>
            </tr>''
     @ concat (map error_row (sort_key (\<lambda>e. - int (snd e)) (rep_errors r)))
     @ ''</table></div>
'')"

definition check_row :: "string \<times> nat \<times> nat \<Rightarrow> string" where
  "check_row = (\<lambda>(name, total, passes). let pass_rate = percentage passes total in
     ''
            <tr>
                <td><code>'' @ escape_html name @ ''</code></td>
                <td>'' @ html_number passes @ ''</td>
                <td>'' @ html_number (total - passes) @ ''</td>
                <td class=\"'' @ (if f_le (Fin 99) pass_rate then ''success-rate'' else []) @ ''\">'' @ fmt_fixed 1 pass_rate @ ''%</td>
            </tr>'')"

definition check_section :: "report_stats \<Rightarrow> string" where
  "check_section r = (if rep_checks r = [] then [] else
     ''
    <div class=\"section\">
        <h2>Checks</h2>
        <table>
            <tr>
                <th>Check</th>
                <th>Passed</th>
                <th>Failed</th>
                <th>Pass Rate</th>
            </tr>''
     @ concat (map check_row (sort_key fst (rep_checks r)))
     @ ''</table></div>
'')"

definition number_row :: "string \<times> f64 \<Rightarrow> string" where
  "number_row = (\<lambda>(name, x). ''<tr><td><code>'' @ escape_html name @ ''</code></td><td>'' @ fmt_fixed 2 x @ ''</td></tr>'')"

definition histogram_row :: "string \<times> histogram_report \<Rightarrow> string" where
  "histogram_row = (\<lambda>(name, hist). ''<tr><td><code>'' @ escape_html name @ ''</code></td><td>'' @ fmt_fixed 2 (hr_avg hist) @ ''</td><td>'' @ fmt_fixed 2 (hr_p95 hist) @ ''</td><td>'' @ fmt_fixed 2 (hr_p99 hist) @ ''</td><td>'' @ fmt_fixed 2 (hr_min hist) @ ''</td><td>'' @ fmt_fixed 2 (hr_max hist) @ ''</td></tr>'')"

definition custom_section :: "report_stats \<Rightarrow> string" where
  "custom_section r = (if rep_counters r = [] \<and> rep_gauges r = [] \<and> rep_histograms r = [] then [] else
     ''
    <div class=\"section\">
        <h2>Custom Metrics</h2>''
     @ (if rep_counters r = [] then [] else ''
        <h3>Counters</h3>
        <table>
            <tr><th>Name</th><th>Value</th></tr>''
       @ concat (map number_row (rep_counters r)) @ ''</table>'')
     @ (if rep_gauges r = [] then [] else ''
        <h3>Gauges</h3>
        <table>
            <tr><th>Name</th><th>Value</th></tr>''
       @ concat (map number_row (rep_gauges r)) @ ''</table>'')
     @ (if rep_histograms r = [] then [] else ''
        <h3>Histograms</h3>
        <table>
            <tr><th>Name</th><th>Avg</th><th>P95</th><th>P99</th><th>Min</th><th>Max</th></tr>''
       @ concat (map histogram_row (rep_histograms r)) @ ''</table>'')
     @ ''</div>
'')"

definition transfer_section :: "report_stats \<Rightarrow> string" where
  "transfer_section r = ''
    <div class=\"section\">
        <h2>Data Transfer</h2>
        <table>
            <tr><td>Data Sent</td><td>'' @ html_bytes (rep_total_data_sent r) @ ''</td></tr>
            <tr><td>Data Received</td><td>'' @ html_bytes (rep_total_data_received r) @ ''</td></tr>
        </table>
    </div>''"

definition pool_section :: "report_stats \<Rightarrow> string" where
  "pool_section r = (let pool_total = rep_pool_hits r + rep_pool_misses r in if pool_total > 0 then
     ''
    <div class=\"section\">
        <h2>Connection Pool</h2>
        <table>
            <tr><td>Reused Connections</td><td>'' @ show_nat (rep_pool_hits r) @ '' ('' @ fmt_fixed 1 (percentage (rep_pool_hits r) pool_total) @ ''%)</td></tr>
            <tr><td>New Connections</td><td>'' @ show_nat (rep_pool_misses r) @ ''</td></tr>
        </table>
    </div>'' else [])"

definition page_footer :: string where
  "page_footer = ''
    <footer style=\"margin-top: 40px; padding-top: 20px; border-top: 1px solid #ddd; color: #888; font-size: 14px;\">
        Generated by <a href=\"https://fusillade.io\" style=\"color: #e94560;\">Fusillade</a> - High-performance load testing
    </footer>
</body>
</html>''"

definition generate_html :: "string \<Rightarrow> report_stats \<Rightarrow> string" where
  "generate_html now r = (if rep_total_requests r = 0 then empty_page
     else page_head @ now @ ''</p>
'' @ summary_section r @ latency_section r @ status_section r @ endpoint_section r @ error_section r
       @ check_section r @ custom_section r @ transfer_section r @ pool_section r @ page_footer)"

section \<open>Escaping\<close>

text \<open>What escaping promises: no character of markup is left, and undoing the entities gives the
  name back.\<close>

definition markup_char :: "char \<Rightarrow> bool" where
  "markup_char c = (c \<in> {CHR ''<'', CHR ''>'', CHR 0x22, CHR 0x27})"

definition markup :: "string \<Rightarrow> string" where
  "markup = filter markup_char"

definition escape_char :: "char \<Rightarrow> string" where
  "escape_char c = (if c = CHR ''&'' then ''&amp;'' else if c = CHR ''<'' then ''&lt;''
     else if c = CHR ''>'' then ''&gt;'' else if c = CHR 0x22 then ''&quot;''
     else if c = CHR 0x27 then ''&#39;'' else [c])"

fun entity :: "(string \<times> char) list \<Rightarrow> string \<Rightarrow> (char \<times> string) option" where
  "entity [] s = None"
| "entity ((e, c) # es) s = (case strip_prefix e s of Some rest \<Rightarrow> Some (c, rest) | None \<Rightarrow> entity es s)"

definition entities :: "(string \<times> char) list" where
  "entities = [(''&amp;'', CHR ''&''), (''&lt;'', CHR ''<''), (''&gt;'', CHR ''>''),
     (''&quot;'', CHR 0x22), (''&#39;'', CHR 0x27)]"

lemma entity_shorter:
  "entity es s = Some (c, rest) \<Longrightarrow> list_all (\<lambda>e. fst e \<noteq> []) es \<Longrightarrow> length rest < length s"
  by (induction es s rule: entity.induct) (auto simp: strip_prefix_Some split: option.splits)

lemma entities_nonempty: "list_all (\<lambda>e. fst e \<noteq> []) entities"
  by (simp add: entities_def)

function unescape_html :: "string \<Rightarrow> string" where
  "unescape_html [] = []"
| "unescape_html (c # s) = (case entity entities (c # s) of
     Some (d, rest) \<Rightarrow> d # unescape_html rest | None \<Rightarrow> c # unescape_html s)"
  by pat_completeness auto
termination
  by (relation "measure length") (auto dest: entity_shorter [OF _ entities_nonempty])

lemma replace_char_append [simp]: "replace_char c w (s @ t) = replace_char c w s @ replace_char c w t"
  by (simp add: replace_char_def)

lemma escape_html_append: "escape_html (s @ t) = escape_html s @ escape_html t"
  by (simp add: escape_html_def)

lemma escape_html_char: "escape_html [c] = escape_char c"
  by (simp add: escape_html_def escape_char_def replace_char_def)

lemma escape_html_Nil [simp]: "escape_html [] = []"
  by (simp add: escape_html_def replace_char_def)

lemma escape_html_Cons: "escape_html (c # s) = escape_char c @ escape_html s"
  using escape_html_append [of "[c]" s] by (simp add: escape_html_char)

text \<open>Text that was escaped reads back as it was.\<close>

lemma unescape_char: "unescape_html (escape_char c @ s) = c # unescape_html s"
proof -
  consider "c = CHR ''&''" | "c = CHR ''<''" | "c = CHR ''>''" | "c = CHR 0x22" | "c = CHR 0x27"
    | "c \<notin> {CHR ''&'', CHR ''<'', CHR ''>'', CHR 0x22, CHR 0x27}"
    by blast
  then show ?thesis
    by cases (simp_all add: escape_char_def entities_def strip_prefix_def starts_with_def)
qed

theorem escape_reads_back: "unescape_html (escape_html s) = s"
  by (induction s) (simp_all add: escape_html_Cons unescape_char)

section \<open>No markup from names\<close>

text \<open>Numbers and escaped names carry no character of markup.\<close>

lemma markup_append [simp]: "markup (s @ t) = markup s @ markup t"
  by (simp add: markup_def)

lemma markup_Nil [simp]: "markup [] = []"
  by (simp add: markup_def)

lemma markup_escape_char: "markup (escape_char c) = []"
  by (simp add: escape_char_def markup_def markup_char_def)

lemma markup_escape [simp]: "markup (escape_html s) = []"
  by (induction s) (simp_all add: escape_html_Cons markup_escape_char)

lemma markup_number: "list_all number_char s \<Longrightarrow> markup s = []"
  by (auto simp: markup_def filter_empty_conv list_all_iff number_char_def markup_char_def is_digit_def)

lemma markup_numbers [simp]: "markup (show_nat n) = []" "markup (fmt_fixed p x) = []" "markup (display_f64 x) = []"
  by (rule markup_number, rule show_nat_chars fmt_fixed_chars display_f64_chars)+

lemma markup_rows: "(\<And>x. markup (row x) = t) \<Longrightarrow> markup (concat (map row xs)) = concat (replicate (length xs) t)"
  by (induction xs) simp_all

text \<open>Renaming what the report lists.\<close>

definition rename_report :: "(string \<Rightarrow> string) \<Rightarrow> report_stats \<Rightarrow> report_stats" where
  "rename_report f r = r\<lparr>rep_errors := map (apfst f) (rep_errors r), rep_checks := map (apfst f) (rep_checks r),
     rep_grouped_requests := map (apfst f) (rep_grouped_requests r), rep_histograms := map (apfst f) (rep_histograms r),
     rep_counters := map (apfst f) (rep_counters r), rep_gauges := map (apfst f) (rep_gauges r)\<rparr>"

lemma markup_Cons: "markup (c # s) = (if markup_char c then c # markup s else markup s)"
  by (simp add: markup_def)

lemma markup_format [simp]: "markup (html_number n) = []" "markup (html_bytes n) = []"
  by (simp_all add: html_number_def html_bytes_def markup_Cons markup_char_def)

lemma markup_class [simp]:
  "markup (badge_class n) = []" "markup (success_class x) = []"
  "markup (if P then ''error-bar'' else []) = []" "markup (if P then ''success-rate'' else []) = []"
  by (simp_all add: badge_class_def success_class_def markup_Cons markup_char_def)

lemmas markup_pieces = markup_append markup_escape markup_numbers markup_format markup_class

text \<open>The markup of a row does not depend on its cells.\<close>

lemma markup_row:
  "markup (error_row e) = markup (error_row e')"
  "markup (check_row c) = markup (check_row c')"
  "markup (number_row x) = markup (number_row x')"
  "markup (histogram_row h) = markup (histogram_row h')"
  "markup (html_endpoint_row g) = markup (html_endpoint_row g')"
  unfolding error_row_def check_row_def number_row_def histogram_row_def html_endpoint_row_def case_prod_beta Let_def
  by (simp_all only: markup_pieces)

text \<open>A table whose rows have the same markup has the markup of so many rows, in whatever order.\<close>

lemma markup_table:
  assumes "\<And>x y. markup (row x) = markup (row y)" "length xs = length ys"
  shows "markup (concat (map row xs)) = markup (concat (map row ys))"
  using assms(2)
proof (induction xs ys rule: list_induct2)
  case (Cons x xs y ys)
  with assms(1) [of x y] show ?case by simp
qed simp

lemma markup_section:
  assumes "markup b = markup b'" "(xs = []) = (ys = [])"
  shows "markup (if xs = [] then [] else a @ b @ c) = markup (if ys = [] then [] else a @ b' @ c)"
  using assms by (cases "ys = []") simp_all

lemma real_endpoints_renamed:
  assumes "\<And>n. internal_group (f n) = internal_group n"
  shows "length (real_endpoints (rename_report f r)) = length (real_endpoints r)"
  by (simp add: real_endpoints_def rename_report_def filter_map comp_def assms)

lemma renamed_sections:
  "markup (error_section (rename_report f r)) = markup (error_section r)"
  "markup (check_section (rename_report f r)) = markup (check_section r)"
  unfolding error_section_def check_section_def
  by (rule markup_section, rule markup_table, rule markup_row; simp add: rename_report_def)+

lemma endpoint_section_renamed:
  assumes "\<And>n. internal_group (f n) = internal_group n"
  shows "markup (endpoint_section (rename_report f r)) = markup (endpoint_section r)"
  unfolding endpoint_section_def
  by (rule markup_section, rule markup_table, rule markup_row)
    (metis real_endpoints_renamed assms length_0_conv)+

lemma renamed_fields:
  "rep_total_requests (rename_report f r) = rep_total_requests r"
  "rep_total_duration_ms (rename_report f r) = rep_total_duration_ms r"
  "rep_avg_latency_ms (rename_report f r) = rep_avg_latency_ms r"
  "rep_min_latency_ms (rename_report f r) = rep_min_latency_ms r"
  "rep_max_latency_ms (rename_report f r) = rep_max_latency_ms r"
  "rep_p50_latency_ms (rename_report f r) = rep_p50_latency_ms r"
  "rep_p90_latency_ms (rename_report f r) = rep_p90_latency_ms r"
  "rep_p95_latency_ms (rename_report f r) = rep_p95_latency_ms r"
  "rep_p99_latency_ms (rename_report f r) = rep_p99_latency_ms r"
  "rep_status_codes (rename_report f r) = rep_status_codes r"
  "rep_total_data_sent (rename_report f r) = rep_total_data_sent r"
  "rep_total_data_received (rename_report f r) = rep_total_data_received r"
  "rep_pool_hits (rename_report f r) = rep_pool_hits r"
  "rep_pool_misses (rename_report f r) = rep_pool_misses r"
  "map snd (rep_errors (rename_report f r)) = map snd (rep_errors r)"
  by (simp_all add: rename_report_def)

lemma markup_cong: "markup s = markup s' \<Longrightarrow> markup t = markup t' \<Longrightarrow> markup (s @ t) = markup (s' @ t')"
  by simp

lemma markup_if_cong: "P = Q \<Longrightarrow> markup s = markup t \<Longrightarrow> markup (if P then [] else s) = markup (if Q then [] else t)"
  by simp

lemma custom_section_renamed: "markup (custom_section (rename_report f r)) = markup (custom_section r)"
  unfolding custom_section_def
  by (intro markup_if_cong markup_cong markup_section markup_table markup_row refl)
    (simp_all add: rename_report_def)

text \<open>C15. The HTML report cannot be broken by what a test names its requests, checks and metrics, or by the
  errors it meets: renaming them all in any way that keeps the iteration groups apart leaves every
  character of markup of the page as it was.\<close>

theorem html_markup_fixed:
  assumes "\<And>n. internal_group (f n) = internal_group n"
  shows "markup (generate_html now (rename_report f r)) = markup (generate_html now r)"
proof -
  have same: "summary_section (rename_report f r) = summary_section r" "latency_section (rename_report f r) = latency_section r"
    "status_section (rename_report f r) = status_section r" "transfer_section (rename_report f r) = transfer_section r"
    "pool_section (rename_report f r) = pool_section r" "rep_total_requests (rename_report f r) = rep_total_requests r"
    unfolding summary_section_def latency_section_def status_section_def transfer_section_def pool_section_def
      html_success_rate_def html_rps_def
    by (simp_all only: renamed_fields)
  show ?thesis
    unfolding generate_html_def same
    by (simp only: markup_append if_distrib [of markup] renamed_sections endpoint_section_renamed [OF assms]
        custom_section_renamed)
qed

theorem html_markup_fixed_witness:
  "markup (generate_html ''2024-01-01 00:00:00'' (rename_report (\<lambda>n. if internal_group n then n else ''<script>'')
       (to_report list_hist (run_agg list_hist [a_request ''login'' (9 * secs) None]))))
     = markup (generate_html ''2024-01-01 00:00:00'' (to_report list_hist (run_agg list_hist [a_request ''login'' (9 * secs) None])))"
proof -
  have "\<not> internal_group ''<script>''" by code_simp
  then show ?thesis by (intro html_markup_fixed) simp
qed

section \<open>The success rate\<close>

lemma to_f64_moderate:
  assumes "0 \<le> q" "q < 2 ^ 100"
  shows "to_f64 q = Fin (fl q) \<and> fl q \<le> q + 2 ^ 46"
proof -
  have "\<bar>q\<bar> < 2 powi (99 + 1)" using assms by simp
  then have "\<bar>fl q - q\<bar> \<le> 2 powi (99 - 53)" by (rule fl_error) simp
  then have "fl q \<le> q + 2 ^ 46" by simp
  moreover have "(2::rat) ^ 100 + 2 ^ 46 < 2 ^ 1024" by simp
  ultimately have "\<not> 2 ^ 1024 \<le> fl q" using assms(2) by linarith
  moreover have "\<not> fl q \<le> - (2 ^ 1024)" using fl_nonneg [OF assms(1)] zero_less_power [of "2::rat" 1024] by linarith
  ultimately show ?thesis using \<open>fl q \<le> q + 2 ^ 46\<close> by (simp add: to_f64_def)
qed

lemma percentage_between:
  assumes "0 < n" "x \<le> n" "n \<le> 2 ^ 53"
  shows "f_le (Fin 0) (percentage x n) \<and> f_le (percentage x n) (Fin 100)"
proof -
  obtain q where q: "mean x n = Fin q" "0 \<le> q" "q \<le> 1"
    using fl_quotient_between [of n 0 x 1] assms by auto
  have "f_div (f_of_nat x) (f_of_nat n) = Fin q" using q(1) assms(1) by (simp add: mean_def)
  moreover have "to_f64 (q * 100) = Fin (fl (q * 100))" using to_f64_moderate [of "q * 100"] q by simp
  moreover have "fl (q * 100) \<le> 100" using fl_mono [of "q * 100" 100] fl_nat [of 100] q(3) by simp
  moreover have "0 \<le> fl (q * 100)" using q(2) by (simp add: fl_nonneg)
  ultimately show ?thesis using assms(1) by (auto simp: percentage_def f_le_def)
qed

lemma percentage_beyond:
  assumes "0 < n" "n \<le> 2 ^ 53" "2 ^ 63 \<le> x" "x < 2 ^ 64"
  shows "f_lt (Fin 100) (percentage x n)"
proof -
  have lo: "2 ^ 53 * 2 \<le> fl (of_nat x)"
  proof -
    have "\<bar>of_nat x\<bar> < (2::rat) powi (63 + 1)" using assms(4) by (simp add: of_nat_less_numeral_power_cancel_iff)
    then have "\<bar>fl (of_nat x) - of_nat x\<bar> \<le> 2 powi (63 - 53)" by (rule fl_error) simp
    moreover have "(2::rat) ^ 63 \<le> of_nat x" using assms(3) by (simp add: numeral_power_le_of_nat_cancel_iff)
    ultimately show ?thesis by simp
  qed
  have x: "of_nat x < (2::rat) ^ 64" using assms(4) by (simp add: of_nat_less_numeral_power_cancel_iff)
  have fx: "to_f64 (of_nat x) = Fin (fl (of_nat x))" "fl (of_nat x) < 2 ^ 65"
    using to_f64_moderate [of "of_nat x"] x by auto
  have n: "(0::rat) < of_nat n" "of_nat n \<le> (2::rat) ^ 53" "(1::rat) \<le> of_nat n"
    using assms(1,2) by (simp_all add: of_nat_le_numeral_power_cancel_iff Suc_leI)
  let ?d = "fl (of_nat x) / of_nat n"
  have d: "2 \<le> ?d" "?d < 2 ^ 65"
    using lo fx(2) n by (simp_all add: pos_le_divide_eq pos_divide_less_eq)
  have fd: "to_f64 ?d = Fin (fl ?d)" "fl ?d < 2 ^ 66" "2 \<le> fl ?d"
    using to_f64_moderate [of ?d] fl_mono [OF d(1)] fl_nat [of 2] d by auto
  have "to_f64 (fl ?d * 100) = Fin (fl (fl ?d * 100))" using to_f64_moderate [of "fl ?d * 100"] fd by simp
  moreover have "200 \<le> fl (fl ?d * 100)" using fl_mono [of 200 "fl ?d * 100"] fl_nat [of 200] fd(3) by simp
  ultimately show ?thesis
    using assms(1,2) fx(1) fd(1) by (simp add: percentage_def f_of_nat_def [of x] f_of_nat_small)
qed

text \<open>The success rate of the report is a percentage exactly when there are not more errors than
  requests. Failed iterations are counted among the errors but not among the requests, so it need not
  be: the subtraction wraps, and the report shows a rate above 100 in the colour of success.\<close>

theorem html_success_rate_exact:
  assumes "0 < rep_total_requests r" "rep_total_requests r \<le> 2 ^ 53" "sum_list (map snd (rep_errors r)) \<le> 2 ^ 53"
  shows "f_le (Fin 0) (html_success_rate r) \<and> f_le (html_success_rate r) (Fin 100)
    \<longleftrightarrow> sum_list (map snd (rep_errors r)) \<le> rep_total_requests r"
proof -
  let ?n = "rep_total_requests r" and ?e = "sum_list (map snd (rep_errors r))"
  have rate: "html_success_rate r = percentage ((?n + (u64_size - ?e)) mod u64_size) ?n"
    using assms(3) by (simp add: html_success_rate_def Let_def)
  show ?thesis
  proof (cases "?e \<le> ?n")
    case True
    then have wrap: "?n + (u64_size - ?e) = u64_size + (?n - ?e)" using assms(3) by simp
    have "?n - ?e < u64_size" using assms(2) by simp
    then have "(?n + (u64_size - ?e)) mod u64_size = ?n - ?e" by (simp only: wrap mod_add_self1 mod_less)
    then show ?thesis using True percentage_between [of ?n "?n - ?e"] assms(1,2) by (simp add: rate)
  next
    case False
    then have "(?n + (u64_size - ?e)) mod u64_size = u64_size - (?e - ?n)" using assms(3) by simp
    then have "f_lt (Fin 100) (html_success_rate r)"
      using percentage_beyond [of ?n "u64_size - (?e - ?n)"] assms False by (simp add: rate)
    then show ?thesis using False by (cases "html_success_rate r") (auto simp: f_le_def)
  qed
qed

definition two_failed_iterations :: "nat list stats_aggregator" where
  "two_failed_iterations = run_agg list_hist (a_request ''login'' (9 * secs) None #
     replicate 2 (a_request ''iteration'' 0 (Some ''Error: no token'')))"

theorem html_success_rate_exact_witness:
  "rep_total_requests (to_report list_hist two_failed_iterations) = 1
    \<and> \<not> (f_le (Fin 0) (html_success_rate (to_report list_hist two_failed_iterations))
      \<and> f_le (html_success_rate (to_report list_hist two_failed_iterations)) (Fin 100))"
proof -
  let ?r = "to_report list_hist two_failed_iterations"
  have n: "is_iteration ''login'' = False" "is_iteration ''iteration'' = True" "ends_with_iteration_total ''iteration'' = False"
    by (simp_all add: is_iteration_def ends_with_iteration_total_def ends_with_def starts_with_def)
  have f: "total_requests two_failed_iterations = 1" "sum_list (map snd (errors two_failed_iterations)) = 2"
    by (simp_all add: two_failed_iterations_def run_agg_def aggregator_new_def a_request_def n numeral_2_eq_2 add_http_def
        add_group_def add_failed_iteration_def default_timings_def hm_entry_def hm_insert_def count_error_def)
  then have "rep_total_requests ?r = 1" "sum_list (map snd (rep_errors ?r)) = 2" by (simp_all add: to_report_def)
  then show ?thesis using html_success_rate_exact [of ?r] by simp
qed

end
