(* ===== verification/Summary.thy ===== *)
theory Summary
  imports Report "HOL-Library.Product_Lexorder"
begin

text \<open>
  The summary a run prints (\<open>StatsAggregator::report\<close> in \<open>src/stats/mod.rs\<close>), as the list of the
  texts it passes to \<open>println!\<close>. Signs of its literals beyond ASCII are written as their UTF-8 bytes.
\<close>

section \<open>Durations as \<open>{:?}\<close> prints them\<close>

text \<open>A whole part and \<open>width\<close> decimals without the zeros at their end.\<close>

definition fmt_decimal :: "nat \<Rightarrow> nat \<Rightarrow> nat \<Rightarrow> string" where
  "fmt_decimal whole part width = (let ds = rev (dropWhile (\<lambda>c. c = CHR ''0'') (rev (pad_nat width part))) in
     if ds = [] then show_nat whole else show_nat whole @ ''.'' @ ds)"

definition debug_duration :: "duration \<Rightarrow> string" where
  "debug_duration d =
     (if d \<ge> 1000000000 then fmt_decimal (d div 1000000000) (d mod 1000000000) 9 @ ''s''
      else if d \<ge> 1000000 then fmt_decimal (d div 1000000) (d mod 1000000) 6 @ ''ms''
      else if d \<ge> 1000 then fmt_decimal (d div 1000) (d mod 1000) 3 @ [CHR 0xC2, CHR 0xB5, CHR ''s'']
      else show_nat d @ ''ns'')"

text \<open>\<open>Duration / u32\<close> panics for a zero divisor; the count is cast to 32 bits first.\<close>

definition average_duration :: "duration \<Rightarrow> nat \<Rightarrow> duration outcome" where
  "average_duration d n = (if n mod 2 ^ 32 = 0 then Panics else Returns (d div (n mod 2 ^ 32)))"

section \<open>The sections\<close>

definition quantile_line :: "'h hist_ops \<Rightarrow> 'h \<Rightarrow> string \<Rightarrow> rat \<Rightarrow> string" where
  "quantile_line H h label q = label @ '' Latency:    '' @ debug_duration (h_quantile H h q * 1000)"

definition latency_lines :: "'h hist_ops \<Rightarrow> 'h stats_aggregator \<Rightarrow> duration \<Rightarrow> string list" where
  "latency_lines H a avg =
     [''Total Requests: '' @ show_nat (total_requests a),
      ''Avg Latency:    '' @ debug_duration avg,
      ''Min Latency:    '' @ debug_duration (unwrap_or_zero (min_duration a)),
      ''Max Latency:    '' @ debug_duration (max_duration a),
      quantile_line H (histogram a) ''P50'' (1 / 2),
      quantile_line H (histogram a) ''P90'' (9 / 10),
      quantile_line H (histogram a) ''P95'' (95 / 100),
      quantile_line H (histogram a) ''P99'' (99 / 100)]"

definition status_lines :: "(nat, nat) hmap \<Rightarrow> string list" where
  "status_lines m = ''
Status Codes:'' # map (\<lambda>(status, n). ''  '' @ show_nat status @ '': '' @ show_nat n) (sort_key fst m)"

definition transfer_lines :: "'h stats_aggregator \<Rightarrow> string list" where
  "transfer_lines a = [''
Data Transfer:'',
     ''  Sent:     '' @ fmt_fixed 2 (f_div (f_of_nat (total_data_sent a)) (Fin 1048576)) @ '' MB'',
     ''  Received: '' @ fmt_fixed 2 (f_div (f_of_nat (total_data_received a)) (Fin 1048576)) @ '' MB'']"

definition pool_lines :: "'h stats_aggregator \<Rightarrow> string list" where
  "pool_lines a = (let pool_total = pool_hits a + pool_misses a in if pool_total > 0 then
     (let pool_rate = f_mul (f_div (f_of_nat (pool_hits a)) (f_of_nat pool_total)) (Fin 100) in [''
Connection Pool:'',
       ''  Reused:  '' @ show_nat (pool_hits a) @ '' ('' @ fmt_fixed 1 pool_rate @ ''%)'',
       ''  New:     '' @ show_nat (pool_misses a)]) else [])"

definition group_lines :: "'h hist_ops \<Rightarrow> (string, 'h request_stats) hmap \<Rightarrow> string list" where
  "group_lines H m = (if m = [] then [] else ''
Grouped Requests:'' # concat (map (\<lambda>(name, s).
       [''  Request: '' @ name, ''    Count: '' @ show_nat (r_total_requests s),
        ''    P95:   '' @ debug_duration (h_quantile H (r_histogram s) (95 / 100) * 1000)]
       @ (if r_error_count s > 0 then [''    Errors: '' @ show_nat (r_error_count s)] else []))
     (sort_key fst m)))"

text \<open>Errors: the most frequent first, ties by message; the lines of a message after its first are
  indented.\<close>

definition error_order :: "string \<times> nat \<Rightarrow> int \<times> string" where
  "error_order = (\<lambda>(err, n). (- int n, err))"

definition error_text :: "string \<times> nat \<Rightarrow> string list" where
  "error_text = (\<lambda>(err, n). let ls = lines err in
     (''  '' @ show_nat n @ [CHR 0xC3, CHR 0x97] @ '' '' @ (case ls of [] \<Rightarrow> [] | l # _ \<Rightarrow> l))
     # map (\<lambda>l. ''       '' @ trim_end l) (drop 1 ls))"

definition error_lines :: "(string, nat) hmap \<Rightarrow> string list" where
  "error_lines m = (if m = [] then [] else ''
Errors:'' # concat (map error_text (sort_key error_order m)))"

definition tick :: string where
  "tick = [CHR 0xE2, CHR 0x9C, CHR 0x93]"

definition check_line :: "string \<times> nat \<times> nat \<Rightarrow> string" where
  "check_line = (\<lambda>(name, total_n, passes_n). let fail = total_n - passes_n in
     if fail > 0 then ''  '' @ tick @ '' '' @ name @ '' : ''
       @ fmt_fixed 2 (f_mul (f_div (f_of_nat passes_n) (f_of_nat total_n)) (Fin 100)) @ ''% ('' @ show_nat passes_n
       @ '' passed, '' @ show_nat fail @ '' failed)''
     else ''  '' @ tick @ '' '' @ name @ '' : 100% ('' @ show_nat passes_n @ '' passed)'')"

definition check_lines :: "(string, nat \<times> nat) hmap \<Rightarrow> string list" where
  "check_lines m = (if m = [] then [] else ''
Checks:'' # map check_line (sort_key fst m))"

text \<open>The custom metrics, in the order of their maps.\<close>

definition histogram_line :: "'h hist_ops \<Rightarrow> (string, f64) hmap \<Rightarrow> string \<times> 'h \<Rightarrow> string" where
  "histogram_line H sum_map = (\<lambda>(name, h). ''  '' @ name @ '': p95='' @ fmt_fixed 3 (thousandth (h_quantile H h (95 / 100)))
     @ '', avg='' @ fmt_fixed 2 (f_div (hm_or (Fin 0) sum_map name) (f_of_nat (max (h_len H h) 1)))
     @ '', count='' @ show_nat (h_len H h))"

definition number_line :: "string \<times> f64 \<Rightarrow> string" where
  "number_line = (\<lambda>(name, x). ''  '' @ name @ '': '' @ fmt_fixed 2 x)"

definition rate_line :: "string \<times> nat \<times> nat \<Rightarrow> string" where
  "rate_line = (\<lambda>(name, total_n, success). ''  '' @ name @ '': '' @ fmt_fixed 2 (f_mul (mean success total_n) (Fin 100))
     @ ''% ('' @ show_nat success @ ''/'' @ show_nat total_n @ '')'')"

definition custom_lines :: "'h hist_ops \<Rightarrow> 'h stats_aggregator \<Rightarrow> string list" where
  "custom_lines H a =
     (if histograms a = [] then [] else ''
Histograms:'' # map (histogram_line H (histogram_sums a)) (histograms a))
     @ (if counters a = [] then [] else ''
Counters:'' # map number_line (counters a))
     @ (if gauges a = [] then [] else ''
Gauges:'' # map number_line (gauges a))
     @ (if rates a = [] then [] else ''
Rates:'' # map rate_line (rates a))"

section \<open>The summary\<close>

definition wipeout_lines :: "'h stats_aggregator \<Rightarrow> string list" where
  "wipeout_lines a = (if total_requests a = 0 \<and> failed_iterations a > 0 then [''
'' @ [CHR 0xE2, CHR 0x9A, CHR 0xA0] @ ''  No successful requests '' @ [CHR 0xE2, CHR 0x80, CHR 0x94] @ '' ''
       @ show_nat (failed_iterations a) @ '' iteration(s) failed. See Errors below.''] else [])"

definition http_lines :: "'h hist_ops \<Rightarrow> 'h stats_aggregator \<Rightarrow> string list outcome" where
  "http_lines H a = (if total_requests a > 0 then
     (case average_duration (total_duration a) (total_requests a) of Panics \<Rightarrow> Panics
      | Returns avg \<Rightarrow> Returns (latency_lines H a avg @ status_lines (status_codes a) @ transfer_lines a @ pool_lines a))
     else Returns [])"

definition print_report :: "'h hist_ops \<Rightarrow> 'h stats_aggregator \<Rightarrow> string list outcome" where
  "print_report H a = (if \<not> has_reportable_data a then Returns [''
--- Test Summary ---'', ''No metrics collected.'']
     else case http_lines H a of Panics \<Rightarrow> Panics | Returns http \<Rightarrow> Returns ([''
--- Test Summary ---''] @ wipeout_lines a @ http @ group_lines H (requests a) @ error_lines (errors a)
       @ check_lines (checks a) @ custom_lines H a @ [''--------------------
'']))"

section \<open>Laws\<close>

text \<open>Sorting by a key that tells the entries of a map apart does not depend on their order.\<close>

lemma sort_key_perm:
  assumes "mset xs = mset ys" "distinct (map f xs)"
  shows "sort_key f xs = sort_key f ys"
proof -
  have d: "distinct (map f (sort_key f xs))" "distinct (map f (sort_key f ys))"
    using assms by (metis distinct_map mset_eq_imp_distinct_iff mset_map mset_sort)+
  have "set xs = set ys" using assms(1) by (rule mset_eq_setD)
  moreover have "inj_on f (set xs)" using assms(2) by (simp add: distinct_map)
  ultimately show ?thesis
    by (intro map_sorted_distinct_set_unique [of f]) (use d in simp_all)
qed

lemma distinct_error_order: "hm_wf m \<Longrightarrow> distinct (map error_order m)"
  by (auto simp: distinct_map inj_on_def error_order_def)

lemma same_empty: "mset xs = mset ys \<Longrightarrow> (xs = []) = (ys = [])"
  by (metis mset_zero_iff_right)

section \<open>Properties\<close>

text \<open>C27. The summary of the requests, the groups, the errors and the checks is the same text whatever order
  the hash maps iterate in.\<close>

theorem summary_order_free:
  assumes "hm_wf (status_codes a)" "hm_wf (requests a)" "hm_wf (errors a)" "hm_wf (checks a)"
    and "mset sc = mset (status_codes a)" "mset rq = mset (requests a)" "mset er = mset (errors a)" "mset ch = mset (checks a)"
  shows "print_report H (a\<lparr>status_codes := sc, requests := rq, errors := er, checks := ch\<rparr>) = print_report H a"
proof -
  let ?b = "a\<lparr>status_codes := sc, requests := rq, errors := er, checks := ch\<rparr>"
  have wf: "hm_wf sc" "hm_wf rq" "hm_wf er" "hm_wf ch"
    using assms by (metis mset_eq_imp_distinct_iff mset_map)+
  have "status_lines sc = status_lines (status_codes a)"
    using sort_key_perm [OF assms(5) wf(1)] by (simp add: status_lines_def)
  then have "http_lines H ?b = http_lines H a"
    by (simp add: http_lines_def latency_lines_def transfer_lines_def pool_lines_def split: outcome.split)
  moreover have "group_lines H rq = group_lines H (requests a)"
    using sort_key_perm [OF assms(6) wf(2)] same_empty [OF assms(6)] by (simp add: group_lines_def)
  moreover have "error_lines er = error_lines (errors a)"
    using sort_key_perm [OF assms(7) distinct_error_order [OF wf(3)]] same_empty [OF assms(7)] by (simp add: error_lines_def)
  moreover have "check_lines ch = check_lines (checks a)"
    using sort_key_perm [OF assms(8) wf(4)] same_empty [OF assms(8)] by (simp add: check_lines_def)
  moreover have "has_reportable_data ?b = has_reportable_data a"
    using same_empty [OF assms(6)] same_empty [OF assms(7)] same_empty [OF assms(8)] by (simp add: has_reportable_data_def)
  ultimately show ?thesis
    by (simp add: print_report_def wipeout_lines_def custom_lines_def split: outcome.split)
qed

theorem summary_order_free_witness:
  "print_report list_hist ((aggregator_new list_hist)\<lparr>status_codes := [(404, 1), (200, 2)], requests := [],
      errors := [(''b'', 1), (''a'', 1)], checks := [(''x'', 1, 1), (''w'', 2, 1)]\<rparr>)
    = print_report list_hist ((aggregator_new list_hist)\<lparr>status_codes := [(200, 2), (404, 1)], requests := [],
      errors := [(''a'', 1), (''b'', 1)], checks := [(''w'', 2, 1), (''x'', 1, 1)]\<rparr>)"
  using summary_order_free [of "(aggregator_new list_hist)\<lparr>status_codes := [(200, 2), (404, 1)], requests := [],
      errors := [(''a'', 1), (''b'', 1)], checks := [(''w'', 2, 1), (''x'', 1, 1)]\<rparr>"
      "[(404, 1), (200, 2)]" "[]" "[(''b'', 1), (''a'', 1)]" "[(''x'', 1, 1), (''w'', 2, 1)]" list_hist]
  by (simp add: add_mset_commute)

text \<open>The warning of a wipeout with its number of iterations.\<close>

definition wipeout_warning :: "nat \<Rightarrow> string" where
  "wipeout_warning n = ''
'' @ [CHR 0xE2, CHR 0x9A, CHR 0xA0] @ ''  No successful requests '' @ [CHR 0xE2, CHR 0x80, CHR 0x94] @ '' ''
     @ show_nat n @ '' iteration(s) failed. See Errors below.''"

text \<open>A run whose iterations only threw is not mistaken for a run that did nothing: if it made no request
  and an iteration failed, the summary opens with the warning and the exact number of failures.\<close>

theorem wipeout_reported:
  assumes "count_of is_http ms = 0" "0 < count_of is_failed_iteration ms"
  shows "\<exists>ls. print_report H (run_agg H ms) = Returns ([''
--- Test Summary ---'', wipeout_warning (count_of is_failed_iteration ms)] @ ls)"
proof -
  let ?a = "run_agg H ms"
  have n: "total_requests ?a = 0" "failed_iterations ?a = count_of is_failed_iteration ms"
    using assms(1) by (simp_all add: total_requests_count failed_run)
  have "failed_iterations ?a \<le> hm_sum (errors ?a)" 
    using aggm.run_inv [OF agg_inv_new [of H], where es = ms and H = H] by (simp add: run_agg_def agg_inv_def)
  then have "errors ?a \<noteq> []" using n assms(2) by auto
  then have "has_reportable_data ?a" by (simp add: has_reportable_data_def)
  then show ?thesis using n assms(2) by (simp add: print_report_def http_lines_def wipeout_lines_def wipeout_warning_def)
qed

theorem wipeout_reported_witness:
  "\<exists>ls. print_report list_hist (run_agg list_hist (replicate 3 (a_request ''iteration'' 5 (Some ''boom''))))
    = Returns ([''
--- Test Summary ---'', wipeout_warning 3] @ ls)"
proof -
  let ?ms = "replicate 3 (a_request ''iteration'' 5 (Some ''boom''))"
  have n: "is_iteration ''iteration'' = True" "ends_with_iteration_total ''iteration'' = False"
    by (simp_all add: is_iteration_def ends_with_iteration_total_def ends_with_def starts_with_def)
  then have "count_of is_http ?ms = 0" "count_of is_failed_iteration ?ms = 3"
    by (simp_all add: count_of_def is_http_def is_failed_iteration_def a_request_def)
  then show ?thesis using wipeout_reported [of ?ms list_hist] by simp
qed

text \<open>The summary panics exactly for a positive number of requests that is a multiple of 2 to the power
  of 32: the average divides by the number cast to 32 bits.\<close>

theorem summary_panics_exactly:
  "print_report H a = Panics \<longleftrightarrow> 0 < total_requests a \<and> 2 ^ 32 dvd total_requests a"
  by (auto simp: print_report_def http_lines_def average_duration_def has_reportable_data_def mod_eq_0_iff_dvd
      split: outcome.splits)

end
