(* ===== verification/Commands.thy ===== *)
theory Commands
  imports Exporters Converters Memory Paths Control
begin

text \<open>
  The commands of \<open>src/main.rs\<close> besides the run itself: the plan of a dry run, the cost estimate, the
  watch mode, the interactive reader, exports and history after a run, the cloud login
  (\<open>src/cli/cloud.rs\<close>), replay and export of captured requests, the comparison of two summaries, and
  \<open>init\<close> and \<open>validate\<close> (\<open>src/cli/init.rs\<close>, \<open>src/cli/validate.rs\<close>). Files, the network and the terminal are
  readings; what is printed is modelled where it depends on data.
\<close>

section \<open>Arguments\<close>

definition parse_drop_probability :: "string \<Rightarrow> string + f64" where
  "parse_drop_probability s = (case parse_f64 s of
     None \<Rightarrow> Inl (CHR 0x27 # s @ CHR 0x27 # '' is not a valid number'')
   | Some v \<Rightarrow> if f_le (Fin 0) v \<and> f_le v (Fin 1) then Inr v
       else Inl (''drop probability must be between 0.0 and 1.0, got '' @ display_f64 v))"

section \<open>The plan of a dry run\<close>

definition executor_name :: "executor_type \<Rightarrow> string" where
  "executor_name e = (case e of ConstantWorkers \<Rightarrow> ''ConstantWorkers'' | RampingWorkers \<Rightarrow> ''RampingWorkers''
     | ConstantArrivalRate \<Rightarrow> ''ConstantArrivalRate'' | RampingArrivalRate \<Rightarrow> ''RampingArrivalRate''
     | PerWorkerIterations \<Rightarrow> ''PerWorkerIterations'' | SharedIterations \<Rightarrow> ''SharedIterations'')"

definition shown :: "string \<Rightarrow> string option \<Rightarrow> (string \<times> string) list" where
  "shown label v = (case v of None \<Rightarrow> [] | Some s \<Rightarrow> [(label, s)])"

text \<open>The lines between the borders, as label and value.\<close>

definition dry_run_plan :: "string \<Rightarrow> config \<Rightarrow> (string \<times> string) list" where
  "dry_run_plan scenario c =
     [(''Script'', scenario), (''Workers'', show_nat (case c_workers c of None \<Rightarrow> 1 | Some w \<Rightarrow> w)),
      (''Duration'', case c_duration c of None \<Rightarrow> ''(iterations-based)'' | Some d \<Rightarrow> d)]
     @ shown ''Iterations'' (map_option show_nat (c_iterations c))
     @ shown ''Executor'' (map_option executor_name (c_executor c))
     @ shown ''Rate'' (map_option show_nat (c_rate c))
     @ (case c_schedule c of None \<Rightarrow> []
        | Some st \<Rightarrow> map (\<lambda>(i, s). (''Stage '' @ show_nat (i + 1), show_nat (step_target s) @ '' workers for '' @ step_duration s))
            (zip [0..<length st] st))
     @ (case c_scenarios c of None \<Rightarrow> []
        | Some scs \<Rightarrow> map (\<lambda>(n, sc). (n, show_nat (case sc_workers sc of None \<Rightarrow> 1 | Some w \<Rightarrow> w) @ '' workers'')) scs)
     @ (case c_criteria c of None \<Rightarrow> []
        | Some cr \<Rightarrow> concat (map (\<lambda>(m, conds). map (\<lambda>cond. (m, cond)) conds) cr))"

section \<open>The cost estimate\<close>

definition dry_config :: "config \<Rightarrow> config" where
  "dry_config c = c\<lparr>c_workers := Some 1, c_duration := Some ''3s'', c_iterations := Some 5\<rparr>"

record cost_estimate =
  ce_requests :: nat
  ce_gb :: f64
  ce_cost :: f64
  ce_warns :: bool

text \<open>From the report of the dry run and the requested configuration; a duration that does not parse
  is a minute, one that panics the parser ends the program.\<close>

definition average_bytes :: "report_stats \<Rightarrow> f64" where
  "average_bytes r = f_div (foldl f_add (Fin 0) (map (\<lambda>(_, g). f_mul (rr_avg_receiving_ms g) (Fin 1024)) (rep_grouped_requests r)))
     (f_of_nat (max (rep_total_requests r) 1))"

definition estimate_cost :: "report_stats \<Rightarrow> config \<Rightarrow> f64 option \<Rightarrow> cost_estimate outcome" where
  "estimate_cost r c threshold =
     (case parse_duration_str (case c_duration c of None \<Rightarrow> ''60s'' | Some d \<Rightarrow> d) of Panics \<Rightarrow> Panics
      | Returns dur \<Rightarrow>
        (let secs_f = (case dur of None \<Rightarrow> Fin 60 | Some d \<Rightarrow> as_secs_f64 d);
             workers_f = f_of_nat (case c_workers c of None \<Rightarrow> 1 | Some w \<Rightarrow> w);
             per_request = f_div (rep_avg_latency_ms r) (Fin 1000);
             n = as_u64 (if f_lt (Fin 0) per_request then f_div (f_mul workers_f secs_f) per_request
                  else f_mul (f_mul workers_f secs_f) (Fin 10));
             bytes = (if f_lt (Fin 0) (average_bytes r) then average_bytes r else Fin 10000);
             gb = f_div (f_mul (f_mul (f_of_nat n) bytes) (Fin 2)) (Fin 1073741824);
             cost = f_mul gb (to_f64 (9 / 100))
         in Returns \<lparr>ce_requests = n, ce_gb = gb, ce_cost = cost,
              ce_warns = f_lt (case threshold of None \<Rightarrow> Fin 10 | Some t \<Rightarrow> t) cost\<rparr>))"

text \<open>On a terminal, the answer decides; an unreadable or any other answer aborts.\<close>

definition proceed :: "bool \<Rightarrow> string option \<Rightarrow> bool" where
  "proceed tty answer = (\<not> tty \<or> (case answer of None \<Rightarrow> False | Some a \<Rightarrow> eq_ignore_ascii_case (trim a) ''y''))"

section \<open>Around the run\<close>

text \<open>The duration shown by the TUI: of the stages that parse, in whole seconds.\<close>

definition tui_total_duration :: "config \<Rightarrow> duration option outcome" where
  "tui_total_duration c = (case c_schedule c of
     Some st \<Rightarrow> (if list_ex (\<lambda>s. parse_duration_str (step_duration s) = Panics) st then Panics
       else Returns (Some (sum_list (map (\<lambda>s. case parse_duration_str (step_duration s) of
           Returns (Some d) \<Rightarrow> d div secs | _ \<Rightarrow> 0) st) * secs)))
   | None \<Rightarrow> (case c_duration c of None \<Rightarrow> Returns None | Some d \<Rightarrow> parse_duration_str d))"

definition shared_shards :: "config \<Rightarrow> nat outcome" where
  "shared_shards c = num_shards (total_workers c)"

text \<open>The interactive reader: each line is a command to send, or printed as unknown; it ends when the
  receiver is gone. The first component says for each send whether it succeeds.\<close>

fun read_commands :: "bool list \<Rightarrow> string list \<Rightarrow> control_command list \<times> string list" where
  "read_commands oks [] = ([], [])"
| "read_commands oks (l # ls) = (case parse_control_command l of
     Some c \<Rightarrow> (case oks of True # oks \<Rightarrow> (let (cs, us) = read_commands oks ls in (c # cs, us)) | _ \<Rightarrow> ([], []))
   | None \<Rightarrow> (let (cs, us) = read_commands oks ls in (cs, if trim l = [] then us else trim l # us)))"

datatype export_target = ToOtlp string | ToCsv string | ToStatsd string

definition export_target_of :: "string \<Rightarrow> export_target option" where
  "export_target_of out = (case strip_prefix ''otlp='' out of Some u \<Rightarrow> Some (ToOtlp u)
     | None \<Rightarrow> (case strip_prefix ''csv='' out of Some p \<Rightarrow> Some (ToCsv p)
     | None \<Rightarrow> (case strip_prefix ''statsd='' out of Some e \<Rightarrow> Some (ToStatsd e) | None \<Rightarrow> None)))"

definition save_history :: "(report_stats \<Rightarrow> string) \<Rightarrow> string \<Rightarrow> string \<Rightarrow> report_stats \<Rightarrow> run_row list option
    \<Rightarrow> run_row list option \<times> nat option" where
  "save_history to_json now scenario r db = (case db of None \<Rightarrow> (None, None)
     | Some rows \<Rightarrow> (let name = (case file_name (components scenario) of [Normal n] \<Rightarrow> n | _ \<Rightarrow> ''unknown'');
           (rows, i) = save_run to_json now name r rows in (Some rows, Some i)))"

section \<open>Watch mode\<close>

text \<open>A pass of the watch loop: the script as read and transpiled, its options, the result of the run;
  every failure before the run starts the next pass at once, and only a run is followed by a wait for
  the file to change (one poll every 500 ms).\<close>

record watch_pass =
  wp_source :: "string option"
  wp_transpiled :: "string + string"
  wp_options :: "string + config option"
  wp_modified :: "nat option list"

datatype watch_event = WatchError string | WatchRun config | WatchPolls nat

fun watch_wait :: "nat option \<Rightarrow> nat option list \<Rightarrow> nat \<times> nat option" where
  "watch_wait known [] = (0, known)"
| "watch_wait known (m # ms) = (if m \<noteq> known then (1, m) else (let (n, k) = watch_wait known ms in (n + 1, k)))"

fun watch_loop :: "cli_run \<Rightarrow> nat option \<Rightarrow> watch_pass list \<Rightarrow> watch_event list" where
  "watch_loop f known [] = []"
| "watch_loop f known (p # ps) = (case wp_source p of
     None \<Rightarrow> WatchError ''Failed to read script'' # watch_loop f known ps
   | Some _ \<Rightarrow> (case wp_transpiled p of Inl e \<Rightarrow> WatchError ''TypeScript transpile error'' # watch_loop f known ps
     | Inr _ \<Rightarrow> (case wp_options p of Inl e \<Rightarrow> WatchError ''Failed to parse script config'' # watch_loop f known ps
       | Inr opts \<Rightarrow> (let (n, k) = watch_wait known (wp_modified p) in
           WatchRun (watch_config opts f) # WatchPolls n # watch_loop f k ps))))"

section \<open>Cloud\<close>

record cloud_auth =
  ca_token :: string
  ca_api_url :: "string option"

text \<open>What the home directory holds: the text of the token file and whether only its owner reads it.\<close>

record cloud_home =
  ch_directory :: bool
  ch_auth :: "string option"
  ch_private :: bool

record cloud_io =
  io_mkdir :: bool
  io_write :: bool
  io_chmod :: bool
  io_remove :: bool

definition save_token :: "(cloud_auth \<Rightarrow> string) \<Rightarrow> cloud_io \<Rightarrow> string \<Rightarrow> string option \<Rightarrow> cloud_home \<Rightarrow> cloud_home \<times> bool" where
  "save_token encode io token url h =
     (if \<not> io_mkdir io then (h, False)
      else let h = h\<lparr>ch_directory := True\<rparr> in
      if \<not> io_write io then (h, False)
      else let h = h\<lparr>ch_auth := Some (encode \<lparr>ca_token = token, ca_api_url = url\<rparr>),
               ch_private := (ch_auth h \<noteq> None \<and> ch_private h)\<rparr> in
      if \<not> io_chmod io then (h, False) else (h\<lparr>ch_private := True\<rparr>, True))"

definition load_token :: "(string \<Rightarrow> cloud_auth option) \<Rightarrow> cloud_home \<Rightarrow> cloud_auth option" where
  "load_token decode h = (case ch_auth h of None \<Rightarrow> None | Some t \<Rightarrow> decode t)"

definition clear_token :: "cloud_io \<Rightarrow> cloud_home \<Rightarrow> cloud_home \<times> bool" where
  "clear_token io h = (if ch_auth h = None then (h, True) else if io_remove io then (h\<lparr>ch_auth := None\<rparr>, True) else (h, False))"

definition is_logged_in :: "(string \<Rightarrow> cloud_auth option) \<Rightarrow> cloud_home \<Rightarrow> bool" where
  "is_logged_in decode h = (load_token decode h \<noteq> None)"

definition get_api_url :: "(string \<Rightarrow> cloud_auth option) \<Rightarrow> cloud_home \<Rightarrow> string" where
  "get_api_url decode h = (case load_token decode h of Some a \<Rightarrow> (case ca_api_url a of Some u \<Rightarrow> u
       | None \<Rightarrow> ''https://api.fusillade.io'') | None \<Rightarrow> ''https://api.fusillade.io'')"

text \<open>The commands, with what each says first.\<close>

definition login :: "(cloud_auth \<Rightarrow> string) \<Rightarrow> cloud_io \<Rightarrow> string \<Rightarrow> cloud_home \<Rightarrow> cloud_home \<times> string" where
  "login encode io token h = (if \<not> starts_with ''fusi_'' token then (h, ''Invalid token format'')
     else let (h, ok) = save_token encode io token None h in (h, if ok then ''Logged in successfully!'' else ''Error saving token''))"

definition logout :: "(string \<Rightarrow> cloud_auth option) \<Rightarrow> cloud_io \<Rightarrow> cloud_home \<Rightarrow> cloud_home \<times> string" where
  "logout decode io h = (if \<not> is_logged_in decode h then (h, ''Not logged in.'')
     else let (h, ok) = clear_token io h in (h, if ok then ''Logged out successfully.'' else ''Error removing token''))"

definition whoami :: "(string \<Rightarrow> cloud_auth option) \<Rightarrow> cloud_home \<Rightarrow> string list" where
  "whoami decode h = (case load_token decode h of
     Some a \<Rightarrow> [''Logged in to Fusillade Cloud'', ''  Token: '' @ take 12 (ca_token a) @ ''...'', ''  API:   '' @ get_api_url decode h]
   | None \<Rightarrow> [''Not logged in.''])"

text \<open>The form of a cloud run, and the answer.\<close>

definition cloud_form :: "string \<Rightarrow> nat option \<Rightarrow> string option \<Rightarrow> string \<Rightarrow> string \<Rightarrow> (string \<times> string) list outcome" where
  "cloud_form name vus dur region script =
     (case parse_duration_str (case dur of None \<Rightarrow> ''60s'' | Some d \<Rightarrow> d) of Panics \<Rightarrow> Panics
      | Returns d \<Rightarrow> Returns [(''name'', name), (''vus'', show_nat (case vus of None \<Rightarrow> 10 | Some w \<Rightarrow> w)),
          (''duration'', case d of None \<Rightarrow> ''60'' | Some d \<Rightarrow> show_nat (d div secs)), (''region'', region), (''script'', script)])"

datatype cloud_answer = CloudStatus nat string | CloudUnreachable string

definition cloud_result :: "(string \<Rightarrow> json option) \<Rightarrow> cloud_answer \<Rightarrow> string + string" where
  "cloud_result parse a = (case a of CloudUnreachable e \<Rightarrow> Inl (''Failed to connect to Fusillade Cloud: '' @ e)
     | CloudStatus n body \<Rightarrow> if 200 \<le> n \<and> n \<le> 299 then
           Inr (case parse body of Some (JObj kvs) \<Rightarrow> (case map_of kvs ''test_id'' of Some (JStr t) \<Rightarrow> t | _ \<Rightarrow> ''unknown'')
                 | _ \<Rightarrow> ''unknown'')
         else Inl (''Cloud API returned '' @ show_nat n))"

section \<open>Captured requests\<close>

definition replay_method :: "string \<Rightarrow> string" where
  "replay_method m = (if m \<in> {''GET'', ''POST'', ''PUT'', ''DELETE'', ''PATCH''} then m else ''GET'')"

text \<open>The requests sent, in order, and the lines printed for an answer.\<close>

definition replay_requests :: "captured_request list \<Rightarrow> (string \<times> string \<times> (string, string) hmap \<times> string option) list" where
  "replay_requests rs = map (\<lambda>r. (replay_method (cr_method r), cr_url r, cr_headers r, cr_body r)) rs"

definition replay_lines :: "string + (nat \<times> string) \<Rightarrow> string list" where
  "replay_lines answer = (case answer of Inl e \<Rightarrow> [''  Error: '' @ e]
     | Inr (status, body) \<Rightarrow> [''  Status: '' @ show_nat status,
         if length body \<le> 500 then ''  Body: '' @ body else ''  Body: '' @ safe_truncate body 500 @ ''... (truncated)''])"

definition export_captured :: "string \<Rightarrow> captured_request list \<Rightarrow> string + string" where
  "export_captured format rs = (if rs = [] then Inl ''No failed requests found in file.''
     else if format = ''curl'' then Inr (export_to_curl rs)
     else Inl (''Unsupported format: '' @ format @ ''. Supported: curl''))"

section \<open>Comparing two summaries\<close>

definition member :: "json \<Rightarrow> string \<Rightarrow> json option" where
  "member j key = (case j of JObj kvs \<Rightarrow> map_of kvs key | _ \<Rightarrow> None)"

definition get_f64 :: "json \<Rightarrow> string \<Rightarrow> f64 option" where
  "get_f64 j key = (case member j key of None \<Rightarrow> None | Some v \<Rightarrow> json_as_f64 v)"

definition get_u64 :: "json \<Rightarrow> string \<Rightarrow> int option" where
  "get_u64 j key = (case member j key of None \<Rightarrow> None | Some v \<Rightarrow> json_as_u64 v)"

datatype change_color = Improvement | NoChange | Regression

definition format_change :: "f64 \<Rightarrow> f64 \<Rightarrow> bool \<Rightarrow> change_color \<times> string" where
  "format_change baseline current lower_is_better =
     (let diff = f_sub current baseline;
          pct = (if f_lt (Fin 0) baseline then f_mul (f_div diff baseline) (Fin 100) else Fin 0);
          arrow = (if f_lt (Fin 0) diff then ''+'' else []);
          colour = (if (lower_is_better \<and> f_lt diff (Fin 0)) \<or> (\<not> lower_is_better \<and> f_lt (Fin 0) diff) then Improvement
             else if f_lt (f_abs diff) (to_f64 (1 / 100)) then NoChange else Regression)
      in (colour, arrow @ fmt_fixed 1 pct @ ''%''))"

definition count_errors :: "json \<Rightarrow> nat" where
  "count_errors j = (case member j ''errors'' of Some (JObj kvs) \<Rightarrow>
       sum_list (map (\<lambda>(_, v). case json_as_u64 v of None \<Rightarrow> 0 | Some n \<Rightarrow> nat n) kvs) mod u64_size | _ \<Rightarrow> 0)"

definition error_rate :: "json \<Rightarrow> f64" where
  "error_rate j = f_mul (f_div (f_of_nat (count_errors j))
     (f_of_nat (nat (case get_u64 j ''total_requests'' of None \<Rightarrow> 1 | Some n \<Rightarrow> n)))) (Fin 100)"

definition compare_row :: "json \<Rightarrow> json \<Rightarrow> string \<times> bool \<Rightarrow> (string \<times> change_color \<times> string) list" where
  "compare_row b c kl = (case (get_f64 b (fst kl), get_f64 c (fst kl)) of
     (Some x, Some y) \<Rightarrow> [(fst kl, format_change x y (snd kl))] | _ \<Rightarrow> [])"

definition compare_summaries :: "json \<Rightarrow> json \<Rightarrow> (string \<times> change_color \<times> string) list" where
  "compare_summaries b c =
     (case (get_u64 b ''total_requests'', get_u64 c ''total_requests'') of
        (Some x, Some y) \<Rightarrow> [(''total_requests'', format_change (f_of_nat (nat x)) (f_of_nat (nat y)) False)] | _ \<Rightarrow> [])
     @ concat (map (compare_row b c) [(''avg_latency_ms'', True), (''p95_latency_ms'', True), (''p99_latency_ms'', True),
         (''max_latency_ms'', True), (''rps'', False)])
     @ [(''error_rate'', format_change (error_rate b) (error_rate c) True)]"

section \<open>init and validate\<close>

text \<open>\<open>run_init\<close>: the files that exist (their directories can be made), and the templates.\<close>

record templates =
  te_script :: string
  te_typescript :: string
  te_config :: string

definition run_init :: "templates \<Rightarrow> string option \<Rightarrow> bool \<Rightarrow> bool \<Rightarrow> (string \<times> string) list
    \<Rightarrow> (string \<times> string) list \<times> (string + unit)" where
  "run_init T output with_config typescript files =
     (let path = (case output of Some p \<Rightarrow> p | None \<Rightarrow> if typescript then ''test.ts'' else ''test.js'') in
      if map_of files path \<noteq> None then (files, Inl (''File already exists: '' @ path))
      else let files = hm_insert path (if typescript then te_typescript T else te_script T) files in
        (if with_config \<and> map_of files ''fusillade.yaml'' = None then hm_insert ''fusillade.yaml'' (te_config T) files else files, Inr ()))"

definition config_is_json :: "string \<Rightarrow> bool" where
  "config_is_json path = (extension path = Some ''json'')"

text \<open>\<open>run_validate\<close>, over the readings of the script (read, transpiled, options) and of the optional
  configuration file with its two parsers.\<close>

definition run_validate :: "string option \<Rightarrow> string + string \<Rightarrow> string + config option
    \<Rightarrow> (string \<times> string option) option \<Rightarrow> (string \<Rightarrow> string + config) \<Rightarrow> (string \<Rightarrow> string + config) \<Rightarrow> string + unit" where
  "run_validate source transpiled options cfg from_json from_yaml =
     (if source = None then Inl ''Failed to read script'' else case transpiled of Inl e \<Rightarrow> Inl e
      | Inr _ \<Rightarrow> (case options of Inl e \<Rightarrow> Inl e
        | Inr _ \<Rightarrow> (case cfg of None \<Rightarrow> Inr ()
          | Some (path, content) \<Rightarrow> (case content of None \<Rightarrow> Inl ''Failed to read config file''
            | Some t \<Rightarrow> (case (if config_is_json path then from_json t else from_yaml t) of
                Inl e \<Rightarrow> Inl ''Config validation failed'' | Inr _ \<Rightarrow> Inr ())))))"

section \<open>Properties\<close>

text \<open>Logging in and out is a round trip: after a login that could write, the token is loaded back
  as given, readable by its owner only, with the default API; after a logout nobody is logged in.\<close>

theorem login_roundtrip:
  assumes "\<And>a. decode (encode a) = Some a" "starts_with ''fusi_'' token" "io_mkdir io" "io_write io" "io_chmod io" "io_remove io"
  shows "load_token decode (fst (login encode io token h)) = Some \<lparr>ca_token = token, ca_api_url = None\<rparr>
    \<and> ch_private (fst (login encode io token h))
    \<and> get_api_url decode (fst (login encode io token h)) = ''https://api.fusillade.io''
    \<and> whoami decode (fst (logout decode io (fst (login encode io token h)))) = [''Not logged in.'']"
  using assms by (simp add: login_def save_token_def load_token_def get_api_url_def logout_def clear_token_def
      is_logged_in_def whoami_def Let_def)

text \<open>A printer and a parser of token files for the example.\<close>

definition plain_encode :: "cloud_auth \<Rightarrow> string" where
  "plain_encode a = replicate (length (ca_token a)) (CHR ''1'') @ CHR ''0'' # ca_token a
     @ (case ca_api_url a of None \<Rightarrow> [] | Some u \<Rightarrow> CHR ''+'' # u)"

definition plain_decode :: "string \<Rightarrow> cloud_auth option" where
  "plain_decode s = (let n = length (takeWhile (\<lambda>c. c = CHR ''1'') s); t = drop (n + 1) s in
     Some \<lparr>ca_token = take n t, ca_api_url = (case drop n t of [] \<Rightarrow> None | c # u \<Rightarrow> Some u)\<rparr>)"

lemma plain_decode_encode: "plain_decode (plain_encode a) = Some a"
proof -
  have "takeWhile (\<lambda>c. c = x) (replicate n x @ y # t) = replicate n x" if "y \<noteq> x" for n and x y :: char and t
    using that by (induction n) simp_all
  then show ?thesis by (cases a) (simp add: plain_decode_def plain_encode_def Let_def split: option.splits)
qed

theorem login_roundtrip_witness:
  "load_token plain_decode (fst (login plain_encode \<lparr>io_mkdir = True, io_write = True, io_chmod = True, io_remove = True\<rparr> ''fusi_x''
     \<lparr>ch_directory = False, ch_auth = None, ch_private = False\<rparr>)) = Some \<lparr>ca_token = ''fusi_x'', ca_api_url = None\<rparr>"
  by (rule conjunct1 [OF login_roundtrip]) (simp_all add: plain_decode_encode starts_with_def)

text \<open>Watch mode does not wait after a failure: as long as the script cannot be read, transpiled or
  configured, every pass fails at once and none is followed by a poll, so the loop spins.\<close>

theorem watch_spins:
  assumes "list_all (\<lambda>p. wp_source p = None \<or> isl (wp_transpiled p) \<or> isl (wp_options p)) ps"
  shows "length (watch_loop f known ps) = length ps
    \<and> list_all (\<lambda>e. case e of WatchError _ \<Rightarrow> True | _ \<Rightarrow> False) (watch_loop f known ps)"
  using assms by (induction ps) (auto split: option.splits sum.splits)

theorem watch_spins_witness:
  "\<exists>f. length (watch_loop f None (replicate 1000 \<lparr>wp_source = None, wp_transpiled = Inr [], wp_options = Inr None, wp_modified = []\<rparr>)) = 1000"
proof -
  let ?ps = "replicate 1000 \<lparr>wp_source = None, wp_transpiled = Inr [], wp_options = Inr None, wp_modified = []\<rparr> :: watch_pass list"
  have "list_all (\<lambda>p. wp_source p = None \<or> isl (wp_transpiled p) \<or> isl (wp_options p)) ?ps" by (simp add: list_all_iff)
  from watch_spins [OF this] show ?thesis by (metis length_replicate)
qed

text \<open>The comparison misreports two boundaries: a value that was zero is shown as changed by
  \<open>+0.0%\<close> however much it rose, and two identical runs without a request have the error rate
  \<open>NaN\<close> and are marked as a regression.\<close>

theorem comparison_boundaries:
  assumes "0 < n" "n < 2 ^ 53" "member j ''total_requests'' = Some (JInt 0)" "member j ''errors'' = None"
  shows "format_change (Fin 0) (f_of_nat n) True = (Regression, ''+0.0%'')
    \<and> error_rate j = NaN \<and> last (compare_summaries j j) = (''error_rate'', Regression, ''0.0%'')"
proof -
  have cent: "case to_f64 (1 / 100) of Fin q \<Rightarrow> 0 < q \<and> q < 1 | _ \<Rightarrow> False" by code_simp
  then obtain q where q: "to_f64 (1 / 100) = Fin q" "0 < q" "q < 1" by (auto split: f64.splits)
  have n: "f_of_nat n = Fin (of_nat n)" "f_sub (Fin (of_nat n)) (Fin 0) = Fin (of_nat n)" "(1::rat) \<le> of_nat n"
    using f_of_nat_small [of n] assms(1,2) by (simp_all add: f_sub_def f_of_nat_def)
  have fmt: "fmt_fixed (Suc 0) (Fin 0) = ''0.0''" by code_simp
  have "format_change (Fin 0) (f_of_nat n) True = (Regression, ''+0.0%'')"
    using n(3) q(2,3) by (simp add: format_change_def Let_def n(1,2) q(1) fmt)
  moreover have rate: "error_rate j = NaN"
    using assms(3,4) by (simp add: error_rate_def count_errors_def get_u64_def json_as_u64_def f_of_nat_small)
  moreover have "format_change NaN NaN True = (Regression, ''0.0%'')"
    by (simp add: format_change_def Let_def f_sub_def fmt)
  ultimately show ?thesis by (simp add: compare_summaries_def)
qed

theorem comparison_boundaries_witness:
  "last (compare_summaries (JObj [(''total_requests'', JInt 0)]) (JObj [(''total_requests'', JInt 0)])) =
     (''error_rate'', Regression, ''0.0%'')"
  using comparison_boundaries [of 1 "JObj [(''total_requests'', JInt 0)]"] by (simp add: member_def)

end
