(* ===== verification/Lifecycle.thy ===== *)
theory Lifecycle
  imports HtmlReport Summary Workers Cluster Script Commands
begin

text \<open>
  The life of a run around its workers (\<open>src/engine/mod.rs\<close>): the script's \<open>setup\<close>, \<open>teardown\<close> and
  \<open>handleSummary\<close>, the check of the script before the workers start, the start of a worker of each
  executor up to its first iteration, and what \<open>run_load_test\<close> does after its main loop: printing,
  exports, the summary posted to the control plane, history, hooks and verdict. The JavaScript engine
  (rquickjs) is the argument \<open>js_host\<close>; calls of the script act on the thread's \<open>worker_env\<close>.
\<close>

section \<open>The JavaScript engine\<close>

text \<open>An error as rquickjs catches it: an exception with message and stack, another thrown value as
  \<open>{:?}\<close> shows it, or an error of its own.\<close>

datatype caught_error = JsException "string option" "string option" | JsThrown string | JsFault string

definition format_js_error :: "caught_error \<Rightarrow> string" where
  "format_js_error e = (case e of
     JsException msg stack \<Rightarrow> (let m = (case msg of None \<Rightarrow> ''Unknown error'' | Some m \<Rightarrow> m) in
       (case stack of None \<Rightarrow> m | Some s \<Rightarrow> m @ [CHR 0x0A] @ s))
   | JsThrown v \<Rightarrow> ''Exception: '' @ v
   | JsFault s \<Rightarrow> s)"

text \<open>The operations of the engine: creating a runtime (with the thread's tokio runtime), registering
  the bridge, setting a global, declaring and evaluating a module, its exported functions, calling one;
  JSON in both directions, and the parts of an object. \<open>jh_plain\<close> is the text of an error that was not
  caught with its context.\<close>

record ('v, 'm) js_host =
  jh_runtime :: "string + unit"
  jh_register :: "caught_error + unit"
  jh_set_global :: "caught_error + unit"
  jh_declare :: "string \<Rightarrow> string \<Rightarrow> caught_error + 'm"
  jh_eval :: "'m \<Rightarrow> worker_env \<Rightarrow> (caught_error + unit) \<times> worker_env"
  jh_function :: "'m \<Rightarrow> string \<Rightarrow> 'v option"
  jh_call :: "'v \<Rightarrow> 'v list \<Rightarrow> worker_env \<Rightarrow> (caught_error + 'v) \<times> worker_env"
  jh_undefined :: 'v
  jh_is_undefined :: "'v \<Rightarrow> bool"
  jh_stringify :: "'v \<Rightarrow> caught_error + string"
  jh_parse :: "string \<Rightarrow> caught_error + 'v"
  jh_is_object :: "'v \<Rightarrow> bool"
  jh_with_state :: "bool \<Rightarrow> string \<Rightarrow> 'v \<Rightarrow> caught_error + 'v"
  jh_keys :: "'v \<Rightarrow> (caught_error + string) list"
  jh_get :: "'v \<Rightarrow> string \<Rightarrow> caught_error + 'v"
  jh_is_string :: "'v \<Rightarrow> bool"
  jh_string :: "'v \<Rightarrow> string option"
  jh_plain :: "caught_error \<Rightarrow> string"

record script_source =
  ss_path :: string
  ss_content :: string

text \<open>What every context does first: the bridge is registered, the module declared and evaluated.\<close>

definition load_script :: "('v, 'm) js_host \<Rightarrow> script_source \<Rightarrow> worker_env \<Rightarrow> (caught_error + 'm) \<times> worker_env" where
  "load_script J s w = (case jh_register J of Inl e \<Rightarrow> (Inl e, w) | Inr _ \<Rightarrow>
     (case jh_declare J (ss_path s) (ss_content s) of Inl e \<Rightarrow> (Inl e, w) | Inr m \<Rightarrow>
       (case jh_eval J m w of (Inl e, w) \<Rightarrow> (Inl e, w) | (Inr _, w) \<Rightarrow> (Inr m, w))))"

text \<open>The value a function gets for the data of the setup: the JSON read back, or \<open>undefined\<close>.\<close>

definition setup_argument :: "('v, 'm) js_host \<Rightarrow> string option \<Rightarrow> 'v" where
  "setup_argument J data = (case data of None \<Rightarrow> jh_undefined J
     | Some s \<Rightarrow> (case jh_parse J s of Inl _ \<Rightarrow> jh_undefined J | Inr v \<Rightarrow> v))"

section \<open>Hooks\<close>

text \<open>The thread that prints what a hook logs ends at the first metric that is no log line.\<close>

fun print_thread :: "metric list \<Rightarrow> string list" where
  "print_thread (Log msg # ms) = msg # print_thread ms"
| "print_thread _ = []"

text \<open>A hook returns its result, the thread's state, and how many runtimes it leaks.\<close>

definition run_setup :: "('v, 'm) js_host \<Rightarrow> script_source \<Rightarrow> worker_env \<Rightarrow>
    (string + string option) \<times> worker_env \<times> nat" where
  "run_setup J s w = (case jh_runtime J of Inl e \<Rightarrow> (Inl e, w, 0) | Inr _ \<Rightarrow>
     (case load_script J s w of (Inl e, w) \<Rightarrow> (Inl (jh_plain J e), w, 1) | (Inr m, w) \<Rightarrow>
       (case jh_function J m ''setup'' of None \<Rightarrow> (Inr None, w, 1) | Some f \<Rightarrow>
         (case jh_call J f [] w of (Inl e, w) \<Rightarrow> (Inl (jh_plain J e), w, 1) | (Inr v, w) \<Rightarrow>
           if jh_is_undefined J v then (Inr None, w, 1)
           else (case jh_stringify J v of Inl e \<Rightarrow> (Inl (jh_plain J e), w, 1) | Inr j \<Rightarrow> (Inr (Some j), w, 1))))))"

text \<open>\<open>run_script\<close> (the \<open>exec\<close> command) leaves before its clean-up on an error.\<close>

definition exec_script :: "('v, 'm) js_host \<Rightarrow> (string \<Rightarrow> worker_env \<Rightarrow> (caught_error + 'v) \<times> worker_env) \<Rightarrow>
    string \<Rightarrow> worker_env \<Rightarrow> (string + unit) \<times> worker_env \<times> nat" where
  "exec_script J eval_script content w = (case jh_runtime J of Inl e \<Rightarrow> (Inl e, w, 0) | Inr _ \<Rightarrow>
     (case jh_register J of Inl e \<Rightarrow> (Inl (jh_plain J e), w, 0) | Inr _ \<Rightarrow>
       (case eval_script content w of (Inl e, w) \<Rightarrow> (Inl (jh_plain J e), w, 0) | (Inr _, w) \<Rightarrow> (Inr (), w, 1))))"

definition run_teardown :: "('v, 'm) js_host \<Rightarrow> script_source \<Rightarrow> string option \<Rightarrow> worker_env \<Rightarrow>
    (string + unit) \<times> worker_env \<times> nat" where
  "run_teardown J s data w = (case jh_runtime J of Inl e \<Rightarrow> (Inl e, w, 0) | Inr _ \<Rightarrow>
     (case load_script J s w of (Inl _, w) \<Rightarrow> (Inr (), w, 1) | (Inr m, w) \<Rightarrow>
       (case jh_function J m ''teardown'' of None \<Rightarrow> (Inr (), w, 1) | Some f \<Rightarrow>
         (Inr (), snd (jh_call J f [setup_argument J data] w), 1))))"

text \<open>What \<open>handleSummary\<close> returns: the text of each property up to the first that cannot be read.\<close>

definition entry_text :: "('v, 'm) js_host \<Rightarrow> 'v \<Rightarrow> string" where
  "entry_text J v = (if jh_is_string J v then (case jh_string J v of None \<Rightarrow> [] | Some s \<Rightarrow> s)
     else (case jh_stringify J v of Inl _ \<Rightarrow> [] | Inr s \<Rightarrow> s))"

fun summary_entries :: "('v, 'm) js_host \<Rightarrow> 'v \<Rightarrow> (caught_error + string) list \<Rightarrow> (string \<times> string) list" where
  "summary_entries J v [] = []"
| "summary_entries J v (Inl _ # ks) = []"
| "summary_entries J v (Inr k # ks) = (case jh_get J v k of Inl _ \<Rightarrow> []
     | Inr x \<Rightarrow> (k, entry_text J x) # summary_entries J v ks)"

text \<open>Where the outputs go. \<open>wr\<close> is the error of writing a file, if it fails.\<close>

record outputs =
  ou_stdout :: "string list"
  ou_stderr :: "string list"
  ou_files :: "(string, string) hmap"

definition print_out :: "string \<Rightarrow> outputs \<Rightarrow> outputs" where
  "print_out s w = w\<lparr>ou_stdout := ou_stdout w @ [s]\<rparr>"

definition print_err :: "string \<Rightarrow> outputs \<Rightarrow> outputs" where
  "print_err s w = w\<lparr>ou_stderr := ou_stderr w @ [s]\<rparr>"

definition write_file :: "(string \<Rightarrow> string option) \<Rightarrow> (string \<Rightarrow> string) \<Rightarrow> string \<Rightarrow> string \<Rightarrow> outputs \<Rightarrow> outputs" where
  "write_file wr complain path content w = (case wr path of
     None \<Rightarrow> w\<lparr>ou_files := hm_insert path content (ou_files w)\<rparr>
   | Some e \<Rightarrow> print_err (complain e) w)"

definition emit_entry :: "(string \<Rightarrow> string option) \<Rightarrow> string \<times> string \<Rightarrow> outputs \<Rightarrow> outputs" where
  "emit_entry wr = (\<lambda>(key, content) w.
     if key = ''stdout'' then print_out content w
     else if key = ''stderr'' then print_err content w
     else write_file wr (\<lambda>e. ''handleSummary: failed to write to '' @ key @ '': '' @ e) key content w)"

text \<open>The summary hook: the report and the state of the run as one object; an error of the hook is
  built and dropped.\<close>

definition summary_result :: "('v, 'm) js_host \<Rightarrow> script_source \<Rightarrow> string \<Rightarrow> bool \<Rightarrow> duration \<Rightarrow> worker_env \<Rightarrow>
    (caught_error + 'v option) \<times> worker_env" where
  "summary_result J s report_json tty dur w = (case load_script J s w of (Inl e, w) \<Rightarrow> (Inl e, w) | (Inr m, w) \<Rightarrow>
     (case jh_function J m ''handleSummary'' of None \<Rightarrow> (Inr None, w) | Some f \<Rightarrow>
       (let data = (case jh_parse J report_json of Inl _ \<Rightarrow> jh_undefined J | Inr v \<Rightarrow> v);
            arg = (if jh_is_object J data then jh_with_state J tty (format_duration dur) data else Inr data)
        in case arg of Inl e \<Rightarrow> (Inl e, w) | Inr d \<Rightarrow>
          (case jh_call J f [d] w of (Inl e, w) \<Rightarrow> (Inl e, w) | (Inr v, w) \<Rightarrow> (Inr (Some v), w)))))"

definition run_handle_summary :: "('v, 'm) js_host \<Rightarrow> (string \<Rightarrow> string option) \<Rightarrow> script_source \<Rightarrow> string \<Rightarrow> bool \<Rightarrow>
    duration \<Rightarrow> worker_env \<Rightarrow> outputs \<Rightarrow> (string + unit) \<times> worker_env \<times> nat \<times> outputs" where
  "run_handle_summary J wr s report_json tty dur w out = (case jh_runtime J of Inl e \<Rightarrow> (Inl e, w, 0, out) | Inr _ \<Rightarrow>
     (case summary_result J s report_json tty dur w of
       (Inr (Some v), w) \<Rightarrow> (Inr (), w, 1,
          if jh_is_object J v then fold (emit_entry wr) (summary_entries J v (jh_keys J v)) out else out)
     | (_, w) \<Rightarrow> (Inr (), w, 1, out)))"

section \<open>Before the workers\<close>

text \<open>The check of the script: an error of the registration is ignored, the others end the run.\<close>

definition script_check :: "('v, 'm) js_host \<Rightarrow> ('m \<Rightarrow> string list) \<Rightarrow> config \<Rightarrow> script_source \<Rightarrow> worker_env \<Rightarrow>
    string option \<times> worker_env" where
  "script_check J exports c s w = (case jh_declare J (ss_path s) (ss_content s) of
     Inl e \<Rightarrow> (Some (''Script compilation failed:
'' @ format_js_error e), w)
   | Inr m \<Rightarrow> (case jh_eval J m w of
       (Inl e, w) \<Rightarrow> (Some (''Script evaluation failed:
'' @ format_js_error e), w)
     | (Inr _, w) \<Rightarrow> (validate_exports (exports m) c, w)))"

text \<open>A failed setup is reported and the run goes on without data; a script that does not pass the check
  ends it. The check has a channel without a receiver.\<close>

definition begin_run :: "('v, 'm) js_host \<Rightarrow> ('m \<Rightarrow> string list) \<Rightarrow> config \<Rightarrow> script_source \<Rightarrow> worker_env \<Rightarrow>
    (string + string option) \<times> string list \<times> worker_env" where
  "begin_run J exports c s w = (case run_setup J s w of (r, w, _) \<Rightarrow>
     (let (complaint, data) = (case r of Inl e \<Rightarrow> ([''Setup failed: '' @ e], None) | Inr d \<Rightarrow> ([], d))
      in case jh_runtime J of Inl e \<Rightarrow> (Inl e, complaint, w)
         | Inr _ \<Rightarrow> (case script_check J exports c s (w\<lparr>we_open := False\<rparr>) of
             (Some msg, w) \<Rightarrow> (Inl msg, complaint, w) | (None, w) \<Rightarrow> (Inr data, complaint, w))))"

text \<open>Before all this, the warm-up: ten connections, each sending one \<open>HEAD\<close> whose answer is ignored.\<close>

definition warmup_requests :: "(string \<Rightarrow> bool) \<Rightarrow> config \<Rightarrow> (string \<times> string) list" where
  "warmup_requests valid_uri c = (case c_warmup c of None \<Rightarrow> []
     | Some url \<Rightarrow> if valid_uri url then replicate 10 (''HEAD'', url) else [])"

section \<open>The start of a worker\<close>

datatype spawn_kind = ClosedSpawn string | RampingSpawn string | ArrivalSpawn string | PlainSpawn

definition worker_label :: "nat \<Rightarrow> string" where
  "worker_label i = ''[Worker '' @ show_nat i @ ''] ''"

definition scenario_label :: "string \<Rightarrow> string" where
  "scenario_label name = ''[Scenario: '' @ name @ ''] ''"

definition script_failure :: "spawn_kind \<Rightarrow> caught_error \<Rightarrow> string" where
  "script_failure k e = (case k of PlainSpawn \<Rightarrow> [] | ClosedSpawn n \<Rightarrow> scenario_label n | RampingSpawn n \<Rightarrow> scenario_label n
     | ArrivalSpawn n \<Rightarrow> scenario_label n) @ ''Script error:
'' @ format_js_error e"

text \<open>The scenario of the worker's thread and its global; a plain run has none.\<close>

definition name_scenario :: "('v, 'm) js_host \<Rightarrow> spawn_kind \<Rightarrow> worker_env \<Rightarrow> (caught_error + worker_env)" where
  "name_scenario J k w = (case k of PlainSpawn \<Rightarrow> Inr w
   | ClosedSpawn n \<Rightarrow> (case jh_set_global J of Inl e \<Rightarrow> Inl e | Inr _ \<Rightarrow> Inr (set_current_scenario n w))
   | RampingSpawn n \<Rightarrow> (case jh_set_global J of Inl e \<Rightarrow> Inl e | Inr _ \<Rightarrow> Inr (set_current_scenario n w))
   | ArrivalSpawn n \<Rightarrow> (case jh_set_global J of Inl e \<Rightarrow> Inl e | Inr _ \<Rightarrow> Inr (set_current_scenario n w)))"

text \<open>The function a worker runs, and what is printed on the way: closed and ramping executors name the
  missing function, the arrival-rate executors fall back silently.\<close>

definition with_default :: "string list \<Rightarrow> string \<Rightarrow> 'v option \<Rightarrow> string list \<times> 'v option" where
  "with_default missing gone f = (case f of Some f \<Rightarrow> (missing, Some f) | None \<Rightarrow> (missing @ [gone], None))"

definition find_function :: "('v, 'm) js_host \<Rightarrow> spawn_kind \<Rightarrow> string \<Rightarrow> 'm \<Rightarrow> string list \<times> 'v option" where
  "find_function J k exec_fn m = (let def = jh_function J m ''default'' in case k of
     PlainSpawn \<Rightarrow> with_default [] (''Script error: '' @ [CHR 0x27] @ ''default'' @ [CHR 0x27]
       @ '' function not found. Did you forget to export default function?'') def
   | ArrivalSpawn n \<Rightarrow> (case jh_function J m exec_fn of Some f \<Rightarrow> ([], Some f)
       | None \<Rightarrow> with_default [] (scenario_label n @ ''No function found. Worker exiting.'') def)
   | ClosedSpawn n \<Rightarrow> (case jh_function J m exec_fn of Some f \<Rightarrow> ([], Some f)
       | None \<Rightarrow> with_default [scenario_label n @ ''Function '' @ [CHR 0x27] @ exec_fn @ [CHR 0x27] @ '' not found, trying ''
            @ [CHR 0x27] @ ''default'' @ [CHR 0x27]]
           (scenario_label n @ ''No '' @ [CHR 0x27] @ ''default'' @ [CHR 0x27] @ '' function found either. Worker exiting.'') def)
   | RampingSpawn n \<Rightarrow> (case jh_function J m exec_fn of Some f \<Rightarrow> ([], Some f)
       | None \<Rightarrow> with_default [scenario_label n @ ''Function '' @ [CHR 0x27] @ exec_fn @ [CHR 0x27] @ '' not found, trying ''
            @ [CHR 0x27] @ ''default'' @ [CHR 0x27]]
           (scenario_label n @ ''No '' @ [CHR 0x27] @ ''default'' @ [CHR 0x27] @ '' function found either. Worker exiting.'') def))"

text \<open>From the spawn to the worker loop: what is printed, and the function with its argument.\<close>

definition start_coroutine :: "('v, 'm) js_host \<Rightarrow> spawn_kind \<Rightarrow> nat \<Rightarrow> script_source \<Rightarrow> string \<Rightarrow> string option \<Rightarrow>
    worker_env \<Rightarrow> string list \<times> ('v \<times> 'v) option \<times> worker_env \<times> nat" where
  "start_coroutine J k i s exec_fn data w = (case jh_runtime J of
     Inl e \<Rightarrow> ([worker_label i @ ''Failed to create JS runtime: '' @ e], None, w, 0)
   | Inr _ \<Rightarrow> (case jh_register J of
       Inl e \<Rightarrow> ([worker_label i @ ''Failed to register globals: '' @ jh_plain J e], None, w, 1)
     | Inr _ \<Rightarrow> (case name_scenario J k w of
         Inl e \<Rightarrow> ([worker_label i @ ''Failed to set scenario: '' @ jh_plain J e], None, w, 1)
       | Inr w \<Rightarrow> (case jh_declare J (ss_path s) (ss_content s) of
           Inl e \<Rightarrow> ([script_failure k e], None, w, 1)
         | Inr m \<Rightarrow> (case jh_eval J m w of
             (Inl e, w) \<Rightarrow> ([script_failure k e], None, w, 1)
           | (Inr _, w) \<Rightarrow> (case find_function J k exec_fn m of (msgs, f) \<Rightarrow>
               (msgs, map_option (\<lambda>f. (f, setup_argument J data)) f, w, 1)))))))"

text \<open>The four places that spawn one.\<close>

definition start_closed_worker :: "('v, 'm) js_host \<Rightarrow> string \<Rightarrow> scenario_config \<Rightarrow> nat \<Rightarrow> script_source \<Rightarrow> string option \<Rightarrow>
    worker_env \<Rightarrow> string list \<times> ('v \<times> 'v) option \<times> worker_env \<times> nat" where
  "start_closed_worker J name sc i s data w = start_coroutine J (ClosedSpawn name) i s (exec_name sc) data w"

definition start_ramping_worker :: "('v, 'm) js_host \<Rightarrow> string \<Rightarrow> scenario_config \<Rightarrow> nat \<Rightarrow> script_source \<Rightarrow> string option \<Rightarrow>
    worker_env \<Rightarrow> string list \<times> ('v \<times> 'v) option \<times> worker_env \<times> nat" where
  "start_ramping_worker J name sc i s data w = start_coroutine J (RampingSpawn name) i s (exec_name sc) data w"

definition start_arrival_worker :: "('v, 'm) js_host \<Rightarrow> string \<Rightarrow> scenario_config \<Rightarrow> nat \<Rightarrow> script_source \<Rightarrow> string option \<Rightarrow>
    worker_env \<Rightarrow> string list \<times> ('v \<times> 'v) option \<times> worker_env \<times> nat" where
  "start_arrival_worker J name sc i s data w = start_coroutine J (ArrivalSpawn name) i s (exec_name sc) data w"

definition start_plain_worker :: "('v, 'm) js_host \<Rightarrow> nat \<Rightarrow> script_source \<Rightarrow> string option \<Rightarrow>
    worker_env \<Rightarrow> string list \<times> ('v \<times> 'v) option \<times> worker_env \<times> nat" where
  "start_plain_worker J i s data w = start_coroutine J PlainSpawn i s ''default'' data w"

section \<open>After the main loop\<close>

record run_settings =
  rs_json_output :: bool
  rs_export_json :: "string option"
  rs_export_html :: "string option"
  rs_metrics_url :: "string option"
  rs_metrics_auth :: "string option"

text \<open>What the end of a run reads: the serializers, whether a file can be written and a request built,
  the local time, whether stdout is a terminal, how long the test ran, and for the note on leaked runtimes
  whether it is wanted, the heap size and the runtimes leaked so far.\<close>

record 'h end_world =
  ew_agg_json :: "'h stats_aggregator \<Rightarrow> string"
  ew_report_json :: "report_stats \<Rightarrow> string"
  ew_write_error :: "string \<Rightarrow> string option"
  ew_buildable :: "string \<Rightarrow> (string \<times> string) option \<Rightarrow> bool"
  ew_now :: string
  ew_tty :: bool
  ew_elapsed :: duration
  ew_debug_leaks :: bool
  ew_heap_size :: nat
  ew_leaked :: nat

record run_end =
  re_result :: "string + report_stats"
  re_outputs :: outputs
  re_posts :: "(string \<times> (string \<times> string) option \<times> json) list"
  re_history :: "run_row list option"

text \<open>The wait for the terminal interface to leave its screen: polls of its flag within three seconds.\<close>

fun screen_wait :: "(bool \<times> duration) list \<Rightarrow> nat" where
  "screen_wait [] = 0"
| "screen_wait ((on_screen, elapsed) # polls) = (if on_screen \<and> elapsed < 3 * secs then screen_wait polls + 1 else 0)"

definition print_result :: "'h hist_ops \<Rightarrow> 'h end_world \<Rightarrow> run_settings \<Rightarrow> 'h stats_aggregator \<Rightarrow> outputs \<Rightarrow>
    outputs outcome" where
  "print_result H W rs a out = (if rs_json_output rs then Returns (print_out (ew_agg_json W a) out)
     else (case print_report H a of Panics \<Rightarrow> Panics | Returns ls \<Rightarrow> Returns (fold print_out ls out)))"

definition export_to :: "'h end_world \<Rightarrow> string \<Rightarrow> string option \<Rightarrow> string \<Rightarrow> outputs \<Rightarrow> outputs" where
  "export_to W kind path content out = (case path of None \<Rightarrow> out
     | Some p \<Rightarrow> write_file (ew_write_error W) (\<lambda>e. ''Failed to export '' @ kind @ '' to '' @ p @ '': '' @ e) p content out)"

definition summary_posts :: "'h end_world \<Rightarrow> run_settings \<Rightarrow> report_stats \<Rightarrow>
    (string \<times> (string \<times> string) option \<times> json) list" where
  "summary_posts W rs r = (case (rs_metrics_url rs, summary_payload r) of
     (Some url, Some payload) \<Rightarrow>
       (let auth = (case rs_metrics_auth rs of None \<Rightarrow> None | Some h \<Rightarrow> auth_header h)
        in if ew_buildable W (summary_url url) auth then [(summary_url url, auth, payload)] else [])
   | _ \<Rightarrow> [])"

text \<open>The default history records every run under the path of its script, before the thresholds are
  checked.\<close>

definition record_run :: "'h end_world \<Rightarrow> script_source \<Rightarrow> report_stats \<Rightarrow> run_row list option \<Rightarrow> run_row list option" where
  "record_run W s r db = map_option (\<lambda>rows. fst (save_run (ew_report_json W) (ew_now W) (ss_path s) r rows)) db"

definition print_failures :: "config \<Rightarrow> string list \<Rightarrow> outputs \<Rightarrow> outputs" where
  "print_failures c failures out = (if failures = [] then out else
     fold (\<lambda>f. print_err (''  '' @ f)) failures (print_err (if c_abort_on_fail c = Some True then ''
Threshold failures:'' else ''
Threshold failures (warnings):'') out))"

text \<open>The note on leaked runtimes, printed on request.\<close>

definition leak_note :: "'h end_world \<Rightarrow> nat \<Rightarrow> outputs \<Rightarrow> outputs" where
  "leak_note W leaked out = (if leaked > 0 \<and> ew_debug_leaks W then
     print_err (''Note: '' @ show_nat leaked @ '' JS runtime(s) were leaked to prevent shutdown crashes (~''
       @ fmt_fixed 1 (f_div (f_of_nat (leaked * ew_heap_size W)) (Fin 1048576)) @ '' MB)'') out else out)"

definition run_files :: "'h end_world \<Rightarrow> run_settings \<Rightarrow> 'h stats_aggregator \<Rightarrow> report_stats \<Rightarrow> outputs \<Rightarrow> outputs" where
  "run_files W rs a r out = export_to W ''HTML'' (rs_export_html rs) (generate_html (ew_now W) r)
     (export_to W ''JSON'' (rs_export_json rs) (ew_agg_json W a) out)"

text \<open>The end of \<open>run_load_test\<close> over the merged aggregate \<open>a\<close>; a panic is the run's own error.\<close>

definition finish_run :: "'h hist_ops \<Rightarrow> ('v, 'm) js_host \<Rightarrow> 'h end_world \<Rightarrow> run_settings \<Rightarrow> config \<Rightarrow> script_source \<Rightarrow>
    string option \<Rightarrow> 'h stats_aggregator \<Rightarrow> run_row list option \<Rightarrow> worker_env \<Rightarrow> outputs \<Rightarrow> run_end" where
  "finish_run H J W rs c s data a db w out = (case print_result H W rs a out of
     Panics \<Rightarrow> \<lparr>re_result = Inl ''Test thread panicked'', re_outputs = out, re_posts = [], re_history = db\<rparr>
   | Returns out \<Rightarrow>
      (let r = to_report H a;
           out = run_files W rs a r out;
           posts = summary_posts W rs r;
           db = record_run W s r db;
           (_, w, l1) = run_teardown J s data w;
           (_, w, l2, out) = run_handle_summary J (ew_write_error W) s (ew_report_json W r) (ew_tty W) (ew_elapsed W) w out;
           out = print_failures c (run_failures H a c) out;
           result = run_outcome H a c
       in \<lparr>re_result = result,
           re_outputs = (case result of Inl _ \<Rightarrow> out | Inr _ \<Rightarrow> leak_note W (ew_leaked W + l1 + l2) out),
           re_posts = posts, re_history = db\<rparr>))"

section \<open>Properties\<close>

text \<open>The hooks that end a run can print and write files, and nothing else: whatever the script's
  \<open>teardown\<close> and \<open>handleSummary\<close> do, or however they fail, the verdict of the run is that of its
  thresholds, and what is posted and recorded is the same.\<close>

theorem hooks_keep_verdict:
  assumes "print_result H W rs a out \<noteq> Panics"
  shows "re_result (finish_run H J W rs c s data a db w out) = run_outcome H a c
    \<and> re_posts (finish_run H J W rs c s data a db w out) = summary_posts W rs (to_report H a)
    \<and> re_history (finish_run H J W rs c s data a db w out) = record_run W s (to_report H a) db"
  using assms by (auto simp: finish_run_def Let_def split: outcome.splits prod.splits)

lemma emit_file:
  "hm_get (ou_files (emit_entry wr (k, c) out)) p =
     (if p = k \<and> k \<noteq> ''stdout'' \<and> k \<noteq> ''stderr'' \<and> wr k = None then Some c else hm_get (ou_files out) p)"
  by (simp add: emit_entry_def print_out_def print_err_def write_file_def hmap split: option.split)

lemma emit_printed:
  "ou_stdout (emit_entry wr (k, c) out) = ou_stdout out @ (if k = ''stdout'' then [c] else [])"
  by (simp add: emit_entry_def print_out_def print_err_def write_file_def split: option.split)


text \<open>The data of the setup: every worker that starts, of whatever executor, gets the same argument as
  \<open>teardown\<close>, and runs an exported function: the one it names, or \<open>default\<close>.\<close>

theorem workers_get_setup_data:
  assumes "start_coroutine J k i s exec_fn data w = (msgs, Some (f, d), w', l)"
  shows "d = setup_argument J data
    \<and> (\<exists>m. jh_declare J (ss_path s) (ss_content s) = Inr m
        \<and> (jh_function J m exec_fn = Some f \<or> jh_function J m ''default'' = Some f))"
  using assms unfolding start_coroutine_def find_function_def with_default_def Let_def
  by (auto split: sum.splits prod.splits spawn_kind.splits option.splits)

lemma missing_exec_None:
  "missing_exec exports scs = None \<Longrightarrow> (name, sc) \<in> set scs \<Longrightarrow>
     exec_name sc \<in> set exports \<or> ''default'' \<in> set exports"
  by (induction exports scs rule: missing_exec.induct) (auto simp: exec_name_def Let_def split: if_splits option.splits)

text \<open>The executors a worker can be spawned by: the plain run without scenarios, or one of a scenario.\<close>

definition spawned_by :: "config \<Rightarrow> spawn_kind \<Rightarrow> string \<Rightarrow> bool" where
  "spawned_by c k exec_fn = (case c_scenarios c of None \<Rightarrow> k = PlainSpawn
     | Some scs \<Rightarrow> list_ex (\<lambda>(name, sc). exec_fn = exec_name sc
         \<and> (k = ClosedSpawn name \<or> k = RampingSpawn name \<or> k = ArrivalSpawn name)) scs)"

text \<open>What the check relies on: the bridge registers, and evaluating a module succeeds or fails whatever
  the state of the thread.\<close>

definition steady_host :: "('v, 'm) js_host \<Rightarrow> bool" where
  "steady_host J \<longleftrightarrow> jh_register J = Inr () \<and> jh_set_global J = Inr ()
     \<and> (\<forall>m w w'. fst (jh_eval J m w) = fst (jh_eval J m w'))"

lemma begin_run_checked:
  assumes "begin_run J exports c s w = (Inr data, msgs, w')"
  shows "jh_runtime J = Inr () \<and> (\<exists>m v. jh_declare J (ss_path s) (ss_content s) = Inr m
     \<and> fst (jh_eval J m v) = Inr () \<and> validate_exports (exports m) c = None)"
proof -
  obtain r w1 l1 where st: "run_setup J s w = (r, w1, l1)" by (metis prod_cases3)
  obtain complaint d where "(case r of Inl e \<Rightarrow> ([''Setup failed: '' @ e], None) | Inr d \<Rightarrow> ([], d)) = (complaint, d)" by force
  with assms st have rt: "jh_runtime J = Inr ()"
    and ck: "fst (script_check J exports c s (w1\<lparr>we_open := False\<rparr>)) = None"
    by (simp_all add: begin_run_def split: sum.splits prod.splits option.splits)
  from ck obtain m where m: "jh_declare J (ss_path s) (ss_content s) = Inr m"
    by (auto simp: script_check_def split: sum.splits)
  obtain x v where v: "jh_eval J m (w1\<lparr>we_open := False\<rparr>) = (x, v)" by force
  with ck m have "x = Inr ()" "validate_exports (exports m) c = None"
    by (simp_all add: script_check_def split: sum.splits)
  with rt m v show ?thesis by (metis fst_conv)
qed


text \<open>A small engine for examples: values are texts, a module is the list of the names it exports, and
  calling a function gives its name.\<close>

definition text_host :: "string list \<Rightarrow> (string, string list) js_host" where
  "text_host names = \<lparr>jh_runtime = Inr (), jh_register = Inr (), jh_set_global = Inr (),
     jh_declare = (\<lambda>_ _. Inr names), jh_eval = (\<lambda>_ w. (Inr (), w)),
     jh_function = (\<lambda>m n. if n \<in> set m then Some n else None), jh_call = (\<lambda>f _ w. (Inr f, w)),
     jh_undefined = ''undefined'', jh_is_undefined = (\<lambda>v. v = ''undefined''), jh_stringify = Inr, jh_parse = Inr,
     jh_is_object = (\<lambda>_. False), jh_with_state = (\<lambda>_ _ v. Inr v), jh_keys = (\<lambda>_. []), jh_get = (\<lambda>v _. Inr v),
     jh_is_string = (\<lambda>_. True), jh_string = Some, jh_plain = (\<lambda>_. ''error'')\<rparr>"


theorem workers_get_setup_data_witness:
  "\<exists>m. jh_declare (text_host [''default'']) ''a.js'' [] = Inr m \<and> jh_function (text_host [''default'']) m ''default'' = Some ''default''"
proof -
  have "start_coroutine (text_host [''default'']) PlainSpawn 1 \<lparr>ss_path = ''a.js'', ss_content = []\<rparr> ''default'' (Some ''x'') new_env
      = ([], Some (''default'', ''x''), new_env, 1)"
    by (simp add: start_coroutine_def text_host_def name_scenario_def find_function_def with_default_def setup_argument_def)
  from workers_get_setup_data [OF this] show ?thesis by simp
qed

theorem hooks_keep_verdict_witness:
  "\<exists>W rs out. re_result (finish_run list_hist (text_host []) W rs default_config \<lparr>ss_path = ''a.js'', ss_content = []\<rparr> None
     (aggregator_new list_hist) None new_env out) = run_outcome list_hist (aggregator_new list_hist) default_config"
proof -
  let ?W = "\<lparr>ew_agg_json = (\<lambda>_. ''{}''), ew_report_json = (\<lambda>_. ''{}''), ew_write_error = (\<lambda>_. None), ew_buildable = (\<lambda>_ _. True),
    ew_now = [], ew_tty = False, ew_elapsed = 0, ew_debug_leaks = False, ew_heap_size = 0, ew_leaked = 0\<rparr>"
  let ?rs = "\<lparr>rs_json_output = True, rs_export_json = None, rs_export_html = None, rs_metrics_url = None, rs_metrics_auth = None\<rparr>"
  let ?out = "\<lparr>ou_stdout = [], ou_stderr = [], ou_files = []\<rparr>"
  have "print_result list_hist ?W ?rs (aggregator_new list_hist) ?out \<noteq> Panics" by (simp add: print_result_def)
  from hooks_keep_verdict [OF this] show ?thesis by blast
qed

section \<open>What the hooks print\<close>

definition lines_sent :: "worker_env \<Rightarrow> bool" where
  "lines_sent w \<longleftrightarrow> we_open w \<and> \<not> we_tui w \<and> we_sent w = map Log (we_stdout w)"

lemma print_thread_logs: "print_thread (map Log ls) = ls"
  by (induction ls) simp_all

lemma lines_sent_console: "lines_sent w \<Longrightarrow> lines_sent (console f args w)"
  by (cases f) (simp_all add: lines_sent_def console_def log_with_level_def console_table_def send_metric_def
      unless_tui_def println_def)

text \<open>Every line a hook prints while the terminal interface is not shown is printed twice: once by the
  call, once by the thread that receives it as a log metric.\<close>

theorem hook_prints_twice:
  assumes "lines_sent w"
  shows "print_thread (we_sent (fold (\<lambda>(f, args). console f args) cs w))
    = we_stdout (fold (\<lambda>(f, args). console f args) cs w)"
proof -
  have "lines_sent (fold (\<lambda>(f, args). console f args) cs w)"
    using assms by (induction cs arbitrary: w) (auto intro: lines_sent_console)
  then show ?thesis by (simp add: lines_sent_def print_thread_logs)
qed

theorem hook_prints_twice_witness:
  "print_thread (we_sent (fold (\<lambda>(f, args). console f args) [(ConsoleLog, [JsString ''seeded''])] new_env)) = [''seeded'']"
  using hook_prints_twice [of new_env "[(ConsoleLog, [JsString ''seeded''])]"]
  by (simp add: lines_sent_def new_env_def console_def log_with_level_def send_metric_def unless_tui_def println_def
      filtered_def log_line_def level_prefix_def format_value_def)

text \<open>The thread stops at the first metric that is no log line: nothing logged after it is received.\<close>

theorem print_thread_stops:
  assumes "\<And>msg. m \<noteq> Log msg"
  shows "print_thread (map Log ls @ m # ms) = ls"
proof -
  have "print_thread (m # ms) = []"
  proof (cases m)
    case (Log msg)
    with assms show ?thesis by blast
  qed simp_all
  then show ?thesis by (induction ls) simp_all
qed

theorem print_thread_stops_witness: "print_thread [Log ''a'', Check ''c'' True None, Log ''b''] = [''a'']"
  using print_thread_stops [of "Check ''c'' True None" "[''a'']" "[Log ''b'']"] by simp

text \<open>With \<open>--save-history\<close> a run is recorded twice: by the engine under the path of the script, without
  its threshold failures, and by the command line under the file's name.\<close>

theorem history_saved_twice:
  "\<exists>rows'. fst (save_history (ew_report_json W) now scenario r' (record_run W s r (Some rows))) = Some rows'
    \<and> length rows' = length rows + 2 \<and> map run_scenario (take (length rows + 1) rows') = map run_scenario rows @ [ss_path s]"
  by (simp add: record_run_def save_history_def save_run_def Let_def)

end
