(* ===== verification/CommandLine.thy ===== *)
theory CommandLine
  imports Lifecycle Memory
begin

text \<open>
  The command line as a whole (\<open>src/main.rs\<close>): the commands and their arguments, the path \<open>fusillade
  run\<close> takes from its arguments to the engine, and the commands that had no definition yet (\<open>exec\<close>,
  \<open>schema\<close>, \<open>status\<close>, \<open>history\<close>, the two ways of replaying). Framed output is the label and the text
  between the borders.
\<close>

section \<open>Commands\<close>

text \<open>The arguments of \<open>run\<close>: those that go into the configuration (\<open>cli_run\<close>), and the others.\<close>

record run_args = cli_run +
  ra_scenario :: string
  ra_config :: "string option"
  ra_headless :: bool
  ra_json :: bool
  ra_export_json :: "string option"
  ra_export_html :: "string option"
  ra_out :: "string option"
  ra_metrics_url :: "string option"
  ra_metrics_auth :: "string option"
  ra_estimate_cost :: "f64 option option"
  ra_interactive :: bool
  ra_cloud :: bool
  ra_region :: string
  ra_watch :: bool
  ra_no_memory_check :: bool
  ra_save_history :: bool
  ra_capture_errors :: "string option option"
  ra_log_level :: string
  ra_log_filter :: "string option"
  ra_dry_run :: bool

datatype cli_command =
    RunCommand run_args
  | InitCommand "string option" bool bool
  | ValidateCommand string "string option"
  | CompletionCommand string
  | WorkerCommand string "string option" "string option"
  | ControllerCommand string "string option"
  | ExecCommand string
  | ConvertCommand string "string option"
  | SchemaCommand "string option"
  | RecordCommand string nat
  | ReplayCommand string bool
  | ExportCommand string string "string option"
  | LoginCommand string
  | LogoutCommand
  | WhoamiCommand
  | StatusCommand
  | HistoryCommand "int option" nat
  | CompareCommand string string

section \<open>From the arguments to the run\<close>

text \<open>The warning before a run that may not fit into memory, as label and value.\<close>

definition preflight_lines :: "memory_info \<Rightarrow> bool \<Rightarrow> bool \<Rightarrow> config \<Rightarrow> (string \<times> string) list" where
  "preflight_lines i skip_check memory_safe c = (if skip_check then [] else
     (let p = preflight_check i (case c_workers c of None \<Rightarrow> 1 | Some n \<Rightarrow> n) in
      if pf_safe p then [] else
        [(''MEMORY WARNING'', []),
         (''Requested workers:'', show_nat (pf_requested p)),
         (''Estimated max:'', show_nat (pf_estimated_max p) @ '' (based on available RAM)''),
         (''Available RAM:'', format_bytes (pf_available p)),
         (''Estimated needed:'', format_bytes (pf_estimated_needed p)),
         (''The test may run out of memory and crash.'', []),
         (''Use --no-memory-check to suppress this warning.'', [])]
        @ (if memory_safe then [(''Memory-safe mode enabled: will throttle if needed.'', [])] else [])))"

definition capture_path :: "string option option \<Rightarrow> string option" where
  "capture_path a = (case a of None \<Rightarrow> None | Some None \<Rightarrow> Some ''fusillade-errors.json'' | Some (Some p) \<Rightarrow> Some p)"

text \<open>What the start of a run reads: the script and its options, the configuration file, the memory, the
  report of the estimating run, the terminal and the answer typed there.\<close>

record run_readings =
  rd_engine :: "string + unit"
  rd_script :: "string + string"
  rd_transpile :: "string \<Rightarrow> string \<Rightarrow> string + string"
  rd_options :: "string + config option"
  rd_file_config :: "string + config"
  rd_memory :: memory_info
  rd_estimate :: "string + report_stats"
  rd_tty :: bool
  rd_answer :: "string option"

record engine_call =
  ec_config :: config
  ec_content :: string
  ec_settings :: run_settings
  ec_tui :: bool
  ec_reader :: bool
  ec_capture :: "string option"

datatype run_path = ToCloud | ToWatch | Planned "(string \<times> string) list" | Aborted | Failed string | Panicked
  | Starts engine_call

definition engine_call_of :: "run_args \<Rightarrow> config \<Rightarrow> string \<Rightarrow> engine_call" where
  "engine_call_of a c content = (let headless_mode = (ra_headless a \<or> ra_json a) in
     \<lparr>ec_config = c, ec_content = content,
      ec_settings = \<lparr>rs_json_output = headless_mode, rs_export_json = ra_export_json a, rs_export_html = ra_export_html a,
        rs_metrics_url = ra_metrics_url a, rs_metrics_auth = ra_metrics_auth a\<rparr>,
      ec_tui = (\<not> headless_mode), ec_reader = (headless_mode \<and> ra_interactive a),
      ec_capture = capture_path (ra_capture_errors a)\<rparr>)"

text \<open>The estimate runs first and may be declined.\<close>

definition after_estimate :: "run_readings \<Rightarrow> run_args \<Rightarrow> config \<Rightarrow> run_path \<Rightarrow> run_path" where
  "after_estimate rd a c start = (case ra_estimate_cost a of None \<Rightarrow> start
     | Some threshold \<Rightarrow> (case rd_estimate rd of Inl e \<Rightarrow> Failed e
       | Inr r \<Rightarrow> (case estimate_cost r c threshold of Panics \<Rightarrow> Panicked
         | Returns _ \<Rightarrow> if proceed (rd_tty rd) (rd_answer rd) then start else Aborted)))"

definition run_fusillade :: "run_readings \<Rightarrow> run_args \<Rightarrow> run_path" where
  "run_fusillade rd a =
     (if ra_cloud a then ToCloud else if ra_watch a then ToWatch
      else case rd_engine rd of Inl e \<Rightarrow> Failed e | Inr _ \<Rightarrow>
        (case rd_script rd of Inl e \<Rightarrow> Failed (''Failed to read script '' @ [CHR 0x27] @ ra_scenario a @ [CHR 0x27] @ '': '' @ e)
         | Inr source \<Rightarrow> (case maybe_transpile (rd_transpile rd) source (ra_scenario a) of Inl e \<Rightarrow> Failed e
           | Inr content \<Rightarrow> (case rd_options rd of Inl e \<Rightarrow> Failed (''Failed to parse script config: '' @ e)
             | Inr options \<Rightarrow>
                (let file = (case ra_config a of None \<Rightarrow> Inr None
                       | Some _ \<Rightarrow> (case rd_file_config rd of Inl e \<Rightarrow> Inl e | Inr fc \<Rightarrow> Inr (Some fc)))
                 in case file of Inl e \<Rightarrow> Failed e
                    | Inr fc \<Rightarrow> (let c = final_config options fc (cli_run.truncate a) in
                        if ra_dry_run a then Planned (dry_run_plan (ra_scenario a) c)
                        else after_estimate rd a c (Starts (engine_call_of a c content))))))))"

section \<open>After the run\<close>

text \<open>Exporting, recording and the exit of a run that returned its report.\<close>

definition failure_reasons :: "report_stats \<Rightarrow> string list" where
  "failure_reasons r =
     (if rep_failed_iterations r > 0 then [show_nat (rep_failed_iterations r) @ '' iteration(s) failed''] else [])
     @ (if rep_threshold_failures r \<noteq> [] then [show_nat (length (rep_threshold_failures r)) @ '' threshold(s) breached''] else [])"

definition run_failure_line :: "report_stats \<Rightarrow> string option" where
  "run_failure_line r = (if rep_failed_iterations r > 0 \<or> rep_threshold_failures r \<noteq> []
     then Some (''
Run failed: '' @ join_str '', '' (failure_reasons r) @ ''.'') else None)"

section \<open>The other commands\<close>

text \<open>\<open>exec\<close>: only a failure to create the engine is a failure of the command.\<close>

definition exec_command :: "string + unit \<Rightarrow> (string \<Rightarrow> string + unit) \<Rightarrow> string \<Rightarrow> string + unit" where
  "exec_command engine run script = (case engine of Inl e \<Rightarrow> Inl e | Inr _ \<Rightarrow> (let _ = run script in Inr ()))"

text \<open>\<open>convert\<close> and \<open>schema\<close>: the text is written where asked, or printed.\<close>

definition write_or_print :: "(string \<Rightarrow> string option) \<Rightarrow> string option \<Rightarrow> string \<Rightarrow> outputs \<Rightarrow> (string + unit) \<times> outputs" where
  "write_or_print wr output content out = (case output of None \<Rightarrow> (Inr (), print_out content out)
     | Some p \<Rightarrow> (case wr p of Some e \<Rightarrow> (Inl e, out)
       | None \<Rightarrow> (Inr (), out\<lparr>ou_files := hm_insert p content (ou_files out)\<rparr>)))"

text \<open>\<open>status\<close>.\<close>

definition status_report :: "string \<Rightarrow> (string \<Rightarrow> cloud_auth option) \<Rightarrow> cloud_home \<Rightarrow> memory_info \<Rightarrow> nat \<Rightarrow> string list" where
  "status_report version decode h i cpus =
     [''Fusillade v'' @ version, []]
     @ (if is_logged_in decode h then [''Cloud:    Connected'', ''  API:    '' @ get_api_url decode h]
        else [''Cloud:    Not connected''])
     @ [[], ''System:'', ''  RAM:    '' @ format_bytes (mi_available i) @ '' / '' @ format_bytes (mi_total i),
        ''  CPUs:   '' @ show_nat cpus, ''  Max Workers: ~'' @ show_nat (estimate_max_workers (mi_available i))]"

text \<open>\<open>history\<close>: one run as JSON, or the latest runs as a table.\<close>

definition show_run :: "(string \<Rightarrow> report_stats option) \<Rightarrow> (report_stats \<Rightarrow> string) \<Rightarrow> nat \<Rightarrow> run_row list \<Rightarrow> string list" where
  "show_run of_json pretty i rows = (case get_report of_json i rows of
     Some r \<Rightarrow> [''Run #'' @ show_nat i @ '' Report'', replicate 60 (CHR ''=''), pretty r]
   | None \<Rightarrow> [''Failed to load run #'' @ show_nat i])"

definition history_row :: "nat \<times> string \<times> string \<Rightarrow> string" where
  "history_row = (\<lambda>(i, time, scenario). pad_right 6 (show_nat i) @ '' '' @ pad_right 24 time @ '' '' @ scenario)"

definition history_lines :: "nat \<Rightarrow> run_row list \<Rightarrow> string list" where
  "history_lines limit rows = (let runs = list_runs limit rows in
     if runs = [] then [''No test runs in history.'', ''Run a test with --save-history to start tracking.'']
     else [''Recent Test Runs'', replicate 60 (CHR ''=''), pad_right 6 ''ID'' @ '' '' @ pad_right 24 ''Time'' @ '' Scenario'',
         replicate 60 (CHR ''-'')] @ map history_row runs @ [[], ''Use '' @ [CHR 0x27] @ ''fusillade history --show <ID>'' @ [CHR 0x27]
         @ '' to view details.''])"

text \<open>\<open>replay\<close>: in parallel each request has a thread, which may panic; in sequence each is sent after the
  answer of the one before, with a pause of 100 ms.\<close>

type_synonym answer = "string + (nat \<times> string)"

definition parallel_results :: "captured_request list \<Rightarrow> answer option list \<Rightarrow> (nat \<times> string \<times> string \<times> answer) list" where
  "parallel_results rs answers = sort_key fst (concat (map (\<lambda>(i, r, a). case a of None \<Rightarrow> []
     | Some x \<Rightarrow> [(i, cr_method r, cr_url r, x)]) (zip [0..<length rs] (zip rs answers))))"

definition replay_parallel :: "captured_request list \<Rightarrow> answer option list \<Rightarrow> string list" where
  "replay_parallel rs answers = concat (map (\<lambda>(i, m, url, a).
     (''
['' @ show_nat (i + 1) @ ''] '' @ m @ '' '' @ url) # replay_lines a) (parallel_results rs answers))"

definition replay_sequential :: "captured_request list \<Rightarrow> answer list \<Rightarrow> string list" where
  "replay_sequential rs answers = concat (map (\<lambda>(i, r, a).
     (''
['' @ show_nat (i + 1) @ ''/'' @ show_nat (length rs) @ ''] '' @ cr_method r @ '' '' @ cr_url r) # replay_lines a)
     (zip [0..<length rs] (zip rs answers)))"

definition replay_command :: "bool \<Rightarrow> captured_request list \<Rightarrow> answer option list \<Rightarrow> string list" where
  "replay_command at_once rs answers = (if rs = [] then [''No failed requests found in file.'']
     else [''Replaying '' @ show_nat (length rs) @ '' failed requests'' @ (if at_once then '' in parallel'' else '' sequentially'') @ ''...'']
       @ (if at_once then replay_parallel rs answers else replay_sequential rs (map the answers)) @ [''
Replay complete.''])"

section \<open>Properties\<close>


definition plain_args :: run_args where
  "plain_args = \<lparr>cli_workers = None, cli_duration = None, cli_jitter = None, cli_drop = None,
     cli_no_endpoint_tracking = False, cli_memory_safe = False, cli_iterations = None, cli_warmup = None,
     cli_response_sink = False, cli_abort_on_fail = False, cli_insecure = False, cli_no_pool = False,
     cli_env_passthrough = False, cli_max_redirects = None, cli_user_agent = None, cli_thresholds = [],
     ra_scenario = ''a.js'', ra_config = None, ra_headless = True, ra_json = False, ra_export_json = None,
     ra_export_html = None, ra_out = None, ra_metrics_url = None, ra_metrics_auth = None, ra_estimate_cost = None,
     ra_interactive = False, ra_cloud = False, ra_region = ''us-east-1'', ra_watch = False, ra_no_memory_check = False,
     ra_save_history = False, ra_capture_errors = None, ra_log_level = ''info'', ra_log_filter = None, ra_dry_run = False\<rparr>"

definition plain_readings :: run_readings where
  "plain_readings = \<lparr>rd_engine = Inr (), rd_script = Inr ''x'', rd_transpile = (\<lambda>src _. Inr src), rd_options = Inr None,
     rd_file_config = Inl ''no file'', rd_memory = \<lparr>mi_available = 0, mi_total = 0, mi_current_rss = 0\<rparr>,
     rd_estimate = Inl ''none'', rd_tty = False, rd_answer = None\<rparr>"

lemma plain_starts: "run_fusillade plain_readings plain_args = Starts (engine_call_of plain_args
     (final_config None None (cli_run.truncate plain_args)) ''x'')"
proof -
  have "is_typescript ''a.js'' = False" by code_simp
  then show ?thesis
    by (simp add: run_fusillade_def plain_args_def plain_readings_def maybe_transpile_def after_estimate_def)
qed


text \<open>\<open>--headless\<close> alone prints the result as JSON: the engine is told to as in the \<open>--json\<close> mode.\<close>

lemma headless_prints_json:
  "ra_headless a \<Longrightarrow> print_result H W (ec_settings (engine_call_of a c content)) agg out
     = Returns (print_out (ew_agg_json W agg) out)"
  by (simp add: engine_call_of_def print_result_def Let_def)

text \<open>An error of the script never fails \<open>exec\<close>.\<close>

lemma exec_hides_errors: "exec_command (Inr ()) run script = Inr ()"
  by (simp add: exec_command_def)

text \<open>Replaying in parallel reports the same exchanges as replaying in sequence: if no thread panics, every
  captured request once, in the order of the file, with its answer.\<close>

theorem parallel_replay_complete:
  assumes "length answers = length rs"
  shows "parallel_results rs (map Some answers)
    = map (\<lambda>(i, r, a). (i, cr_method r, cr_url r, a)) (zip [0..<length rs] (zip rs answers))"
proof -
  let ?xs = "map (\<lambda>(i, r, a). (i, cr_method r, cr_url r, a)) (zip [0..<length rs] (zip rs answers))"
  have same: "concat (map (\<lambda>(i, r, a). case a of None \<Rightarrow> [] | Some x \<Rightarrow> [(i, cr_method r, cr_url r, x)])
      (zip is (zip rs' (map Some as)))) = map (\<lambda>(i, r, a). (i, cr_method r, cr_url r, a)) (zip is (zip rs' as))" for "is" rs' as
  proof (induction "is" arbitrary: rs' as)
    case (Cons i "is")
    show ?case by (cases rs'; cases as) (simp_all add: Cons.IH)
  qed simp
  have ordered: "sorted (map fst ?xs)"
  proof -
    have "map fst ?xs = map fst (zip [0..<length rs] (zip rs answers))" by (simp add: case_prod_beta comp_def)
    then show ?thesis using assms by simp
  qed
  show ?thesis by (simp only: parallel_results_def same sort_key_id_if_sorted [OF ordered])
qed

theorem parallel_replay_complete_witness:
  "parallel_results [\<lparr>cr_timestamp = [], cr_method = ''GET'', cr_url = ''http://a/'', cr_headers = [], cr_body = None,
      cr_status = 500, cr_error = None, cr_response_body = None\<rparr>] [Some (Inr (200, ''ok''))]
    = [(0, ''GET'', ''http://a/'', Inr (200, ''ok''))]"
  using parallel_replay_complete [of "[Inr (200, ''ok'')]" "[\<lparr>cr_timestamp = [], cr_method = ''GET'', cr_url = ''http://a/'',
      cr_headers = [], cr_body = None, cr_status = 500, cr_error = None, cr_response_body = None\<rparr>]"]
  by simp

end
