(* ===== verification/CookieJar.thy ===== *)
theory CookieJar
  imports HttpScript
begin

text \<open>
  The cookie functions of a script (\<open>http.cookieJar()\<close> in \<open>src/bridge/http_sync.rs\<close>): setting, reading,
  deleting and clearing the cookies of the worker's thread. The store is the \<open>cookie_store\<close> crate: its
  operations are \<open>jar_ops\<close>, and what the deletion relies on is \<open>jar_laws\<close>.
\<close>

section \<open>Cookies\<close>

datatype cookie_domain = HostOnly string | Suffix string | NoDomain

datatype same_site = Strict | Lax | NoSameSite

record stored_cookie =
  sc_name :: string
  sc_value :: string
  sc_domain :: cookie_domain
  sc_path :: string
  sc_secure :: "bool option"
  sc_http_only :: "bool option"
  sc_expires :: "int option"
  sc_max_age :: "int option"
  sc_same_site :: "same_site option"

record raw_cookie =
  rw_name :: string
  rw_value :: string
  rw_domain :: "string option"
  rw_path :: "string option"
  rw_secure :: "bool option"
  rw_http_only :: "bool option"
  rw_max_age :: "int option"

text \<open>The store: the host of a URL if it parses, the cookies sent to a URL, inserting a cookie for a URL,
  removing by domain, path and name, clearing.\<close>

record 'jar jar_ops =
  jo_host :: "string \<Rightarrow> string option option"
  jo_matches :: "'jar \<Rightarrow> string \<Rightarrow> stored_cookie list"
  jo_insert :: "'jar \<Rightarrow> raw_cookie \<Rightarrow> string \<Rightarrow> 'jar option"
  jo_remove :: "'jar \<Rightarrow> string \<Rightarrow> string \<Rightarrow> string \<Rightarrow> 'jar"
  jo_empty :: 'jar

definition parse_jar_url :: "'jar jar_ops \<Rightarrow> string \<Rightarrow> string + string option" where
  "parse_jar_url K url = (case jo_host K url of None \<Rightarrow> Inl ''invalid URL'' | Some h \<Rightarrow> Inr h)"

definition stored_cookie_domain :: "stored_cookie \<Rightarrow> string \<Rightarrow> string" where
  "stored_cookie_domain c fallback = (case sc_domain c of HostOnly h \<Rightarrow> h | Suffix s \<Rightarrow> s | NoDomain \<Rightarrow> fallback)"

definition same_site_name :: "same_site \<Rightarrow> string" where
  "same_site_name s = (case s of Strict \<Rightarrow> ''Strict'' | Lax \<Rightarrow> ''Lax'' | NoSameSite \<Rightarrow> ''None'')"

definition stored_cookie_to_js :: "stored_cookie \<Rightarrow> js" where
  "stored_cookie_to_js c = JsObject (
     [(''name'', JsString (sc_name c)), (''value'', JsString (sc_value c)),
      (''domain'', JsString (stored_cookie_domain c [])), (''path'', JsString (sc_path c)),
      (''secure'', JsBool (sc_secure c = Some True)), (''httpOnly'', JsBool (sc_http_only c = Some True))]
     @ (case sc_expires c of None \<Rightarrow> [] | Some t \<Rightarrow> [(''expires'', JsInt t)])
     @ (case sc_max_age c of None \<Rightarrow> [] | Some t \<Rightarrow> [(''maxAge'', JsInt t)])
     @ (case sc_same_site c of None \<Rightarrow> [] | Some s \<Rightarrow> [(''sameSite'', JsString (same_site_name s))]))"

section \<open>Operations\<close>

text \<open>The options that read at their type.\<close>

record cookie_options =
  co_domain :: "string option"
  co_path :: "string option"
  co_secure :: "bool option"
  co_http_only :: "bool option"
  co_max_age :: "int option"

definition raw_cookie_of :: "string \<Rightarrow> string \<Rightarrow> cookie_options option \<Rightarrow> raw_cookie" where
  "raw_cookie_of name val opts =
     (let c = (case opts of
          None \<Rightarrow> \<lparr>rw_name = name, rw_value = val, rw_domain = None, rw_path = None, rw_secure = None,
            rw_http_only = None, rw_max_age = None\<rparr>
        | Some o' \<Rightarrow> \<lparr>rw_name = name, rw_value = val, rw_domain = co_domain o', rw_path = co_path o',
            rw_secure = co_secure o', rw_http_only = co_http_only o', rw_max_age = co_max_age o'\<rparr>)
      in if rw_path c = None then c\<lparr>rw_path := Some ''/''\<rparr> else c)"

definition jar_set :: "'jar jar_ops \<Rightarrow> string \<Rightarrow> string \<Rightarrow> string \<Rightarrow> cookie_options option \<Rightarrow> 'jar \<Rightarrow> string + 'jar" where
  "jar_set K url name val opts j = (case parse_jar_url K url of Inl e \<Rightarrow> Inl e
     | Inr _ \<Rightarrow> (case jo_insert K j (raw_cookie_of name val opts) url of
         None \<Rightarrow> Inl ''cookie rejected for URL'' | Some j' \<Rightarrow> Inr j'))"

definition jar_get :: "'jar jar_ops \<Rightarrow> string \<Rightarrow> string \<Rightarrow> 'jar \<Rightarrow> string + js" where
  "jar_get K url name j = (case parse_jar_url K url of Inl e \<Rightarrow> Inl e
     | Inr _ \<Rightarrow> Inr (case find (\<lambda>c. sc_name c = name) (jo_matches K j url) of
         Some c \<Rightarrow> stored_cookie_to_js c | None \<Rightarrow> js.JsNull))"

definition jar_cookies_for_url :: "'jar jar_ops \<Rightarrow> string \<Rightarrow> 'jar \<Rightarrow> string + js list" where
  "jar_cookies_for_url K url j = (case parse_jar_url K url of Inl e \<Rightarrow> Inl e
     | Inr _ \<Rightarrow> Inr (map stored_cookie_to_js (jo_matches K j url)))"

definition jar_targets :: "'jar jar_ops \<Rightarrow> string \<Rightarrow> string \<Rightarrow> string \<Rightarrow> 'jar \<Rightarrow> (string \<times> string) list" where
  "jar_targets K url host name j = map (\<lambda>c. (stored_cookie_domain c host, sc_path c))
     (filter (\<lambda>c. sc_name c = name) (jo_matches K j url))"

definition jar_delete :: "'jar jar_ops \<Rightarrow> string \<Rightarrow> string \<Rightarrow> 'jar \<Rightarrow> string + 'jar" where
  "jar_delete K url name j = (case parse_jar_url K url of Inl e \<Rightarrow> Inl e
     | Inr h \<Rightarrow> (let host = (case h of None \<Rightarrow> [] | Some h \<Rightarrow> h) in
         Inr (foldl (\<lambda>j (d, p). jo_remove K j d p name) j (jar_targets K url host name j))))"

definition jar_clear :: "'jar jar_ops \<Rightarrow> 'jar \<Rightarrow> 'jar" where
  "jar_clear K j = jo_empty K"

text \<open>\<open>res.html(selector)\<close>: the text of the first match; \<open>select\<close> is the scraper crate's.\<close>

definition html_select_first_text :: "(string \<Rightarrow> string \<Rightarrow> string list list option) \<Rightarrow> string \<Rightarrow> string \<Rightarrow> string" where
  "html_select_first_text select html selector = (case select html selector of None \<Rightarrow> []
     | Some [] \<Rightarrow> [] | Some (parts # _) \<Rightarrow> concat parts)"

section \<open>Laws of the store\<close>

text \<open>The store keeps a cookie under its domain (always known once stored), path and name; removing one
  takes exactly that entry from what every URL gets.\<close>

definition cookie_key :: "stored_cookie \<Rightarrow> string \<times> string \<times> string" where
  "cookie_key c = (stored_cookie_domain c [], sc_path c, sc_name c)"

definition jar_laws :: "'jar jar_ops \<Rightarrow> bool" where
  "jar_laws K \<longleftrightarrow> (\<forall>j u. \<forall>c \<in> set (jo_matches K j u). sc_domain c \<noteq> NoDomain)
     \<and> (\<forall>j u d p n. jo_matches K (jo_remove K j d p n) u = filter (\<lambda>c. cookie_key c \<noteq> (d, p, n)) (jo_matches K j u))"

text \<open>An instance: a list of cookies with domains, sent to every URL.\<close>

definition list_jar :: "stored_cookie list jar_ops" where
  "list_jar = \<lparr>jo_host = (\<lambda>_. Some (Some ''a'')), jo_matches = (\<lambda>j _. filter (\<lambda>c. sc_domain c \<noteq> NoDomain) j),
     jo_insert = (\<lambda>j c _. Some (\<lparr>sc_name = rw_name c, sc_value = rw_value c, sc_domain = HostOnly ''a'', sc_path = ''/'',
        sc_secure = None, sc_http_only = None, sc_expires = None, sc_max_age = None, sc_same_site = None\<rparr> # j)),
     jo_remove = (\<lambda>j d p n. filter (\<lambda>c. cookie_key c \<noteq> (d, p, n)) j), jo_empty = []\<rparr>"

lemma list_jar_laws: "jar_laws list_jar"
  by (auto simp: jar_laws_def list_jar_def intro: filter_cong)

lemma known_domain: "sc_domain c \<noteq> NoDomain \<Longrightarrow> stored_cookie_domain c h = stored_cookie_domain c []"
  by (simp add: stored_cookie_domain_def split: cookie_domain.split)

lemma removed_targets:
  assumes "jar_laws K"
  shows "jo_matches K (foldl (\<lambda>j (d, p). jo_remove K j d p name) j ts) u
    = filter (\<lambda>c. (stored_cookie_domain c [], sc_path c) \<notin> set ts \<or> sc_name c \<noteq> name) (jo_matches K j u)"
proof (induction ts arbitrary: j)
  case (Cons t ts)
  have "jo_matches K (jo_remove K j d p name) u = filter (\<lambda>c. cookie_key c \<noteq> (d, p, name)) (jo_matches K j u)" for d p
    using assms by (simp add: jar_laws_def)
  with Cons.IH show ?case by (cases t) (auto simp: cookie_key_def intro: filter_cong)
qed simp

section \<open>Properties\<close>

text \<open>Deleting a cookie for a URL removes exactly the cookies of that name the URL gets: afterwards the
  URL gets the others as before, and reading the name gives \<open>null\<close>.\<close>

theorem deletion_exact:
  assumes "jar_laws K" "jar_delete K url name j = Inr j'"
  shows "jo_matches K j' url = filter (\<lambda>c. sc_name c \<noteq> name) (jo_matches K j url)
    \<and> jar_get K url name j' = Inr js.JsNull"
proof -
  obtain h where h: "parse_jar_url K url = Inr h" using assms(2) by (auto simp: jar_delete_def split: sum.splits)
  let ?host = "case h of None \<Rightarrow> [] | Some h \<Rightarrow> h"
  have j': "j' = foldl (\<lambda>j (d, p). jo_remove K j d p name) j (jar_targets K url ?host name j)"
    using assms(2) h by (simp add: jar_delete_def Let_def)
  have known: "sc_domain c \<noteq> NoDomain" if "c \<in> set (jo_matches K j url)" for c
    using assms(1) that by (simp add: jar_laws_def)
  have "jo_matches K j' url = filter (\<lambda>c. (stored_cookie_domain c [], sc_path c)
      \<notin> set (jar_targets K url ?host name j) \<or> sc_name c \<noteq> name) (jo_matches K j url)"
    unfolding j' by (rule removed_targets [OF assms(1)])
  also have "\<dots> = filter (\<lambda>c. sc_name c \<noteq> name) (jo_matches K j url)"
  proof (rule filter_cong [OF refl])
    fix c assume c: "c \<in> set (jo_matches K j url)"
    have "(stored_cookie_domain c [], sc_path c) \<in> set (jar_targets K url ?host name j)" if n: "sc_name c = name"
    proof -
      from c n have "(stored_cookie_domain c ?host, sc_path c) \<in> set (jar_targets K url ?host name j)"
        unfolding jar_targets_def set_map set_filter by blast
      then show ?thesis by (simp only: known_domain [OF known [OF c], of ?host])
    qed
    then show "((stored_cookie_domain c [], sc_path c) \<notin> set (jar_targets K url ?host name j) \<or> sc_name c \<noteq> name)
      \<longleftrightarrow> sc_name c \<noteq> name" by blast
  qed
  finally have m: "jo_matches K j' url = filter (\<lambda>c. sc_name c \<noteq> name) (jo_matches K j url)" .
  moreover have "find (\<lambda>c. sc_name c = name) (filter (\<lambda>c. sc_name c \<noteq> name) (jo_matches K j url)) = None"
    by (auto simp: find_None_iff)
  ultimately show ?thesis using h by (simp add: jar_get_def)
qed

theorem deletion_exact_witness:
  "\<exists>j'. jar_delete list_jar ''http://a/'' ''sid'' [\<lparr>sc_name = ''sid'', sc_value = ''1'', sc_domain = HostOnly ''a'', sc_path = ''/'',
        sc_secure = None, sc_http_only = None, sc_expires = None, sc_max_age = None, sc_same_site = None\<rparr>] = Inr j'
    \<and> jar_get list_jar ''http://a/'' ''sid'' j' = Inr js.JsNull"
proof -
  obtain j' where j': "jar_delete list_jar ''http://a/'' ''sid'' [\<lparr>sc_name = ''sid'', sc_value = ''1'', sc_domain = HostOnly ''a'',
      sc_path = ''/'', sc_secure = None, sc_http_only = None, sc_expires = None, sc_max_age = None, sc_same_site = None\<rparr>] = Inr j'"
    by (simp add: jar_delete_def parse_jar_url_def list_jar_def)
  with deletion_exact [OF list_jar_laws this] show ?thesis by blast
qed

text \<open>A cookie without a path is set for the whole site, and an unreadable URL changes nothing.\<close>

lemma default_path: "rw_path (raw_cookie_of name val None) = Some ''/''"
  by (simp add: raw_cookie_of_def)

end
