(* ===== verification/Scenario.thy ===== *)
theory Scenario
  imports Lifecycle
begin

text \<open>
  The thread of a scenario (\<open>run_load_test\<close> in \<open>src/engine/mod.rs\<close>): the names checked before any thread
  starts, the delay, the line that announces the executor, its control loop from spawn to stop, the
  graceful stop, the joins, and the metrics and lines it sends. The loops are those of \<open>Workers\<close> and
  \<open>Engine\<close>; here they are composed the way the thread composes them. The lists of a world are what each
  pass reads, up to the end of the loop.
\<close>

section \<open>What is printed\<close>

definition duration_text :: "scenario_config \<Rightarrow> string" where
  "duration_text sc = (case sc_duration sc of None \<Rightarrow> ''10s'' | Some d \<Rightarrow> d)"

definition scenario_workers :: "scenario_config \<Rightarrow> nat" where
  "scenario_workers sc = (case sc_workers sc of None \<Rightarrow> 1 | Some n \<Rightarrow> n)"

definition base_rate :: "scenario_config \<Rightarrow> nat" where
  "base_rate sc = (case sc_rate sc of None \<Rightarrow> 1 | Some r \<Rightarrow> r)"

definition arrival_line :: "string \<Rightarrow> scenario_config \<Rightarrow> string" where
  "arrival_line name sc = scenario_label name @ ''Starting arrival-rate executor ('' @ show_nat (scenario_workers sc)
     @ '' workers, '' @ show_nat (base_rate sc) @ '' rate/'' @ debug_duration (scenario_time_unit sc) @ '') for ''
     @ duration_text sc @ ''...''"

definition ramping_line :: "string \<Rightarrow> scenario_config \<Rightarrow> string" where
  "ramping_line name sc = scenario_label name @ ''Starting ramping-workers executor for '' @ duration_text sc @ ''...''"

definition closed_line :: "string \<Rightarrow> scenario_config \<Rightarrow> string" where
  "closed_line name sc = scenario_label name @ ''Starting '' @ show_nat (scenario_workers sc) @ '' workers for ''
     @ duration_text sc @ ''...''"

definition complete_line :: "string \<Rightarrow> string" where
  "complete_line name = scenario_label name @ ''Complete.''"

definition dropped_warning :: "string \<Rightarrow> arrival_state \<Rightarrow> string list" where
  "dropped_warning name s = (if dropped s > 0 then [scenario_label name @ ''Warning: '' @ show_nat (dropped s)
     @ '' iterations dropped (workers couldn'' @ [CHR 0x27] @ ''t keep up)''] else [])"

section \<open>The executors\<close>

text \<open>What the thread reads: the passes of the dispatcher and the number of completed iterations, the time
  when each worker's turn to be joined comes, the ticks of the ramping and of the closed loop, the polls
  of the graceful stop.\<close>

record scenario_world =
  sw_passes :: "dispatch_pass list"
  sw_completed :: nat
  sw_turns :: "duration list"
  sw_ticks :: "(duration \<times> bool \<times> duration) list"
  sw_waits :: "(duration \<times> bool \<times> nat) list"
  sw_polls :: "duration list"

text \<open>What it did: the workers it spawned, those whose flag it cleared, those it joined, how often it
  slept on the way (the loop and the graceful stop), metrics and lines.\<close>

record scenario_end =
  se_spawned :: "nat list"
  se_cleared :: "nat list"
  se_joined :: "nat list"
  se_waited :: nat
  se_metrics :: "metric list"
  se_stdout :: "string list"
  se_stderr :: "string list"

definition arrival_settings :: "scenario_config \<Rightarrow> arrival_config" where
  "arrival_settings sc = \<lparr>ar_duration = scenario_duration sc, ar_ramping = sc_executor sc = Some RampingArrivalRate,
     ar_rate = base_rate sc, ar_rates = scenario_rates sc, ar_time_unit = scenario_time_unit sc,
     ar_max_iterations = sc_iterations sc\<rparr>"

text \<open>The joins of the arrival-rate executors: a worker is joined, without a bound, if the grace period is
  not over when its turn comes; otherwise its handle is dropped.\<close>

definition join_within :: "duration \<Rightarrow> nat list \<Rightarrow> duration list \<Rightarrow> nat list" where
  "join_within grace ids turns = map fst (filter (\<lambda>(i, elapsed). grace - elapsed > 0) (zip ids turns))"

definition arrival_scenario :: "string option \<Rightarrow> string \<Rightarrow> scenario_config \<Rightarrow> scenario_world \<Rightarrow> scenario_end outcome" where
  "arrival_scenario stop name sc W = (case Workers.dispatch (arrival_settings sc) arrival_start (sw_passes W) of
     Panics \<Rightarrow> Panics
   | Returns s \<Rightarrow> (let ids = [0..<scenario_workers sc] in Returns
       \<lparr>se_spawned = ids, se_cleared = ids, se_joined = join_within (grace_period stop) ids (sw_turns W),
        se_waited = length (sleeps s), se_metrics = arrival_report name s (sw_completed W),
        se_stdout = [arrival_line name sc, complete_line name], se_stderr = dropped_warning name s\<rparr>))"

text \<open>The ramping loop sends a gauge after every adjustment.\<close>

fun ramping_gauges :: "string \<Rightarrow> (duration \<times> nat) list \<Rightarrow> duration \<Rightarrow> pool \<Rightarrow> (duration \<times> bool \<times> duration) list \<Rightarrow> metric list" where
  "ramping_gauges name schedule dur p [] = []"
| "ramping_gauges name schedule dur p ((head_elapsed, stop, elapsed) # ticks) =
     (if \<not> head_elapsed < dur \<or> stop then []
      else (let p = ramp_tick (calculate_target schedule elapsed) p
        in vus_gauge name p # ramping_gauges name schedule dur p ticks))"

definition ramping_scenario :: "string option \<Rightarrow> string \<Rightarrow> scenario_config \<Rightarrow> scenario_world \<Rightarrow> scenario_end" where
  "ramping_scenario stop name sc W = (let fresh = \<lparr>active = [], released = [], next_id = 1\<rparr>;
      dur = scenario_duration sc; gs = ramping_gauges name (scenario_schedule sc) dur fresh (sw_ticks W);
      p = ramping_run (scenario_schedule sc) dur fresh (sw_ticks W)
    in \<lparr>se_spawned = [1..<next_id p], se_cleared = released p @ active p, se_joined = active p,
        se_waited = length gs + graceful_stop stop p (sw_polls W), se_metrics = gs,
        se_stdout = [ramping_line name sc, complete_line name], se_stderr = []\<rparr>)"

definition closed_scenario :: "string option \<Rightarrow> string \<Rightarrow> scenario_config \<Rightarrow> scenario_world \<Rightarrow> scenario_end" where
  "closed_scenario stop name sc W = (let p = spawn (scenario_workers sc) \<lparr>active = [], released = [], next_id = 1\<rparr>
    in \<lparr>se_spawned = active p, se_cleared = active p, se_joined = active p,
        se_waited = closed_wait sc (scenario_duration sc) (sw_waits W) + graceful_stop stop p (sw_polls W),
        se_metrics = [], se_stdout = [closed_line name sc, complete_line name], se_stderr = []\<rparr>)"

section \<open>The threads\<close>

text \<open>A thread: its delay and what its executor does. The default executor is a closed one.\<close>

definition scenario_thread :: "string option \<Rightarrow> string \<Rightarrow> scenario_config \<Rightarrow> scenario_world \<Rightarrow> duration \<times> scenario_end outcome" where
  "scenario_thread stop name sc W = (start_delay sc, case sc_executor sc of
      Some ConstantArrivalRate \<Rightarrow> arrival_scenario stop name sc W
    | Some RampingArrivalRate \<Rightarrow> arrival_scenario stop name sc W
    | Some RampingWorkers \<Rightarrow> Returns (ramping_scenario stop name sc W)
    | _ \<Rightarrow> Returns (closed_scenario stop name sc W))"

text \<open>All names are checked first: an invalid one ends the run before any thread is spawned.\<close>

fun check_names :: "string list \<Rightarrow> name_error + unit" where
  "check_names [] = Inr ()"
| "check_names (n # ns) = (case validate_scenario_name n of Inl e \<Rightarrow> Inl e | Inr _ \<Rightarrow> check_names ns)"

definition run_scenarios :: "config \<Rightarrow> (string \<Rightarrow> scenario_world) \<Rightarrow>
    name_error + (string \<times> duration \<times> scenario_end outcome) list" where
  "run_scenarios c worlds = (let scs = (case c_scenarios c of None \<Rightarrow> [] | Some scs \<Rightarrow> scs) in
     case check_names (map fst scs) of Inl e \<Rightarrow> Inl e
     | Inr _ \<Rightarrow> Inr (map (\<lambda>(name, sc). (name, scenario_thread (c_stop c) name sc (worlds name))) scs))"

section \<open>Properties\<close>

lemma pool_inv_fresh: "pool_inv \<lparr>active = [], released = [], next_id = 1\<rparr>"
  by (simp add: pool_inv_def)



lemma gauges_follow:
  "(\<forall>(h, stop, e) \<in> set ticks. h < dur \<and> \<not> stop) \<Longrightarrow> ramping_gauges name schedule dur p ticks
    = map (\<lambda>(h, stop, e). Gauge (name @ ''::vus'') (f_of_nat (calculate_target schedule e)) []) ticks"
  by (induction name schedule dur p ticks rule: ramping_gauges.induct)
    (auto simp: vus_gauge_def ramp_tick_exact Let_def)

text \<open>The gauge of a ramping scenario is its schedule: the values sent are the targets at the times of the
  ticks, in order.\<close>

theorem ramping_reports_schedule:
  assumes "\<forall>(h, stop, e) \<in> set (sw_ticks W). h < scenario_duration sc \<and> \<not> stop"
  shows "se_metrics (ramping_scenario stop name sc W) = map (\<lambda>(h, stop, e). Gauge (name @ ''::vus'')
    (f_of_nat (calculate_target (scenario_schedule sc) e)) []) (sw_ticks W)"
  using gauges_follow [OF assms] by (simp add: ramping_scenario_def Let_def)

lemma join_takeWhile:
  "sorted turns \<Longrightarrow> length turns = length ids \<Longrightarrow>
     join_within grace ids turns = take (length (takeWhile (\<lambda>e. e < grace) turns)) ids"
proof (induction turns arbitrary: ids)
  case (Cons e turns)
  obtain i ids' where ids: "ids = i # ids'" using Cons.prems by (cases ids) auto
  have "join_within grace ids' turns = []" if "\<not> e < grace"
    using that Cons.prems by (fastforce simp: join_within_def filter_empty_conv dest: set_zip_rightD)
  then show ?case using Cons.IH [of ids'] Cons.prems by (auto simp: ids join_within_def)
qed (simp add: join_within_def)

text \<open>The joins of an arrival-rate scenario are not bounded by its graceful stop, as their comment has it:
  workers are joined in order, each without a limit, up to the first whose turn comes after the grace
  period; from there on none is, and the scenario completes over workers that may still run.\<close>

theorem arrival_joins_in_order:
  assumes "arrival_scenario stop name sc W = Returns r" "sorted (sw_turns W)" "length (sw_turns W) = scenario_workers sc"
  shows "se_joined r = [0..<length (takeWhile (\<lambda>e. e < grace_period stop) (sw_turns W))]
    \<and> se_cleared r = [0..<scenario_workers sc] \<and> last (se_stdout r) = complete_line name"
proof -
  have "length (takeWhile (\<lambda>e. e < grace_period stop) (sw_turns W)) \<le> scenario_workers sc"
    using length_takeWhile_le [of _ "sw_turns W"] assms(3) by metis
  then show ?thesis
    using assms(1) join_takeWhile [OF assms(2), of "[0..<scenario_workers sc]" "grace_period stop"] assms(3)
    by (auto simp: arrival_scenario_def Let_def take_upt split: outcome.splits)
qed

theorem arrival_joins_in_order_witness:
  "\<exists>r. arrival_scenario None ''a'' (default_scenario\<lparr>sc_workers := Some 2\<rparr>)
      \<lparr>sw_passes = [], sw_completed = 0, sw_turns = [0, 3600 * secs], sw_ticks = [], sw_waits = [], sw_polls = []\<rparr> = Returns r
    \<and> se_joined r = [0]"
proof -
  let ?sc = "default_scenario\<lparr>sc_workers := Some 2\<rparr>"
  let ?W = "\<lparr>sw_passes = [], sw_completed = 0, sw_turns = [0, 3600 * secs], sw_ticks = [], sw_waits = [], sw_polls = []\<rparr>"
  have g: "grace_period None = 30 * secs" by (simp add: grace_period_def)
  obtain r where r: "arrival_scenario None ''a'' ?sc ?W = Returns r"
    by (simp add: arrival_scenario_def Let_def)
  have "se_joined r = [0..<length (takeWhile (\<lambda>e. e < grace_period None) (sw_turns ?W))]"
    using arrival_joins_in_order [OF r] by (simp add: scenario_workers_def)
  then show ?thesis using r by (simp add: g secs_def)
qed

text \<open>An invalid name ends the run before a thread is spawned; otherwise every scenario gets its thread.\<close>

lemma check_names_all: "check_names ns = Inr () \<longleftrightarrow> (\<forall>n \<in> set ns. validate_scenario_name n = Inr ())"
  by (induction ns) (auto split: sum.splits)

theorem scenarios_checked_first:
  "(case run_scenarios c worlds of
      Inl _ \<Rightarrow> \<exists>(name, sc) \<in> set (case c_scenarios c of None \<Rightarrow> [] | Some scs \<Rightarrow> scs). validate_scenario_name name \<noteq> Inr ()
    | Inr threads \<Rightarrow> map fst threads = map fst (case c_scenarios c of None \<Rightarrow> [] | Some scs \<Rightarrow> scs)
        \<and> (\<forall>(name, th) \<in> set threads. validate_scenario_name name = Inr ()))"
proof (cases "check_names (map fst (case c_scenarios c of None \<Rightarrow> [] | Some scs \<Rightarrow> scs))")
  case (Inl e)
  then show ?thesis
    using check_names_all [of "map fst (case c_scenarios c of None \<Rightarrow> [] | Some scs \<Rightarrow> scs)"]
    by (auto simp: run_scenarios_def Let_def)
next
  case (Inr u)
  then show ?thesis
    using check_names_all [of "map fst (case c_scenarios c of None \<Rightarrow> [] | Some scs \<Rightarrow> scs)"]
    by (auto simp: run_scenarios_def Let_def)
qed

end
