(* ===== verification/Pipeline.thy ===== *)
theory Pipeline
  imports Report Engine
begin

text \<open>
  From the channel to the report (\<open>run_load_test\<close> in \<open>src/engine/mod.rs\<close>): workers send metrics on one bounded
  channel, several aggregator threads receive them and add them to the shards, and at the end the main
  thread merges the shards. It does not wait for the threads: their handles are dropped and the channel
  is still open. Each step is one of a worker, of a thread, or of the main thread; a run is any sequence of
  steps. \<open>pl_sent\<close> and \<open>pl_added\<close> record what happened and are read by no step.
\<close>

section \<open>The steps\<close>

record 'h pipeline =
  pl_queue :: "metric list"
  pl_open :: bool
  pl_held :: "metric option list"
  pl_counters :: "nat list"
  pl_done :: "bool list"
  pl_shards :: "'h sharded_aggregator"
  pl_script :: "'h stats_aggregator"
  pl_sent :: "metric list"
  pl_added :: "(nat \<times> metric) list"

text \<open>A thread's counter starts at its number; scripts see an aggregator of their own.\<close>

definition pipe_start :: "'h hist_ops \<Rightarrow> nat \<Rightarrow> nat \<Rightarrow> 'h pipeline" where
  "pipe_start H k n = \<lparr>pl_queue = [], pl_open = True, pl_held = replicate k None, pl_counters = [0..<k],
     pl_done = replicate k False, pl_shards = sharded_new H n, pl_script = aggregator_new H, pl_sent = [], pl_added = []\<rparr>"

text \<open>Sending waits for room; a thread receives a metric, adds it to the shard of its counter and advances
  the counter by the number of threads; it leaves its loop when the channel is closed and empty.\<close>

inductive pipe_step :: "'h hist_ops \<Rightarrow> nat \<Rightarrow> nat \<Rightarrow> 'h pipeline \<Rightarrow> 'h pipeline \<Rightarrow> bool" for H :: "'h hist_ops" and k cap :: nat where
  send: "pl_open s \<Longrightarrow> length (pl_queue s) < cap \<Longrightarrow>
     pipe_step H k cap s (s\<lparr>pl_queue := pl_queue s @ [m], pl_sent := pl_sent s @ [m]\<rparr>)"
| receive: "t < k \<Longrightarrow> \<not> pl_done s ! t \<Longrightarrow> pl_held s ! t = None \<Longrightarrow> pl_queue s = m # q \<Longrightarrow>
     pipe_step H k cap s (s\<lparr>pl_queue := q, pl_held := (pl_held s)[t := Some m]\<rparr>)"
| add: "t < k \<Longrightarrow> pl_held s ! t = Some m \<Longrightarrow> i = pl_counters s ! t mod sharded_aggregator.num_shards (pl_shards s) \<Longrightarrow>
     sharded_add H (pl_shards s) (i, m) = Returns sh \<Longrightarrow>
     pipe_step H k cap s (s\<lparr>pl_held := (pl_held s)[t := None],
       pl_counters := (pl_counters s)[t := (pl_counters s ! t + k) mod u64_size],
       pl_shards := sh, pl_added := pl_added s @ [(i, m)]\<rparr>)"
| hang_up: "pipe_step H k cap s (s\<lparr>pl_open := False\<rparr>)"
| leave: "t < k \<Longrightarrow> pl_held s ! t = None \<Longrightarrow> pl_queue s = [] \<Longrightarrow> \<not> pl_open s \<Longrightarrow>
     pipe_step H k cap s (s\<lparr>pl_done := (pl_done s)[t := True]\<rparr>)"

inductive_cases pipe_stepE: "pipe_step H k cap s s'"

text \<open>What was sent and is not in a shard: held by a thread or still queued.\<close>

definition held_metrics :: "metric option list \<Rightarrow> metric list" where
  "held_metrics hs = concat (map (\<lambda>h. case h of None \<Rightarrow> [] | Some m \<Rightarrow> [m]) hs)"

definition pending :: "'h pipeline \<Rightarrow> metric list" where
  "pending s = held_metrics (pl_held s) @ pl_queue s"

definition pipe_inv :: "'h hist_ops \<Rightarrow> nat \<Rightarrow> nat \<Rightarrow> nat \<Rightarrow> 'h pipeline \<Rightarrow> bool" where
  "pipe_inv H k cap n s \<longleftrightarrow> length (pl_held s) = k \<and> length (pl_done s) = k \<and> length (pl_queue s) \<le> cap
     \<and> sharded_adds H (sharded_new H n) (pl_added s) = Returns (pl_shards s)
     \<and> mset (pl_sent s) = mset (map snd (pl_added s)) + mset (pending s)
     \<and> pl_script s = aggregator_new H
     \<and> (True \<in> set (pl_done s) \<longrightarrow> \<not> pl_open s \<and> pl_queue s = [])"

section \<open>The invariant\<close>

lemma held_set:
  "t < length hs \<Longrightarrow> mset (held_metrics (hs[t := h])) + mset (held_metrics [hs ! t])
     = mset (held_metrics hs) + mset (held_metrics [h])"
proof (induction hs arbitrary: t)
  case (Cons g hs)
  then show ?case by (cases t) (simp_all add: held_metrics_def ac_simps)
qed simp

lemma held_single [simp]: "held_metrics [None] = []" "held_metrics [Some m] = [m]"
  by (simp_all add: held_metrics_def)

lemma held_none: "held_metrics (replicate k None) = []"
  by (induction k) (simp_all add: held_metrics_def)

lemma held_length: "length (held_metrics hs) \<le> length hs"
  by (induction hs) (auto simp: held_metrics_def split: option.split)

lemma sharded_adds_snoc:
  "sharded_adds H s es = Returns s' \<Longrightarrow> sharded_adds H s (es @ [e]) = sharded_add H s' e"
proof (induction es arbitrary: s)
  case Nil
  then show ?case by (simp split: outcome.split)
next
  case (Cons e' es)
  then show ?case by (auto split: outcome.splits)
qed

lemma pipe_inv_start: "pipe_inv H k cap n (pipe_start H k n)"
  by (simp add: pipe_inv_def pipe_start_def pending_def held_none)

lemma pipe_inv_step: "pipe_inv H k cap n s \<Longrightarrow> pipe_step H k cap s s' \<Longrightarrow> pipe_inv H k cap n s'"
proof (erule pipe_stepE)
  fix t m q
  assume inv: "pipe_inv H k cap n s" and t: "t < k" "pl_held s ! t = None" "pl_queue s = m # q"
    and s': "s' = s\<lparr>pl_queue := q, pl_held := (pl_held s)[t := Some m]\<rparr>"
  have "mset (held_metrics ((pl_held s)[t := Some m])) = mset (held_metrics (pl_held s)) + {#m#}"
    using held_set [of t "pl_held s" "Some m"] inv t by (simp add: pipe_inv_def)
  then show "pipe_inv H k cap n s'" using inv t by (auto simp: s' pipe_inv_def pending_def)
next
  fix t m i sh
  assume inv: "pipe_inv H k cap n s" and t: "t < k" "pl_held s ! t = Some m"
    and sh: "sharded_add H (pl_shards s) (i, m) = Returns sh"
    and s': "s' = s\<lparr>pl_held := (pl_held s)[t := None], pl_counters := (pl_counters s)[t := (pl_counters s ! t + k) mod u64_size],
       pl_shards := sh, pl_added := pl_added s @ [(i, m)]\<rparr>"
  have "mset (held_metrics (pl_held s)) = mset (held_metrics ((pl_held s)[t := None])) + {#m#}"
    using held_set [of t "pl_held s" None] inv t by (simp add: pipe_inv_def)
  moreover have "sharded_adds H (sharded_new H n) (pl_added s @ [(i, m)]) = Returns sh"
    using sharded_adds_snoc inv sh by (metis pipe_inv_def)
  ultimately show "pipe_inv H k cap n s'" using inv by (simp add: s' pipe_inv_def pending_def)
next
  fix t
  assume "pipe_inv H k cap n s" "t < k" "pl_queue s = []" "\<not> pl_open s" "s' = s\<lparr>pl_done := (pl_done s)[t := True]\<rparr>"
  then show "pipe_inv H k cap n s'" by (simp add: pipe_inv_def pending_def)
qed (auto simp: pipe_inv_def pending_def)

interpretation pipe: step_system "\<lambda>s. s = pipe_start H k n" "pipe_step H k cap" "pipe_inv H k cap n" for H k cap n
  by unfold_locales (auto intro: pipe_inv_step pipe_inv_start)

lemma pipe_reached: "(pipe_step H k cap)\<^sup>*\<^sup>* (pipe_start H k n) s \<Longrightarrow> pipe_inv H k cap n s"
  by (rule pipe.reachable_inv [OF refl])

section \<open>Counting\<close>

lemma count_of_mset: "mset ms = mset ms' \<Longrightarrow> count_of P ms = count_of P ms'"
  by (metis count_of_def mset_filter size_mset)

lemma count_of_zero: "count_of P ms = 0 \<longleftrightarrow> (\<forall>m \<in> set ms. \<not> P m)"
  by (simp add: count_of_def filter_empty_conv)

lemma failed_merged:
  assumes "hist_laws H" "0 < n" "sharded_adds H (sharded_new H n) es = Returns s"
  shows "failed_iterations (sharded_merge H s) = count_of is_failed_iteration (map snd es)
    \<and> total_requests (sharded_merge H s) = count_of is_http (map snd es)"
proof -
  have "same_totals (sharded_merge H s) (run_agg H (map snd es))"
    using sharded_run_totals [OF assms(1,2), of es] assms(3) by (simp add: run_agg_def)
  then show ?thesis by (simp add: same_totals_def failed_run total_requests_count)
qed

lemma count_sent:
  "pipe_inv H k cap n s \<Longrightarrow> count_of P (pl_sent s) = count_of P (map snd (pl_added s)) + count_of P (pending s)"
  using count_of_mset [of "pl_sent s" "map snd (pl_added s) @ pending s" P]
  by (simp add: pipe_inv_def count_of_append)

lemma shards_kept: "0 < n \<Longrightarrow> pipe_inv H k cap n s \<Longrightarrow> sharded_aggregator.num_shards (pl_shards s) = n"
  using sharded_adds_shards [of "sharded_new H n" H "pl_added s"] by (auto simp: pipe_inv_def sharded_new_def)

lemma fresh_merge: "hist_laws H \<Longrightarrow> sharded_merge H (sharded_new H n) = aggregator_new H"
  by (simp only: sharded_merge_def sharded_new_def sharded_aggregator.simps merge_news Let_def) (simp add: aggregator_new_def)

section \<open>Draining\<close>

text \<open>One step towards an empty pipeline.\<close>

lemma drain_step:
  assumes "0 < n" "0 < k" "pipe_inv H k cap n s" "pending s \<noteq> []"
  shows "\<exists>s'. pipe_step H k cap s s' \<and> pl_sent s' = pl_sent s
    \<and> 2 * length (pl_queue s') + length (held_metrics (pl_held s')) < 2 * length (pl_queue s) + length (held_metrics (pl_held s))"
proof (cases "\<exists>t < k. pl_held s ! t \<noteq> None")
  case True
  then obtain t m where t: "t < k" "pl_held s ! t = Some m" by auto
  let ?i = "pl_counters s ! t mod sharded_aggregator.num_shards (pl_shards s)"
  obtain sh where sh: "sharded_add H (pl_shards s) (?i, m) = Returns sh"
    using shards_kept [OF assms(1,3)] assms(1) by (simp add: sharded_add_def Let_def)
  have len: "length (held_metrics ((pl_held s)[t := None])) + 1 = length (held_metrics (pl_held s))"
    using arg_cong [OF held_set [of t "pl_held s" None], of size] t assms(3) by (simp add: pipe_inv_def)
  show ?thesis by (intro exI conjI, rule pipe_step.add [OF t refl sh]) (use len in simp_all)
next
  case False
  then have none: "pl_held s = replicate k None"
    using assms(3) by (intro nth_equalityI) (auto simp: pipe_inv_def)
  then obtain m q where q: "pl_queue s = m # q"
    using assms(4) by (cases "pl_queue s") (simp_all add: pending_def held_none)
  have d: "\<not> pl_done s ! 0" "pl_held s ! 0 = None"
    using assms(2,3) q none nth_mem [of 0 "pl_done s"] by (fastforce simp: pipe_inv_def)+
  have len: "length (held_metrics ((pl_held s)[0 := Some m])) = length (held_metrics (pl_held s)) + 1"
    using arg_cong [OF held_set [of 0 "pl_held s" "Some m"], of size] assms(2,3) d by (auto simp: pipe_inv_def)
  show ?thesis by (intro exI conjI, rule pipe_step.receive [OF assms(2) d q]) (use len q in simp_all)
qed

lemma drains:
  assumes "0 < n" "0 < k" "pipe_inv H k cap n s"
  shows "\<exists>s'. (pipe_step H k cap)\<^sup>*\<^sup>* s s' \<and> pl_sent s' = pl_sent s \<and> pending s' = []"
  using assms(3)
proof (induction "2 * length (pl_queue s) + length (held_metrics (pl_held s))" arbitrary: s rule: less_induct)
  case less
  show ?case
  proof (cases "pending s = []")
    case False
    then obtain s1 where s1: "pipe_step H k cap s s1" "pl_sent s1 = pl_sent s"
        "2 * length (pl_queue s1) + length (held_metrics (pl_held s1)) < 2 * length (pl_queue s) + length (held_metrics (pl_held s))"
      using drain_step [OF assms(1,2) less.prems] by blast
    with less.hyps [OF s1(3) pipe_inv_step [OF less.prems s1(1)]] show ?thesis
      by (metis converse_rtranclp_into_rtranclp)
  qed blast
qed

text \<open>A state with some metrics in the channel.\<close>

definition queued :: "'h hist_ops \<Rightarrow> nat \<Rightarrow> nat \<Rightarrow> metric list \<Rightarrow> 'h pipeline" where
  "queued H k n ms = (pipe_start H k n)\<lparr>pl_queue := ms, pl_sent := ms\<rparr>"

lemma queued_reached: "length ms \<le> cap \<Longrightarrow> (pipe_step H k cap)\<^sup>*\<^sup>* (pipe_start H k n) (queued H k n ms)"
proof (induction ms rule: rev_induct)
  case (snoc m ms)
  have "pipe_step H k cap (queued H k n ms) (queued H k n (ms @ [m]))"
    using pipe_step.send [of "queued H k n ms" cap H k m] snoc.prems by (simp add: queued_def pipe_start_def)
  with snoc show ?case by (simp add: rtranclp.rtrancl_into_rtrancl)
qed (simp add: queued_def pipe_start_def)

section \<open>Properties\<close>

text \<open>C4. What the report misses: at every moment, in every interleaving, the merged shards count exactly the
  metrics that were sent, without those still in the channel or in the hands of a thread; these are at
  most the capacity of the channel and one per thread. Nothing is counted twice.\<close>

theorem report_misses_exactly:
  assumes "hist_laws H" "0 < n" "(pipe_step H k cap)\<^sup>*\<^sup>* (pipe_start H k n) s"
  shows "total_requests (sharded_merge H (pl_shards s)) + count_of is_http (pending s) = count_of is_http (pl_sent s)
    \<and> failed_iterations (sharded_merge H (pl_shards s)) + count_of is_failed_iteration (pending s)
        = count_of is_failed_iteration (pl_sent s)
    \<and> length (pending s) \<le> cap + k"
proof -
  have inv: "pipe_inv H k cap n s" by (rule pipe_reached [OF assms(3)])
  then have "length (pending s) \<le> cap + k"
    using held_length [of "pl_held s"] by (simp add: pipe_inv_def pending_def)
  with inv show ?thesis using failed_merged [OF assms(1,2)] count_sent [OF inv] by (simp add: pipe_inv_def)
qed

theorem report_misses_exactly_witness:
  "\<exists>s. (pipe_step list_hist 1 1)\<^sup>*\<^sup>* (pipe_start list_hist 1 16) s \<and> pl_sent s = [Check ''ok'' True None]
    \<and> total_requests (sharded_merge list_hist (pl_shards s)) = 0"
proof -
  let ?s = "queued list_hist 1 16 [Check ''ok'' True None]"
  have st: "(pipe_step list_hist 1 1)\<^sup>*\<^sup>* (pipe_start list_hist 1 16) ?s" by (rule queued_reached) simp
  with report_misses_exactly [OF hist_laws_list _ st]
  have "total_requests (sharded_merge list_hist (pl_shards ?s)) = 0"
    by (simp add: queued_def count_of_def is_http_def)
  with st show ?thesis by (intro exI [of _ ?s]) (simp add: queued_def)
qed

text \<open>C10. Waiting would be enough: from every reachable state the threads alone can bring everything that was
  sent into the shards, and then the totals are those of all metrics sent, added one by one in the order
  they were received.\<close>

theorem channel_drains:
  assumes "hist_laws H" "0 < n" "0 < k" "(pipe_step H k cap)\<^sup>*\<^sup>* (pipe_start H k n) s"
  shows "\<exists>s'. (pipe_step H k cap)\<^sup>*\<^sup>* s s' \<and> pl_sent s' = pl_sent s \<and> mset (map snd (pl_added s')) = mset (pl_sent s)
    \<and> same_totals (sharded_merge H (pl_shards s')) (run_agg H (map snd (pl_added s')))"
proof -
  obtain s' where s': "(pipe_step H k cap)\<^sup>*\<^sup>* s s'" "pl_sent s' = pl_sent s" "pending s' = []"
    using drains [OF assms(2,3) pipe_reached [OF assms(4)]] by blast
  then have inv: "pipe_inv H k cap n s'" using assms(4) by (intro pipe_reached) (rule rtranclp_trans)
  then have "same_totals (sharded_merge H (pl_shards s')) (run_agg H (map snd (pl_added s')))"
    using sharded_run_totals [OF assms(1,2), of "pl_added s'"] by (simp add: pipe_inv_def run_agg_def)
  with s' inv show ?thesis by (auto simp: pipe_inv_def)
qed

theorem channel_drains_witness:
  "\<exists>s s'. pl_sent s = [Check ''ok'' True None] \<and> (pipe_step list_hist 1 1)\<^sup>*\<^sup>* s s'
    \<and> mset (map snd (pl_added s')) = {#Check ''ok'' True None#}"
proof -
  let ?s = "queued list_hist 1 16 [Check ''ok'' True None]"
  have st: "(pipe_step list_hist 1 1)\<^sup>*\<^sup>* (pipe_start list_hist 1 16) ?s" by (rule queued_reached) simp
  with channel_drains [OF hist_laws_list _ _ st]
  obtain s' where "(pipe_step list_hist 1 1)\<^sup>*\<^sup>* ?s s'" "mset (map snd (pl_added s')) = mset (pl_sent ?s)" by auto
  then show ?thesis by (intro exI [of _ ?s] exI [of _ s']) (simp add: queued_def)
qed

text \<open>What \<open>stats.get\<close> tells a script: the aggregator scripts see is not the one the threads fill, so whatever
  was measured, a script reads zeros.\<close>

theorem script_reads_zeros:
  assumes "(pipe_step H k cap)\<^sup>*\<^sup>* (pipe_start H k n) s"
  shows "stats_get H (pl_script s) name
    = \<lparr>st_p95 = Fin 0, st_p99 = Fin 0, st_avg = Fin 0, st_count = 0, st_min = Fin 0, st_max = Fin 0\<rparr>"
  using pipe_reached [OF assms] by (simp add: pipe_inv_def stats_get_def aggregator_new_def)

theorem script_reads_zeros_witness:
  "st_count (stats_get list_hist (pl_script (queued list_hist 1 16 [Check ''ok'' True None])) ''login'') = 0"
  by (subst script_reads_zeros [OF queued_reached [of _ 1]]) simp_all

end
