(* ===== verification/Imports.thy ===== *)
theory Imports
  imports Converters Lifecycle Paths
begin

text \<open>
  What comes into the program from files of other kinds: the \<open>convert\<close> command with the readers of HAR and
  OpenAPI files (\<open>src/main.rs\<close>, \<open>src/cli/har.rs\<close>, \<open>src/cli/openapi.rs\<close>), the TypeScript compiler's passes
  (\<open>src/engine/typescript.rs\<close>) and the reading of a script's options (\<open>extract_config\<close> in
  \<open>src/engine/mod.rs\<close>). The file system, serde's decoders and the passes of the oxc crates are arguments.
\<close>

section \<open>The convert command\<close>

record import_world =
  iw_size :: "string \<Rightarrow> string + nat"
  iw_read :: "string \<Rightarrow> string + string"
  iw_write :: "string \<Rightarrow> string \<Rightarrow> string option"
  iw_json :: "string \<Rightarrow> json option"
  iw_json_spec :: "string \<Rightarrow> open_api_spec option"
  iw_yaml_spec :: "string \<Rightarrow> open_api_spec option"
  iw_json_text :: "json \<Rightarrow> string"

datatype import_error = IoFault string | TooLarge string nat | BadDocument

text \<open>A file is measured before it is read.\<close>

definition read_limited :: "import_world \<Rightarrow> string \<Rightarrow> string \<Rightarrow> import_error + string" where
  "read_limited W kind path = (case iw_size W path of Inl e \<Rightarrow> Inl (IoFault e)
     | Inr bytes \<Rightarrow> if bytes > max_import_file_bytes then Inl (TooLarge kind bytes)
         else (case iw_read W path of Inl e \<Rightarrow> Inl (IoFault e) | Inr content \<Rightarrow> Inr content))"

definition har_text :: "import_world \<Rightarrow> string \<Rightarrow> import_error + string" where
  "har_text W content = (case convert_from_string (iw_json W) content of None \<Rightarrow> Inl BadDocument | Some js \<Rightarrow> Inr js)"

definition har_file :: "import_world \<Rightarrow> string \<Rightarrow> import_error + string" where
  "har_file W path = (case read_limited W ''HAR'' path of Inl e \<Rightarrow> Inl e | Inr content \<Rightarrow> har_text W content)"

text \<open>A document of another extension is tried as JSON first, then as YAML.\<close>

definition read_spec :: "import_world \<Rightarrow> string \<Rightarrow> string \<Rightarrow> open_api_spec option" where
  "read_spec W ext content =
     (if ext = ''json'' then iw_json_spec W content
      else if ext = ''yaml'' \<or> ext = ''yml'' then iw_yaml_spec W content
      else case iw_json_spec W content of Some s \<Rightarrow> Some s | None \<Rightarrow> iw_yaml_spec W content)"

definition file_extension :: "string \<Rightarrow> string" where
  "file_extension path = (case extension path of None \<Rightarrow> [] | Some e \<Rightarrow> e)"

definition openapi_file :: "import_world \<Rightarrow> string \<Rightarrow> import_error + string" where
  "openapi_file W path = (case read_limited W ''OpenAPI'' path of Inl e \<Rightarrow> Inl e
     | Inr content \<Rightarrow> (case read_spec W (file_extension path) content of None \<Rightarrow> Inl BadDocument
         | Some s \<Rightarrow> Inr (convert_from_spec (iw_json_text W) s)))"

text \<open>A \<open>.json\<close> file is read here first, to see whether it holds the text \<open>"log"\<close>.\<close>

definition convert_input :: "import_world \<Rightarrow> string \<Rightarrow> import_error + string" where
  "convert_input W path = (let ext = file_extension path in
     if ext = ''yaml'' \<or> ext = ''yml'' then openapi_file W path
     else if ext = ''json'' then
       (case iw_read W path of Inl e \<Rightarrow> Inl (IoFault e)
        | Inr content \<Rightarrow> (case choose_converter ext content of
            HarConverter \<Rightarrow> har_text W content | OpenApiConverter \<Rightarrow> openapi_file W path))
     else har_file W path)"

datatype convert_result = WrittenTo string string | PrintedOut string

definition convert_command :: "import_world \<Rightarrow> string \<Rightarrow> string option \<Rightarrow> import_error + convert_result" where
  "convert_command W path out_path = (case convert_input W path of Inl e \<Rightarrow> Inl e
     | Inr script \<Rightarrow> (case out_path of None \<Rightarrow> Inr (PrintedOut script)
         | Some p \<Rightarrow> (case iw_write W p script of Some e \<Rightarrow> Inl (IoFault e) | None \<Rightarrow> Inr (WrittenTo p script))))"

section \<open>TypeScript\<close>

text \<open>The passes of the compiler: the parser tells whether it gave up, its errors and the program; the
  transformer's errors and the program; the printer.\<close>

record 'p ts_compiler =
  tc_parse :: "string \<Rightarrow> string \<Rightarrow> bool \<times> string list \<times> 'p"
  tc_transform :: "string \<Rightarrow> 'p \<Rightarrow> string list \<times> 'p"
  tc_print :: "'p \<Rightarrow> string"

definition compile_error :: "string \<Rightarrow> string \<Rightarrow> string list \<Rightarrow> string" where
  "compile_error pass path es = ''TypeScript '' @ pass @ '' error in '' @ path @ '': '' @ join_str '', '' es"

definition transpile_typescript :: "'p ts_compiler \<Rightarrow> string \<Rightarrow> string \<Rightarrow> string + string" where
  "transpile_typescript C source path = (case tc_parse C path source of (gave_up, es, p) \<Rightarrow>
     if gave_up then Inl (compile_error ''parse'' path es)
     else case tc_transform C path p of (es, p) \<Rightarrow>
       if es \<noteq> [] then Inl (compile_error ''transform'' path es) else Inr (tc_print C p))"

section \<open>The options of a script\<close>

text \<open>The exported value of a name, the text of an object read as JSON, and the decoder of \<open>Config\<close>.\<close>

record ('v, 'm) option_reader =
  or_export :: "'m \<Rightarrow> string \<Rightarrow> 'v option"
  or_from_str :: "string \<Rightarrow> string + json"
  or_decode :: "json \<Rightarrow> string + config"

definition canonical_options :: "json \<Rightarrow> json" where
  "canonical_options j = (case j of JObj obj \<Rightarrow> JObj (option_keys obj) | _ \<Rightarrow> j)"

definition read_options :: "('v, 'm) js_host \<Rightarrow> ('v, 'm) option_reader \<Rightarrow> 'm \<Rightarrow> string + config option" where
  "read_options J R m = (case or_export R m ''options'' of None \<Rightarrow> Inr None
     | Some v \<Rightarrow> if \<not> jh_is_object J v then Inr None
       else (case jh_stringify J v of Inl e \<Rightarrow> Inl (jh_plain J e)
         | Inr t \<Rightarrow> (case or_from_str R t of Inl e \<Rightarrow> Inl e
           | Inr j \<Rightarrow> map_sum id Some (or_decode R (canonical_options j)))))"

text \<open>The script is evaluated as a worker would, in a runtime that is leaked; the result, the thread's
  state, and the number of leaked runtimes.\<close>

definition extract_config :: "('v, 'm) js_host \<Rightarrow> ('v, 'm) option_reader \<Rightarrow> script_source \<Rightarrow> worker_env \<Rightarrow>
    (string + config option) \<times> worker_env \<times> nat" where
  "extract_config J R s w = (case jh_runtime J of Inl e \<Rightarrow> (Inl e, w, 0)
     | Inr _ \<Rightarrow> (case load_script J s w of (Inl e, w) \<Rightarrow> (Inl (jh_plain J e), w, 1)
         | (Inr m, w) \<Rightarrow> (read_options J R m, w, 1)))"

section \<open>Properties\<close>

text \<open>What \<open>convert\<close> accepts: a file that is converted was measured and within the limit, unless its extension
  is \<open>json\<close> and it holds the text \<open>"log"\<close>.\<close>

lemma read_limited_bound:
  "read_limited W kind path = Inr content \<Longrightarrow> \<exists>n. iw_size W path = Inr n \<and> n \<le> max_import_file_bytes \<and> iw_read W path = Inr content"
  by (auto simp: read_limited_def split: sum.splits if_splits)

lemma measured:
  "openapi_file W path = Inr js \<Longrightarrow> \<exists>n. iw_size W path = Inr n \<and> n \<le> max_import_file_bytes"
  "har_file W path = Inr js \<Longrightarrow> \<exists>n. iw_size W path = Inr n \<and> n \<le> max_import_file_bytes"
  by (auto simp: openapi_file_def har_file_def dest: read_limited_bound split: sum.splits)

theorem import_measured:
  assumes "convert_input W path = Inr js"
  shows "(\<exists>n. iw_size W path = Inr n \<and> n \<le> max_import_file_bytes)
    \<or> (file_extension path = ''json''
        \<and> (\<exists>content. iw_read W path = Inr content \<and> contains_str ([dquote] @ ''log'' @ [dquote]) content))"
proof (cases "file_extension path = ''json''")
  case True
  with assms show ?thesis
    by (auto simp: convert_input_def Let_def choose_converter_def dest: measured split: sum.splits converter.splits if_splits)
next
  case False
  with assms show ?thesis by (auto simp: convert_input_def Let_def dest: measured split: if_splits)
qed

text \<open>The limit does not hold for every recording: a HAR file named \<open>.json\<close> is read into memory before anything
  is measured, and is converted whatever its size.\<close>

theorem json_recording_unlimited:
  assumes "file_extension path = ''json''" "iw_read W path = Inr content"
    and "contains_str ([dquote] @ ''log'' @ [dquote]) content"
  shows "convert_input (W\<lparr>iw_size := any_size\<rparr>) path = har_text W content"
  using assms by (simp add: convert_input_def Let_def choose_converter_def har_text_def)

text \<open>An OpenAPI document in a \<open>.json\<close> file that has the text \<open>"log"\<close> anywhere (a path, a property, a tag) is
  taken for a recording and refused.\<close>

theorem openapi_with_log_refused:
  assumes "file_extension path = ''json''" "iw_read W path = Inr content"
    and "contains_str ([dquote] @ ''log'' @ [dquote]) content" "iw_json W content = Some (JObj obj)" "hm_get obj ''log'' = None"
  shows "convert_command W path out_path = Inl BadDocument"
  using assms by (simp add: convert_command_def convert_input_def Let_def choose_converter_def har_text_def
    convert_from_string_def har_entries_def json_field_def)

definition tagged_spec :: string where
  "tagged_spec = ''{'' @ [dquote] @ ''log'' @ [dquote] @ ''}''"

definition huge_file :: import_world where
  "huge_file = \<lparr>iw_size = (\<lambda>_. Inr (2 * max_import_file_bytes)), iw_read = (\<lambda>_. Inr tagged_spec), iw_write = (\<lambda>_ _. None),
     iw_json = (\<lambda>_. Some (JObj [(''log'', JObj [(''entries'', JArr [])])])), iw_json_spec = (\<lambda>_. None),
     iw_yaml_spec = (\<lambda>_. None), iw_json_text = (\<lambda>_. [])\<rparr>"

lemma tagged: "file_extension ''a.json'' = ''json''" "contains_str ([dquote] @ ''log'' @ [dquote]) tagged_spec"
  "file_extension ''a.har'' = ''har''" "hm_get [(''openapi'', JStr ''3.0.0'')] ''log'' = None"
  by code_simp+

theorem import_measured_witness:
  "\<exists>js n. convert_input (huge_file\<lparr>iw_size := (\<lambda>_. Inr 7)\<rparr>) ''a.har'' = Inr js
    \<and> iw_size (huge_file\<lparr>iw_size := (\<lambda>_. Inr 7)\<rparr>) ''a.har'' = Inr n \<and> n \<le> max_import_file_bytes"
proof -
  let ?W = "huge_file\<lparr>iw_size := (\<lambda>_. Inr 7)\<rparr>"
  have c: "convert_input ?W ''a.har'' = Inr (har_script [])"
    by (simp add: convert_input_def Let_def tagged har_file_def read_limited_def huge_file_def max_import_file_bytes_def
      har_text_def convert_from_string_def har_entries_def json_field_def)
  from import_measured [OF c] have "\<exists>n. iw_size ?W ''a.har'' = Inr n \<and> n \<le> max_import_file_bytes" by (simp add: tagged)
  with c show ?thesis by blast
qed

theorem json_recording_unlimited_witness:
  "convert_input (huge_file\<lparr>iw_size := (\<lambda>_. Inr (2 * max_import_file_bytes))\<rparr>) ''a.json'' = har_text huge_file tagged_spec"
  by (rule json_recording_unlimited [OF tagged(1) _ tagged(2)]) (simp add: huge_file_def)

theorem openapi_with_log_refused_witness:
  "convert_command (huge_file\<lparr>iw_json := (\<lambda>_. Some (JObj [(''openapi'', JStr ''3.0.0'')]))\<rparr>) ''a.json'' None = Inl BadDocument"
  by (rule openapi_with_log_refused [OF tagged(1) _ tagged(2) _ tagged(4)]) (simp_all add: huge_file_def)

text \<open>A TypeScript file runs only if the compiler neither gave up nor found an error in the transformation; what
  the parser reported without giving up is not looked at.\<close>

theorem recovered_errors_run:
  "transpile_typescript C source path = Inr js \<longleftrightarrow>
     (\<exists>es p p'. tc_parse C path source = (False, es, p) \<and> tc_transform C path p = ([], p') \<and> js = tc_print C p')"
  by (auto simp: transpile_typescript_def split: prod.splits)

text \<open>Where extracted options come from: the object the evaluated script exports as \<open>options\<close>, decoded with its
  canonical keys.\<close>

lemma extracted_options:
  assumes "fst (extract_config J R s w) = Inr opts"
  shows "\<exists>m. jh_declare J (ss_path s) (ss_content s) = Inr m \<and> read_options J R m = Inr opts"
  using assms by (auto simp: extract_config_def load_script_def split: sum.splits prod.splits)

lemma read_options_Some:
  "read_options J R m = Inr (Some c) \<longleftrightarrow> (\<exists>v t j. or_export R m ''options'' = Some v \<and> jh_is_object J v
     \<and> jh_stringify J v = Inr t \<and> or_from_str R t = Inr j \<and> or_decode R (canonical_options j) = Inr c)"
  by (auto simp: read_options_def map_sum_def split: option.splits sum.splits if_splits)

end
