(* ===== verification/Timing.thy ===== *)
theory Timing
  imports Http Schedule
begin

text \<open>
  How the bridged HTTP client measures its connections (\<open>src/engine/http_client.rs\<close>): the two task-local
  cells of a request, the connectors that add to them, and what the request takes from them; and the
  settings of the client. A request is a task; other tasks run between its steps. What a connector
  adds is what it measured; the connectors themselves are hyper's.
\<close>

section \<open>The cells of a task\<close>

text \<open>The cells exist inside the scope of \<open>request_with_timings\<close> only; \<open>tk_taken\<close> are the durations read so
  far. The cells are 64-bit numbers of nanoseconds.\<close>

record task =
  tk_cells :: "(nat \<times> nat) option"
  tk_taken :: "duration list"

definition new_task :: task where
  "new_task = \<lparr>tk_cells = None, tk_taken = []\<rparr>"

definition record_connecting :: "duration \<Rightarrow> task \<Rightarrow> task" where
  "record_connecting d s = s\<lparr>tk_cells := map_option (\<lambda>(c, t). ((c + d mod u64_size) mod u64_size, t)) (tk_cells s)\<rparr>"

definition record_tls :: "duration \<Rightarrow> task \<Rightarrow> task" where
  "record_tls d s = s\<lparr>tk_cells := map_option (\<lambda>(c, t). (c, (t + d mod u64_size) mod u64_size)) (tk_cells s)\<rparr>"

definition take_connecting :: "task \<Rightarrow> task" where
  "take_connecting s = (case tk_cells s of None \<Rightarrow> s\<lparr>tk_taken := tk_taken s @ [0]\<rparr>
     | Some (c, t) \<Rightarrow> s\<lparr>tk_cells := Some (0, t), tk_taken := tk_taken s @ [c]\<rparr>)"

definition take_tls :: "task \<Rightarrow> task" where
  "take_tls s = (case tk_cells s of None \<Rightarrow> s\<lparr>tk_taken := tk_taken s @ [0]\<rparr>
     | Some (c, t) \<Rightarrow> s\<lparr>tk_cells := Some (c, 0), tk_taken := tk_taken s @ [t]\<rparr>)"

text \<open>\<open>request_with_timings\<close> opens the scope around the request; the connectors record when their inner
  connection, made or failed, is over.\<close>

datatype task_event = EnterScope | TcpOver duration | ConnectorOver duration | TakeConnecting | TakeTls | LeaveScope

definition task_step :: "task_event \<Rightarrow> task \<Rightarrow> task" where
  "task_step e s = (case e of EnterScope \<Rightarrow> s\<lparr>tk_cells := Some (0, 0)\<rparr>
     | TcpOver d \<Rightarrow> record_connecting d s
     | ConnectorOver d \<Rightarrow> record_tls d s
     | TakeConnecting \<Rightarrow> take_connecting s
     | TakeTls \<Rightarrow> take_tls s
     | LeaveScope \<Rightarrow> s\<lparr>tk_cells := None\<rparr>)"

text \<open>All tasks: an event is that of the task that runs.\<close>

definition run_tasks :: "(nat \<times> task_event) list \<Rightarrow> (nat \<Rightarrow> task) \<Rightarrow> nat \<Rightarrow> task" where
  "run_tasks es = fold (\<lambda>(i, e) ts. ts(i := task_step e (ts i))) es"

definition task_events :: "nat \<Rightarrow> (nat \<times> task_event) list \<Rightarrow> task_event list" where
  "task_events i es = map snd (filter (\<lambda>(j, _). j = i) es)"

text \<open>The events of a request whose connection attempts took the given times (each the inner TCP
  connection and the whole connector), and what it makes of the cells.\<close>

definition connect_events :: "(duration \<times> duration) list \<Rightarrow> task_event list" where
  "connect_events attempts = concat (map (\<lambda>(tcp, whole). [TcpOver tcp, ConnectorOver whole]) attempts)"

definition request_events :: "(duration \<times> duration) list \<Rightarrow> task_event list" where
  "request_events attempts = EnterScope # connect_events attempts @ [TakeConnecting, TakeTls, LeaveScope]"

section \<open>The settings of the client\<close>

record client_settings =
  cl_idle_timeout :: duration
  cl_max_idle :: nat
  cl_windows :: "nat \<times> nat"

definition with_pool_and_workers :: "nat \<Rightarrow> nat \<Rightarrow> client_settings" where
  "with_pool_and_workers pool n = \<lparr>cl_idle_timeout = 90 * secs, cl_max_idle = pool, cl_windows = http2_windows n\<rparr>"

definition with_pool_size :: "nat \<Rightarrow> client_settings" where
  "with_pool_size pool = with_pool_and_workers pool 1000"

definition new_client :: client_settings where
  "new_client = with_pool_size 2000"

definition with_no_pool :: "nat \<Rightarrow> client_settings" where
  "with_no_pool n = \<lparr>cl_idle_timeout = 0, cl_max_idle = 0, cl_windows = http2_windows n\<rparr>"

text \<open>The client of the bridge of a run: there is one only if pooling is disabled.\<close>

definition bridge_client :: "bool \<Rightarrow> nat \<Rightarrow> client_settings option" where
  "bridge_client no_pool n = (if no_pool then Some (with_pool_and_workers n n) else None)"

section \<open>Properties\<close>

lemma run_tasks_at: "run_tasks es ts i = fold task_step (task_events i es) (ts i)"
  by (induction es arbitrary: ts) (auto simp: run_tasks_def task_events_def)

lemma connect_cells:
  assumes "c + sum_list (map fst as) < u64_size" "t + sum_list (map snd as) < u64_size"
  shows "fold task_step (connect_events as) \<lparr>tk_cells = Some (c, t), tk_taken = xs\<rparr>
    = \<lparr>tk_cells = Some (c + sum_list (map fst as), t + sum_list (map snd as)), tk_taken = xs\<rparr>"
  using assms
proof (induction as arbitrary: c t)
  case (Cons a as)
  obtain tcp whole where a: "a = (tcp, whole)" by force
  show ?case
    using Cons.IH [of "c + tcp" "t + whole"] Cons.prems
    by (simp add: a connect_events_def task_step_def record_connecting_def record_tls_def mod_less)
qed (simp add: connect_events_def)



text \<open>A request outside of a scope measures nothing: both times read zero.\<close>

lemma unscoped_unmeasured:
  assumes "tk_cells s = None"
  shows "fold task_step (connect_events as @ [TakeConnecting, TakeTls]) s = s\<lparr>tk_taken := tk_taken s @ [0, 0]\<rparr>"
proof -
  have same: "s\<lparr>tk_cells := None\<rparr> = s" using assms by (cases s) simp
  have "fold task_step (connect_events as) s = s"
    using assms by (induction as) (auto simp: same connect_events_def task_step_def record_connecting_def record_tls_def)
  then show ?thesis using assms by (simp add: task_step_def take_connecting_def take_tls_def)
qed

text \<open>With pooling disabled the bridge still keeps idle connections, as many as there are workers, for 90 seconds.\<close>

theorem no_pool_still_pools:
  "\<exists>cl. bridge_client True n = Some cl \<and> cl_max_idle cl = n \<and> cl_idle_timeout cl = 90 * secs \<and> cl \<noteq> with_no_pool n"
  by (simp add: bridge_client_def with_pool_and_workers_def with_no_pool_def secs_def)

end
