(* ===== verification/Tui.thy ===== *)
theory Tui
  imports Report Control
begin

text \<open>
  The terminal interface of a run (\<open>src/tui/mod.rs\<close>, \<open>src/tui/ui.rs\<close>): the keys of its three input
  modes and the commands they send to the control loop, the snapshot of the shared aggregator, its
  main loop with the flag that silences scripts, and the formatting of what is drawn. The terminal
  itself (raw mode, drawing, polling) is a reading of each turn.
\<close>

section \<open>State\<close>

datatype input_mode = NormalMode | RampInput string | TagInput string

datatype key_code = KeyChar char | KeyEsc | KeyEnter | KeyBackspace | KeyUp | KeyDown | KeyOther

record key_event =
  ke_code :: key_code
  ke_control :: bool

record endpoint_row =
  er_name :: string
  er_reqs :: nat
  er_avg_ms :: f64
  er_p95_ms :: f64
  er_errors :: nat

record tui_snapshot =
  ts_total_requests :: nat
  ts_rps :: f64
  ts_error_count :: nat
  ts_error_pct :: f64
  ts_avg_ms :: f64
  ts_min_ms :: f64
  ts_max_ms :: f64
  ts_p50_ms :: f64
  ts_p90_ms :: f64
  ts_p95_ms :: f64
  ts_p99_ms :: f64
  ts_data_sent_bytes :: nat
  ts_data_recv_bytes :: nat
  ts_status_codes :: "(nat \<times> nat) list"
  ts_endpoints :: "endpoint_row list"

text \<open>\<open>ap_sent\<close> is what was sent on the control channel; the control state and the aggregator are
  shared with the engine and are arguments of what reads them.\<close>

record app =
  ap_mode :: input_mode
  ap_scroll :: nat
  ap_snapshot :: "tui_snapshot option"
  ap_total_duration :: "duration option"
  ap_sent :: "control_command list"

definition new_app :: "duration option \<Rightarrow> app" where
  "new_app dur = \<lparr>ap_mode = NormalMode, ap_scroll = 0, ap_snapshot = None, ap_total_duration = dur, ap_sent = []\<rparr>"

section \<open>The snapshot\<close>

definition endpoint_rows :: "report_stats \<Rightarrow> endpoint_row list" where
  "endpoint_rows r = sort_key (\<lambda>e. - int (er_reqs e))
     (map (\<lambda>(name, g). \<lparr>er_name = name, er_reqs = rr_total_requests g, er_avg_ms = rr_avg_latency_ms g,
            er_p95_ms = rr_p95_latency_ms g, er_errors = rr_error_count g\<rparr>)
       (filter (\<lambda>(name, g). name \<noteq> ''iteration'' \<and> name \<noteq> ''iteration_total'') (rep_grouped_requests r)))"

definition snapshot_of :: "duration \<Rightarrow> report_stats \<Rightarrow> tui_snapshot" where
  "snapshot_of elapsed r = (let elapsed_secs = f_max (as_secs_f64 elapsed) (to_f64 (1 / 1000));
      error_count = sum_list (map snd (rep_errors r)) in
    \<lparr>ts_total_requests = rep_total_requests r,
     ts_rps = f_div (f_of_nat (rep_total_requests r)) elapsed_secs,
     ts_error_count = error_count,
     ts_error_pct = (if rep_total_requests r > 0
       then f_mul (f_div (f_of_nat error_count) (f_of_nat (rep_total_requests r))) (Fin 100) else Fin 0),
     ts_avg_ms = rep_avg_latency_ms r, ts_min_ms = f_of_nat (rep_min_latency_ms r), ts_max_ms = f_of_nat (rep_max_latency_ms r),
     ts_p50_ms = rep_p50_latency_ms r, ts_p90_ms = rep_p90_latency_ms r, ts_p95_ms = rep_p95_latency_ms r,
     ts_p99_ms = rep_p99_latency_ms r, ts_data_sent_bytes = rep_total_data_sent r,
     ts_data_recv_bytes = rep_total_data_received r, ts_status_codes = sort_key fst (rep_status_codes r),
     ts_endpoints = endpoint_rows r\<rparr>)"

definition refresh_snapshot :: "'h hist_ops \<Rightarrow> duration \<Rightarrow> 'h sharded_aggregator \<Rightarrow> app \<Rightarrow> app" where
  "refresh_snapshot H elapsed agg a = a\<lparr>ap_snapshot := Some (snapshot_of elapsed (to_report H (sharded_merge H agg)))\<rparr>"

section \<open>Keys\<close>

definition send_command :: "control_command \<Rightarrow> app \<Rightarrow> app" where
  "send_command c a = a\<lparr>ap_sent := ap_sent a @ [c]\<rparr>"

definition handle_normal_key :: "control_state \<Rightarrow> key_event \<Rightarrow> app \<Rightarrow> app \<times> bool" where
  "handle_normal_key cs k a = (case ke_code k of
      KeyEsc \<Rightarrow> (send_command Stop a, True)
    | KeyUp \<Rightarrow> (a\<lparr>ap_scroll := ap_scroll a - 1\<rparr>, False)
    | KeyDown \<Rightarrow> (a\<lparr>ap_scroll := (ap_scroll a + 1) mod u64_size\<rparr>, False)
    | KeyChar c \<Rightarrow>
       (if c = CHR ''q'' then (send_command Stop a, True)
        else if c = CHR ''c'' \<and> ke_control k then (send_command Stop a, True)
        else if c = CHR ''p'' then (send_command (if is_paused cs then Resume else Pause) a, False)
        else if c = CHR ''s'' then (send_command Stop a, False)
        else if c = CHR ''+'' \<or> c = CHR ''='' then
          (send_command (Ramp ((get_target_workers cs + 10) mod u64_size)) a, False)
        else if c = CHR ''-'' then (send_command (Ramp (max (get_target_workers cs - 10) 1)) a, False)
        else if c = CHR ''r'' then (a\<lparr>ap_mode := RampInput []\<rparr>, False)
        else if c = CHR ''a'' then (send_command (Ramp 0) a, False)
        else if c = CHR ''t'' then (a\<lparr>ap_mode := TagInput []\<rparr>, False)
        else (a, False))
    | _ \<Rightarrow> (a, False))"

definition handle_ramp_key :: "string \<Rightarrow> key_event \<Rightarrow> app \<Rightarrow> app" where
  "handle_ramp_key s k a = (case ke_code k of
      KeyEsc \<Rightarrow> a\<lparr>ap_mode := NormalMode\<rparr>
    | KeyEnter \<Rightarrow> (case parse_u64 s of Some n \<Rightarrow> send_command (Ramp n) a | None \<Rightarrow> a)\<lparr>ap_mode := NormalMode\<rparr>
    | KeyChar c \<Rightarrow> if is_digit c then a\<lparr>ap_mode := RampInput (s @ [c])\<rparr> else a
    | KeyBackspace \<Rightarrow> a\<lparr>ap_mode := RampInput (butlast s)\<rparr>
    | _ \<Rightarrow> a)"

definition handle_tag_key :: "string \<Rightarrow> key_event \<Rightarrow> app \<Rightarrow> app" where
  "handle_tag_key s k a = (case ke_code k of
      KeyEsc \<Rightarrow> a\<lparr>ap_mode := NormalMode\<rparr>
    | KeyEnter \<Rightarrow> (case split_once (CHR ''='') s of Some (t, v) \<Rightarrow> send_command (Tag t v) a | None \<Rightarrow> a)\<lparr>ap_mode := NormalMode\<rparr>
    | KeyChar c \<Rightarrow> a\<lparr>ap_mode := TagInput (s @ [c])\<rparr>
    | KeyBackspace \<Rightarrow> a\<lparr>ap_mode := TagInput (butlast s)\<rparr>
    | _ \<Rightarrow> a)"

text \<open>\<open>handle_key\<close>: the application after the key, and whether it quits.\<close>

definition handle_key :: "control_state \<Rightarrow> key_event \<Rightarrow> app \<Rightarrow> app \<times> bool" where
  "handle_key cs k a = (case ap_mode a of
      NormalMode \<Rightarrow> handle_normal_key cs k a
    | RampInput s \<Rightarrow> (handle_ramp_key s k a, False)
    | TagInput s \<Rightarrow> (handle_tag_key s k a, False))"

section \<open>The loop\<close>

text \<open>What a turn reads: whether the terminal failed, a key press, whether a second passed since the
  last snapshot, the shared state and statistics.\<close>

record 'h tui_turn =
  tn_failed :: bool
  tn_key :: "key_event option"
  tn_tick :: bool
  tn_control :: control_state
  tn_elapsed :: duration
  tn_stats :: "'h sharded_aggregator"

datatype tui_end = TuiQuit | TuiStopped | TuiFailed | TuiRunning

fun tui_loop :: "'h hist_ops \<Rightarrow> 'h tui_turn list \<Rightarrow> app \<Rightarrow> app \<times> tui_end" where
  "tui_loop H [] a = (a, TuiRunning)"
| "tui_loop H (t # ts) a =
     (if tn_failed t then (a, TuiFailed)
      else let (a, quit) = (case tn_key t of None \<Rightarrow> (a, False) | Some k \<Rightarrow> handle_key (tn_control t) k a) in
        if quit then (a, TuiQuit)
        else let a = (if tn_tick t then refresh_snapshot H (tn_elapsed t) (tn_stats t) a else a) in
        if is_stopped (tn_control t) then (refresh_snapshot H (tn_elapsed t) (tn_stats t) a, TuiStopped)
        else tui_loop H ts a)"

text \<open>\<open>run_tui\<close>: whether each of the steps that open the screen succeeds; the result is the flag
  \<open>TUI_ACTIVE\<close> when the function returns (scripts print nothing while it is set) and the end of the
  loop. The guard that clears the flag exists only once the screen is open.\<close>

record tui_setup =
  su_raw_mode :: bool
  su_alternate :: bool
  su_terminal :: bool

definition run_tui :: "'h hist_ops \<Rightarrow> tui_setup \<Rightarrow> duration option \<Rightarrow> 'h tui_turn \<Rightarrow> 'h tui_turn list
    \<Rightarrow> bool \<times> (app \<times> tui_end) option" where
  "run_tui H su dur first turns =
     (if \<not> (su_raw_mode su \<and> su_alternate su \<and> su_terminal su) then (True, None)
      else (False, Some (tui_loop H turns (refresh_snapshot H (tn_elapsed first) (tn_stats first) (new_app dur)))))"

section \<open>What is drawn\<close>

definition ui_format_duration :: "duration \<Rightarrow> string" where
  "ui_format_duration d = (let total_secs = d div secs in pad_nat 2 (total_secs div 60) @ '':'' @ pad_nat 2 (total_secs mod 60))"

definition format_ms :: "f64 \<Rightarrow> string" where
  "format_ms ms = (if f_le (Fin 1000) ms then fmt_fixed 1 (f_div ms (Fin 1000)) @ ''s''
     else if f_le (Fin 1) ms then fmt_fixed 1 ms @ ''ms'' else fmt_fixed 2 ms @ ''ms'')"

definition format_number :: "nat \<Rightarrow> string" where
  "format_number n = (if n \<ge> 1000000 then fmt_fixed 1 (f_div (f_of_nat n) (Fin 1000000)) @ ''M''
     else if n \<ge> 1000 then fmt_fixed 1 (f_div (f_of_nat n) (Fin 1000)) @ ''K'' else show_nat n)"

definition truncate_name :: "string \<Rightarrow> nat \<Rightarrow> string" where
  "truncate_name name mx = (if length name \<le> mx then name else take (mx - 3) name @ ''...'')"

datatype color = Red | Yellow | Green | Magenta | Gray | Cyan | White

definition header_state :: "control_state \<Rightarrow> string \<times> color" where
  "header_state cs = (if is_stopped cs then (''STOPPED'', Red) else if is_paused cs then (''PAUSED'', Yellow) else (''RUNNING'', Green))"

definition header_elapsed :: "nat \<Rightarrow> duration \<Rightarrow> control_state \<Rightarrow> duration option \<Rightarrow> string" where
  "header_elapsed now elapsed cs dur = (let e = ui_format_duration (elapsed - total_paused now cs) in
     case dur of Some d \<Rightarrow> e @ '' / '' @ ui_format_duration d | None \<Rightarrow> e)"

definition status_color :: "nat \<Rightarrow> color" where
  "status_color n = (if 200 \<le> n \<and> n \<le> 299 then Green else if 300 \<le> n \<and> n \<le> 399 then Yellow
     else if 400 \<le> n \<and> n \<le> 499 then Magenta else if 500 \<le> n \<and> n \<le> 599 then Red else Gray)"

definition pause_label :: "control_state \<Rightarrow> string" where
  "pause_label cs = (if is_paused cs then ''[p] Resume'' else ''[p] Pause'')"

section \<open>Lemmas\<close>

definition press :: "control_state \<Rightarrow> key_code list \<Rightarrow> app \<Rightarrow> app" where
  "press cs ks a = foldl (\<lambda>a k. fst (handle_key cs \<lparr>ke_code = k, ke_control = False\<rparr> a)) a ks"

lemma press_append: "press cs (ks @ ls) a = press cs ls (press cs ks a)"
  by (simp add: press_def)

lemma press_digits:
  "list_all is_digit ds \<Longrightarrow> ap_mode a = RampInput s \<Longrightarrow> press cs (map KeyChar ds) a = a\<lparr>ap_mode := RampInput (s @ ds)\<rparr>"
  by (induction ds arbitrary: a s) (simp_all add: press_def handle_key_def handle_ramp_key_def)

lemma press_text:
  "ap_mode a = TagInput s \<Longrightarrow> press cs (map KeyChar t) a = a\<lparr>ap_mode := TagInput (s @ t)\<rparr>"
  by (induction t arbitrary: a s) (simp_all add: press_def handle_key_def handle_tag_key_def)

lemma names_kept:
  "image_mset er_name (image_mset (\<lambda>(name, g). f name g) (filter_mset (\<lambda>(name, g). P name) (mset gs))) = filter_mset P (image_mset fst (mset gs))"
  if "\<And>name g. er_name (f name g) = name"
  using that by (induction gs) auto

section \<open>Properties\<close>

text \<open>What is typed is what is sent: \<open>r\<close>, the digits of a number, Enter asks for exactly that number
  of workers, and \<open>t\<close>, \<open>key=value\<close>, Enter sets exactly that tag (the value may contain \<open>=\<close>); nothing
  else is sent and the keys are commands again afterwards.\<close>

theorem typed_commands:
  assumes "ap_mode a = NormalMode" "n < u64_size" "CHR ''='' \<notin> set k"
  shows "press cs (KeyChar (CHR ''r'') # map KeyChar (show_nat n) @ [KeyEnter]) a = send_command (Ramp n) a
    \<and> press cs (KeyChar (CHR ''t'') # map KeyChar (k @ CHR ''='' # v) @ [KeyEnter]) a = send_command (Tag k v) a"
proof -
  let ?r = "a\<lparr>ap_mode := RampInput []\<rparr>" and ?t = "a\<lparr>ap_mode := TagInput []\<rparr>"
  have start: "press cs (KeyChar (CHR ''r'') # ks) a = press cs ks ?r" "press cs (KeyChar (CHR ''t'') # ks) a = press cs ks ?t" for ks
    using assms(1) by (simp_all add: press_def handle_key_def handle_normal_key_def)
  have "press cs (map KeyChar (show_nat n)) ?r = a\<lparr>ap_mode := RampInput (show_nat n)\<rparr>"
    using press_digits [OF show_nat_digits, of ?r "[]"] by simp
  moreover have "press cs (map KeyChar (k @ CHR ''='' # v)) ?t = a\<lparr>ap_mode := TagInput (k @ CHR ''='' # v)\<rparr>"
    using press_text [of ?t "[]" cs "k @ CHR ''='' # v"] by simp
  moreover have "press cs [KeyEnter] (a\<lparr>ap_mode := RampInput (show_nat n)\<rparr>) = send_command (Ramp n) a"
    using assms(1,2) by (simp add: press_def handle_key_def handle_ramp_key_def text_simps send_command_def)
  moreover have "press cs [KeyEnter] (a\<lparr>ap_mode := TagInput (k @ CHR ''='' # v)\<rparr>) = send_command (Tag k v) a"
    using assms(1,3) by (simp add: press_def handle_key_def handle_tag_key_def text_simps send_command_def)
  ultimately show ?thesis unfolding start press_append by metis
qed

theorem typed_commands_witness:
  "ap_sent (press (new_control 5) (KeyChar (CHR ''r'') # map KeyChar (show_nat 250) @ [KeyEnter]) (new_app None)) = [Ramp 250]"
  using typed_commands [of "new_app None" 250 "''k''" "new_control 5"] by (simp add: new_app_def send_command_def)

text \<open>While a number or a tag is being typed no key stops the run or quits: \<open>q\<close>, Ctrl-C and the
  others only edit the text.\<close>

theorem typing_swallows_quit:
  assumes "ap_mode a \<noteq> NormalMode" "handle_key cs k a = (a', quit)"
  shows "\<not> quit \<and> (ap_sent a' = ap_sent a \<or> (ke_code k = KeyEnter \<and>
    (\<exists>c. ap_sent a' = ap_sent a @ [c] \<and> c \<noteq> Stop)))"
  using assms
  by (auto simp: handle_key_def handle_ramp_key_def handle_tag_key_def send_command_def
      split: input_mode.splits key_code.splits option.splits if_splits)

theorem typing_swallows_quit_witness:
  "snd (handle_key (new_control 1) \<lparr>ke_code = KeyChar (CHR ''c''), ke_control = True\<rparr> ((new_app None)\<lparr>ap_mode := RampInput []\<rparr>)) = False"
proof -
  let ?a = "(new_app None)\<lparr>ap_mode := RampInput []\<rparr>" and ?k = "\<lparr>ke_code = KeyChar (CHR ''c''), ke_control = True\<rparr>"
  have "ap_mode ?a \<noteq> NormalMode" by simp
  from typing_swallows_quit [OF this prod.collapse [symmetric], of "new_control 1" ?k] show ?thesis by simp
qed

text \<open>The snapshot shows every endpoint of the report once, the busiest first, without the two
  internal names, and its status codes in order.\<close>

theorem snapshot_sorted:
  "sorted_wrt (\<lambda>e f. er_reqs f \<le> er_reqs e) (ts_endpoints (snapshot_of d r))
   \<and> mset (map er_name (ts_endpoints (snapshot_of d r))) =
       filter_mset (\<lambda>n. n \<noteq> ''iteration'' \<and> n \<noteq> ''iteration_total'') (mset (map fst (rep_grouped_requests r)))
   \<and> sorted (map fst (ts_status_codes (snapshot_of d r))) \<and> mset (ts_status_codes (snapshot_of d r)) = mset (rep_status_codes r)"
proof -
  have "sorted_wrt (\<lambda>e f. er_reqs f \<le> er_reqs e) (sort_key (\<lambda>e. - int (er_reqs e)) xs)" for xs
    using sorted_sort_key [of "\<lambda>e. - int (er_reqs e)" xs] by (simp add: sorted_map)
  moreover have "mset (map er_name (endpoint_rows r)) =
      filter_mset (\<lambda>n. n \<noteq> ''iteration'' \<and> n \<noteq> ''iteration_total'') (mset (map fst (rep_grouped_requests r)))"
    by (simp add: endpoint_rows_def names_kept)
  ultimately show ?thesis by (simp add: snapshot_of_def endpoint_rows_def Let_def)
qed

text \<open>Pressing \<open>p\<close> twice before the control loop has handled the first press sends \<open>Pause\<close> twice,
  and the second pause restarts the clock of the first: after a resume, the paused time is counted
  from the second press only.\<close>

theorem double_pause_loses_time:
  assumes "ap_mode a = NormalMode" "\<not> is_paused cs" "0 < t" "t \<le> u" "u \<le> v"
  shows "ap_sent (press cs [KeyChar (CHR ''p''), KeyChar (CHR ''p'')] a) = ap_sent a @ [Pause, Pause]
    \<and> total_paused v (resume v (pause u (pause t cs))) = (total_paused_ms cs + (v - u)) * millis"
  using assms
  by (simp add: press_def handle_key_def handle_normal_key_def send_command_def pause_def resume_def total_paused_def Let_def)

theorem double_pause_loses_time_witness:
  "total_paused 9000 (resume 9000 (pause 8000 (pause 1000 (new_control 1)))) = 1000 * millis"
  using double_pause_loses_time [of "new_app None" "new_control 1" 1000 8000 9000]
  by (simp add: new_app_def new_control_def is_paused_def)

text \<open>If the screen cannot be opened, the function returns with the flag that silences the
  scripts' console still set; otherwise it is cleared on every way out.\<close>

theorem failed_screen_stays_silent:
  "fst (run_tui H su dur first turns) = (\<not> (su_raw_mode su \<and> su_alternate su \<and> su_terminal su))"
  by (simp add: run_tui_def)

lemma truncated_fits: "3 \<le> mx \<Longrightarrow> length (truncate_name name mx) \<le> mx"
  by (auto simp: truncate_name_def)

end
