(* ===== verification/Screen.thy ===== *)
theory Screen
  imports Tui
begin

text \<open>
  The screen of the terminal interface (\<open>src/tui/ui.rs\<close>): the five areas, the lines and styles drawn in
  each, and the table of endpoints, as data handed to the ratatui crate. Glyphs beyond the code points of
  \<open>string\<close> are named.
\<close>

section \<open>Text and widgets\<close>

datatype ink = Plain string | VerticalBar | PlusMinus | UpDown | Block

record span =
  sp_text :: "ink list"
  sp_fg :: "color option"
  sp_bg :: "color option"
  sp_bold :: bool

definition raw :: "ink list \<Rightarrow> span" where
  "raw t = \<lparr>sp_text = t, sp_fg = None, sp_bg = None, sp_bold = False\<rparr>"

definition inked :: "color \<Rightarrow> ink list \<Rightarrow> span" where
  "inked c t = \<lparr>sp_text = t, sp_fg = Some c, sp_bg = None, sp_bold = False\<rparr>"

definition bold :: "color \<Rightarrow> ink list \<Rightarrow> span" where
  "bold c t = \<lparr>sp_text = t, sp_fg = Some c, sp_bg = None, sp_bold = True\<rparr>"

text \<open>Every widget has a border on all sides; a table has a header and rows of cells, the last cell of a
  row with its own color.\<close>

datatype widget = Paragraph "span option" "span list list"
  | EndpointTable string "(string list \<times> color option) list"

datatype height = Rows nat | AtLeast nat

definition areas :: "height list" where
  "areas = [Rows 3, Rows 7, Rows 4, AtLeast 5, Rows 3]"

section \<open>The areas\<close>

definition draw_header :: "nat \<Rightarrow> duration \<Rightarrow> control_state \<Rightarrow> app \<Rightarrow> widget" where
  "draw_header now elapsed cs a = (case header_state cs of (state, c) \<Rightarrow>
     Paragraph (Some (bold Magenta [Plain '' Fusillade '']))
      [[\<lparr>sp_text = [Plain ('' '' @ state @ '' '')], sp_fg = Some White, sp_bg = Some c, sp_bold = True\<rparr>, raw [Plain ''  ''],
        inked Cyan [Plain (''Workers: '' @ format_number (get_target_workers cs))], raw [Plain ''  '', VerticalBar, Plain ''  ''],
        inked White [Plain (''Elapsed: '' @ header_elapsed now elapsed cs (ap_total_duration a))]]])"

definition megabytes :: "nat \<Rightarrow> string" where
  "megabytes n = fmt_fixed 1 (f_div (f_of_nat n) (Fin 1048576)) @ '' MB''"

definition stats_lines :: "tui_snapshot \<Rightarrow> span list list" where
  "stats_lines sn =
     [[raw [Plain ''  Requests: ''], bold White [Plain (format_number (ts_total_requests sn))],
       raw [Plain ''    RPS: ''], inked Cyan [Plain (fmt_fixed 1 (ts_rps sn))],
       raw [Plain ''    Errors: ''], inked (if ts_error_count sn > 0 then Red else Green)
         [Plain (format_number (ts_error_count sn) @ '' ('' @ fmt_fixed 1 (ts_error_pct sn) @ ''%)'')]],
      [raw [Plain ''  Sent: ''], inked White [Plain (megabytes (ts_data_sent_bytes sn))],
       raw [Plain ''       Received: ''], inked White [Plain (megabytes (ts_data_recv_bytes sn))]],
      [raw [Plain []]],
      [raw [Plain ''  Avg: ''], inked Yellow [Plain (format_ms (ts_avg_ms sn))],
       raw [Plain ''  Min: ''], inked Green [Plain (format_ms (ts_min_ms sn))],
       raw [Plain ''  Max: ''], inked Red [Plain (format_ms (ts_max_ms sn))]],
      [raw [Plain ''  P50: ''], inked White [Plain (format_ms (ts_p50_ms sn))],
       raw [Plain ''  P90: ''], inked White [Plain (format_ms (ts_p90_ms sn))],
       raw [Plain ''  P95: ''], inked Yellow [Plain (format_ms (ts_p95_ms sn))],
       raw [Plain ''  P99: ''], inked Red [Plain (format_ms (ts_p99_ms sn))]]]"

definition draw_stats :: "app \<Rightarrow> widget" where
  "draw_stats a = Paragraph None (case ap_snapshot a of None \<Rightarrow> [[raw [Plain ''  Waiting for data...'']]]
     | Some sn \<Rightarrow> stats_lines sn)"

definition status_spans :: "(nat \<times> nat) list \<Rightarrow> span list" where
  "status_spans codes = concat (map (\<lambda>(i, status, n).
     inked (status_color status) [Plain (show_nat status @ '': '' @ format_number n)]
       # (if i < length codes - 1 then [raw [Plain ''  '', VerticalBar, Plain ''  '']] else []))
     (zip [0..<length codes] codes))"

definition draw_status_codes :: "app \<Rightarrow> widget option" where
  "draw_status_codes a = (case ap_snapshot a of None \<Rightarrow> None
     | Some sn \<Rightarrow> Some (Paragraph (Some (raw [Plain '' Status Codes ''])) [raw [Plain ''  ''] # status_spans (ts_status_codes sn)]))"

definition endpoint_cell_row :: "endpoint_row \<Rightarrow> string list \<times> color option" where
  "endpoint_cell_row e = ([truncate_name (er_name e) 30, format_number (er_reqs e), format_ms (er_avg_ms e),
     format_ms (er_p95_ms e), format_number (er_errors e)], if er_errors e > 0 then Some Red else None)"

definition draw_endpoints :: "app \<Rightarrow> widget option" where
  "draw_endpoints a = (case ap_snapshot a of None \<Rightarrow> None
     | Some sn \<Rightarrow> Some (EndpointTable '' Endpoints '' (map endpoint_cell_row (drop (ap_scroll a) (ts_endpoints sn)))))"

text \<open>The columns of the table and their widths; the first one takes what is left.\<close>

definition endpoint_columns :: "(string \<times> height) list" where
  "endpoint_columns = [(''Name'', AtLeast 30), (''Reqs'', Rows 10), (''Avg'', Rows 12), (''P95'', Rows 12), (''Errs'', Rows 8)]"

definition input_line :: "string \<Rightarrow> color \<Rightarrow> string \<Rightarrow> span list" where
  "input_line prompt c typed = [inked c [Plain prompt], bold White [Plain typed], inked White [Block],
     raw [Plain ''  (Enter to submit, Esc to cancel)'']]"

definition footer_line :: "control_state \<Rightarrow> input_mode \<Rightarrow> span list" where
  "footer_line cs m = (case m of
     NormalMode \<Rightarrow> [inked Yellow [Plain ('' '' @ pause_label cs @ ''  '')], inked Red [Plain ''[s] Stop  ''],
       inked Cyan [Plain ''[+/-] Workers '', PlusMinus, Plain ''10  ''], inked Green [Plain ''[r] Ramp  ''],
       inked Green [Plain ''[a] Auto  ''], inked Magenta [Plain ''[t] Tag  ''],
       inked White [Plain ''['', UpDown, Plain ''] Scroll  ''], inked Gray [Plain ''[q] Quit'']]
   | RampInput s \<Rightarrow> input_line '' Ramp to workers: '' Green s
   | TagInput s \<Rightarrow> input_line '' Tag (key=value): '' Magenta s)"

definition draw_footer :: "control_state \<Rightarrow> app \<Rightarrow> widget" where
  "draw_footer cs a = Paragraph None [footer_line cs (ap_mode a)]"

definition draw :: "nat \<Rightarrow> duration \<Rightarrow> control_state \<Rightarrow> app \<Rightarrow> (height \<times> widget option) list" where
  "draw now elapsed cs a = zip areas [Some (draw_header now elapsed cs a), Some (draw_stats a), draw_status_codes a,
     draw_endpoints a, Some (draw_footer cs a)]"

section \<open>Properties\<close>

text \<open>What fits: a paragraph within the fixed height of its area and its border; a row with one cell per
  column, its name within the width of the first.\<close>

definition fits :: "height \<times> widget option \<Rightarrow> bool" where
  "fits hw = (case hw of
     (Rows n, Some (Paragraph _ ls)) \<Rightarrow> length ls + 2 \<le> n
   | (AtLeast _, Some (EndpointTable _ rows)) \<Rightarrow>
       list_all (\<lambda>(cells, _). length cells = length endpoint_columns \<and> length (hd cells) \<le> 30) rows
   | (_, None) \<Rightarrow> True
   | _ \<Rightarrow> False)"

text \<open>Whatever the state, everything drawn fits: no line of a paragraph is cut off by its area, and no
  name by its column.\<close>

theorem screen_fits: "list_all fits (draw now elapsed cs a)"
  by (simp add: draw_def areas_def fits_def draw_header_def draw_stats_def draw_status_codes_def draw_endpoints_def
      draw_footer_def stats_lines_def endpoint_cell_row_def endpoint_columns_def truncated_fits list_all_iff
      split: option.split prod.split)

text \<open>The line of status codes shows every code with its number, in ascending order, separated by bars.\<close>

lemma status_spans_text:
  "map (\<lambda>s. hd (sp_text s)) (filter (\<lambda>s. sp_fg s \<noteq> None) (status_spans codes))
    = map (\<lambda>(status, n). Plain (show_nat status @ '': '' @ format_number n)) codes"
proof -
  have "map (\<lambda>s. hd (sp_text s)) (filter (\<lambda>s. sp_fg s \<noteq> None) (concat (map (\<lambda>(i, status, n).
      inked (status_color status) [Plain (show_nat status @ '': '' @ format_number n)]
        # (if i < m then [raw [Plain ''  '', VerticalBar, Plain ''  '']] else [])) (zip is codes))))
    = map (\<lambda>(status, n). Plain (show_nat status @ '': '' @ format_number n)) codes" if "length is = length codes" for "is" m
    using that by (induction "is" codes rule: list_induct2) (auto simp: inked_def raw_def)
  from this [of "[0..<length codes]" "length codes - 1"] show ?thesis unfolding status_spans_def by simp
qed

theorem status_line_complete:
  assumes "ap_snapshot a = Some (snapshot_of elapsed r)"
  shows "\<exists>title pad spans codes. draw_status_codes a = Some (Paragraph title [pad # spans])
    \<and> map (\<lambda>s. hd (sp_text s)) (filter (\<lambda>s. sp_fg s \<noteq> None) spans)
        = map (\<lambda>(status, n). Plain (show_nat status @ '': '' @ format_number n)) codes
    \<and> sorted (map fst codes) \<and> mset codes = mset (rep_status_codes r)"
proof -
  let ?codes = "sort_key fst (rep_status_codes r)"
  have "draw_status_codes a = Some (Paragraph (Some (raw [Plain '' Status Codes ''])) [raw [Plain ''  ''] # status_spans ?codes])"
    using assms by (simp add: draw_status_codes_def snapshot_of_def Let_def)
  then show ?thesis using status_spans_text [of ?codes] sorted_sort_key [of fst "rep_status_codes r"] mset_sort by blast
qed

theorem status_line_complete_witness:
  "\<exists>title pad spans. draw_status_codes (new_app None\<lparr>ap_snapshot := Some (snapshot_of secs
      (to_report list_hist (aggregator_new list_hist)))\<rparr>) = Some (Paragraph title [pad # spans])"
  using status_line_complete [of "new_app None\<lparr>ap_snapshot := Some (snapshot_of secs
      (to_report list_hist (aggregator_new list_hist)))\<rparr>" secs "to_report list_hist (aggregator_new list_hist)"]
  by auto

text \<open>What is typed is shown and what is shown is sent: in the tag mode the footer holds the typed text, and
  Enter sends the tag read from exactly that text.\<close>

theorem typed_text_shown:
  assumes "ap_mode a = TagInput []" "\<not> CHR ''='' \<in> set k"
  shows "draw_footer cs (press cs (map KeyChar (k @ CHR ''='' # v)) a)
      = Paragraph None [input_line '' Tag (key=value): '' Magenta (k @ CHR ''='' # v)]
    \<and> ap_sent (press cs (map KeyChar (k @ CHR ''='' # v) @ [KeyEnter]) a) = ap_sent a @ [Tag k v]"
proof -
  let ?t = "k @ CHR ''='' # v"
  have p: "press cs (map KeyChar ?t) a = a\<lparr>ap_mode := TagInput ?t\<rparr>"
    using press_text [of a "[]" cs ?t] assms(1) by simp
  have "split_once (CHR ''='') ?t = Some (k, v)" using assms(2) by (rule split_once_append)
  then show ?thesis
    by (simp only: press_append p) (simp add: draw_footer_def footer_line_def press_def handle_key_def handle_tag_key_def send_command_def)
qed

theorem typed_text_shown_witness:
  "ap_sent (press (new_control 1) (map KeyChar ''a=b'' @ [KeyEnter]) (new_app None\<lparr>ap_mode := TagInput []\<rparr>)) = [Tag ''a'' ''b'']"
  using typed_text_shown [of "new_app None\<lparr>ap_mode := TagInput []\<rparr>" "''a''" "new_control 1" "''b''"]
  by (simp add: new_app_def)

text \<open>The position in the table is not bounded by the table: keys pressed beyond its end scroll past it, and
  the table is empty until they are taken back one by one.\<close>

theorem scroll_past_end:
  assumes "ap_mode a = NormalMode" "ap_scroll a + n < u64_size" "length (ts_endpoints sn) \<le> ap_scroll a + n"
    and "ap_snapshot a = Some sn"
  shows "draw_endpoints (press cs (replicate n KeyDown) a) = Some (EndpointTable '' Endpoints '' [])"
proof -
  have "press cs (replicate n KeyDown) a = a\<lparr>ap_scroll := ap_scroll a + n\<rparr>"
    using assms(1,2)
    by (induction n arbitrary: a) (simp_all add: press_def handle_key_def handle_normal_key_def)
  then show ?thesis using assms(3,4) by (simp add: draw_endpoints_def)
qed

theorem scroll_past_end_witness:
  "draw_endpoints (press (new_control 1) (replicate 3 KeyDown) (new_app None\<lparr>ap_snapshot := Some (snapshot_of secs
      (to_report list_hist (aggregator_new list_hist)))\<rparr>)) = Some (EndpointTable '' Endpoints '' [])"
proof -
  let ?sn = "snapshot_of secs (to_report list_hist (aggregator_new list_hist))"
  have "ts_endpoints ?sn = []"
    by (simp add: snapshot_of_def endpoint_rows_def to_report_def aggregator_new_def map_reports_def Let_def)
  then show ?thesis
    by (intro scroll_past_end [of _ _ ?sn]) (simp_all add: new_app_def)
qed

end
