(* ===== verification/Servers.thy ===== *)
theory Servers
  imports Cluster Exporters
begin

text \<open>
  How a controller and its workers are started (\<open>src/engine/distributed.rs\<close> and the two commands of
  \<open>src/main.rs\<close>): the addresses and lines of a controller, a worker joining it with its token, and the
  HTTP server of a worker that is not in a cluster. Parsing an address, dialling and validating a
  header value are tonic's and the standard library's, arguments here.
\<close>

section \<open>The controller\<close>

text \<open>The gRPC server listens on the port after the one of the HTTP server; ports are 16 bits.\<close>

definition grpc_port :: "nat \<Rightarrow> nat" where
  "grpc_port http_port = (http_port + 1) mod 65536"

definition token_warning :: "string option \<Rightarrow> string list" where
  "token_warning token = (if token = None then [''WARNING: Cluster running without authentication '' @ [CHR 0xE2, CHR 0x80, CHR 0x94]
     @ '' anyone on the network can register as a worker. Use --cluster-token or FUSILLADE_CLUSTER_TOKEN to enable auth.''] else [])"

record controller_start =
  cs_grpc :: "string \<times> nat"
  cs_metrics_url :: string
  cs_lines :: "string list"

definition start_controller :: "(string \<Rightarrow> string + (string \<times> nat)) \<Rightarrow> ((string \<times> nat) \<Rightarrow> string) \<Rightarrow> string \<Rightarrow>
    string + controller_start" where
  "start_controller socket_addr shown addr = (case socket_addr addr of Inl e \<Rightarrow> Inl e
     | Inr (ip, port) \<Rightarrow> (let grpc = (ip, grpc_port port) in
         Inr \<lparr>cs_grpc = grpc, cs_metrics_url = controller_metrics_url addr,
           cs_lines = [''Controller gRPC listening on '' @ shown grpc, ''Controller running on http://'' @ addr,
             ''Workers will stream metrics to http://'' @ addr @ ''/metrics'']\<rparr>))"

text \<open>The history route: the newest fifty runs, or nothing if the history cannot be read.\<close>

definition handle_api_history :: "run_row list option \<Rightarrow> (nat \<times> string \<times> string) list" where
  "handle_api_history db = (case db of None \<Rightarrow> [] | Some rows \<Rightarrow> list_runs 50 rows)"

section \<open>A worker joins\<close>

text \<open>The header of a worker with a token; \<open>ascii\<close> says which texts are header values.\<close>

definition worker_authorization :: "(string \<Rightarrow> bool) \<Rightarrow> string option \<Rightarrow> string + string option" where
  "worker_authorization ascii token = (case token of None \<Rightarrow> Inr None
     | Some t \<Rightarrow> if ascii (''Bearer '' @ t) then Inr (Some (''Bearer '' @ t)) else Inl ''Invalid cluster token'')"

definition register_message :: "string \<Rightarrow> nat option \<Rightarrow> worker_message" where
  "register_message wid cpus = Register wid ''unknown'' ((case cpus of None \<Rightarrow> 1 | Some n \<Rightarrow> n) mod 4294967296)"

text \<open>Joining a running controller: the connection with the header, and when it is accepted the
  registration.\<close>

definition join_cluster :: "(string \<Rightarrow> bool) \<Rightarrow> string option \<Rightarrow> string \<Rightarrow> nat option \<Rightarrow> string option \<Rightarrow> controller \<Rightarrow>
    (string + nat) \<times> controller" where
  "join_cluster ascii token wid cpus expected c = (case worker_authorization ascii token of
     Inl e \<Rightarrow> (Inl e, c)
   | Inr auth \<Rightarrow> (let c1 = controller_step expected c (Connect auth) in
       if check_auth expected auth
       then (Inr (length (ct_sessions c)), controller_step expected c1 (Message (length (ct_sessions c)) (register_message wid cpus)))
       else (Inl ''Unauthenticated'', c1)))"

section \<open>A worker without a controller\<close>

record start_request =
  sq_script_content :: string
  sq_script_name :: string
  sq_config :: config
  sq_metrics_url :: "string option"
  sq_assets :: "(string \<times> string) list option"

datatype worker_route = StatusRoute | StartRoute

definition worker_server_route :: "string \<Rightarrow> string \<Rightarrow> worker_route option" where
  "worker_server_route meth path = (if path = ''/status'' \<and> meth = ''GET'' then Some StatusRoute
     else if path = ''/start'' \<and> meth = ''POST'' then Some StartRoute else None)"

definition handle_status :: string where
  "handle_status = ''ready''"

text \<open>Starting a test: the assets are written, the run is given to the engine in a task of its own whose
  result is dropped, and the answer is always the same.\<close>

record started_run =
  sd_path :: string
  sd_content :: string
  sd_config :: config
  sd_metrics_url :: "string option"
  sd_json_output :: bool

definition handle_start :: "(fs_effect list \<Rightarrow> component list \<Rightarrow> component list option) \<Rightarrow> component list \<Rightarrow> start_request \<Rightarrow>
    fs_effect list \<times> started_run \<times> string" where
  "handle_start canon cwd q = ((case sq_assets q of None \<Rightarrow> [] | Some assets \<Rightarrow> save_assets canon cwd assets),
     \<lparr>sd_path = sq_script_name q, sd_content = sq_script_content q, sd_config = sq_config q,
      sd_metrics_url = sq_metrics_url q, sd_json_output = True\<rparr>, ''started'')"

text \<open>The \<open>worker\<close> command: in a cluster if it is given a controller, else its own server.\<close>

definition worker_command :: "string \<Rightarrow> string option \<Rightarrow> (string \<Rightarrow> string + unit) \<Rightarrow> (string \<Rightarrow> string + unit) \<Rightarrow> string + unit" where
  "worker_command listen connect join serve = (case connect of
     Some addr \<Rightarrow> (case join (grpc_url addr) of Inl e \<Rightarrow> Inl (''failed to connect to controller: '' @ e) | Inr _ \<Rightarrow> Inr ())
   | None \<Rightarrow> (case serve listen of Inl e \<Rightarrow> Inl (''worker failed to bind on '' @ listen @ '': '' @ e) | Inr _ \<Rightarrow> Inr ()))"

definition controller_command :: "string \<Rightarrow> string + unit \<Rightarrow> string + unit" where
  "controller_command listen served = (case served of
     Inl e \<Rightarrow> Inl (''controller failed on '' @ listen @ '': '' @ e) | Inr _ \<Rightarrow> Inr ())"

section \<open>Properties\<close>



text \<open>The gRPC port is the next one, except after the last: there it is 0, any free port.\<close>

theorem grpc_port_next:
  assumes "http_port < 65536"
  shows "grpc_port http_port = (if http_port = 65535 then 0 else http_port + 1)"
  using assms by (auto simp: grpc_port_def)

theorem grpc_port_next_witness: "grpc_port 8080 = 8081"
  using grpc_port_next [of 8080] by simp

end
