(* ===== verification/Globals.thy ===== *)
theory Globals
  imports Script
begin

text \<open>
  What a script finds in its global object (\<open>register_globals_sync\<close> and the \<open>register_sync\<close> functions of
  \<open>src/bridge/\<close>): the names each module registers, in the order of the calls, a later registration
  replacing an earlier one. The behaviour of the functions is in the theories of the modules.
\<close>

section \<open>The modules\<close>

text \<open>A global is a function, a class with a constructor, an object with its members, or a value. A class
  without a constructor defines no global.\<close>

datatype binding = NativeFunction | Constructor | Members "string list" | Constant js

type_synonym globals = "(string, binding) hmap"

definition set_globals :: "(string \<times> binding) list \<Rightarrow> globals \<Rightarrow> globals" where
  "set_globals bs gs = fold (\<lambda>(n, b). hm_insert n b) bs gs"

definition core_globals :: "nat \<Rightarrow> (string \<times> binding) list" where
  "core_globals worker_id = [(''print'', NativeFunction), (''sleep'', NativeFunction), (''sleepRandom'', NativeFunction),
     (''__WORKER_ID'', Constant (JsInt (int worker_id))), (''__WORKER_STATE'', Members []), (''__VU_STATE'', Members [])]"

definition http_globals :: "(string \<times> binding) list" where
  "http_globals = [(''__html_select_first_text'', NativeFunction),
     (''__httpResponseProto'', Members [''json'', ''bodyContains'', ''bodyMatches'', ''html'', ''matchesSchema'', ''hasHeader'', ''isJson'']),
     (''http'', Members [''get'', ''post'', ''put'', ''del'', ''patch'', ''head'', ''options'', ''request'', ''batch'', ''__cookieJar'',
        ''addHook'', ''clearHooks'', ''graphql'', ''setDefaults'', ''url'', ''formEncode'', ''basicAuth'', ''bearerToken'',
        ''cookieJar'', ''file'']),
     (''__http_hooks'', Members [''beforeRequest'', ''afterResponse'']), (''__http_callBeforeRequestHooks'', NativeFunction),
     (''__http_callAfterResponseHooks'', NativeFunction), (''FormData'', Constructor), (''__parseFileMarker'', NativeFunction)]"

definition check_globals :: "(string \<times> binding) list" where
  "check_globals = [(''assertion'', NativeFunction), (''check'', NativeFunction)]"

definition group_globals :: "(string \<times> binding) list" where
  "group_globals = [(''segment'', NativeFunction)]"

definition file_globals :: "(string \<times> binding) list" where
  "file_globals = [(''open'', NativeFunction)]"

definition data_globals :: "(string \<times> binding) list" where
  "data_globals = [(''SharedArray'', Constructor), (''SharedCSV'', Constructor)]"

definition utils_globals :: "(string \<times> binding) list" where
  "utils_globals = [(''utils'', Members [''uuid'', ''randomInt'', ''randomString'', ''randomItem'', ''randomEmail'', ''randomPhone'',
     ''randomName'', ''randomAddress'', ''randomDate'', ''sequentialId''])]"

definition ws_globals :: "(string \<times> binding) list" where
  "ws_globals = [(''ws'', Members [''connect''])]"

definition grpc_globals :: "(string \<times> binding) list" where
  "grpc_globals = [(''GrpcClient'', Constructor)]"

definition stats_globals :: "(string \<times> binding) list" where
  "stats_globals = [(''stats'', Members [''get''])]"

definition encoding_globals :: "(string \<times> binding) list" where
  "encoding_globals = [(''encoding'', Members [''b64encode'', ''b64decode''])]"

definition crypto_globals :: "(string \<times> binding) list" where
  "crypto_globals = [(''crypto'', Members [''md5'', ''sha1'', ''sha256'', ''hmac''])]"

definition mqtt_globals :: "(string \<times> binding) list" where
  "mqtt_globals = [(''JsMqttClient'', Constructor)]"

definition amqp_globals :: "(string \<times> binding) list" where
  "amqp_globals = [(''JsAmqpClient'', Constructor)]"

definition test_globals :: "(string \<times> binding) list" where
  "test_globals = [(''describe'', NativeFunction), (''test'', NativeFunction), (''expect'', NativeFunction)]"

definition browser_globals :: "(string \<times> binding) list" where
  "browser_globals = [(''chromium'', Members [''launch''])]"

definition sse_globals :: "(string \<times> binding) list" where
  "sse_globals = [(''sse'', Members [''connect''])]"

definition metrics_globals :: "(string \<times> binding) list" where
  "metrics_globals = [(''metrics'', Members [''histogramAdd'', ''counterAdd'', ''gaugeSet'', ''rateAdd''])]"

definition console_globals :: "(string \<times> binding) list" where
  "console_globals = [(''console'', Members [''log'', ''info'', ''warn'', ''error'', ''debug'', ''table''])]"

definition env_globals :: "bool \<Rightarrow> (string \<times> string) list \<Rightarrow> (string \<times> binding) list" where
  "env_globals passthrough vars = [(''__ENV'', Constant (JsObject (map (\<lambda>(k, v). (k, JsString v)) (exposed passthrough vars))))]"

section \<open>The registrations\<close>

text \<open>What a worker is given for its context; the options for artificial delays and drops are among it.\<close>

record registration =
  rg_worker_id :: nat
  rg_jitter :: "string option"
  rg_drop :: "f64 option"
  rg_passthrough :: bool

definition all_modules :: "registration \<Rightarrow> (string \<times> string) list \<Rightarrow> (string \<times> binding) list" where
  "all_modules r vars = core_globals (rg_worker_id r) @ http_globals @ check_globals @ group_globals @ file_globals @ data_globals
     @ utils_globals @ ws_globals @ grpc_globals @ stats_globals @ encoding_globals @ crypto_globals @ mqtt_globals
     @ amqp_globals @ test_globals @ browser_globals @ sse_globals @ metrics_globals @ console_globals
     @ env_globals (rg_passthrough r) vars"

definition register_globals_sync :: "registration \<Rightarrow> (string \<times> string) list \<Rightarrow> globals \<Rightarrow> globals" where
  "register_globals_sync r vars gs = set_globals (all_modules r vars) gs"

text \<open>The fast registration, without the modules that need an asynchronous runtime.\<close>

definition fast_modules :: "nat \<Rightarrow> bool \<Rightarrow> (string \<times> string) list \<Rightarrow> (string \<times> binding) list" where
  "fast_modules worker_id passthrough vars = core_globals worker_id @ http_globals @ check_globals @ group_globals @ file_globals
     @ data_globals @ utils_globals @ stats_globals @ encoding_globals @ crypto_globals @ test_globals @ browser_globals
     @ metrics_globals @ console_globals @ env_globals passthrough vars"

definition register_globals_sync_fast :: "nat \<Rightarrow> bool \<Rightarrow> (string \<times> string) list \<Rightarrow> globals \<Rightarrow> globals" where
  "register_globals_sync_fast worker_id passthrough vars gs = set_globals (fast_modules worker_id passthrough vars) gs"

section \<open>Properties\<close>

lemmas module_globals = core_globals_def http_globals_def check_globals_def group_globals_def file_globals_def data_globals_def
  utils_globals_def ws_globals_def grpc_globals_def stats_globals_def encoding_globals_def crypto_globals_def mqtt_globals_def
  amqp_globals_def test_globals_def browser_globals_def sse_globals_def metrics_globals_def console_globals_def env_globals_def

lemma set_globals_get:
  "distinct (map fst bs) \<Longrightarrow> hm_get (set_globals bs gs) n = (case map_of bs n of Some b \<Rightarrow> Some b | None \<Rightarrow> hm_get gs n)"
proof (induction bs arbitrary: gs)
  case (Cons p bs)
  obtain m b where p: "p = (m, b)" by force
  have "map_of bs m = None" using Cons.prems by (simp add: p map_of_eq_None_iff)
  then show ?case using Cons.IH [of "hm_insert m b gs"] Cons.prems
    by (auto simp: set_globals_def p hmap split: option.split)
qed (simp add: set_globals_def)

lemma module_names_distinct: "distinct (map fst (all_modules r vars))"
  by (simp add: all_modules_def module_globals)

text \<open>No module hides another's global: after the registration every name has the binding its module
  gave it, and whatever else the context had is untouched.\<close>

theorem globals_not_hidden:
  "hm_get (register_globals_sync r vars gs) n =
     (case map_of (all_modules r vars) n of Some b \<Rightarrow> Some b | None \<Rightarrow> hm_get gs n)"
  unfolding register_globals_sync_def by (rule set_globals_get [OF module_names_distinct])

definition async_names :: "string list" where
  "async_names = [''ws'', ''GrpcClient'', ''JsMqttClient'', ''JsAmqpClient'', ''sse'']"

lemma fast_modules_filter:
  "fast_modules (rg_worker_id r) (rg_passthrough r) vars = filter (\<lambda>(n, b). n \<notin> set async_names)
     (all_modules r vars)"
  by (simp add: fast_modules_def all_modules_def module_globals async_names_def)

text \<open>The fast registration is the full one without the five modules that need an asynchronous runtime.\<close>

theorem fast_is_full_without_async:
  "hm_get (register_globals_sync_fast (rg_worker_id r) (rg_passthrough r) vars []) n =
     (if n \<in> set async_names then None
      else hm_get (register_globals_sync r vars []) n)"
proof -
  let ?P = "\<lambda>(n, b). n \<notin> set async_names"
  have d: "distinct (map fst (filter ?P (all_modules r vars)))"
    by (rule distinct_map_filter [OF module_names_distinct])
  have "map_of (filter (\<lambda>(n, b). n \<notin> X) bs) n = (if n \<in> X then None else map_of bs n)" for X and bs :: "(string \<times> binding) list"
    by (induction bs) auto
  then show ?thesis
    unfolding globals_not_hidden register_globals_sync_fast_def fast_modules_filter set_globals_get [OF d] by simp
qed

text \<open>The options for artificial delays and drops reach the registration and are not used there; no other
  function takes them.\<close>

lemma chaos_ignored: "register_globals_sync (r\<lparr>rg_jitter := j, rg_drop := d\<rparr>) vars gs = register_globals_sync r vars gs"
  by (simp add: register_globals_sync_def all_modules_def)

end
