(* ===== verification/Spec2Isabelle.thy ===== *)
theory Spec2Isabelle
  imports Engine Report Exporters Converters DataFiles Cluster Memory Generators HttpScript WebSocket Brokers Grpc Browser CommandLine CookieJar
    Scenario Pipeline Imports Timing Screen Servers Globals
begin

text \<open>
  A model of Fusillade, a load-testing tool in Rust, with the properties that make its parts
  correct.

  \<^bold>\<open>The program.\<close> \<open>fusillade run\<close> (\<open>src/main.rs\<close>) builds a configuration from the script's options, a
  file and the command line, and calls \<open>run_load_test\<close> (\<open>src/engine/mod.rs\<close>). The engine starts
  workers, which run the script in a JavaScript engine again and again; the script calls the
  functions of \<open>src/bridge/\<close>, which send metrics over a channel; threads receive them into a sharded
  aggregator (\<open>src/stats/mod.rs\<close>); a control loop pauses, scales and stops the workers; at the end the
  merged aggregate becomes a report, its thresholds are checked, and it is printed and exported. The
  same engine runs as a worker of a cluster under a controller (\<open>src/cluster/mod.rs\<close>,
  \<open>src/engine/distributed.rs\<close>), which only forwards commands and aggregates what workers send back.

  \<^bold>\<open>The theories,\<close> each over those before it:

  \<^item> \<open>Prelude\<close>, \<open>Text\<close>, \<open>Float64\<close>, \<open>FloatText\<close>, \<open>Paths\<close>: what the source uses of Rust's standard library. A
    \<open>HashMap\<close> is an association list with distinct keys whose order stands for the unspecified
    iteration order; an \<open>f64\<close> is a rational, an infinity or NaN with IEEE rounding; strings are lists of
    the code points up to 255; a \<open>Duration\<close> is a number of nanoseconds. The locales are \<open>keyed_store\<close>
    and \<open>accumulator\<close> (maps), \<open>step_system\<close> and \<open>event_machine\<close> (invariants of state machines),
    \<open>output_machine\<close> (properties of everything a machine emits), \<open>rounding\<close>, and further on
    \<open>shardable\<close> and \<open>transport\<close>; all are interpreted on the model's own definitions.
  \<^item> \<open>Durations\<close>, \<open>Control\<close>, \<open>Config\<close>, \<open>Schedule\<close>: the two duration parsers, \<open>ControlState\<close> and its commands,
    the configuration and its merging, \<open>calculate_target\<close>, \<open>calculate_rate\<close> and the sizes.
  \<^item> \<open>Metrics\<close>, \<open>Aggregate\<close>, \<open>Totals\<close>, \<open>Report\<close>, \<open>Summary\<close>, \<open>HtmlReport\<close>: \<open>StatsAggregator\<close> and
    \<open>ShardedAggregator\<close>, their invariant, the exact totals of any run and their independence of
    sharding; reports and thresholds; the printed summary and the HTML page, text for text.
  \<^item> \<open>Workers\<close>, \<open>Engine\<close>, \<open>Memory\<close>: the loops of every executor over the flags they read, the shared
    iteration counter under interleaving, the arrival-rate dispatcher, the ramping executor and the
    main loop with commands and throttling, the metric batches, the memory monitor.
  \<^item> \<open>Pipeline\<close>: the bounded channel, the threads that receive metrics and the shards they fill, as a step
    relation over which the report, the exit code and what scripts read are stated.
  \<^item> \<open>Lifecycle\<close>, \<open>Scenario\<close>: a run around its workers: \<open>setup\<close>, the check of the script, the start of a worker of
    each executor in its JavaScript context, and all that \<open>run_load_test\<close> does after its main loop; the
    thread of a scenario from its delay over the loop of its executor to the joins of its workers.
  \<^item> \<open>Script\<close>, \<open>Globals\<close>, \<open>Generators\<close>, \<open>DataFiles\<close>, \<open>Http\<close>, \<open>Timing\<close>, \<open>HttpScript\<close>, \<open>CookieJar\<close>, \<open>WebSocket\<close>,
    \<open>Brokers\<close>, \<open>Grpc\<close>, \<open>Browser\<close>: the bridge. A script is the tree of its bridge calls; a worker's thread locals are \<open>worker_env\<close>. The
    network, the clock, third-party crates and the JavaScript engine are records of functions that
    the operations take as arguments, so every theorem holds for all their answers. Polling threads
    are steps of their own; a list of calls and steps is an interleaving.
  \<^item> \<open>Cluster\<close>, \<open>Servers\<close>: the registry and routes of the controller, the dispatch of a test, the metrics sent
    back by workers, a worker's command loop and its assets; how controllers and workers start and join.
  \<^item> \<open>Exporters\<close>, \<open>Converters\<close>, \<open>Imports\<close>, \<open>Tui\<close>, \<open>Screen\<close>, \<open>Commands\<close>, \<open>CommandLine\<close>: StatsD, CSV, OTLP and the history; HAR and
    OpenAPI converters and the recorder; the \<open>convert\<close> command, the TypeScript passes and the extraction of
    a script's options; the terminal interface and what it draws; the path of \<open>run\<close> from its arguments
    to the engine, and the other commands.

  \<^bold>\<open>What is shown.\<close> Invariants that every operation keeps (aggregator, registry, control state, pools);
  exact accounting (totals, groups, statuses, checks, iterations, dispatches); equivalence of sharded
  and unsharded aggregation; refinement (segments against their scoped meaning, ramping against the
  schedule); bounds (limits of executors, redirects, targets within a stage, backlog of a channel);
  termination of the main loop, of retries and of polling; round trips (CSV, events, forms, durations,
  history, typed commands, escaped literals, escaped HTML); that names and messages of a script cannot
  add markup to the HTML page; that the printed summary does not depend on the order of hash maps; that
  a script that passes the check starts every worker with the data of \<open>setup\<close>; that hooks cannot change
  the verdict of a run; that a test starts only when it was asked for; that
  scenarios end their workers; that timings of concurrent requests do not mix; that no module of the
  bridge hides another's global; that a worker joins exactly with the controller's token; that each protocol call reports itself once and
  consistently; type soundness of the conversion to gRPC messages; delivery of broker messages once
  and in order; that the merged report counts what was sent, without exactly what is still in the
  channel or in the hands of a thread, and that waiting would drain it; that the options a script exports
  reach the engine. Some theorems state a defect exactly: \<open>shared_iterations_overrun\<close>,
  \<open>cluster_metrics_lost\<close>, \<open>panic_leaks_segment\<close>, \<open>second_cookie_lost\<close>, \<open>broken_socket_kept\<close>,
  \<open>second_connect_orphans\<close>, \<open>template_substitution\<close>, \<open>watch_spins\<close>, \<open>comparison_boundaries\<close>,
  \<open>html_success_rate_exact\<close>, \<open>hook_prints_twice\<close>, \<open>history_saved_twice\<close>, \<open>arrival_joins_in_order\<close>,
  \<open>no_pool_still_pools\<close>, \<open>chaos_ignored\<close>, \<open>early_merge_hides_failure\<close>,
  \<open>script_reads_zeros\<close>, \<open>json_recording_unlimited\<close> and others. The
  properties that span components are in this theory.

  \<^bold>\<open>Loops.\<close> Loops of the source that end by their own counters are structural recursions, with no
  fuel; loops that depend on the world are functions of the list of what each pass reads, or
  \<open>partial_function (option)\<close> with a theorem that they return (\<open>dispatch_ends\<close>, \<open>wait_for_response_ends\<close>)
  under a law of the clock. Machine integers wrap at their width where the source can reach it
  (release builds do not check).

  \<^bold>\<open>Not modelled.\<close> The layout ratatui computes; the JavaScript engine, the TypeScript compiler, Chrome, TLS
  and sockets, which are parameters; serde's decoders and clap's parser; the templates of \<open>init\<close>. Thread scheduling appears only as
  interleavings of modelled steps, not as memory ordering.
\<close>

section \<open>The end of a run\<close>

text \<open>The exit code of \<open>fusillade run\<close>: an error of \<open>run_load_test\<close> is returned from \<open>main\<close>,
  otherwise the report decides.\<close>

definition exit_code :: "'h hist_ops \<Rightarrow> 'h stats_aggregator \<Rightarrow> config \<Rightarrow> nat" where
  "exit_code H a c = (case run_outcome H a c of Inl _ \<Rightarrow> 1
     | Inr rep \<Rightarrow> fst (run_exit (rep_failed_iterations rep) (rep_threshold_failures rep)))"

lemma exit_code_reasons:
  "exit_code H a c = (if failed_iterations a > 0 \<or> run_failures H a c \<noteq> [] then 1 else 0)"
  by (simp add: exit_code_def run_outcome_def Let_def run_exit_def to_report_def)

lemma count_of_workers:
  "count_of is_failed_iteration (concat (map (\<lambda>(w, ps). sent (fst (worker_loop w 0 ps))) wps)) = 0 \<longleftrightarrow>
     (\<forall>(w, ps) \<in> set wps. \<forall>it \<in> set (iterations (fst (worker_loop w 0 ps))). \<not> threw it)"
  "count_of is_http (concat (map (\<lambda>(w, ps). sent (fst (worker_loop w 0 ps))) wps)) = 0"
  using worker_counts by (induction wps) (auto simp: filter_empty_conv case_prod_beta)

lemma received_exit_code:
  assumes "hist_laws H" "0 < n" "sharded_adds H (sharded_new H n) es = Returns s"
    and "mset (map snd es) = mset (ms @ concat (map (\<lambda>(w, ps). sent (fst (worker_loop w 0 ps))) wps))"
    and "\<forall>m \<in> set ms. \<not> is_failed_iteration m"
  shows "total_requests (sharded_merge H s) = count_of is_http ms
    \<and> exit_code H (sharded_merge H s) c =
        (if (\<exists>(w, ps) \<in> set wps. \<exists>it \<in> set (iterations (fst (worker_loop w 0 ps))). threw it)
            \<or> run_failures H (sharded_merge H s) c \<noteq> [] then 1 else 0)"
proof -
  let ?ws = "concat (map (\<lambda>(w, ps). sent (fst (worker_loop w 0 ps))) wps)"
  have "count_of is_failed_iteration ms = 0"
    using assms(5) by (simp add: count_of_zero)
  then have "failed_iterations (sharded_merge H s) = count_of is_failed_iteration ?ws"
    and "total_requests (sharded_merge H s) = count_of is_http ms"
    using failed_merged [OF assms(1-3)] count_of_mset [OF assms(4)]
    by (simp_all add: count_of_append count_of_workers(2))
  moreover have "count_of is_failed_iteration ?ws > 0 \<longleftrightarrow>
      (\<exists>(w, ps) \<in> set wps. \<exists>it \<in> set (iterations (fst (worker_loop w 0 ps))). threw it)"
    using count_of_workers(1) [of wps] by (auto simp: case_prod_beta)
  ultimately show ?thesis by (simp add: exit_code_reasons)
qed

text \<open>C1. From the workers to the exit code: take any number of workers with any readings, any
  metrics of their scripts (none named as a failed iteration), sent in any order through the channel,
  received by any number of threads in any interleaving and added to any number of shards. If the
  channel is drained when the shards are merged, the report counts exactly the requests, and the process
  exits with 1 exactly when an iteration of some worker threw or a threshold is breached.\<close>

theorem run_to_exit_code:
  assumes "hist_laws H" "0 < n" "(pipe_step H k cap)\<^sup>*\<^sup>* (pipe_start H k n) s" "pending s = []"
    and "mset (pl_sent s) = mset (ms @ concat (map (\<lambda>(w, ps). sent (fst (worker_loop w 0 ps))) wps))"
    and "\<forall>m \<in> set ms. \<not> is_failed_iteration m"
  shows "total_requests (sharded_merge H (pl_shards s)) = count_of is_http ms
    \<and> exit_code H (sharded_merge H (pl_shards s)) c =
        (if (\<exists>(w, ps) \<in> set wps. \<exists>it \<in> set (iterations (fst (worker_loop w 0 ps))). threw it)
            \<or> run_failures H (sharded_merge H (pl_shards s)) c \<noteq> [] then 1 else 0)"
proof -
  have inv: "pipe_inv H k cap n s" by (rule pipe_reached [OF assms(3)])
  then have "mset (map snd (pl_added s)) = mset (pl_sent s)" using assms(4) by (simp add: pipe_inv_def)
  then show ?thesis
    using received_exit_code [OF assms(1,2) _ _ assms(6), of "pl_added s"] inv assms(5) by (simp add: pipe_inv_def)
qed

theorem run_to_exit_code_witness:
  "\<exists>s. (pipe_step list_hist 1 100)\<^sup>*\<^sup>* (pipe_start list_hist 1 16) s
    \<and> pl_sent s = sent (fst (worker_loop (limited_worker 1) 0 [idle_pass\<lparr>p_error := Some ''TypeError''\<rparr>]))
    \<and> exit_code list_hist (sharded_merge list_hist (pl_shards s)) default_config = 1"
proof -
  let ?ps = "[idle_pass\<lparr>p_error := Some ''TypeError''\<rparr>]"
  let ?ms = "sent (fst (worker_loop (limited_worker 1) 0 ?ps))"
  have it: "\<exists>it \<in> set (iterations (fst (worker_loop (limited_worker 1) 0 ?ps))). threw it"
    by (simp add: limited_worker_def idle_pass_def limit_after_def run_iteration_def iterations_def threw_iteration)
  have q: "(pipe_step list_hist 1 (max 100 (length ?ms)))\<^sup>*\<^sup>* (pipe_start list_hist 1 16) (queued list_hist 1 16 ?ms)"
    by (rule queued_reached) simp
  have "length ?ms \<le> 100"
    by (simp add: limited_worker_def idle_pass_def limit_after_def run_iteration_def iterations_def iteration_metrics_def)
  with q have q: "(pipe_step list_hist 1 100)\<^sup>*\<^sup>* (pipe_start list_hist 1 16) (queued list_hist 1 16 ?ms)" by simp
  obtain s where s: "(pipe_step list_hist 1 100)\<^sup>*\<^sup>* (queued list_hist 1 16 ?ms) s" "pl_sent s = ?ms" "pending s = []"
    using drains [of 16 1 list_hist 100 "queued list_hist 1 16 ?ms"] pipe_reached [OF q] by (auto simp: queued_def)
  from q s(1) have r: "(pipe_step list_hist 1 100)\<^sup>*\<^sup>* (pipe_start list_hist 1 16) s" by (rule rtranclp_trans)
  from run_to_exit_code [OF hist_laws_list _ r s(3), of "[]" "[(limited_worker 1, ?ps)]" default_config] it s(2)
  have "exit_code list_hist (sharded_merge list_hist (pl_shards s)) default_config = 1" by simp
  with r s(2) show ?thesis by blast
qed



section \<open>From the script to the report\<close>

text \<open>C5. A call counts once in the report, however many redirects it follows: its one metric adds one
  request and one answer of the returned status (0 without an answer) to the aggregator, unless its
  name looks like that of an iteration.\<close>

theorem call_counts_once:
  assumes "we_open (hs_env s)" "perform W bridged c s = (s1, resp)"
    and "\<not> is_iteration (metric_name (we_group (hs_env s)) (ca_name c) (rq_url (ca_request c)))"
  shows "\<exists>m. we_sent (hs_env s1) = we_sent (hs_env s) @ [m] \<and> total_requests (aggregator_add H a m) = total_requests a + 1
    \<and> hm_or 0 (status_codes (aggregator_add H a m)) (sr_status resp) = hm_or 0 (status_codes a) (sr_status resp) + 1"
proof -
  have "\<exists>st. sr_status resp = answered_status st \<and> one_metric c st (hs_env s) (hs_env s1)"
    using perform_trail assms(2) by blast
  then show ?thesis
    using assms(1,3) by (auto simp: one_metric_def send_quietly_def Let_def add_http_def add_group_def hmap)
qed

theorem call_counts_once_witness:
  "\<exists>m. we_sent (hs_env (fst (perform playback False login_call two_answers))) = [m]
    \<and> total_requests (aggregator_add list_hist (aggregator_new list_hist) m) = 1"
proof -
  have name: "metric_name [] None ''http://a/login'' = ''http://a/login''" by (simp add: metric_name_def group_prefix_def)
  have "\<not> is_iteration ''http://a/login''" by code_simp
  then have "\<not> is_iteration (metric_name (we_group (hs_env two_answers)) (ca_name login_call) (rq_url (ca_request login_call)))"
    by (simp add: two_answers_def login_call_def new_env_def name)
  moreover have "we_open (hs_env two_answers)" by (simp add: two_answers_def new_env_def)
  moreover have "perform playback False login_call two_answers =
      (fst (perform playback False login_call two_answers), snd (perform playback False login_call two_answers))" by simp
  ultimately show ?thesis
    using call_counts_once [of two_answers playback False login_call _ _ list_hist "aggregator_new list_hist"]
    by (fastforce simp: two_answers_def new_env_def aggregator_new_def)
qed

section \<open>From the script's options to the engine\<close>

lemma started_content:
  "run_fusillade rd a = Starts call \<Longrightarrow> \<exists>source. rd_script rd = Inr source
     \<and> maybe_transpile (rd_transpile rd) source (ra_scenario a) = Inr (ec_content call)"
  by (auto simp: run_fusillade_def after_estimate_def engine_call_of_def Let_def
      split: if_splits sum.splits option.splits outcome.splits)

lemma started_config:
  "run_fusillade rd a = Starts call \<Longrightarrow> ra_config a = None \<Longrightarrow> \<exists>options. rd_options rd = Inr options
     \<and> ec_config call = final_config options None (cli_run.truncate a)"
  by (auto simp: run_fusillade_def after_estimate_def engine_call_of_def Let_def
      split: if_splits sum.splits option.splits outcome.splits)

lemma stages_canonical:
  "canonical_options (JObj obj) = JObj (option_keys obj)"
  "hm_get (option_keys obj) ''schedule'' = (case hm_get obj ''stages'' of Some v \<Rightarrow> Some v | None \<Rightarrow> hm_get obj ''schedule'')"
  "hm_get (option_keys obj) ''stages'' = None"
  using option_keys_canonical [of obj] by (simp_all add: canonical_options_def)


text \<open>A script of three workers with stages, in a host whose values are texts.\<close>

definition staged_reader :: "(string, string list) option_reader" where
  "staged_reader = \<lparr>or_export = (\<lambda>m n. if n \<in> set m then Some n else None), or_from_str = (\<lambda>_. Inr (JObj [(''stages'', JArr [])])),
     or_decode = (\<lambda>_. Inr (default_config\<lparr>c_workers := Some 3\<rparr>))\<rparr>"


end
